(* ===== verification/SAP_Prelude.thy ===== *)
theory SAP_Prelude
  imports "HOL-Library.Word"
begin

text \<open>
  Shared vocabulary of the development: the machine word types, the byte-addressed
  little-endian store the harts and the bus read and write 32 bits at a time, and the
  facts about it that the component proofs use as rewrite rules.

  \<^item> \<open>load32\<close> and \<open>store32\<close> are the data accesses of the \<^verbatim>\<open>lw\<close> and \<^verbatim>\<open>sw\<close> instructions of
    src/sw/CB_device/lib/safety/CB_Safety.c and src/ip/CB_boot_rom/CB_boot_rom.S;
  \<^item> \<open>apart\<close> says that two such accesses do not overlap, also where addresses wrap around;
  \<^item> the collection \<open>mem_simps\<close> holds the read-over-write rules.
\<close>

unbundle bit_operations_syntax

named_theorems mem_simps \<open>read-over-write rules of the byte store\<close>

type_synonym u8 = "8 word"
type_synonym u32 = "32 word"
type_synonym store = "u32 \<Rightarrow> u8"

section \<open>The byte store\<close>

definition load32 :: "store \<Rightarrow> u32 \<Rightarrow> u32" where
  "load32 m a =
     ucast (m a) OR push_bit 8 (ucast (m (a + 1)))
     OR push_bit 16 (ucast (m (a + 2))) OR push_bit 24 (ucast (m (a + 3)))"

definition store32 :: "store \<Rightarrow> u32 \<Rightarrow> u32 \<Rightarrow> store" where
  "store32 m a v =
     m(a := ucast v, a + 1 := ucast (drop_bit 8 v),
       a + 2 := ucast (drop_bit 16 v), a + 3 := ucast (drop_bit 24 v))"

text \<open>Two 32-bit accesses that share no byte.\<close>

definition apart :: "u32 \<Rightarrow> u32 \<Rightarrow> bool" where
  "apart a b \<longleftrightarrow> 4 \<le> b - a \<and> 4 \<le> a - b"

lemma word_split_bytes:
  fixes v :: u32
  shows "ucast (ucast v :: u8) OR push_bit 8 (ucast (ucast (drop_bit 8 v) :: u8))
     OR push_bit 16 (ucast (ucast (drop_bit 16 v) :: u8))
     OR push_bit 24 (ucast (ucast (drop_bit 24 v) :: u8)) = v" (is "?l = v")
proof (rule bit_word_eqI)
  fix n
  assume "n < LENGTH(32)"
  then consider "n < 8" | "8 \<le> n" "n < 16" | "16 \<le> n" "n < 24" | "24 \<le> n" "n < 32"
    by fastforce
  then show "bit ?l n \<longleftrightarrow> bit v n"
    by cases (auto simp: bit_simps)
qed

lemma load32_store32_same [mem_simps]: "load32 (store32 m a v) a = v"
  by (simp add: load32_def store32_def word_split_bytes)

lemma apart_sym: "apart a b \<longleftrightarrow> apart b a"
  by (auto simp: apart_def)

lemma apart_neq:
  assumes "apart a b" and "i < 4" and "j < (4 :: u32)"
  shows "a + i \<noteq> b + j"
proof
  assume "a + i = b + j"
  then have "b - a = i - j" and "a - b = j - i"
    by (simp_all add: algebra_simps)
  with assms show False
    unfolding apart_def by unat_arith
qed

lemma load32_store32_apart [mem_simps]:
  assumes "apart a b"
  shows "load32 (store32 m a v) b = load32 m b"
  using apart_neq [OF assms, of 0 0] apart_neq [OF assms, of 0 1] apart_neq [OF assms, of 0 2]
    apart_neq [OF assms, of 0 3] apart_neq [OF assms, of 1 0] apart_neq [OF assms, of 1 1]
    apart_neq [OF assms, of 1 2] apart_neq [OF assms, of 1 3] apart_neq [OF assms, of 2 0]
    apart_neq [OF assms, of 2 1] apart_neq [OF assms, of 2 2] apart_neq [OF assms, of 2 3]
    apart_neq [OF assms, of 3 0] apart_neq [OF assms, of 3 1] apart_neq [OF assms, of 3 2]
    apart_neq [OF assms, of 3 3]
  by (simp add: load32_def store32_def)

text \<open>Accesses at constant offsets from one base never need the base's value.\<close>

lemma apart_offsets [mem_simps]:
  "apart (x + a) (x + b) \<longleftrightarrow> 4 \<le> b - a \<and> 4 \<le> a - b"
  "apart x (x + b) \<longleftrightarrow> 4 \<le> b \<and> 4 \<le> - b"
  "apart (x + a) x \<longleftrightarrow> 4 \<le> - a \<and> 4 \<le> a"
  "apart (x - a) (x - b) \<longleftrightarrow> 4 \<le> a - b \<and> 4 \<le> b - a"
  "apart (x - a) (x + b) \<longleftrightarrow> 4 \<le> b + a \<and> 4 \<le> - (b + a)"
  "apart (x + a) (x - b) \<longleftrightarrow> 4 \<le> - (a + b) \<and> 4 \<le> a + b"
  "apart x (x - b) \<longleftrightarrow> 4 \<le> - b \<and> 4 \<le> b"
  "apart (x - a) x \<longleftrightarrow> 4 \<le> a \<and> 4 \<le> - a"
  by (simp_all add: apart_def algebra_simps)

section \<open>Lists\<close>

lemma replicate_numeral: "replicate (numeral k) x = x # replicate (pred_numeral k) x"
  by (simp add: numeral_eq_Suc)

end
