(* ===== verification/SAP_Registers.thy ===== *)
theory SAP_Registers
  imports SAP_Prelude
begin

text \<open>
  The address map and the two register blocks that the safety software drives:

  \<^item> the constants of src/sw/CB_device/lib/base_address/base_address.h,
    safety/CB_Safety_Config.h and safety/CB_Safety.h;
  \<^item> the safe-wrapper control block, by the offsets and fields of
    cb_register/Safe_wrapper_ctrl_regs.h and the access rules of
    src/rtl/safe_wrapper_ctrl_reg_top.sv, and the private block of each hart, by
    cb_register/CPU_Private_regs.h and src/rtl/cpu_private_reg_top.sv;
  \<^item> the older block described by cb_register/CB_heep_ctrl_regs.h.

  A block is a record of its layout; \<open>reg_read\<close> and \<open>reg_write\<close> are the read and write
  paths the two generated blocks share. The locale \<open>register_file\<close> is what the software
  may rely on, and it is interpreted on both blocks at the addresses the software uses.
\<close>

named_theorems platform_simps \<open>address and configuration constants, unfolded to numerals\<close>

section \<open>Addresses\<close>

definition GLOBAL_BASE_ADDRESS :: u32 where [platform_simps]:
  "GLOBAL_BASE_ADDRESS = 0x19000000"

definition SAFE_CSR_BASE_ADDRESS :: u32 where [platform_simps]:
  "SAFE_CSR_BASE_ADDRESS = 0x20000000"

definition PRIVATE_REG_BASEADDRESS :: u32 where [platform_simps]:
  "PRIVATE_REG_BASEADDRESS = 0x00000000 OR GLOBAL_BASE_ADDRESS"

definition SAFE_WRAPPER_CTRL_BASEADDRESS :: u32 where [platform_simps]:
  "SAFE_WRAPPER_CTRL_BASEADDRESS = SAFE_CSR_BASE_ADDRESS"

definition BOOT_DEBUG_ROM_BASEADDRESS :: u32 where [platform_simps]:
  "BOOT_DEBUG_ROM_BASEADDRESS = 0x00010000 OR GLOBAL_BASE_ADDRESS"

definition BOOT_OFFSET :: u32 where [platform_simps]:
  "BOOT_OFFSET = BOOT_DEBUG_ROM_BASEADDRESS OR 0x0"

definition DEBUG_OFFSET :: u32 where [platform_simps]:
  "DEBUG_OFFSET = BOOT_DEBUG_ROM_BASEADDRESS OR 0x50"

definition CHECK_RAM_ADDRESS :: u32 where [platform_simps]:
  "CHECK_RAM_ADDRESS = 0xF002B000"

definition FREE_LOCATION_POINTER :: u32 where [platform_simps]:
  "FREE_LOCATION_POINTER = 0xF002A000"

section \<open>Configuration values\<close>

definition CRITICAL_SECTION :: u32 where [platform_simps]: "CRITICAL_SECTION = 0x1"
definition NONE_CRITICAL_SECTION :: u32 where [platform_simps]: "NONE_CRITICAL_SECTION = 0x0"

definition MASTER_CORE0 :: u32 where [platform_simps]: "MASTER_CORE0 = 0x1"
definition MASTER_CORE1 :: u32 where [platform_simps]: "MASTER_CORE1 = 0x2"
definition MASTER_CORE2 :: u32 where [platform_simps]: "MASTER_CORE2 = 0x4"

definition CORE01_MASK :: u32 where [platform_simps]: "CORE01_MASK = 0x3"
definition CORE02_MASK :: u32 where [platform_simps]: "CORE02_MASK = 0x5"
definition CORE12_MASK :: u32 where [platform_simps]: "CORE12_MASK = 0x6"

definition SINGLE_MODE :: u32 where [platform_simps]: "SINGLE_MODE = 0x0"
definition TCLS_MODE :: u32 where [platform_simps]: "TCLS_MODE = 0x1"
definition DCLS_MODE :: u32 where [platform_simps]: "DCLS_MODE = 0x2"
definition LOCKSTEP_MODE :: u32 where [platform_simps]: "LOCKSTEP_MODE = 0x3"

text \<open>The two-core masks are exactly the pairs of one-hot master codes.\<close>

lemma core_masks:
  "CORE01_MASK = MASTER_CORE0 OR MASTER_CORE1"
  "CORE02_MASK = MASTER_CORE0 OR MASTER_CORE2"
  "CORE12_MASK = MASTER_CORE1 OR MASTER_CORE2"
  by (simp_all add: platform_simps)

section \<open>Register blocks\<close>

text \<open>
  The layout of a generated register block: its registers, their offsets, the bits a
  register implements, whether software may write it, and the address bits the block
  looks at.
\<close>

record 'r reg_block =
  rb_regs :: "'r list"
  rb_offset :: "'r \<Rightarrow> u32"
  rb_mask :: "'r \<Rightarrow> u32"
  rb_sw_rw :: "'r \<Rightarrow> bool"
  rb_addr_mask :: u32

definition reg_hit :: "'r reg_block \<Rightarrow> u32 \<Rightarrow> 'r option" where
  "reg_hit B a = find (\<lambda>r. rb_offset B r = a AND rb_addr_mask B) (rb_regs B)"

text \<open>A miss reads as all ones; a write to a missing or read-only register has no effect.\<close>

definition reg_read :: "'r reg_block \<Rightarrow> ('r \<Rightarrow> u32) \<Rightarrow> u32 \<Rightarrow> u32" where
  "reg_read B q a = (case reg_hit B a of None \<Rightarrow> - 1 | Some r \<Rightarrow> q r AND rb_mask B r)"

definition reg_write :: "'r reg_block \<Rightarrow> ('r \<Rightarrow> u32) \<Rightarrow> u32 \<Rightarrow> u32 \<Rightarrow> ('r \<Rightarrow> u32)" where
  "reg_write B q a v =
     (case reg_hit B a of
        None \<Rightarrow> q
      | Some r \<Rightarrow> if rb_sw_rw B r then q(r := v AND rb_mask B r) else q)"

text \<open>
  A field of a register is its mask and the position of its lowest bit, the pair that the
  headers build as \<^verbatim>\<open>bitfield_field32_t\<close>.
\<close>

type_synonym bitfield = "u32 \<times> nat"

definition fields_mask :: "bitfield list \<Rightarrow> u32" where
  "fields_mask fs = foldr (\<lambda>(m, i) acc. push_bit i m OR acc) fs 0"

definition field_read :: "bitfield \<Rightarrow> u32 \<Rightarrow> u32" where
  "field_read f v = drop_bit (snd f) v AND fst f"

subsection \<open>The safe-wrapper control block\<close>

datatype wrapper_reg =
    W_SAFE_CONFIGURATION | W_DMR_MASK | W_MASTER_CORE | W_CRITICAL_SECTION | W_START
  | W_BOOT_ADDRESS | W_EXTERNAL_DEBUG_REQ | W_INITIAL_SYNC_MASTER | W_END_SW_ROUTINE
  | W_ENTRY_ADDRESS | W_SAFE_COPY_ADDRESS | W_INTERRUPT_CONTROLER | W_CB_HEEP_STATUS
  | W_DMR_REC | W_INITIAL_STACK_ADDR

definition wrapper_regs :: "wrapper_reg list" where
  "wrapper_regs =
     [W_SAFE_CONFIGURATION, W_DMR_MASK, W_MASTER_CORE, W_CRITICAL_SECTION, W_START,
      W_BOOT_ADDRESS, W_EXTERNAL_DEBUG_REQ, W_INITIAL_SYNC_MASTER, W_END_SW_ROUTINE,
      W_ENTRY_ADDRESS, W_SAFE_COPY_ADDRESS, W_INTERRUPT_CONTROLER, W_CB_HEEP_STATUS,
      W_DMR_REC, W_INITIAL_STACK_ADDR]"

text \<open>The \<^verbatim>\<open>SAFE_WRAPPER_CTRL_*_REG_OFFSET\<close> macros.\<close>

fun wrapper_offset :: "wrapper_reg \<Rightarrow> u32" where
  "wrapper_offset W_SAFE_CONFIGURATION = 0x0"
| "wrapper_offset W_DMR_MASK = 0x4"
| "wrapper_offset W_MASTER_CORE = 0x8"
| "wrapper_offset W_CRITICAL_SECTION = 0xc"
| "wrapper_offset W_START = 0x10"
| "wrapper_offset W_BOOT_ADDRESS = 0x14"
| "wrapper_offset W_EXTERNAL_DEBUG_REQ = 0x18"
| "wrapper_offset W_INITIAL_SYNC_MASTER = 0x1c"
| "wrapper_offset W_END_SW_ROUTINE = 0x20"
| "wrapper_offset W_ENTRY_ADDRESS = 0x24"
| "wrapper_offset W_SAFE_COPY_ADDRESS = 0x28"
| "wrapper_offset W_INTERRUPT_CONTROLER = 0x2c"
| "wrapper_offset W_CB_HEEP_STATUS = 0x30"
| "wrapper_offset W_DMR_REC = 0x34"
| "wrapper_offset W_INITIAL_STACK_ADDR = 0x38"

text \<open>The field macros (\<^verbatim>\<open>_MASK\<close>, \<^verbatim>\<open>_OFFSET\<close>, \<^verbatim>\<open>_BIT\<close>); registers without one are 32 bits wide.\<close>

fun wrapper_fields :: "wrapper_reg \<Rightarrow> bitfield list" where
  "wrapper_fields W_SAFE_CONFIGURATION = [(0x3, 0)]"
| "wrapper_fields W_DMR_MASK = [(0x7, 0)]"
| "wrapper_fields W_MASTER_CORE = [(0x7, 0)]"
| "wrapper_fields W_CRITICAL_SECTION = [(0x1, 0)]"
| "wrapper_fields W_START = [(0x1, 0)]"
| "wrapper_fields W_BOOT_ADDRESS = [(0xffffffff, 0)]"
| "wrapper_fields W_EXTERNAL_DEBUG_REQ = [(0x3, 0)]"
| "wrapper_fields W_INITIAL_SYNC_MASTER = [(0x1, 0)]"
| "wrapper_fields W_END_SW_ROUTINE = [(0x1, 0)]"
| "wrapper_fields W_ENTRY_ADDRESS = [(0xffffffff, 0)]"
| "wrapper_fields W_SAFE_COPY_ADDRESS = [(0xffffffff, 0)]"
| "wrapper_fields W_INTERRUPT_CONTROLER = [(0x1, 0), (0x1, 1)]"
| "wrapper_fields W_CB_HEEP_STATUS = [(0x7, 0), (0x7, 3)]"
| "wrapper_fields W_DMR_REC = [(0x1, 0)]"
| "wrapper_fields W_INITIAL_STACK_ADDR = [(0xffffffff, 0)]"

text \<open>The registers whose \<^verbatim>\<open>SWACCESS\<close> is RO are driven by the hardware alone.\<close>

definition wrapper_sw_rw :: "wrapper_reg \<Rightarrow> bool" where
  "wrapper_sw_rw r \<longleftrightarrow> r \<notin> {W_EXTERNAL_DEBUG_REQ, W_CB_HEEP_STATUS, W_DMR_REC}"

definition wrapper_block :: "wrapper_reg reg_block" where
  "wrapper_block =
     \<lparr>rb_regs = wrapper_regs, rb_offset = wrapper_offset,
      rb_mask = (\<lambda>r. fields_mask (wrapper_fields r)),
      rb_sw_rw = wrapper_sw_rw, rb_addr_mask = 0x3f\<rparr>"

subsection \<open>The private block of a hart\<close>

datatype private_reg = P_CORE_ID | P_HART_INTC_ACK | P_BREAKPOINT_SIM

definition private_regs :: "private_reg list" where
  "private_regs = [P_CORE_ID, P_HART_INTC_ACK, P_BREAKPOINT_SIM]"

fun private_offset :: "private_reg \<Rightarrow> u32" where
  "private_offset P_CORE_ID = 0x0"
| "private_offset P_HART_INTC_ACK = 0x4"
| "private_offset P_BREAKPOINT_SIM = 0x8"

fun private_fields :: "private_reg \<Rightarrow> bitfield list" where
  "private_fields P_CORE_ID = [(0x7, 0)]"
| "private_fields P_HART_INTC_ACK = [(0x1, 0)]"
| "private_fields P_BREAKPOINT_SIM = [(0x1, 0)]"

definition private_block :: "private_reg reg_block" where
  "private_block =
     \<lparr>rb_regs = private_regs, rb_offset = private_offset,
      rb_mask = (\<lambda>r. fields_mask (private_fields r)),
      rb_sw_rw = (\<lambda>r. r \<noteq> P_CORE_ID), rb_addr_mask = 0xf\<rparr>"

subsection \<open>The block of the older control header\<close>

text \<open>
  cb_register/CB_heep_ctrl_regs.h still describes a smaller block; the template
  applications take the DMR-mask offset from it.
\<close>

datatype heep_reg =
    H_SAFE_CONFIGURATION | H_DMR_MASK | H_MASTER_CORE | H_CRITICAL_SECTION | H_START
  | H_BOOT_ADDRESS | H_END_SW_ROUTINE | H_INTERRUPT_CONTROLER | H_CB_HEEP_STATUS

fun heep_offset :: "heep_reg \<Rightarrow> u32" where
  "heep_offset H_SAFE_CONFIGURATION = 0x0"
| "heep_offset H_DMR_MASK = 0x4"
| "heep_offset H_MASTER_CORE = 0x8"
| "heep_offset H_CRITICAL_SECTION = 0xc"
| "heep_offset H_START = 0x10"
| "heep_offset H_BOOT_ADDRESS = 0x14"
| "heep_offset H_END_SW_ROUTINE = 0x18"
| "heep_offset H_INTERRUPT_CONTROLER = 0x1c"
| "heep_offset H_CB_HEEP_STATUS = 0x20"

fun heep_fields :: "heep_reg \<Rightarrow> bitfield list" where
  "heep_fields H_SAFE_CONFIGURATION = [(0x3, 0)]"
| "heep_fields H_DMR_MASK = [(0x7, 0)]"
| "heep_fields H_MASTER_CORE = [(0x7, 0)]"
| "heep_fields H_CRITICAL_SECTION = [(0x1, 0)]"
| "heep_fields H_START = [(0x1, 0)]"
| "heep_fields H_BOOT_ADDRESS = [(0xffffffff, 0)]"
| "heep_fields H_END_SW_ROUTINE = [(0x1, 0)]"
| "heep_fields H_INTERRUPT_CONTROLER = [(0x1, 0), (0x1, 1)]"
| "heep_fields H_CB_HEEP_STATUS = [(0x7, 0), (0x7, 3)]"

section \<open>What the software relies on\<close>

text \<open>
  \<open>rd\<close> and \<open>wr\<close> are a block's read and write paths, \<open>addr\<close> the addresses the software
  uses for its registers, \<open>msk\<close> the implemented bits, \<open>rw\<close> the writable registers.
\<close>

locale register_file =
  fixes rd :: "'q \<Rightarrow> u32 \<Rightarrow> u32"
    and wr :: "'q \<Rightarrow> u32 \<Rightarrow> u32 \<Rightarrow> 'q"
    and addr :: "'r \<Rightarrow> u32"
    and msk :: "'r \<Rightarrow> u32"
    and rw :: "'r \<Rightarrow> bool"
  assumes rd_wr_same: "rw r \<Longrightarrow> rd (wr q (addr r) v) (addr r) = v AND msk r"
    and rd_wr_other: "r \<noteq> r' \<Longrightarrow> rd (wr q (addr r) v) (addr r') = rd q (addr r')"
    and wr_read_only: "\<not> rw r \<Longrightarrow> wr q (addr r) v = q"
begin

fun writes :: "('r \<times> u32) list \<Rightarrow> 'q \<Rightarrow> 'q" where
  "writes [] q = q"
| "writes ((r, v) # ws) q = writes ws (wr q (addr r) v)"

lemma rd_writes_untouched:
  "r \<notin> fst ` set ws \<Longrightarrow> rd (writes ws q) (addr r) = rd q (addr r)"
  by (induction ws q rule: writes.induct) (auto simp: rd_wr_other)

lemma writes_append: "writes (ws @ ws') q = writes ws' (writes ws q)"
  by (induction ws q rule: writes.induct) auto

lemma rd_writes_last:
  assumes "rw r" and "r \<notin> fst ` set ws'"
  shows "rd (writes (ws @ (r, v) # ws') q) (addr r) = v AND msk r"
  using assms by (simp add: writes_append rd_writes_untouched rd_wr_same)

lemma rd_writes_read_only:
  "\<not> rw r \<Longrightarrow> rd (writes ws q) (addr r) = rd q (addr r)"
proof (induction ws q rule: writes.induct)
  case (2 r' v ws q)
  then show ?case by (cases "r' = r") (simp_all add: wr_read_only rd_wr_other)
qed simp

end

text \<open>A block whose decoder finds every register at its address is a register file.\<close>

lemma register_file_block:
  assumes hit: "\<And>r. reg_hit B (addr r) = Some r"
  shows "register_file (reg_read B) (reg_write B) addr (rb_mask B) (rb_sw_rw B)"
proof
  fix r q v
  assume "rb_sw_rw B r"
  then show "reg_read B (reg_write B q (addr r) v) (addr r) = v AND rb_mask B r"
    by (simp add: reg_read_def reg_write_def hit and.assoc)
qed (simp_all add: reg_read_def reg_write_def hit)

definition wrapper_addr :: "wrapper_reg \<Rightarrow> u32" where
  "wrapper_addr r = SAFE_WRAPPER_CTRL_BASEADDRESS OR wrapper_offset r"

definition private_addr :: "private_reg \<Rightarrow> u32" where
  "private_addr r = PRIVATE_REG_BASEADDRESS OR private_offset r"

lemma wrapper_hit: "reg_hit wrapper_block (wrapper_addr r) = Some r"
  by (cases r) (simp_all add: wrapper_addr_def platform_simps reg_hit_def wrapper_block_def
      wrapper_regs_def)

lemma private_hit: "reg_hit private_block (private_addr r) = Some r"
  by (cases r) (simp_all add: private_addr_def platform_simps reg_hit_def private_block_def
      private_regs_def)

interpretation wrapper_file: register_file "reg_read wrapper_block" "reg_write wrapper_block"
    wrapper_addr "rb_mask wrapper_block" "rb_sw_rw wrapper_block"
  by (rule register_file_block) (rule wrapper_hit)

interpretation private_file: register_file "reg_read private_block" "reg_write private_block"
    private_addr "rb_mask private_block" "rb_sw_rw private_block"
  by (rule register_file_block) (rule private_hit)

declare wrapper_offset.simps [simp del] private_offset.simps [simp del]
  wrapper_fields.simps [simp del] private_fields.simps [simp del]

end
