(* ===== verification/RV_Hart.thy ===== *)
theory RV_Hart
  imports SAP_Registers
begin

text \<open>
  The hart that executes the inline assembly of the safety library: 32 integer registers,
  the control and status registers the code touches, the hart's private register block,
  and the bus it shares with the other harts (memory and the safe-wrapper block).

  An instruction is split the way the hardware splits it: \<open>access_of\<close> is the data request
  it puts on the core's port, \<open>retire\<close> what the core does with the response. \<open>exec\<close> closes
  the loop for one core on one bus. The write-any-read-legal behaviour of a CSR belongs to
  the vendored core, so it is the parameter \<open>W\<close> of every execution function:
  \<open>W k old new\<close> is what CSR \<open>k\<close> holds after \<open>new\<close> is written over \<open>old\<close>.

  The address decoding follows src/rtl/safe_cpu_wrapper.sv (private block, before the
  voters) and src/rtl/include/sap_pkg.sv (safe-wrapper block); every other address is
  plain storage. Instructions that change device state leave an event in the trace of the
  core, in program order.
\<close>

named_theorems exec_simps \<open>symbolic execution of instruction lists\<close>

section \<open>State\<close>

datatype gpr =
    ZERO | RA | SP | GP | TP | T0 | T1 | T2 | S0 | S1
  | A0 | A1 | A2 | A3 | A4 | A5 | A6 | A7
  | S2 | S3 | S4 | S5 | S6 | S7 | S8 | S9 | S10 | S11
  | T3 | T4 | T5 | T6

datatype csr =
    MSTATUS | MIE | MTVEC | MEPC | MCAUSE | MTVAL | MHARTID | DPC | DSCRATCH0 | DSCRATCH1

datatype event = Private_write u32 u32 | Wrapper_write u32 u32 | Fence | Wait_for_interrupt

record core =
  gprs :: "gpr \<Rightarrow> u32"
  csrs :: "csr \<Rightarrow> u32"
  priv :: "private_reg \<Rightarrow> u32"
  trace :: "event list"

record soc =
  ram :: store
  wrapper :: "wrapper_reg \<Rightarrow> u32"

type_synonym machine = "core \<times> soc"
type_synonym csr_warl = "csr \<Rightarrow> u32 \<Rightarrow> u32 \<Rightarrow> u32"

text \<open>Register x0 reads as zero and ignores writes.\<close>

definition get :: "core \<Rightarrow> gpr \<Rightarrow> u32" where
  "get c r = (if r = ZERO then 0 else gprs c r)"

definition put :: "gpr \<Rightarrow> u32 \<Rightarrow> core \<Rightarrow> core" where
  "put r v c = (if r = ZERO then c else c\<lparr>gprs := (gprs c)(r := v)\<rparr>)"

definition emit :: "event \<Rightarrow> core \<Rightarrow> core" where
  "emit e c = c\<lparr>trace := trace c @ [e]\<rparr>"

section \<open>Instructions\<close>

text \<open>
  \<open>LW rd o b\<close> and \<open>SW rs o b\<close> are \<^verbatim>\<open>lw rd, o(b)\<close> and \<^verbatim>\<open>sw rs, o(b)\<close>. \<open>LI\<close> stands for the
  pseudo-instructions that load an assembly-time constant: \<^verbatim>\<open>li\<close>, \<^verbatim>\<open>la\<close> of a label and
  \<^verbatim>\<open>auipc rd, 0\<close>, whose result is the address of that instruction.
\<close>

datatype instr =
    LW gpr u32 gpr
  | SW gpr u32 gpr
  | ADDI gpr gpr u32
  | ORI gpr gpr u32
  | XORI gpr gpr u32
  | LI gpr u32
  | LUI gpr u32
  | MV gpr gpr
  | CSRR gpr csr
  | CSRW csr gpr
  | FENCE
  | WFI
  | NOP

datatype access = No_access | Read_at u32 | Write_at u32 u32

fun access_of :: "instr \<Rightarrow> core \<Rightarrow> access" where
  "access_of (LW rd i rs) c = Read_at (get c rs + i)"
| "access_of (SW rs2 i rs1) c = Write_at (get c rs1 + i) (get c rs2)"
| "access_of _ c = No_access"

fun retire :: "csr_warl \<Rightarrow> instr \<Rightarrow> u32 \<Rightarrow> core \<Rightarrow> core" where
  "retire W (LW rd i rs) d c = put rd d c"
| "retire W (SW rs2 i rs1) d c = c"
| "retire W (ADDI rd rs i) d c = put rd (get c rs + i) c"
| "retire W (ORI rd rs i) d c = put rd (get c rs OR i) c"
| "retire W (XORI rd rs i) d c = put rd (get c rs XOR i) c"
| "retire W (LI rd i) d c = put rd i c"
| "retire W (LUI rd i) d c = put rd (push_bit 12 i) c"
| "retire W (MV rd rs) d c = put rd (get c rs) c"
| "retire W (CSRR rd k) d c = put rd (csrs c k) c"
| "retire W (CSRW k rs) d c = c\<lparr>csrs := (csrs c)(k := W k (csrs c k) (get c rs))\<rparr>"
| "retire W FENCE d c = emit Fence c"
| "retire W WFI d c = emit Wait_for_interrupt c"
| "retire W NOP d c = c"

section \<open>The bus\<close>

definition is_private :: "u32 \<Rightarrow> bool" where
  "is_private a \<longleftrightarrow> 0x19000000 \<le> a \<and> a < 0x19010000"

definition is_wrapper :: "u32 \<Rightarrow> bool" where
  "is_wrapper a \<longleftrightarrow> 0x20000000 \<le> a \<and> a < 0x20000100"

definition plain :: "u32 \<Rightarrow> bool" where
  "plain a \<longleftrightarrow> \<not> is_private a \<and> \<not> is_wrapper a"

definition bus_read :: "soc \<Rightarrow> u32 \<Rightarrow> u32" where
  "bus_read s a =
     (if is_wrapper a then reg_read wrapper_block (wrapper s) a else load32 (ram s) a)"

definition bus_write :: "soc \<Rightarrow> u32 \<Rightarrow> u32 \<Rightarrow> soc" where
  "bus_write s a v =
     (if is_wrapper a then s\<lparr>wrapper := reg_write wrapper_block (wrapper s) a v\<rparr>
      else s\<lparr>ram := store32 (ram s) a v\<rparr>)"

text \<open>One 32-bit access as the core sees it: its private block first, then the bus.\<close>

fun load_word :: "u32 \<Rightarrow> machine \<Rightarrow> u32" where
  "load_word a (c, s) =
     (if is_private a then reg_read private_block (priv c) a else bus_read s a)"

fun store_word :: "u32 \<Rightarrow> u32 \<Rightarrow> machine \<Rightarrow> machine" where
  "store_word a v (c, s) =
     (if is_private a
      then (emit (Private_write a v) (c\<lparr>priv := reg_write private_block (priv c) a v\<rparr>), s)
      else (if is_wrapper a then emit (Wrapper_write a v) c else c, bus_write s a v))"

fun exec :: "csr_warl \<Rightarrow> instr \<Rightarrow> machine \<Rightarrow> machine" where
  "exec W i (c, s) =
     (case access_of i c of
        No_access \<Rightarrow> (retire W i 0 c, s)
      | Read_at a \<Rightarrow> (retire W i (load_word a (c, s)) c, s)
      | Write_at a v \<Rightarrow> (let (c', s') = store_word a v (c, s) in (retire W i 0 c', s')))"

fun run :: "csr_warl \<Rightarrow> instr list \<Rightarrow> machine \<Rightarrow> machine" where
  "run W [] m = m"
| "run W (i # is) m = run W is (exec W i m)"

lemma run_append: "run W (is @ js) m = run W js (run W is m)"
  by (induction "is" arbitrary: m) auto

declare exec.simps [simp del] load_word.simps [simp del] store_word.simps [simp del]

section \<open>Symbolic execution\<close>

lemma get_put [exec_simps]: "get (put r v c) r' = (if r' = r \<and> r \<noteq> ZERO then v else get c r')"
  by (simp add: get_def put_def)

lemma core_put [exec_simps]:
  "csrs (put r v c) = csrs c" "priv (put r v c) = priv c" "trace (put r v c) = trace c"
  by (simp_all add: put_def)

lemma core_emit [exec_simps]:
  "gprs (emit e c) = gprs c" "csrs (emit e c) = csrs c" "priv (emit e c) = priv c"
  "trace (emit e c) = trace c @ [e]" "get (emit e c) r = get c r"
  by (simp_all add: emit_def get_def)

lemma get_updates [exec_simps]:
  "get (c\<lparr>csrs := f\<rparr>) r = get c r" "get (c\<lparr>priv := p\<rparr>) r = get c r"
  "get (c\<lparr>trace := t\<rparr>) r = get c r"
  by (simp_all add: get_def)

lemma get_ZERO [exec_simps]: "get c ZERO = 0"
  by (simp add: get_def)

lemma plain_not_device: "plain a \<Longrightarrow> \<not> is_private a" "plain a \<Longrightarrow> \<not> is_wrapper a"
  by (simp_all add: plain_def)

lemma exec_LW_plain [exec_simps]:
  "plain (get c b + i) \<Longrightarrow>
   exec W (LW r i b) (c, s) = (put r (load32 (ram s) (get c b + i)) c, s)"
  by (simp add: exec.simps load_word.simps bus_read_def plain_def)

lemma exec_SW_plain [exec_simps]:
  "plain (get c b + i) \<Longrightarrow>
   exec W (SW r i b) (c, s) = (c, s\<lparr>ram := store32 (ram s) (get c b + i) (get c r)\<rparr>)"
  by (simp add: exec.simps store_word.simps bus_write_def plain_def)

lemma exec_no_access [exec_simps]:
  "exec W (ADDI rd rs i) (c, s) = (put rd (get c rs + i) c, s)"
  "exec W (ORI rd rs i) (c, s) = (put rd (get c rs OR i) c, s)"
  "exec W (XORI rd rs i) (c, s) = (put rd (get c rs XOR i) c, s)"
  "exec W (LI rd i) (c, s) = (put rd i c, s)"
  "exec W (LUI rd i) (c, s) = (put rd (push_bit 12 i) c, s)"
  "exec W (MV rd rs) (c, s) = (put rd (get c rs) c, s)"
  "exec W (CSRR rd k) (c, s) = (put rd (csrs c k) c, s)"
  "exec W (CSRW k rs) (c, s) = (c\<lparr>csrs := (csrs c)(k := W k (csrs c k) (get c rs))\<rparr>, s)"
  "exec W FENCE (c, s) = (emit Fence c, s)"
  "exec W WFI (c, s) = (emit Wait_for_interrupt c, s)"
  "exec W NOP (c, s) = (c, s)"
  by (simp_all add: exec.simps)

text \<open>Accesses to a register of one of the two blocks.\<close>

lemma is_private_addr [exec_simps]: "is_private (private_addr r)"
  by (cases r) (simp_all add: is_private_def private_addr_def private_offset.simps platform_simps)

lemma is_wrapper_addr [exec_simps]: "is_wrapper (wrapper_addr r)" "\<not> is_private (wrapper_addr r)"
  by (cases r; simp add: is_wrapper_def is_private_def wrapper_addr_def wrapper_offset.simps platform_simps)+

lemma store_word_private:
  "rb_sw_rw private_block r \<Longrightarrow>
   store_word (private_addr r) v (c, s) =
     (emit (Private_write (private_addr r) v)
        (c\<lparr>priv := (priv c)(r := v AND rb_mask private_block r)\<rparr>), s)"
  by (simp add: store_word.simps is_private_addr reg_write_def private_hit)

lemma store_word_wrapper:
  "rb_sw_rw wrapper_block r \<Longrightarrow>
   store_word (wrapper_addr r) v (c, s) =
     (emit (Wrapper_write (wrapper_addr r) v) c,
      s\<lparr>wrapper := (wrapper s)(r := v AND rb_mask wrapper_block r)\<rparr>)"
  by (simp add: store_word.simps is_wrapper_addr bus_write_def reg_write_def wrapper_hit)

lemma load_word_wrapper:
  "load_word (wrapper_addr r) (c, s) = wrapper s r AND rb_mask wrapper_block r"
  by (simp add: load_word.simps is_wrapper_addr bus_read_def reg_read_def wrapper_hit)

text \<open>
  The code forms these addresses as base register plus register offset, and so do the rules
  of symbolic execution: neither the base nor the offset is unfolded.
\<close>

lemma addr_base_offset:
  "PRIVATE_REG_BASEADDRESS + private_offset r = private_addr r"
  "SAFE_WRAPPER_CTRL_BASEADDRESS + wrapper_offset r' = wrapper_addr r'"
  by (cases r; simp add: private_addr_def private_offset.simps platform_simps)
     (cases r'; simp add: wrapper_addr_def wrapper_offset.simps platform_simps)

lemma block_masks [exec_simps]:
  "rb_mask wrapper_block r = fields_mask (wrapper_fields r)"
  "rb_mask private_block r' = fields_mask (private_fields r')"
  "rb_sw_rw wrapper_block r \<longleftrightarrow> wrapper_sw_rw r"
  "rb_sw_rw private_block r' \<longleftrightarrow> r' \<noteq> P_CORE_ID"
  by (simp_all add: wrapper_block_def private_block_def)

lemma exec_SW_private [exec_simps]:
  assumes "get c b = PRIVATE_REG_BASEADDRESS" and "r \<noteq> P_CORE_ID"
  shows "exec W (SW rs (private_offset r) b) (c, s) =
     (emit (Private_write (private_addr r) (get c rs))
        (c\<lparr>priv := (priv c)(r := get c rs AND fields_mask (private_fields r))\<rparr>), s)"
  using assms by (simp add: exec.simps store_word_private block_masks addr_base_offset)

lemma exec_SW_wrapper [exec_simps]:
  assumes "get c b = SAFE_WRAPPER_CTRL_BASEADDRESS" and "wrapper_sw_rw r"
  shows "exec W (SW rs (wrapper_offset r) b) (c, s) =
     (emit (Wrapper_write (wrapper_addr r) (get c rs)) c,
      s\<lparr>wrapper := (wrapper s)(r := get c rs AND fields_mask (wrapper_fields r))\<rparr>)"
  using assms by (simp add: exec.simps store_word_wrapper block_masks addr_base_offset)

lemma exec_LW_wrapper [exec_simps]:
  assumes "get c b = SAFE_WRAPPER_CTRL_BASEADDRESS"
  shows "exec W (LW rd (wrapper_offset r) b) (c, s) =
     (put rd (wrapper s r AND fields_mask (wrapper_fields r)) c, s)"
  using assms by (simp add: exec.simps load_word_wrapper block_masks addr_base_offset)

lemma wrapper_fields_full [exec_simps]:
  "fields_mask (wrapper_fields W_SAFE_COPY_ADDRESS) = - 1"
  "fields_mask (wrapper_fields W_INITIAL_STACK_ADDR) = - 1"
  "fields_mask (wrapper_fields W_ENTRY_ADDRESS) = - 1"
  "fields_mask (wrapper_fields W_SAFE_CONFIGURATION) = 3"
  "fields_mask (wrapper_fields W_MASTER_CORE) = 7"
  "fields_mask (wrapper_fields W_CRITICAL_SECTION) = 1"
  "fields_mask (wrapper_fields W_INITIAL_SYNC_MASTER) = 1"
  "fields_mask (wrapper_fields W_END_SW_ROUTINE) = 1"
  "fields_mask (private_fields P_HART_INTC_ACK) = 1"
  by (simp_all add: fields_mask_def wrapper_fields.simps private_fields.simps)

lemma wrapper_sw_rw_simps [exec_simps]:
  "wrapper_sw_rw W_SAFE_CONFIGURATION" "wrapper_sw_rw W_MASTER_CORE"
  "wrapper_sw_rw W_CRITICAL_SECTION" "wrapper_sw_rw W_INITIAL_SYNC_MASTER"
  "wrapper_sw_rw W_END_SW_ROUTINE"
  by (simp_all add: wrapper_sw_rw_def)

lemma gprs_put_ZERO [exec_simps]: "gprs (put r v c) ZERO = gprs c ZERO"
  by (simp add: put_def)

text \<open>Two cores with equal readable state are equal.\<close>

lemma core_eqI:
  fixes c d :: core
  assumes "\<And>r. get c r = get d r" and "gprs c ZERO = gprs d ZERO"
    and "csrs c = csrs d" and "priv c = priv d" and "trace c = trace d"
  shows "c = d"
proof -
  have "gprs c r = gprs d r" for r
    using assms(1) [of r] assms(2) by (cases "r = ZERO") (simp_all add: get_def)
  then have "gprs c = gprs d" by blast
  with assms(3-) show ?thesis by simp
qed

section \<open>Stack frames\<close>

text \<open>The \<open>n\<close> words below the stack pointer are plain storage.\<close>

definition stack_frame :: "core \<Rightarrow> nat \<Rightarrow> bool" where
  "stack_frame c n \<longleftrightarrow> list_all (\<lambda>k. plain (get c SP - 4 * of_nat k)) [1..<Suc n]"

lemma stack_frame_numeral:
  "stack_frame c (numeral n) \<longleftrightarrow>
     plain (get c SP - 4) \<and>
     list_all (\<lambda>k. plain (get c SP - 4 * of_nat k)) [2..<numeral (n + num.One)]"
proof -
  have "[1..<Suc (numeral n)] = 1 # [2..<numeral (n + num.One)]"
    by (subst upt_conv_Cons) (simp del: Suc_numeral, simp only: Suc_1 Suc_numeral)
  then show ?thesis
    by (simp add: stack_frame_def)
qed

lemmas frame_simps = stack_frame_numeral upt_rec_numeral

text \<open>
  Blocks of \<open>n\<close> bytes at \<open>p\<close> and of \<open>k\<close> bytes at \<open>q\<close> that do not overlap, also where the
  address space wraps around.
\<close>

definition disjoint_blocks :: "u32 \<Rightarrow> u32 \<Rightarrow> u32 \<Rightarrow> u32 \<Rightarrow> bool" where
  "disjoint_blocks p n q k \<longleftrightarrow> n \<le> q - p \<and> k \<le> p - q"

lemma unat_neg: "x \<noteq> 0 \<Longrightarrow> unat (- x) = 2 ^ 32 - unat x" for x :: u32
  using unat_sub_if' [of 0 x] by (auto simp: unat_gt_0 split: if_splits)

lemma disjoint_blocks_apart:
  assumes "disjoint_blocks p n q k" and "4 \<le> n" "a \<le> n - 4" "4 \<le> k" "b \<le> k - 4"
  shows "apart (p + a) (q + b)"
proof -
  define x where "x = q - p"
  have x: "n \<le> x" "k \<le> - x" using assms(1) by (simp_all add: disjoint_blocks_def x_def)
  then have nz: "x \<noteq> 0" using assms by auto
  have a: "unat a + 4 \<le> unat n" and b: "unat b + 4 \<le> unat k" and n4: "4 \<le> unat n"
    using assms(2-5) by (simp_all add: word_le_nat_alt unat_sub)
  have xn: "unat n \<le> unat x" and xk: "unat k + unat x \<le> 2 ^ 32"
    using x unsigned_less [of x, where 'a = nat] by (simp_all add: word_le_nat_alt unat_neg [OF nz])
  have xb: "unat (x + b) = unat x + unat b"
    using xk b by (subst unat_add_lem [THEN iffD1]) simp_all
  have y: "unat (x + b - a) = unat x + unat b - unat a"
    using xb a xn by (subst unat_sub) (simp_all add: word_le_nat_alt)
  then have ynz: "x + b - a \<noteq> 0"
    using a xn by (auto dest!: arg_cong [where f = unat])
  have e: "q + b - (p + a) = x + b - a" "p + a - (q + b) = - (x + b - a)"
    by (simp_all add: x_def algebra_simps)
  show ?thesis
    unfolding apart_def e word_le_nat_alt unat_neg [OF ynz] y using a b xn xk by auto
qed

lemma disjoint_blocks_below:
  assumes "disjoint_blocks p n (s - k) k" and "4 \<le> n" "a \<le> n - 4" "4 \<le> b" "b \<le> k"
  shows "apart (p + a) (s - b)"
proof -
  have "k - b \<le> k - 4" "4 \<le> k"
    using assms(4-5) by (auto simp: word_le_nat_alt unat_sub)
  then show ?thesis
    using disjoint_blocks_apart [OF assms(1-3), of "k - b"] by (simp add: algebra_simps)
qed

end
