(* ===== verification/CB_Safety.thy ===== *)
theory CB_Safety
  imports RV_Hart
begin

text \<open>
  src/sw/CB_device/lib/safety/CB_Safety.c and CB_Safety.h. Every function of the library is
  its inline-assembly statements in source order as instruction lists; the labels and
  branches between the lists are the tests of the functions that run them. What the library
  leaves to others is an argument:

  \<^item> \<open>W\<close>: the legalisation of CSR writes by the core;
  \<^item> \<open>wake\<close>: what the rest of the system does to the machine while the hart sleeps in
    \<^verbatim>\<open>wfi\<close>: the safety controller, the other harts, and the interrupt handler that ends the
    sleep;
  \<^item> \<open>sync_pc\<close> and \<open>exit_pc\<close>: the link addresses of the \<^verbatim>\<open>auipc\<close> of \<^verbatim>\<open>Safe_Activate\<close> and of
    the label \<^verbatim>\<open>_exit_Store_checkpoint\<close>.

  The compiler's own prologue and epilogue (\<^verbatim>\<open>mret\<close> of the handlers included) is not part of
  the source and not modelled; neither are interrupts taken between two instructions.
\<close>

section \<open>Entering safe mode\<close>

definition Safe_Activate_entry :: "instr list" where
  "Safe_Activate_entry =
     [ADDI SP SP (-16), SW T5 12 SP, SW T6 8 SP, LI T5 SAFE_WRAPPER_CTRL_BASEADDRESS,
      LW T6 (wrapper_offset W_SAFE_CONFIGURATION) T5]"

text \<open>
  From the write of the mode to the \<^verbatim>\<open>wfi\<close>: the context of the caller goes to the safe copy,
  and the address of the \<^verbatim>\<open>auipc\<close> with it. The other harts resume at that instruction, with
  the saved context, so the end of the section is a list of its own.
\<close>

definition Safe_Activate_save :: "instr list" where
  "Safe_Activate_save =
     [SW A0 (wrapper_offset W_SAFE_CONFIGURATION) T5,
      LI T5 SAFE_WRAPPER_CTRL_BASEADDRESS,
      LW T5 (wrapper_offset W_SAFE_COPY_ADDRESS) T5, CSRR T6 MSTATUS, SW T6 0 T5,
      CSRR T6 MIE, SW T6 4 T5, CSRR T6 MTVEC, SW T6 8 T5, CSRR T6 MEPC, SW T6 12 T5,
      CSRR T6 MTVAL, SW T6 16 T5, SW RA 20 T5, SW SP 24 T5, SW GP 28 T5, SW TP 32 T5,
      SW T0 36 T5, SW T1 40 T5, SW T2 44 T5, SW S0 48 T5, SW S1 52 T5, SW A0 56 T5,
      SW A1 60 T5, SW A2 64 T5, SW A3 68 T5, SW A4 72 T5, SW A5 76 T5, SW A6 80 T5,
      SW A7 84 T5, SW S2 88 T5, SW S3 92 T5, SW S4 96 T5, SW S5 100 T5, SW S6 104 T5,
      SW S7 108 T5, SW S8 112 T5, SW S9 116 T5, SW S10 120 T5, SW S11 124 T5,
      SW T3 128 T5, SW T4 132 T5, SW T5 12 SP, LW T6 12 SP, SW T5 136 T5, LW T6 8 SP,
      SW T6 140 T5, LI T5 SAFE_WRAPPER_CTRL_BASEADDRESS, LI T6 0x1,
      SW T6 (wrapper_offset W_INITIAL_SYNC_MASTER) T5,
      LI T5 SAFE_WRAPPER_CTRL_BASEADDRESS,
      LW T5 (wrapper_offset W_SAFE_COPY_ADDRESS) T5]"

definition Safe_Activate_sync :: "u32 \<Rightarrow> instr list" where
  "Safe_Activate_sync sync_pc =
     [LI T6 sync_pc, SW T6 144 T5, FENCE, NOP, NOP, NOP, NOP, WFI]"

definition Safe_Activate_reset :: "instr list" where
  "Safe_Activate_reset =
     [NOP, NOP, NOP, LI T5 SAFE_WRAPPER_CTRL_BASEADDRESS,
      SW ZERO (wrapper_offset W_INITIAL_SYNC_MASTER) T5, LI T5 PRIVATE_REG_BASEADDRESS,
      SW ZERO (private_offset P_HART_INTC_ACK) T5]"

definition Safe_Activate_exit :: "instr list" where
  "Safe_Activate_exit =
     [LW T6 8 SP, LW T5 12 SP, ADDI SP SP 16]"

definition Safe_Activate :: "csr_warl \<Rightarrow> (machine \<Rightarrow> machine) \<Rightarrow> u32 \<Rightarrow> machine \<Rightarrow> machine" where
  "Safe_Activate W wake sync_pc m =
     (let m1 = run W Safe_Activate_entry m in
      if get (fst m1) T6 \<noteq> 0 then run W Safe_Activate_exit m1
      else run W Safe_Activate_exit
             (run W Safe_Activate_reset
                (wake (run W (Safe_Activate_save @ Safe_Activate_sync sync_pc) m1))))"

section \<open>Leaving safe mode\<close>

text \<open>The C accesses are volatile: each is one load or store of the word at that address.\<close>

definition Set_Critical_Section :: "u32 \<Rightarrow> machine \<Rightarrow> machine" where
  "Set_Critical_Section critical m =
     store_word (SAFE_WRAPPER_CTRL_BASEADDRESS OR wrapper_offset W_CRITICAL_SECTION) critical m"

definition Safe_Stop :: "csr_warl \<Rightarrow> (machine \<Rightarrow> machine) \<Rightarrow> u32 \<Rightarrow> machine \<Rightarrow> machine" where
  "Safe_Stop W wake master m =
     (let Safe_config_reg = SAFE_WRAPPER_CTRL_BASEADDRESS in
      if load_word Safe_config_reg m = 0x1 \<or> load_word Safe_config_reg m = 0x2
         \<or> load_word Safe_config_reg m = 0x3
      then
        let m1 = (if load_word (Safe_config_reg + 3 * 4) m = 0x1
                  then Set_Critical_Section NONE_CRITICAL_SECTION m else m);
            m2 = store_word (Safe_config_reg + 2 * 4) master m1;
            m3 = store_word Safe_config_reg 0x0 m2
        in run W [NOP, NOP] (wake (run W [FENCE, WFI] m3))
      else m)"

section \<open>Interrupt handlers\<close>

definition handler_tmr_recoverysync :: "instr list" where
  "handler_tmr_recoverysync =
     [ADDI SP SP (-16), SW A4 12 SP, SW A5 8 SP, LI A4 1, LI A5 PRIVATE_REG_BASEADDRESS,
      SW A4 (private_offset P_HART_INTC_ACK) A5, LW A4 12 SP, LW A5 8 SP, SW RA (-4) SP,
      SW SP (-8) SP, SW GP (-12) SP, SW TP (-16) SP, SW T0 (-20) SP, SW T1 (-24) SP,
      SW T2 (-28) SP, SW S0 (-32) SP, SW S1 (-36) SP, SW A0 (-40) SP, SW A1 (-44) SP,
      SW A2 (-48) SP, SW A3 (-52) SP, SW A4 (-56) SP, SW A5 (-60) SP, SW A6 (-64) SP,
      SW A7 (-68) SP, SW S2 (-72) SP, SW S3 (-76) SP, SW S4 (-80) SP, SW S5 (-84) SP,
      SW S6 (-88) SP, SW S7 (-92) SP, SW S8 (-96) SP, SW S9 (-100) SP, SW S10 (-104) SP,
      SW S11 (-108) SP, SW T3 (-112) SP, SW T4 (-116) SP, SW T5 (-120) SP,
      SW T6 (-124) SP, CSRR T6 MSTATUS, SW T6 (-128) SP, CSRR T6 MIE, SW T6 (-132) SP,
      CSRR T6 MTVEC, SW T6 (-136) SP, CSRR T6 MEPC, SW T6 (-140) SP, CSRR T6 MTVAL,
      SW T6 (-144) SP, LW T6 (-128) SP, CSRW MSTATUS T6, LW T6 (-132) SP, CSRW MIE T6,
      LW T6 (-136) SP, CSRW MTVEC T6, LW T6 (-140) SP, CSRW MEPC T6, LW T6 (-144) SP,
      CSRW MTVAL T6, LW RA (-4) SP, LW SP (-8) SP, LW GP (-12) SP, LW TP (-16) SP,
      LW T0 (-20) SP, LW T1 (-24) SP, LW T2 (-28) SP, LW S0 (-32) SP, LW S1 (-36) SP,
      LW A0 (-40) SP, LW A1 (-44) SP, LW A2 (-48) SP, LW A3 (-52) SP, LW A4 (-56) SP,
      LW A5 (-60) SP, LW A6 (-64) SP, LW A7 (-68) SP, LW S2 (-72) SP, LW S3 (-76) SP,
      LW S4 (-80) SP, LW S5 (-84) SP, LW S6 (-88) SP, LW S7 (-92) SP, LW S8 (-96) SP,
      LW S9 (-100) SP, LW S10 (-104) SP, LW S11 (-108) SP, LW T3 (-112) SP,
      LW T4 (-116) SP, LW T5 (-120) SP, LW T6 (-124) SP, LI A5 PRIVATE_REG_BASEADDRESS,
      SW ZERO (private_offset P_HART_INTC_ACK) A5, LW A5 8 SP, ADDI SP SP 16]"

definition handler_safe_fsm :: "instr list" where
  "handler_safe_fsm =
     [ADDI SP SP (-16), SW T5 12 SP, SW T6 8 SP, LI T5 PRIVATE_REG_BASEADDRESS,
      LI T6 0x1, SW T6 (private_offset P_HART_INTC_ACK) T5,
      SW ZERO (private_offset P_HART_INTC_ACK) T5, LW T5 12 SP, LW T6 8 SP,
      ADDI SP SP 16]"

definition handler_tmr_dmcontext_copy :: "instr list" where
  "handler_tmr_dmcontext_copy =
     [ADDI SP SP (-16), SW A4 12 SP, SW A5 8 SP, LI A4 1, LI A5 PRIVATE_REG_BASEADDRESS,
      SW A4 4 A5, SW ZERO 4 A5, LW A4 12 SP, LW A5 8 SP,
      LI T5 SAFE_WRAPPER_CTRL_BASEADDRESS,
      LW T5 (wrapper_offset W_SAFE_COPY_ADDRESS) T5, CSRR T6 MSTATUS, ORI T6 T6 0x08,
      SW T6 0 T5, CSRR T6 MIE, SW T6 4 T5, CSRR T6 MTVEC, SW T6 8 T5, CSRR T6 MEPC,
      SW T6 12 T5, LI T6 BOOT_OFFSET, CSRW MEPC T6, CSRR T6 MTVAL, SW T6 16 T5,
      SW RA 20 T5, ADDI T6 SP 16, SW T6 24 T5, SW GP 28 T5, SW TP 32 T5, SW T0 36 T5,
      SW T1 40 T5, SW T2 44 T5, SW S0 48 T5, SW S1 52 T5, SW A0 56 T5, SW A1 60 T5,
      SW A2 64 T5, SW A3 68 T5, SW A4 72 T5, SW A5 76 T5, SW A6 80 T5, SW A7 84 T5,
      SW S2 88 T5, SW S3 92 T5, SW S4 96 T5, SW S5 100 T5, SW S6 104 T5, SW S7 108 T5,
      SW S8 112 T5, SW S9 116 T5, SW S10 120 T5, SW S11 124 T5, SW T3 128 T5,
      SW T4 132 T5, LI T6 BOOT_OFFSET, SW T6 144 T5, SW T5 136 T5, SW T6 140 T5,
      ADDI SP SP 16]"

definition handler_tmr_dmshsync :: "instr list" where
  "handler_tmr_dmshsync =
     [ADDI SP SP (-16), SW T5 12 SP, SW T6 8 SP, LI T5 PRIVATE_REG_BASEADDRESS,
      LI T6 0x1, SW T6 (private_offset P_HART_INTC_ACK) T5,
      SW ZERO (private_offset P_HART_INTC_ACK) T5, LI T5 SAFE_WRAPPER_CTRL_BASEADDRESS,
      LW T5 (wrapper_offset W_SAFE_COPY_ADDRESS) T5, SW T5 (-4) SP, LW T5 12 T5,
      CSRW MEPC T5, LW T5 (-4) SP, LW T5 12 SP, LW T6 8 SP, ADDI SP SP 16]"

section \<open>Checkpoints\<close>

text \<open>
  The label \<^verbatim>\<open>_checkpoint_store_stack\<close> is a loop with its test in the middle; it need not end,
  so a run that stays in it for ever is \<open>None\<close>.
\<close>

definition Store_Checkpoint_entry :: "instr list" where
  "Store_Checkpoint_entry =
     [ADDI SP SP (-28), SW T2 24 SP, SW T3 20 SP, SW T4 16 SP, SW T5 12 SP, SW T6 8 SP,
      LI T5 SAFE_WRAPPER_CTRL_BASEADDRESS,
      LW T4 (wrapper_offset W_INITIAL_STACK_ADDR) T5,
      LW T5 (wrapper_offset W_SAFE_COPY_ADDRESS) T5, ADDI SP SP 28, MV T2 SP, FENCE]"

partial_function (option) checkpoint_store_stack :: "csr_warl \<Rightarrow> machine \<Rightarrow> machine option" where
  "checkpoint_store_stack W m =
     (let m1 = run W [LW T6 0 T2, SW T6 0 T3] m in
      if get (fst m1) T2 = get (fst m1) T4 then Some m1
      else checkpoint_store_stack W (run W [ADDI T3 T3 4, ADDI T2 T2 4] m1))"

definition checkpoint_store_reg :: "u32 \<Rightarrow> instr list" where
  "checkpoint_store_reg exit_pc =
     [CSRR T6 MSTATUS, SW T6 0 T5, CSRR T6 MIE, SW T6 4 T5, CSRR T6 MTVEC, SW T6 8 T5,
      CSRR T6 MEPC, SW T6 12 T5, CSRR T6 MTVAL, SW T6 16 T5, SW RA 20 T5, SW SP 24 T5,
      ADDI SP SP (-28), SW GP 28 T5, SW TP 32 T5, SW T0 36 T5, SW T1 40 T5, LW T2 24 SP,
      SW T2 44 T5, SW S0 48 T5, SW S1 52 T5, SW A0 56 T5, SW A1 60 T5, SW A2 64 T5,
      SW A3 68 T5, SW A4 72 T5, SW A5 76 T5, SW A6 80 T5, SW A7 84 T5, SW S2 88 T5,
      SW S3 92 T5, SW S4 96 T5, SW S5 100 T5, SW S6 104 T5, SW S7 108 T5, SW S8 112 T5,
      SW S9 116 T5, SW S10 120 T5, SW S11 124 T5, LW T3 20 SP, SW T3 128 T5,
      LW T4 16 SP, SW T4 132 T5, LI T6 exit_pc, SW T6 144 T5, LW T6 12 SP, SW T6 136 T5,
      LW T6 8 SP, SW T6 140 T5, LW T2 24 SP, LW T3 20 SP, LW T4 16 SP, LW T5 12 SP,
      LW T6 8 SP, ADDI SP SP 28]"

definition Store_Checkpoint :: "csr_warl \<Rightarrow> u32 \<Rightarrow> machine \<Rightarrow> machine option" where
  "Store_Checkpoint W exit_pc m =
     (let m1 = run W Store_Checkpoint_entry m in
      if get (fst m1) T2 = get (fst m1) T4 then Some (run W (checkpoint_store_reg exit_pc) m1)
      else map_option (run W (checkpoint_store_reg exit_pc))
             (checkpoint_store_stack W (run W [ADDI T3 T5 148] m1)))"

section \<open>Register-file dump and exit\<close>

definition Check_RF :: "instr list" where
  "Check_RF =
     [ADDI SP SP (-20), SW T4 16 SP, SW T5 12 SP, SW T6 8 SP, LW A4 12 SP, LW A5 8 SP,
      LI T6 CHECK_RAM_ADDRESS, SW RA 0 T6, ADDI T5 SP 20, SW T5 12 T6, SW GP 8 T6,
      SW TP 12 T6, SW T0 16 T6, SW T1 20 T6, SW T2 24 T6, SW S0 28 T6, SW S1 32 T6,
      SW A0 36 T6, SW A1 40 T6, SW A2 44 T6, SW A3 48 T6, SW A4 52 T6, SW A5 56 T6,
      SW A6 60 T6, SW A7 64 T6, SW S2 68 T6, SW S3 72 T6, SW S4 76 T6, SW S5 80 T6,
      SW S6 84 T6, SW S7 88 T6, SW S8 92 T6, SW S9 96 T6, SW S10 100 T6, SW S11 104 T6,
      SW T3 108 T6, SW T4 112 T6, LW T5 12 SP, SW T5 116 T6, LW T6 8 SP,
      LI T5 CHECK_RAM_ADDRESS, SW T6 120 T5, LW T5 12 SP, ADDI SP SP 20]"

text \<open>The endless loop at the end of \<^verbatim>\<open>_exit\<close>.\<close>

partial_function (option) exit_spin :: "csr_warl \<Rightarrow> machine \<Rightarrow> machine option" where
  "exit_spin W m = exit_spin W (run W [NOP] m)"

definition exit_request :: "csr_warl \<Rightarrow> machine \<Rightarrow> machine" where
  "exit_request W m =
     run W [FENCE, WFI]
       (store_word (SAFE_WRAPPER_CTRL_BASEADDRESS OR wrapper_offset W_END_SW_ROUTINE) 0x1 m)"

definition exit_fn :: "csr_warl \<Rightarrow> (machine \<Rightarrow> machine) \<Rightarrow> machine \<Rightarrow> machine option" where
  "exit_fn W wake m = exit_spin W (wake (exit_request W m))"

end
