(* ===== verification/Context_Area.thy ===== *)
theory Context_Area
  imports CB_Safety
begin

text \<open>
  The safe-copy area, the contract between the safety library and the boot ROM: 37 words at
  the address the wrapper's \<open>W_SAFE_COPY_ADDRESS\<close> register names, five control and status
  registers, the registers x1 to x31, and the address to resume at. The offsets 0, 4, ...,
  144 of src/sw/CB_device/lib/safety/CB_Safety.c and src/ip/CB_boot_rom/CB_boot_rom.S are
  the positions of \<open>context_image\<close>. The stack of a checkpoint follows at offset 148.
\<close>

definition context_csrs :: "csr list" where
  "context_csrs = [MSTATUS, MIE, MTVEC, MEPC, MTVAL]"

definition context_gprs :: "gpr list" where
  "context_gprs =
     [RA, SP, GP, TP, T0, T1, T2, S0, S1, A0, A1, A2, A3, A4, A5, A6, A7,
      S2, S3, S4, S5, S6, S7, S8, S9, S10, S11, T3, T4, T5, T6]"

definition context_image :: "core \<Rightarrow> u32 \<Rightarrow> u32 list" where
  "context_image c pc = map (csrs c) context_csrs @ map (get c) context_gprs @ [pc]"

text \<open>\<open>words m p n\<close> are the \<open>n\<close> words of the store at \<open>p\<close>.\<close>

fun words :: "store \<Rightarrow> u32 \<Rightarrow> nat \<Rightarrow> u32 list" where
  "words m p 0 = []"
| "words m p (Suc n) = load32 m p # words m (p + 4) n"

definition context_of :: "store \<Rightarrow> u32 \<Rightarrow> u32 list" where
  "context_of m p = words m p 37"

text \<open>The \<open>n\<close> words at \<open>p\<close> are plain storage.\<close>

definition plain_words :: "u32 \<Rightarrow> nat \<Rightarrow> bool" where
  "plain_words p n \<longleftrightarrow> list_all (\<lambda>k. plain (p + 4 * of_nat k)) [0..<n]"

lemma words_numeral: "words m p (numeral n) = load32 m p # words m (p + 4) (pred_numeral n)"
  by (simp add: numeral_eq_Suc)

lemma plain_words_numeral:
  "plain_words p (numeral n) \<longleftrightarrow>
     plain p \<and> (n = num.One \<or> (plain (p + 4) \<and> list_all (\<lambda>k. plain (p + 4 * of_nat k)) [2..<numeral n]))"
proof -
  have "[0..<numeral n] = 0 # [1..<numeral n]"
    by (simp add: upt_conv_Cons)
  moreover have "[1..<numeral n] = 1 # [2..<numeral n]" if "n \<noteq> num.One"
    using that by (cases n) (simp_all add: upt_conv_Cons numeral_2_eq_2)
  ultimately show ?thesis
    by (cases "n = num.One") (auto simp: plain_words_def)
qed

lemma length_words [simp]: "length (words m p n) = n"
  by (induction n arbitrary: p) auto

lemma nth_words: "i < n \<Longrightarrow> words m p n ! i = load32 m (p + 4 * of_nat i)"
proof (induction n arbitrary: p i)
  case (Suc n)
  then show ?case by (cases i) (auto simp: algebra_simps)
qed simp

lemma words_cong:
  "(\<And>i. i < n \<Longrightarrow> load32 m (p + 4 * of_nat i) = load32 m' (p + 4 * of_nat i)) \<Longrightarrow>
   words m p n = words m' p n"
  by (simp add: list_eq_iff_nth_eq nth_words)

lemma words_eq_iff:
  "words m p n = words m' p n \<longleftrightarrow>
     (\<forall>i<n. load32 m (p + 4 * of_nat i) = load32 m' (p + 4 * of_nat i))"
  by (simp add: list_eq_iff_nth_eq nth_words)

lemma context_of_offsets:
  "context_of m p =
     [load32 m p, load32 m (p + 4), load32 m (p + 8), load32 m (p + 12), load32 m (p + 16),
      load32 m (p + 20), load32 m (p + 24), load32 m (p + 28), load32 m (p + 32), load32 m (p +
      36), load32 m (p + 40), load32 m (p + 44), load32 m (p + 48), load32 m (p + 52), load32 m
      (p + 56), load32 m (p + 60), load32 m (p + 64), load32 m (p + 68), load32 m (p + 72),
      load32 m (p + 76), load32 m (p + 80), load32 m (p + 84), load32 m (p + 88), load32 m (p +
      92), load32 m (p + 96), load32 m (p + 100), load32 m (p + 104), load32 m (p + 108), load32
      m (p + 112), load32 m (p + 116), load32 m (p + 120), load32 m (p + 124), load32 m (p +
      128), load32 m (p + 132), load32 m (p + 136), load32 m (p + 140), load32 m (p + 144)]"
  by (simp add: context_of_def words_numeral add.assoc)

text \<open>Accesses to a block at \<open>p\<close> do not touch the \<open>k\<close> bytes below \<open>s\<close>.\<close>

lemma blocks_below:
  assumes "disjoint_blocks p n (s - k) k"
  shows "4 \<le> n \<Longrightarrow> a \<le> n - 4 \<Longrightarrow> 4 \<le> b \<Longrightarrow> b \<le> k \<Longrightarrow> apart (p + a) (s - b)"
    and "4 \<le> n \<Longrightarrow> a \<le> n - 4 \<Longrightarrow> 4 \<le> b \<Longrightarrow> b \<le> k \<Longrightarrow> apart (s - b) (p + a)"
    and "4 \<le> n \<Longrightarrow> 4 \<le> b \<Longrightarrow> b \<le> k \<Longrightarrow> apart p (s - b)"
    and "4 \<le> n \<Longrightarrow> 4 \<le> b \<Longrightarrow> b \<le> k \<Longrightarrow> apart (s - b) p"
  using disjoint_blocks_below [OF assms, of a b] disjoint_blocks_below [OF assms, of 0 b]
  by (simp_all add: apart_sym)

text \<open>The address the safe-copy register names; the safe copy as a block of plain storage.\<close>

definition copy_address :: "soc \<Rightarrow> u32" where
  "copy_address s = wrapper s W_SAFE_COPY_ADDRESS"

lemmas area_simps = plain_words_numeral blocks_below context_of_offsets
  context_image_def context_csrs_def context_gprs_def

text \<open>
  A hart and a bus state to instantiate the properties with: the stack pointer at the end of
  the RAM the address map gives the block, the safe copy below it, and control and status
  registers that hold whatever is written to them.
\<close>

definition sample_core :: core where
  "sample_core =
     \<lparr>gprs = (\<lambda>_. 0x1)(SP := 0x19030000), csrs = (\<lambda>_. 0x4), priv = (\<lambda>_. 0), trace = []\<rparr>"

definition sample_soc :: soc where
  "sample_soc =
     \<lparr>ram = (\<lambda>a. ucast a),
      wrapper = (\<lambda>_. 0)(W_SAFE_COPY_ADDRESS := 0x19029000, W_INITIAL_STACK_ADDR := 0x19030000)\<rparr>"

definition csr_plain :: csr_warl where
  "csr_plain k old new = new"

lemma sample_frame:
  "stack_frame sample_core 2" "stack_frame sample_core 4" "stack_frame sample_core 5"
  "stack_frame sample_core 7" "stack_frame sample_core 40"
  by (simp_all add: frame_simps sample_core_def get_def plain_def is_private_def is_wrapper_def)

lemma sample_area:
  "plain_words (copy_address sample_soc) 37"
  "disjoint_blocks (copy_address sample_soc) 148 (get sample_core SP - 16) 16"
  "disjoint_blocks (copy_address sample_soc) 148 (get sample_core SP - 20) 20"
  "disjoint_blocks (copy_address sample_soc) 148 (get sample_core SP - 28) 28"
  by (simp_all add: plain_words_numeral upt_rec_numeral copy_address_def sample_soc_def
      sample_core_def get_def plain_def is_private_def is_wrapper_def disjoint_blocks_def)

lemma sample_values:
  "get sample_core r = (if r = ZERO then 0 else if r = SP then 0x19030000 else 1)"
  "csrs sample_core k = 4" "copy_address sample_soc = 0x19029000"
  "wrapper sample_soc W_SAFE_CONFIGURATION = 0" "wrapper sample_soc W_DMR_REC = 0"
  "wrapper sample_soc W_INITIAL_STACK_ADDR = 0x19030000"
  by (simp_all add: sample_core_def sample_soc_def get_def copy_address_def)

end
