(* ===== verification/Safety_Handlers.thy ===== *)
theory Safety_Handlers
  imports Context_Area
begin

text \<open>
  What the interrupt handlers and the entry and exit paths of
  src/sw/CB_device/lib/safety/CB_Safety.c do to one hart and its bus, by symbolic execution
  of their instruction lists. Every statement covers the complete register file, the CSRs,
  the private block and the trace of device writes of the hart.
\<close>

text \<open>The pulse by which a handler clears its interrupt: acknowledge set, then cleared.\<close>

definition ack_pulse :: "core \<Rightarrow> core" where
  "ack_pulse c =
     c\<lparr>priv := (priv c)(P_HART_INTC_ACK := 0),
       trace := trace c @ [Private_write (private_addr P_HART_INTC_ACK) 1,
                           Private_write (private_addr P_HART_INTC_ACK) 0]\<rparr>"

lemma ack_pulse_simps [simp]:
  "gprs (ack_pulse c) = gprs c" "csrs (ack_pulse c) = csrs c" "get (ack_pulse c) r = get c r"
  by (simp_all add: ack_pulse_def get_def)

section \<open>Handlers\<close>

text \<open>
  C35: \<^verbatim>\<open>handler_safe_fsm\<close> acknowledges its interrupt and is invisible to the interrupted code:
  registers and CSRs are as before, and memory changed only in two words below the stack.
\<close>

theorem handler_safe_fsm_transparent:
  assumes "stack_frame c 4"
  shows "run W handler_safe_fsm (c, s) =
     (ack_pulse c,
      s\<lparr>ram := store32 (store32 (ram s) (get c SP - 4) (get c T5)) (get c SP - 8) (get c T6)\<rparr>)"
  using assms
  by (auto simp: frame_simps ack_pulse_def handler_safe_fsm_def exec_simps mem_simps
      intro!: core_eqI)

theorem handler_safe_fsm_transparent_witness:
  "fst (run csr_plain handler_safe_fsm (sample_core, sample_soc)) = ack_pulse sample_core"
  by (simp add: handler_safe_fsm_transparent [OF sample_frame(2)])

text \<open>
  C21: run by one hart, \<^verbatim>\<open>handler_tmr_recoverysync\<close> writes the hart's state to the stack and reads
  it back, CSRs included: nothing changes but the acknowledge pulse around it, provided a CSR
  accepts the value it holds.
\<close>

theorem handler_tmr_recoverysync_transparent:
  assumes "stack_frame c 40" and "\<And>k. k \<in> set context_csrs \<Longrightarrow> W k (csrs c k) (csrs c k) = csrs c k"
  shows "fst (run W handler_tmr_recoverysync (c, s)) = ack_pulse c"
proof -
  have W: "W MSTATUS (csrs c MSTATUS) (csrs c MSTATUS) = csrs c MSTATUS"
    "W MIE (csrs c MIE) (csrs c MIE) = csrs c MIE"
    "W MTVEC (csrs c MTVEC) (csrs c MTVEC) = csrs c MTVEC"
    "W MEPC (csrs c MEPC) (csrs c MEPC) = csrs c MEPC"
    "W MTVAL (csrs c MTVAL) (csrs c MTVAL) = csrs c MTVAL"
    using assms(2) by (simp_all add: context_csrs_def)
  show ?thesis
    using assms(1)
    by (auto simp: W frame_simps ack_pulse_def handler_tmr_recoverysync_def exec_simps
        mem_simps fun_eq_iff intro!: core_eqI)
qed

theorem handler_tmr_recoverysync_transparent_witness:
  "fst (run csr_plain handler_tmr_recoverysync (sample_core, sample_soc)) = ack_pulse sample_core"
  by (rule handler_tmr_recoverysync_transparent [OF sample_frame(5)]) (simp add: csr_plain_def)



lemma dmcontext_copy_core:
  assumes "stack_frame c 4" and "plain_words (copy_address s) 37"
    and "disjoint_blocks (copy_address s) 148 (get c SP - 16) 16"
  shows "fst (run W handler_tmr_dmcontext_copy (c, s)) =
     put T5 (copy_address s) (put T6 BOOT_OFFSET
       ((ack_pulse c)\<lparr>csrs := (csrs c)(MEPC := W MEPC (csrs c MEPC) BOOT_OFFSET)\<rparr>))"
  using assms exec_SW_private [of _ _ P_HART_INTC_ACK, unfolded private_offset.simps]
  by (auto simp: frame_simps plain_words_numeral blocks_below ack_pulse_def copy_address_def
      handler_tmr_dmcontext_copy_def exec_simps mem_simps intro!: core_eqI)

lemma dmcontext_copy_area:
  assumes "stack_frame c 4" and "plain_words (copy_address s) 37"
    and "disjoint_blocks (copy_address s) 148 (get c SP - 16) 16"
  shows "context_of (ram (snd (run W handler_tmr_dmcontext_copy (c, s)))) (copy_address s) =
     context_image ((put T5 (copy_address s) (put T6 BOOT_OFFSET c))
       \<lparr>csrs := (csrs c)(MSTATUS := csrs c MSTATUS OR 8)\<rparr>) BOOT_OFFSET"
  using assms exec_SW_private [of _ _ P_HART_INTC_ACK, unfolded private_offset.simps]
  by (simp add: frame_simps area_simps copy_address_def handler_tmr_dmcontext_copy_def
      exec_simps mem_simps)

text \<open>
  C36: \<^verbatim>\<open>handler_tmr_dmcontext_copy\<close> leaves in the safe copy the interrupted context, with
  interrupts enabled in the \<^verbatim>\<open>mstatus\<close> image and the boot ROM as resume address, and redirects
  \<^verbatim>\<open>mepc\<close> to the boot ROM. It is not transparent: the slots of t5 and t6, and the registers
  themselves, end as the address of the safe copy and \<^verbatim>\<open>BOOT_OFFSET\<close>.
\<close>

theorem handler_tmr_dmcontext_copy_effect:
  assumes "stack_frame c 4" and "plain_words (copy_address s) 37"
    and "disjoint_blocks (copy_address s) 148 (get c SP - 16) 16"
  shows "let (c', s') = run W handler_tmr_dmcontext_copy (c, s);
             d = put T5 (copy_address s) (put T6 BOOT_OFFSET c)
         in context_of (ram s') (copy_address s) =
              context_image (d\<lparr>csrs := (csrs c)(MSTATUS := csrs c MSTATUS OR 8)\<rparr>) BOOT_OFFSET
          \<and> gprs c' = gprs d
          \<and> csrs c' = (csrs c)(MEPC := W MEPC (csrs c MEPC) BOOT_OFFSET)"
  using dmcontext_copy_core [OF assms, of W] dmcontext_copy_area [OF assms, of W]
  by (simp add: case_prod_beta Let_def put_def)

theorem handler_tmr_dmcontext_copy_effect_witness:
  "gprs (fst (run csr_plain handler_tmr_dmcontext_copy (sample_core, sample_soc))) T5 = 0x19029000"
  using handler_tmr_dmcontext_copy_effect [OF sample_frame(2) sample_area(1,2), of csr_plain]
  by (simp add: case_prod_beta Let_def put_def copy_address_def sample_soc_def)

section \<open>Entering and leaving safe mode\<close>

text \<open>
  What a sleep in \<^verbatim>\<open>wfi\<close> must keep for the code after it: the registers of the hart and the
  words above its stack pointer. The handlers that end the sleep are transparent in that way.
\<close>

definition wake_keeps_frame :: "(machine \<Rightarrow> machine) \<Rightarrow> bool" where
  "wake_keeps_frame wake \<longleftrightarrow>
     (\<forall>m r. get (fst (wake m)) r = get (fst m) r)
     \<and> (\<forall>m i. i \<le> 12 \<longrightarrow> load32 (ram (snd (wake m))) (get (fst m) SP + i) =
                       load32 (ram (snd m)) (get (fst m) SP + i))"

definition activate_pending :: "csr_warl \<Rightarrow> u32 \<Rightarrow> machine \<Rightarrow> machine" where
  "activate_pending W sync_pc m =
     run W (Safe_Activate_save @ Safe_Activate_sync sync_pc) (run W Safe_Activate_entry m)"

lemma Safe_Activate_returns_at_once:
  assumes "stack_frame c 4" and "wrapper s W_SAFE_CONFIGURATION AND 3 \<noteq> 0"
  shows "Safe_Activate W wake sync_pc (c, s) =
     (c, s\<lparr>ram := store32 (store32 (ram s) (get c SP - 4) (get c T5)) (get c SP - 8) (get c T6)\<rparr>)"
  using assms
  by (auto simp: Safe_Activate_def Safe_Activate_entry_def Safe_Activate_exit_def Let_def
      frame_simps exec_simps mem_simps intro!: core_eqI)

text \<open>
  C27: called in a safe mode, \<^verbatim>\<open>Safe_Activate\<close> returns at once: the hart is as before, whatever
  \<open>wake\<close> would do, and only two words below the stack were written.
\<close>

theorem Safe_Activate_configured:
  assumes "stack_frame c 4" and "wrapper s W_SAFE_CONFIGURATION AND 3 \<noteq> 0"
  shows "Safe_Activate W wake sync_pc (c, s) =
     (c, s\<lparr>ram := store32 (store32 (ram s) (get c SP - 4) (get c T5)) (get c SP - 8) (get c T6)\<rparr>)"
  by (rule Safe_Activate_returns_at_once [OF assms])

theorem Safe_Activate_configured_witness:
  "fst (Safe_Activate csr_plain id 0
     (sample_core, sample_soc\<lparr>wrapper := (\<lambda>_. TCLS_MODE)\<rparr>)) = sample_core"
  by (simp add: Safe_Activate_configured [OF sample_frame(2)] platform_simps)

lemma activate_pending_area:
  assumes "stack_frame c 4" and "wrapper s W_SAFE_CONFIGURATION AND 3 = 0"
    and "plain_words (copy_address s) 37"
    and "disjoint_blocks (copy_address s) 148 (get c SP - 16) 16"
  shows "context_of (ram (snd (activate_pending W sync_pc (c, s)))) (copy_address s) =
     context_image (put T5 (copy_address s) (put SP (get c SP - 16) c)) sync_pc"
  using assms
  by (simp add: activate_pending_def Safe_Activate_entry_def Safe_Activate_save_def
      Safe_Activate_sync_def frame_simps area_simps copy_address_def exec_simps mem_simps)

lemma activate_pending_device:
  assumes "stack_frame c 4" and "wrapper s W_SAFE_CONFIGURATION AND 3 = 0"
    and "plain_words (copy_address s) 37"
    and "disjoint_blocks (copy_address s) 148 (get c SP - 16) 16"
  shows "let (c', s') = activate_pending W sync_pc (c, s)
         in wrapper s' = (wrapper s)(W_SAFE_CONFIGURATION := get c A0 AND 3,
                                     W_INITIAL_SYNC_MASTER := 1)
          \<and> trace c' = trace c @
              [Wrapper_write (wrapper_addr W_SAFE_CONFIGURATION) (get c A0),
               Wrapper_write (wrapper_addr W_INITIAL_SYNC_MASTER) 1, Fence, Wait_for_interrupt]
          \<and> (\<forall>r. get c' r = get (put T5 (copy_address s) (put T6 sync_pc (put SP (get c SP - 16) c))) r)
          \<and> load32 (ram s') (get c SP - 4) = copy_address s
          \<and> load32 (ram s') (get c SP - 8) = get c T6"
  using assms
  by (simp add: activate_pending_def Safe_Activate_entry_def Safe_Activate_save_def
      Safe_Activate_sync_def frame_simps area_simps copy_address_def exec_simps mem_simps)

text \<open>
  C24: called in single mode, \<^verbatim>\<open>Safe_Activate\<close> goes to sleep with the caller's context in the
  safe copy (its stack pointer inside the frame, and the address of the copy in the slot of
  t5), the requested mode and the synchronisation request in the wrapper, in this order.
\<close>

theorem Safe_Activate_publishes_context:
  assumes "stack_frame c 4" and "wrapper s W_SAFE_CONFIGURATION AND 3 = 0"
    and "plain_words (copy_address s) 37"
    and "disjoint_blocks (copy_address s) 148 (get c SP - 16) 16"
  shows "let (c', s') = activate_pending W sync_pc (c, s)
         in context_of (ram s') (copy_address s) =
              context_image (put T5 (copy_address s) (put SP (get c SP - 16) c)) sync_pc
          \<and> wrapper s' = (wrapper s)(W_SAFE_CONFIGURATION := get c A0 AND 3,
                                     W_INITIAL_SYNC_MASTER := 1)
          \<and> trace c' = trace c @
              [Wrapper_write (wrapper_addr W_SAFE_CONFIGURATION) (get c A0),
               Wrapper_write (wrapper_addr W_INITIAL_SYNC_MASTER) 1, Fence, Wait_for_interrupt]"
  using activate_pending_area [OF assms, of W sync_pc] activate_pending_device [OF assms, of W sync_pc]
  by (simp add: case_prod_beta Let_def)

theorem Safe_Activate_publishes_context_witness:
  "wrapper (snd (activate_pending csr_plain 0x200 (sample_core, sample_soc))) W_SAFE_CONFIGURATION = 1"
  using Safe_Activate_publishes_context
    [OF sample_frame(2) _ sample_area(1,2), of csr_plain "0x200"]
  by (simp add: case_prod_beta Let_def sample_values)

lemma Safe_Activate_resumed:
  assumes "wake_keeps_frame wake" and "stack_frame c 4"
    and "wrapper s W_SAFE_CONFIGURATION AND 3 = 0"
    and "plain_words (copy_address s) 37"
    and "disjoint_blocks (copy_address s) 148 (get c SP - 16) 16"
  shows "Safe_Activate W wake sync_pc (c, s) =
     run W Safe_Activate_exit
       (run W Safe_Activate_reset (wake (activate_pending W sync_pc (c, s))))"
  using assms(2-5)
  by (simp add: Safe_Activate_def activate_pending_def Safe_Activate_entry_def Let_def
      frame_simps exec_simps mem_simps)

text \<open>
  C25: when the hart wakes up and the call returns, the synchronisation request and the
  interrupt are cleared, and every register of the caller is back except t5: its stack slot
  was reused for the address of the safe copy, and that is what the caller finds in it.
\<close>

theorem Safe_Activate_returns:
  assumes "wake_keeps_frame wake" and "stack_frame c 4"
    and "wrapper s W_SAFE_CONFIGURATION AND 3 = 0"
    and "plain_words (copy_address s) 37"
    and "disjoint_blocks (copy_address s) 148 (get c SP - 16) 16"
  shows "let (c', s') = Safe_Activate W wake sync_pc (c, s)
         in (\<forall>r. get c' r = (if r = T5 then copy_address s else get c r))
          \<and> wrapper s' W_INITIAL_SYNC_MASTER = 0 \<and> priv c' P_HART_INTC_ACK = 0"
proof -
  define p where "p = activate_pending W sync_pc (c, s)"
  obtain d t where w: "wake p = (d, t)" by (cases "wake p")
  note dev = activate_pending_device [OF assms(2-5), of W sync_pc, folded p_def]
  have r: "get d r = get (fst p) r" for r
    using assms(1) unfolding wake_keeps_frame_def by (metis w fst_conv)
  have l: "load32 (ram t) (get (fst p) SP + i) = load32 (ram (snd p)) (get (fst p) SP + i)"
    if "i \<le> 12" for i
    using assms(1) that unfolding wake_keeps_frame_def by (metis w snd_conv)
  have q: "get (fst p) r' = get (put T5 (copy_address s) (put T6 sync_pc (put SP (get c SP - 16) c))) r'"
    and m: "load32 (ram (snd p)) (get c SP - 4) = copy_address s"
      "load32 (ram (snd p)) (get c SP - 8) = get c T6" for r'
    using dev unfolding case_prod_beta Let_def by blast+
  have g: "get d r' = get (put T5 (copy_address s) (put T6 sync_pc (put SP (get c SP - 16) c))) r'" for r'
    by (simp only: r q)
  have sp: "get (fst p) SP = get c SP - 16"
    by (simp add: q get_put)
  have f: "load32 (ram t) (get c SP - 4) = copy_address s" "load32 (ram t) (get c SP - 8) = get c T6"
    using l [of 12] l [of 8] m by (simp_all add: sp)
  show ?thesis
    unfolding Safe_Activate_resumed [OF assms] p_def [symmetric] w
    using assms(2) f
    by (simp add: g Safe_Activate_reset_def Safe_Activate_exit_def frame_simps exec_simps mem_simps)
qed

theorem Safe_Activate_returns_witness:
  "get (fst (Safe_Activate csr_plain id 0x200 (sample_core, sample_soc))) T5 = 0x19029000
   \<and> get sample_core T5 = 1"
proof -
  have "wake_keeps_frame id"
    by (simp add: wake_keeps_frame_def)
  from Safe_Activate_returns [OF this sample_frame(2) _ sample_area(1,2), of csr_plain "0x200"]
  show ?thesis
    by (simp add: case_prod_beta Let_def sample_values)
qed

lemma exit_spin_None: "exit_spin W m = None"
proof -
  have "exit_spin W m = Some y \<Longrightarrow> False" for y
    by (rule exit_spin.raw_induct [where P = "\<lambda>_ _ _. False"]) blast+
  then show ?thesis by (cases "exit_spin W m") auto
qed

lemma Safe_Stop_machine:
  "Safe_Stop W wake master (c, s) =
     (if wrapper s W_SAFE_CONFIGURATION AND 3 = 0 then (c, s)
      else
        let critical = (wrapper s W_CRITICAL_SECTION AND 1 = 1)
        in wake
          (c\<lparr>trace := trace c
               @ (if critical then [Wrapper_write (wrapper_addr W_CRITICAL_SECTION) 0] else [])
               @ [Wrapper_write (wrapper_addr W_MASTER_CORE) master,
                  Wrapper_write (wrapper_addr W_SAFE_CONFIGURATION) 0,
                  Fence, Wait_for_interrupt]\<rparr>,
           s\<lparr>wrapper := (if critical then (wrapper s)(W_CRITICAL_SECTION := 0) else wrapper s)
               (W_MASTER_CORE := master AND 7, W_SAFE_CONFIGURATION := 0)\<rparr>))"
proof -
  have addr: "SAFE_WRAPPER_CTRL_BASEADDRESS = wrapper_addr W_SAFE_CONFIGURATION"
    "wrapper_addr W_SAFE_CONFIGURATION + 3 * 4 = wrapper_addr W_CRITICAL_SECTION"
    "wrapper_addr W_SAFE_CONFIGURATION + 2 * 4 = wrapper_addr W_MASTER_CORE"
    "wrapper_addr W_SAFE_CONFIGURATION OR wrapper_offset W_CRITICAL_SECTION =
       wrapper_addr W_CRITICAL_SECTION"
    by (simp_all add: wrapper_addr_def platform_simps wrapper_offset.simps)
  have two: "x AND 3 = 1 \<or> x AND 3 = 2 \<or> x AND 3 = 3 \<longleftrightarrow> x AND 3 \<noteq> 0" for x :: u32
  proof -
    have "y = 0 \<or> y = 1 \<or> y = 2 \<or> y = 3" if "y \<le> 3" for y :: u32
      using that by (auto simp: word_le_nat_alt word_unat_eq_iff)
    from this [OF word_and_le1] show ?thesis by auto
  qed
  have rw: "wrapper_sw_rw W_SAFE_CONFIGURATION" "wrapper_sw_rw W_MASTER_CORE"
    "wrapper_sw_rw W_CRITICAL_SECTION"
    by (simp_all add: wrapper_sw_rw_def)
  have nop: "exec W NOP m = m" for m
    by (cases m) (simp add: exec_no_access)
  show ?thesis
    unfolding Safe_Stop_def Set_Critical_Section_def Let_def addr
    by (simp add: load_word_wrapper store_word_wrapper block_masks rw exec_simps two
        NONE_CRITICAL_SECTION_def nop emit_def split: prod.splits)
qed

text \<open>
  C28: \<^verbatim>\<open>Safe_Stop\<close> does nothing in single mode. In a safe mode it leaves the critical section if
  the hart is in one, then selects the master and clears the mode, in this order, and sleeps.
\<close>

theorem Safe_Stop_effect:
  "Safe_Stop W wake master (c, s) =
     (if wrapper s W_SAFE_CONFIGURATION AND 3 = 0 then (c, s)
      else
        let critical = (wrapper s W_CRITICAL_SECTION AND 1 = 1)
        in wake
          (c\<lparr>trace := trace c
               @ (if critical then [Wrapper_write (wrapper_addr W_CRITICAL_SECTION) 0] else [])
               @ [Wrapper_write (wrapper_addr W_MASTER_CORE) master,
                  Wrapper_write (wrapper_addr W_SAFE_CONFIGURATION) 0,
                  Fence, Wait_for_interrupt]\<rparr>,
           s\<lparr>wrapper := (if critical then (wrapper s)(W_CRITICAL_SECTION := 0) else wrapper s)
               (W_MASTER_CORE := master AND 7, W_SAFE_CONFIGURATION := 0)\<rparr>))"
  by (rule Safe_Stop_machine)

text \<open>
  C39: \<^verbatim>\<open>_exit\<close> signals the end of the routine, sleeps, and never returns, however the hart is
  woken up.
\<close>

theorem exit_never_returns:
  "exit_fn W wake (c, s) = None
   \<and> exit_request W (c, s) =
      (c\<lparr>trace := trace c @ [Wrapper_write (wrapper_addr W_END_SW_ROUTINE) 1, Fence, Wait_for_interrupt]\<rparr>,
       s\<lparr>wrapper := (wrapper s)(W_END_SW_ROUTINE := 1)\<rparr>)"
proof -
  have addr: "SAFE_WRAPPER_CTRL_BASEADDRESS OR wrapper_offset W_END_SW_ROUTINE =
      wrapper_addr W_END_SW_ROUTINE"
    by (simp add: wrapper_addr_def)
  have rw: "wrapper_sw_rw W_END_SW_ROUTINE" by (simp add: wrapper_sw_rw_def)
  show ?thesis
    unfolding exit_fn_def exit_request_def addr
    by (simp add: exit_spin_None store_word_wrapper block_masks rw exec_simps emit_def)
qed

section \<open>Register-file dump\<close>

lemma dump_offsets:
  "words m p 31 =
     [load32 m p, load32 m (p + 4), load32 m (p + 8), load32 m (p + 12), load32 m (p + 16),
      load32 m (p + 20), load32 m (p + 24), load32 m (p + 28), load32 m (p + 32),
      load32 m (p + 36), load32 m (p + 40), load32 m (p + 44), load32 m (p + 48),
      load32 m (p + 52), load32 m (p + 56), load32 m (p + 60), load32 m (p + 64),
      load32 m (p + 68), load32 m (p + 72), load32 m (p + 76), load32 m (p + 80),
      load32 m (p + 84), load32 m (p + 88), load32 m (p + 92), load32 m (p + 96),
      load32 m (p + 100), load32 m (p + 104), load32 m (p + 108), load32 m (p + 112),
      load32 m (p + 116), load32 m (p + 120)]"
  by (simp add: words_numeral add.assoc)

text \<open>
  C38: \<^verbatim>\<open>Check_RF\<close> dumps x1 and x3 to x31 at \<^verbatim>\<open>CHECK_RAM_ADDRESS\<close>, but not the stack pointer: its
  slot keeps what memory held, and a4 and a5 appear in the dump, and in the registers after
  it, with the values of t5 and t6.
\<close>

theorem Check_RF_dump:
  assumes "stack_frame c 5" and "disjoint_blocks CHECK_RAM_ADDRESS 124 (get c SP - 20) 20"
  shows "let d = put A4 (get c T5) (put A5 (get c T6) c); (c', s') = run W Check_RF (c, s)
         in words (ram s') CHECK_RAM_ADDRESS 31 =
              get d RA # load32 (ram s) (CHECK_RAM_ADDRESS + 4) # map (get d) (drop 2 context_gprs)
          \<and> (\<forall>r. get c' r = get d r)"
proof -
  have p: "plain CHECK_RAM_ADDRESS"
    "plain (CHECK_RAM_ADDRESS + i)" if "i \<le> 120" for i
  proof -
    have "CHECK_RAM_ADDRESS \<le> CHECK_RAM_ADDRESS + i"
      using that unfolding CHECK_RAM_ADDRESS_def by (unat_arith, simp)
    then show "plain (CHECK_RAM_ADDRESS + i)"
      by (auto simp: plain_def is_private_def is_wrapper_def CHECK_RAM_ADDRESS_def
          dest: order.strict_trans1)
  qed (simp add: plain_def is_private_def is_wrapper_def CHECK_RAM_ADDRESS_def)
  show ?thesis
    using assms p(1)[of 0]
    by (simp add: Let_def case_prod_beta Check_RF_def frame_simps exec_simps mem_simps p
        blocks_below dump_offsets context_gprs_def)
qed

theorem Check_RF_dump_witness:
  "get sample_core SP = 0x19030000
   \<and> words (ram (snd (run csr_plain Check_RF (sample_core, sample_soc)))) CHECK_RAM_ADDRESS 31 ! 1
     = load32 (ram sample_soc) 0xF002B004"
proof -
  have "disjoint_blocks CHECK_RAM_ADDRESS 124 (get sample_core SP - 20) 20"
    by (simp add: disjoint_blocks_def sample_values CHECK_RAM_ADDRESS_def)
  from Check_RF_dump [OF sample_frame(3) this, of csr_plain sample_soc] show ?thesis
    by (simp add: case_prod_beta Let_def sample_values CHECK_RAM_ADDRESS_def)
qed

end
