(* ===== verification/RISCV_Encoding.thy ===== *)
theory RISCV_Encoding
  imports RV_Hart
begin

text \<open>
  The encoding tables of src/ip/CB_boot_rom/encoding.h, the header the boot ROM is assembled
  with: for every instruction its \<^verbatim>\<open>MATCH_\<close> and \<^verbatim>\<open>MASK_\<close> words, the addresses of the control and
  status registers, and the exception causes. \<open>find_insn\<close> is the test the header is written
  for, \<open>(w & MASK) == MATCH\<close>; the field functions cut the operands out of an instruction
  word as the RISC-V base formats lay them out.
\<close>

type_synonym insn_table = "(string \<times> u32 \<times> u32) list"

section \<open>Instructions\<close>

text \<open>Integer instructions and their multiply and divide extension.\<close>

definition insns_integer :: "insn_table" where
  "insns_integer =
     [(''BEQ'', 0x63, 0x707f), (''BNE'', 0x1063, 0x707f), (''BLT'', 0x4063, 0x707f),
      (''BGE'', 0x5063, 0x707f), (''BLTU'', 0x6063, 0x707f), (''BGEU'', 0x7063, 0x707f),
      (''JALR'', 0x67, 0x707f), (''JAL'', 0x6f, 0x7f), (''LUI'', 0x37, 0x7f),
      (''AUIPC'', 0x17, 0x7f), (''ADDI'', 0x13, 0x707f), (''SLLI'', 0x1013, 0xfc00707f),
      (''SLTI'', 0x2013, 0x707f), (''SLTIU'', 0x3013, 0x707f), (''XORI'', 0x4013, 0x707f),
      (''SRLI'', 0x5013, 0xfc00707f), (''SRAI'', 0x40005013, 0xfc00707f),
      (''ORI'', 0x6013, 0x707f), (''ANDI'', 0x7013, 0x707f), (''ADD'', 0x33, 0xfe00707f),
      (''SUB'', 0x40000033, 0xfe00707f), (''SLL'', 0x1033, 0xfe00707f),
      (''SLT'', 0x2033, 0xfe00707f), (''SLTU'', 0x3033, 0xfe00707f),
      (''XOR'', 0x4033, 0xfe00707f), (''SRL'', 0x5033, 0xfe00707f),
      (''SRA'', 0x40005033, 0xfe00707f), (''OR'', 0x6033, 0xfe00707f),
      (''AND'', 0x7033, 0xfe00707f), (''ADDIW'', 0x1b, 0x707f),
      (''SLLIW'', 0x101b, 0xfe00707f), (''SRLIW'', 0x501b, 0xfe00707f),
      (''SRAIW'', 0x4000501b, 0xfe00707f), (''ADDW'', 0x3b, 0xfe00707f),
      (''SUBW'', 0x4000003b, 0xfe00707f), (''SLLW'', 0x103b, 0xfe00707f),
      (''SRLW'', 0x503b, 0xfe00707f), (''SRAW'', 0x4000503b, 0xfe00707f),
      (''LB'', 0x3, 0x707f), (''LH'', 0x1003, 0x707f), (''LW'', 0x2003, 0x707f),
      (''LD'', 0x3003, 0x707f), (''LBU'', 0x4003, 0x707f), (''LHU'', 0x5003, 0x707f),
      (''LWU'', 0x6003, 0x707f), (''SB'', 0x23, 0x707f), (''SH'', 0x1023, 0x707f),
      (''SW'', 0x2023, 0x707f), (''SD'', 0x3023, 0x707f), (''FENCE'', 0xf, 0x707f),
      (''FENCE_I'', 0x100f, 0x707f), (''MUL'', 0x2000033, 0xfe00707f),
      (''MULH'', 0x2001033, 0xfe00707f), (''MULHSU'', 0x2002033, 0xfe00707f),
      (''MULHU'', 0x2003033, 0xfe00707f), (''DIV'', 0x2004033, 0xfe00707f),
      (''DIVU'', 0x2005033, 0xfe00707f), (''REM'', 0x2006033, 0xfe00707f),
      (''REMU'', 0x2007033, 0xfe00707f), (''MULW'', 0x200003b, 0xfe00707f),
      (''DIVW'', 0x200403b, 0xfe00707f), (''DIVUW'', 0x200503b, 0xfe00707f),
      (''REMW'', 0x200603b, 0xfe00707f), (''REMUW'', 0x200703b, 0xfe00707f)]"

text \<open>Atomic memory operations, environment calls and CSR accesses.\<close>

definition insns_atomic :: "insn_table" where
  "insns_atomic =
     [(''AMOADD_W'', 0x202f, 0xf800707f), (''AMOXOR_W'', 0x2000202f, 0xf800707f),
      (''AMOOR_W'', 0x4000202f, 0xf800707f), (''AMOAND_W'', 0x6000202f, 0xf800707f),
      (''AMOMIN_W'', 0x8000202f, 0xf800707f), (''AMOMAX_W'', 0xa000202f, 0xf800707f),
      (''AMOMINU_W'', 0xc000202f, 0xf800707f), (''AMOMAXU_W'', 0xe000202f, 0xf800707f),
      (''AMOSWAP_W'', 0x800202f, 0xf800707f), (''LR_W'', 0x1000202f, 0xf9f0707f),
      (''SC_W'', 0x1800202f, 0xf800707f), (''AMOADD_D'', 0x302f, 0xf800707f),
      (''AMOXOR_D'', 0x2000302f, 0xf800707f), (''AMOOR_D'', 0x4000302f, 0xf800707f),
      (''AMOAND_D'', 0x6000302f, 0xf800707f), (''AMOMIN_D'', 0x8000302f, 0xf800707f),
      (''AMOMAX_D'', 0xa000302f, 0xf800707f), (''AMOMINU_D'', 0xc000302f, 0xf800707f),
      (''AMOMAXU_D'', 0xe000302f, 0xf800707f), (''AMOSWAP_D'', 0x800302f, 0xf800707f),
      (''LR_D'', 0x1000302f, 0xf9f0707f), (''SC_D'', 0x1800302f, 0xf800707f)]"

definition insns_system :: "insn_table" where
  "insns_system =
     [(''ECALL'', 0x73, 0xffffffff), (''EBREAK'', 0x100073, 0xffffffff),
      (''URET'', 0x200073, 0xffffffff), (''SRET'', 0x10200073, 0xffffffff),
      (''MRET'', 0x30200073, 0xffffffff), (''DRET'', 0x7b200073, 0xffffffff),
      (''SFENCE_VMA'', 0x12000073, 0xfe007fff), (''WFI'', 0x10500073, 0xffffffff),
      (''CSRRW'', 0x1073, 0x707f), (''CSRRS'', 0x2073, 0x707f), (''CSRRC'', 0x3073, 0x707f),
      (''CSRRWI'', 0x5073, 0x707f), (''CSRRSI'', 0x6073, 0x707f), (''CSRRCI'', 0x7073, 0x707f)]"

text \<open>Floating point: arithmetic, then comparisons and conversions, then memory and fused.\<close>

definition insns_float_arith :: "insn_table" where
  "insns_float_arith =
     [(''FADD_S'', 0x53, 0xfe00007f), (''FSUB_S'', 0x8000053, 0xfe00007f),
      (''FMUL_S'', 0x10000053, 0xfe00007f), (''FDIV_S'', 0x18000053, 0xfe00007f),
      (''FSGNJ_S'', 0x20000053, 0xfe00707f), (''FSGNJN_S'', 0x20001053, 0xfe00707f),
      (''FSGNJX_S'', 0x20002053, 0xfe00707f), (''FMIN_S'', 0x28000053, 0xfe00707f),
      (''FMAX_S'', 0x28001053, 0xfe00707f), (''FSQRT_S'', 0x58000053, 0xfff0007f),
      (''FADD_D'', 0x2000053, 0xfe00007f), (''FSUB_D'', 0xa000053, 0xfe00007f),
      (''FMUL_D'', 0x12000053, 0xfe00007f), (''FDIV_D'', 0x1a000053, 0xfe00007f),
      (''FSGNJ_D'', 0x22000053, 0xfe00707f), (''FSGNJN_D'', 0x22001053, 0xfe00707f),
      (''FSGNJX_D'', 0x22002053, 0xfe00707f), (''FMIN_D'', 0x2a000053, 0xfe00707f),
      (''FMAX_D'', 0x2a001053, 0xfe00707f), (''FCVT_S_D'', 0x40100053, 0xfff0007f),
      (''FCVT_D_S'', 0x42000053, 0xfff0007f), (''FSQRT_D'', 0x5a000053, 0xfff0007f),
      (''FADD_Q'', 0x6000053, 0xfe00007f), (''FSUB_Q'', 0xe000053, 0xfe00007f),
      (''FMUL_Q'', 0x16000053, 0xfe00007f), (''FDIV_Q'', 0x1e000053, 0xfe00007f),
      (''FSGNJ_Q'', 0x26000053, 0xfe00707f), (''FSGNJN_Q'', 0x26001053, 0xfe00707f),
      (''FSGNJX_Q'', 0x26002053, 0xfe00707f), (''FMIN_Q'', 0x2e000053, 0xfe00707f),
      (''FMAX_Q'', 0x2e001053, 0xfe00707f), (''FCVT_S_Q'', 0x40300053, 0xfff0007f),
      (''FCVT_Q_S'', 0x46000053, 0xfff0007f), (''FCVT_D_Q'', 0x42300053, 0xfff0007f),
      (''FCVT_Q_D'', 0x46100053, 0xfff0007f), (''FSQRT_Q'', 0x5e000053, 0xfff0007f)]"

definition insns_float_convert :: "insn_table" where
  "insns_float_convert =
     [(''FLE_S'', 0xa0000053, 0xfe00707f), (''FLT_S'', 0xa0001053, 0xfe00707f),
      (''FEQ_S'', 0xa0002053, 0xfe00707f), (''FLE_D'', 0xa2000053, 0xfe00707f),
      (''FLT_D'', 0xa2001053, 0xfe00707f), (''FEQ_D'', 0xa2002053, 0xfe00707f),
      (''FLE_Q'', 0xa6000053, 0xfe00707f), (''FLT_Q'', 0xa6001053, 0xfe00707f),
      (''FEQ_Q'', 0xa6002053, 0xfe00707f), (''FCVT_W_S'', 0xc0000053, 0xfff0007f),
      (''FCVT_WU_S'', 0xc0100053, 0xfff0007f), (''FCVT_L_S'', 0xc0200053, 0xfff0007f),
      (''FCVT_LU_S'', 0xc0300053, 0xfff0007f), (''FMV_X_W'', 0xe0000053, 0xfff0707f),
      (''FCLASS_S'', 0xe0001053, 0xfff0707f), (''FCVT_W_D'', 0xc2000053, 0xfff0007f),
      (''FCVT_WU_D'', 0xc2100053, 0xfff0007f), (''FCVT_L_D'', 0xc2200053, 0xfff0007f),
      (''FCVT_LU_D'', 0xc2300053, 0xfff0007f), (''FMV_X_D'', 0xe2000053, 0xfff0707f),
      (''FCLASS_D'', 0xe2001053, 0xfff0707f), (''FCVT_W_Q'', 0xc6000053, 0xfff0007f),
      (''FCVT_WU_Q'', 0xc6100053, 0xfff0007f), (''FCVT_L_Q'', 0xc6200053, 0xfff0007f),
      (''FCVT_LU_Q'', 0xc6300053, 0xfff0007f), (''FMV_X_Q'', 0xe6000053, 0xfff0707f),
      (''FCLASS_Q'', 0xe6001053, 0xfff0707f), (''FCVT_S_W'', 0xd0000053, 0xfff0007f),
      (''FCVT_S_WU'', 0xd0100053, 0xfff0007f), (''FCVT_S_L'', 0xd0200053, 0xfff0007f),
      (''FCVT_S_LU'', 0xd0300053, 0xfff0007f), (''FMV_W_X'', 0xf0000053, 0xfff0707f),
      (''FCVT_D_W'', 0xd2000053, 0xfff0007f), (''FCVT_D_WU'', 0xd2100053, 0xfff0007f),
      (''FCVT_D_L'', 0xd2200053, 0xfff0007f), (''FCVT_D_LU'', 0xd2300053, 0xfff0007f),
      (''FMV_D_X'', 0xf2000053, 0xfff0707f), (''FCVT_Q_W'', 0xd6000053, 0xfff0007f),
      (''FCVT_Q_WU'', 0xd6100053, 0xfff0007f), (''FCVT_Q_L'', 0xd6200053, 0xfff0007f),
      (''FCVT_Q_LU'', 0xd6300053, 0xfff0007f), (''FMV_Q_X'', 0xf6000053, 0xfff0707f)]"

definition insns_float_memory :: "insn_table" where
  "insns_float_memory =
     [(''FLW'', 0x2007, 0x707f), (''FLD'', 0x3007, 0x707f), (''FLQ'', 0x4007, 0x707f),
      (''FSW'', 0x2027, 0x707f), (''FSD'', 0x3027, 0x707f), (''FSQ'', 0x4027, 0x707f),
      (''FMADD_S'', 0x43, 0x600007f), (''FMSUB_S'', 0x47, 0x600007f),
      (''FNMSUB_S'', 0x4b, 0x600007f), (''FNMADD_S'', 0x4f, 0x600007f),
      (''FMADD_D'', 0x2000043, 0x600007f), (''FMSUB_D'', 0x2000047, 0x600007f),
      (''FNMSUB_D'', 0x200004b, 0x600007f), (''FNMADD_D'', 0x200004f, 0x600007f),
      (''FMADD_Q'', 0x6000043, 0x600007f), (''FMSUB_Q'', 0x6000047, 0x600007f),
      (''FNMSUB_Q'', 0x600004b, 0x600007f), (''FNMADD_Q'', 0x600004f, 0x600007f)]"

text \<open>The 16-bit compressed instructions, and the four custom opcodes.\<close>

definition insns_compressed :: "insn_table" where
  "insns_compressed =
     [(''C_NOP'', 0x1, 0xffff), (''C_ADDI16SP'', 0x6101, 0xef83), (''C_JR'', 0x8002, 0xf07f),
      (''C_JALR'', 0x9002, 0xf07f), (''C_EBREAK'', 0x9002, 0xffff), (''C_LD'', 0x6000, 0xe003),
      (''C_SD'', 0xe000, 0xe003), (''C_ADDIW'', 0x2001, 0xe003), (''C_LDSP'', 0x6002, 0xe003),
      (''C_SDSP'', 0xe002, 0xe003), (''C_ADDI4SPN'', 0x0, 0xe003), (''C_FLD'', 0x2000, 0xe003),
      (''C_LW'', 0x4000, 0xe003), (''C_FLW'', 0x6000, 0xe003), (''C_FSD'', 0xa000, 0xe003),
      (''C_SW'', 0xc000, 0xe003), (''C_FSW'', 0xe000, 0xe003), (''C_ADDI'', 0x1, 0xe003),
      (''C_JAL'', 0x2001, 0xe003), (''C_LI'', 0x4001, 0xe003), (''C_LUI'', 0x6001, 0xe003),
      (''C_SRLI'', 0x8001, 0xec03), (''C_SRAI'', 0x8401, 0xec03), (''C_ANDI'', 0x8801, 0xec03),
      (''C_SUB'', 0x8c01, 0xfc63), (''C_XOR'', 0x8c21, 0xfc63), (''C_OR'', 0x8c41, 0xfc63),
      (''C_AND'', 0x8c61, 0xfc63), (''C_SUBW'', 0x9c01, 0xfc63), (''C_ADDW'', 0x9c21, 0xfc63),
      (''C_J'', 0xa001, 0xe003), (''C_BEQZ'', 0xc001, 0xe003), (''C_BNEZ'', 0xe001, 0xe003),
      (''C_SLLI'', 0x2, 0xe003), (''C_FLDSP'', 0x2002, 0xe003), (''C_LWSP'', 0x4002, 0xe003),
      (''C_FLWSP'', 0x6002, 0xe003), (''C_MV'', 0x8002, 0xf003), (''C_ADD'', 0x9002, 0xf003),
      (''C_FSDSP'', 0xa002, 0xe003), (''C_SWSP'', 0xc002, 0xe003),
      (''C_FSWSP'', 0xe002, 0xe003)]"

definition insns_custom :: "insn_table" where
  "insns_custom =
     [(''CUSTOM0'', 0xb, 0x707f), (''CUSTOM0_RS1'', 0x200b, 0x707f),
      (''CUSTOM0_RS1_RS2'', 0x300b, 0x707f), (''CUSTOM0_RD'', 0x400b, 0x707f),
      (''CUSTOM0_RD_RS1'', 0x600b, 0x707f), (''CUSTOM0_RD_RS1_RS2'', 0x700b, 0x707f),
      (''CUSTOM1'', 0x2b, 0x707f), (''CUSTOM1_RS1'', 0x202b, 0x707f),
      (''CUSTOM1_RS1_RS2'', 0x302b, 0x707f), (''CUSTOM1_RD'', 0x402b, 0x707f),
      (''CUSTOM1_RD_RS1'', 0x602b, 0x707f), (''CUSTOM1_RD_RS1_RS2'', 0x702b, 0x707f),
      (''CUSTOM2'', 0x5b, 0x707f), (''CUSTOM2_RS1'', 0x205b, 0x707f),
      (''CUSTOM2_RS1_RS2'', 0x305b, 0x707f), (''CUSTOM2_RD'', 0x405b, 0x707f),
      (''CUSTOM2_RD_RS1'', 0x605b, 0x707f), (''CUSTOM2_RD_RS1_RS2'', 0x705b, 0x707f),
      (''CUSTOM3'', 0x7b, 0x707f), (''CUSTOM3_RS1'', 0x207b, 0x707f),
      (''CUSTOM3_RS1_RS2'', 0x307b, 0x707f), (''CUSTOM3_RD'', 0x407b, 0x707f),
      (''CUSTOM3_RD_RS1'', 0x607b, 0x707f), (''CUSTOM3_RD_RS1_RS2'', 0x707b, 0x707f)]"

section \<open>Control and status registers, causes\<close>

text \<open>Floating-point status and the user counters.\<close>

definition csrs_counters_user :: "(string \<times> u32) list" where
  "csrs_counters_user =
     [(''FFLAGS'', 0x1), (''FRM'', 0x2), (''FCSR'', 0x3), (''CYCLE'', 0xc00),
      (''TIME'', 0xc01), (''INSTRET'', 0xc02), (''HPMCOUNTER3'', 0xc03),
      (''HPMCOUNTER4'', 0xc04), (''HPMCOUNTER5'', 0xc05), (''HPMCOUNTER6'', 0xc06),
      (''HPMCOUNTER7'', 0xc07), (''HPMCOUNTER8'', 0xc08), (''HPMCOUNTER9'', 0xc09),
      (''HPMCOUNTER10'', 0xc0a), (''HPMCOUNTER11'', 0xc0b), (''HPMCOUNTER12'', 0xc0c),
      (''HPMCOUNTER13'', 0xc0d), (''HPMCOUNTER14'', 0xc0e), (''HPMCOUNTER15'', 0xc0f),
      (''HPMCOUNTER16'', 0xc10), (''HPMCOUNTER17'', 0xc11), (''HPMCOUNTER18'', 0xc12),
      (''HPMCOUNTER19'', 0xc13), (''HPMCOUNTER20'', 0xc14), (''HPMCOUNTER21'', 0xc15),
      (''HPMCOUNTER22'', 0xc16), (''HPMCOUNTER23'', 0xc17), (''HPMCOUNTER24'', 0xc18),
      (''HPMCOUNTER25'', 0xc19), (''HPMCOUNTER26'', 0xc1a), (''HPMCOUNTER27'', 0xc1b),
      (''HPMCOUNTER28'', 0xc1c), (''HPMCOUNTER29'', 0xc1d), (''HPMCOUNTER30'', 0xc1e),
      (''HPMCOUNTER31'', 0xc1f)]"

text \<open>Supervisor, machine, protection and debug registers; \<^verbatim>\<open>CSR_DSCRATCH0\<close> is defined as another name of \<^verbatim>\<open>CSR_DSCRATCH\<close>.\<close>

definition csrs_supervisor_machine :: "(string \<times> u32) list" where
  "csrs_supervisor_machine =
     [(''SSTATUS'', 0x100), (''SIE'', 0x104), (''STVEC'', 0x105), (''SCOUNTEREN'', 0x106),
      (''SSCRATCH'', 0x140), (''SEPC'', 0x141), (''SCAUSE'', 0x142), (''STVAL'', 0x143),
      (''SIP'', 0x144), (''SATP'', 0x180), (''MSTATUS'', 0x300), (''MISA'', 0x301),
      (''MEDELEG'', 0x302), (''MIDELEG'', 0x303), (''MIE'', 0x304), (''MTVEC'', 0x305),
      (''MCOUNTEREN'', 0x306), (''MSCRATCH'', 0x340), (''MEPC'', 0x341), (''MCAUSE'', 0x342),
      (''MTVAL'', 0x343), (''MIP'', 0x344), (''PMPCFG0'', 0x3a0), (''PMPCFG1'', 0x3a1),
      (''PMPCFG2'', 0x3a2), (''PMPCFG3'', 0x3a3), (''PMPADDR0'', 0x3b0), (''PMPADDR1'', 0x3b1),
      (''PMPADDR2'', 0x3b2), (''PMPADDR3'', 0x3b3), (''PMPADDR4'', 0x3b4),
      (''PMPADDR5'', 0x3b5), (''PMPADDR6'', 0x3b6), (''PMPADDR7'', 0x3b7),
      (''PMPADDR8'', 0x3b8), (''PMPADDR9'', 0x3b9), (''PMPADDR10'', 0x3ba),
      (''PMPADDR11'', 0x3bb), (''PMPADDR12'', 0x3bc), (''PMPADDR13'', 0x3bd),
      (''PMPADDR14'', 0x3be), (''PMPADDR15'', 0x3bf), (''TSELECT'', 0x7a0),
      (''TDATA1'', 0x7a1), (''TDATA2'', 0x7a2), (''TDATA3'', 0x7a3), (''DCSR'', 0x7b0),
      (''DPC'', 0x7b1), (''DSCRATCH'', 0x7b2), (''DSCRATCH0'', 0x7b2), (''DSCRATCH1'', 0x7b3)]"

text \<open>Machine counters, events and identification.\<close>

definition csrs_counters_machine :: "(string \<times> u32) list" where
  "csrs_counters_machine =
     [(''MCYCLE'', 0xb00), (''MINSTRET'', 0xb02), (''MHPMCOUNTER3'', 0xb03),
      (''MHPMCOUNTER4'', 0xb04), (''MHPMCOUNTER5'', 0xb05), (''MHPMCOUNTER6'', 0xb06),
      (''MHPMCOUNTER7'', 0xb07), (''MHPMCOUNTER8'', 0xb08), (''MHPMCOUNTER9'', 0xb09),
      (''MHPMCOUNTER10'', 0xb0a), (''MHPMCOUNTER11'', 0xb0b), (''MHPMCOUNTER12'', 0xb0c),
      (''MHPMCOUNTER13'', 0xb0d), (''MHPMCOUNTER14'', 0xb0e), (''MHPMCOUNTER15'', 0xb0f),
      (''MHPMCOUNTER16'', 0xb10), (''MHPMCOUNTER17'', 0xb11), (''MHPMCOUNTER18'', 0xb12),
      (''MHPMCOUNTER19'', 0xb13), (''MHPMCOUNTER20'', 0xb14), (''MHPMCOUNTER21'', 0xb15),
      (''MHPMCOUNTER22'', 0xb16), (''MHPMCOUNTER23'', 0xb17), (''MHPMCOUNTER24'', 0xb18),
      (''MHPMCOUNTER25'', 0xb19), (''MHPMCOUNTER26'', 0xb1a), (''MHPMCOUNTER27'', 0xb1b),
      (''MHPMCOUNTER28'', 0xb1c), (''MHPMCOUNTER29'', 0xb1d), (''MHPMCOUNTER30'', 0xb1e),
      (''MHPMCOUNTER31'', 0xb1f), (''MHPMEVENT3'', 0x323), (''MHPMEVENT4'', 0x324),
      (''MHPMEVENT5'', 0x325), (''MHPMEVENT6'', 0x326), (''MHPMEVENT7'', 0x327),
      (''MHPMEVENT8'', 0x328), (''MHPMEVENT9'', 0x329), (''MHPMEVENT10'', 0x32a),
      (''MHPMEVENT11'', 0x32b), (''MHPMEVENT12'', 0x32c), (''MHPMEVENT13'', 0x32d),
      (''MHPMEVENT14'', 0x32e), (''MHPMEVENT15'', 0x32f), (''MHPMEVENT16'', 0x330),
      (''MHPMEVENT17'', 0x331), (''MHPMEVENT18'', 0x332), (''MHPMEVENT19'', 0x333),
      (''MHPMEVENT20'', 0x334), (''MHPMEVENT21'', 0x335), (''MHPMEVENT22'', 0x336),
      (''MHPMEVENT23'', 0x337), (''MHPMEVENT24'', 0x338), (''MHPMEVENT25'', 0x339),
      (''MHPMEVENT26'', 0x33a), (''MHPMEVENT27'', 0x33b), (''MHPMEVENT28'', 0x33c),
      (''MHPMEVENT29'', 0x33d), (''MHPMEVENT30'', 0x33e), (''MHPMEVENT31'', 0x33f),
      (''MVENDORID'', 0xf11), (''MARCHID'', 0xf12), (''MIMPID'', 0xf13), (''MHARTID'', 0xf14)]"

text \<open>The high halves of the counters.\<close>

definition csrs_counters_high :: "(string \<times> u32) list" where
  "csrs_counters_high =
     [(''CYCLEH'', 0xc80), (''TIMEH'', 0xc81), (''INSTRETH'', 0xc82),
      (''HPMCOUNTER3H'', 0xc83), (''HPMCOUNTER4H'', 0xc84), (''HPMCOUNTER5H'', 0xc85),
      (''HPMCOUNTER6H'', 0xc86), (''HPMCOUNTER7H'', 0xc87), (''HPMCOUNTER8H'', 0xc88),
      (''HPMCOUNTER9H'', 0xc89), (''HPMCOUNTER10H'', 0xc8a), (''HPMCOUNTER11H'', 0xc8b),
      (''HPMCOUNTER12H'', 0xc8c), (''HPMCOUNTER13H'', 0xc8d), (''HPMCOUNTER14H'', 0xc8e),
      (''HPMCOUNTER15H'', 0xc8f), (''HPMCOUNTER16H'', 0xc90), (''HPMCOUNTER17H'', 0xc91),
      (''HPMCOUNTER18H'', 0xc92), (''HPMCOUNTER19H'', 0xc93), (''HPMCOUNTER20H'', 0xc94),
      (''HPMCOUNTER21H'', 0xc95), (''HPMCOUNTER22H'', 0xc96), (''HPMCOUNTER23H'', 0xc97),
      (''HPMCOUNTER24H'', 0xc98), (''HPMCOUNTER25H'', 0xc99), (''HPMCOUNTER26H'', 0xc9a),
      (''HPMCOUNTER27H'', 0xc9b), (''HPMCOUNTER28H'', 0xc9c), (''HPMCOUNTER29H'', 0xc9d),
      (''HPMCOUNTER30H'', 0xc9e), (''HPMCOUNTER31H'', 0xc9f), (''MCYCLEH'', 0xb80),
      (''MINSTRETH'', 0xb82), (''MHPMCOUNTER3H'', 0xb83), (''MHPMCOUNTER4H'', 0xb84),
      (''MHPMCOUNTER5H'', 0xb85), (''MHPMCOUNTER6H'', 0xb86), (''MHPMCOUNTER7H'', 0xb87),
      (''MHPMCOUNTER8H'', 0xb88), (''MHPMCOUNTER9H'', 0xb89), (''MHPMCOUNTER10H'', 0xb8a),
      (''MHPMCOUNTER11H'', 0xb8b), (''MHPMCOUNTER12H'', 0xb8c), (''MHPMCOUNTER13H'', 0xb8d),
      (''MHPMCOUNTER14H'', 0xb8e), (''MHPMCOUNTER15H'', 0xb8f), (''MHPMCOUNTER16H'', 0xb90),
      (''MHPMCOUNTER17H'', 0xb91), (''MHPMCOUNTER18H'', 0xb92), (''MHPMCOUNTER19H'', 0xb93),
      (''MHPMCOUNTER20H'', 0xb94), (''MHPMCOUNTER21H'', 0xb95), (''MHPMCOUNTER22H'', 0xb96),
      (''MHPMCOUNTER23H'', 0xb97), (''MHPMCOUNTER24H'', 0xb98), (''MHPMCOUNTER25H'', 0xb99),
      (''MHPMCOUNTER26H'', 0xb9a), (''MHPMCOUNTER27H'', 0xb9b), (''MHPMCOUNTER28H'', 0xb9c),
      (''MHPMCOUNTER29H'', 0xb9d), (''MHPMCOUNTER30H'', 0xb9e), (''MHPMCOUNTER31H'', 0xb9f)]"

text \<open>Exception causes.\<close>

definition causes :: "(string \<times> u32) list" where
  "causes =
     [(''MISALIGNED_FETCH'', 0x0), (''FETCH_ACCESS'', 0x1), (''ILLEGAL_INSTRUCTION'', 0x2),
      (''BREAKPOINT'', 0x3), (''MISALIGNED_LOAD'', 0x4), (''LOAD_ACCESS'', 0x5),
      (''MISALIGNED_STORE'', 0x6), (''STORE_ACCESS'', 0x7), (''USER_ECALL'', 0x8),
      (''SUPERVISOR_ECALL'', 0x9), (''HYPERVISOR_ECALL'', 0xa), (''MACHINE_ECALL'', 0xb),
      (''FETCH_PAGE_FAULT'', 0xc), (''LOAD_PAGE_FAULT'', 0xd), (''STORE_PAGE_FAULT'', 0xf)]"

definition csr_addresses :: "(string \<times> u32) list" where
  "csr_addresses =
     csrs_counters_user @ csrs_supervisor_machine @ csrs_counters_machine @ csrs_counters_high"

section \<open>Decoding\<close>

text \<open>The test the tables are written for.\<close>

definition insn_matches :: "u32 \<Rightarrow> string \<times> u32 \<times> u32 \<Rightarrow> bool" where
  "insn_matches w e = (w AND snd (snd e) = fst (snd e))"

definition find_insn :: "insn_table \<Rightarrow> u32 \<Rightarrow> string option" where
  "find_insn t w = map_option fst (find (insn_matches w) t)"

text \<open>The instructions of a core without floating point.\<close>

definition insns_base :: insn_table where
  "insns_base = insns_integer @ insns_system @ insns_atomic"

text \<open>Two entries can both match a word exactly if they agree where both masks are set.\<close>

definition overlap :: "string \<times> u32 \<times> u32 \<Rightarrow> string \<times> u32 \<times> u32 \<Rightarrow> bool" where
  "overlap e f \<longleftrightarrow> fst (snd e) AND snd (snd f) = fst (snd f) AND snd (snd e)"

lemma overlap_if_both:
  assumes "insn_matches w e" and "insn_matches w f"
  shows "overlap e f"
proof -
  have e: "fst (snd e) = w AND snd (snd e)" and f: "fst (snd f) = w AND snd (snd f)"
    using assms by (simp_all add: insn_matches_def)
  show ?thesis
    by (simp only: overlap_def e f and.assoc and.commute [of "snd (snd e)"])
qed

text \<open>
  The major opcode, the low seven bits, is in every mask; only entries with the same one have
  to be compared.
\<close>

definition opcode :: "string \<times> u32 \<times> u32 \<Rightarrow> u32" where
  "opcode e = fst (snd e) AND 0x7f"

fun apart_keyed :: "(u32 \<times> string \<times> u32 \<times> u32) list \<Rightarrow> bool" where
  "apart_keyed [] = True"
| "apart_keyed (e # es) =
     (list_all (\<lambda>f. if fst e = fst f then \<not> overlap (snd e) (snd f) else True) es
      \<and> apart_keyed es)"

definition apart_entries :: "insn_table \<Rightarrow> bool" where
  "apart_entries t \<longleftrightarrow>
     list_all (\<lambda>e. snd (snd e) AND 0x7f = 0x7f) t \<and> apart_keyed (map (\<lambda>e. (opcode e, e)) t)"

lemma opcode_match:
  assumes "insn_matches w e" and "snd (snd e) AND 0x7f = 0x7f"
  shows "opcode e = w AND 0x7f"
proof -
  have "fst (snd e) AND 0x7f = (w AND snd (snd e)) AND 0x7f"
    using assms(1) by (simp add: insn_matches_def)
  with assms(2) show ?thesis by (simp only: opcode_def and.assoc)
qed

lemma apart_entries_unique:
  assumes "apart_entries t" and "e \<in> set t" "f \<in> set t" and "insn_matches w e" "insn_matches w f"
  shows "e = f"
  using assms unfolding apart_entries_def
  by (induction t)
    (auto simp: list_all_iff opcode_match dest: overlap_if_both split: if_splits)

lemma base_apart: "apart_entries insns_base"
  by (simp add: apart_entries_def insns_base_def insns_integer_def insns_system_def
      insns_atomic_def opcode_def overlap_def)

text \<open>
  C40: the encodings of encoding.h are unambiguous: no 32-bit word is two of the
  integer, system and atomic instructions it names.
\<close>

theorem encoding_unambiguous:
  assumes "e \<in> set insns_base" "f \<in> set insns_base" and "insn_matches w e" "insn_matches w f"
  shows "e = f"
  using apart_entries_unique [OF base_apart] assms by blast

theorem encoding_unambiguous_witness:
  "insn_matches 0x00000013 (''ADDI'', 0x13, 0x707f) \<and> (''ADDI'', 0x13, 0x707f) \<in> set insns_base
   \<and> \<not> (\<exists>e\<in>set insns_base. fst e \<noteq> ''ADDI'' \<and> insn_matches 0x00000013 e)"
proof -
  have m: "(''ADDI'', 0x13, 0x707f) \<in> set insns_base" "insn_matches 0x00000013 (''ADDI'', 0x13, 0x707f)"
    by (simp_all add: insns_base_def insns_integer_def insn_matches_def)
  then show ?thesis
    using encoding_unambiguous [OF m(1) _ m(2)] by fastforce
qed

text \<open>Hence looking an instruction up by its word finds it, wherever it stands in the table.\<close>

lemma find_insn_unique:
  assumes "apart_entries t" and "e \<in> set t" and "insn_matches w e"
  shows "find_insn t w = Some (fst e)"
proof -
  from assms(2,3) obtain f where f: "find (insn_matches w) t = Some f"
    by (metis find_None_iff not_None_eq)
  then have "f \<in> set t" "insn_matches w f"
    by (auto simp: find_Some_iff)
  with apart_entries_unique [OF assms(1,2)] assms(3) f show ?thesis
    by (metis find_insn_def option.simps(9))
qed

section \<open>Operand fields\<close>

definition sign_extend :: "nat \<Rightarrow> u32 \<Rightarrow> u32" where
  "sign_extend k x = (if bit x (k - 1) then x OR push_bit k (- 1) else x)"

definition bits_of :: "nat \<Rightarrow> nat \<Rightarrow> u32 \<Rightarrow> u32" where
  "bits_of hi lo w = take_bit (hi + 1 - lo) (drop_bit lo w)"

definition imm_i :: "u32 \<Rightarrow> u32" where
  "imm_i w = sign_extend 12 (bits_of 31 20 w)"

definition imm_s :: "u32 \<Rightarrow> u32" where
  "imm_s w = sign_extend 12 (push_bit 5 (bits_of 31 25 w) OR bits_of 11 7 w)"

definition imm_b :: "u32 \<Rightarrow> u32" where
  "imm_b w = sign_extend 13 (push_bit 12 (bits_of 31 31 w) OR push_bit 11 (bits_of 7 7 w)
     OR push_bit 5 (bits_of 30 25 w) OR push_bit 1 (bits_of 11 8 w))"

definition imm_j :: "u32 \<Rightarrow> u32" where
  "imm_j w = sign_extend 21 (push_bit 20 (bits_of 31 31 w) OR push_bit 12 (bits_of 19 12 w)
     OR push_bit 11 (bits_of 20 20 w) OR push_bit 1 (bits_of 30 21 w))"

definition gpr_numbers :: "gpr list" where
  "gpr_numbers =
     [ZERO, RA, SP, GP, TP, T0, T1, T2, S0, S1, A0, A1, A2, A3, A4, A5, A6, A7,
      S2, S3, S4, S5, S6, S7, S8, S9, S10, S11, T3, T4, T5, T6]"

definition reg_field :: "nat \<Rightarrow> u32 \<Rightarrow> gpr" where
  "reg_field lo w = gpr_numbers ! unat (bits_of (lo + 4) lo w)"

text \<open>The CSRs the model has, by the (first) names the header gives their addresses.\<close>

fun csr_name :: "csr \<Rightarrow> string" where
  "csr_name MSTATUS = ''MSTATUS''"
| "csr_name MIE = ''MIE''"
| "csr_name MTVEC = ''MTVEC''"
| "csr_name MEPC = ''MEPC''"
| "csr_name MCAUSE = ''MCAUSE''"
| "csr_name MTVAL = ''MTVAL''"
| "csr_name MHARTID = ''MHARTID''"
| "csr_name DPC = ''DPC''"
| "csr_name DSCRATCH0 = ''DSCRATCH''"
| "csr_name DSCRATCH1 = ''DSCRATCH1''"

definition csr_list :: "csr list" where
  "csr_list =
     [MSTATUS, MIE, MTVEC, MEPC, MCAUSE, MTVAL, MHARTID, DPC, DSCRATCH0, DSCRATCH1]"

definition csr_field :: "u32 \<Rightarrow> csr option" where
  "csr_field w =
     (case find (\<lambda>e. snd e = bits_of 31 20 w) csr_addresses of
        None \<Rightarrow> None
      | Some e \<Rightarrow> find (\<lambda>k. csr_name k = fst e) csr_list)"

lemma ascending_distinct: "sorted_wrt (<) xs \<Longrightarrow> distinct (xs :: u32 list)"
  by (simp add: strict_sorted_iff)

lemma distinct_blocks:
  fixes xs ys :: "u32 list"
  assumes "distinct xs" "distinct ys" and "list_all P xs" "list_all (\<lambda>x. \<not> P x) ys"
  shows "distinct (xs @ ys)"
  using assms by (auto simp: list_all_iff)

lemmas csr_table_defs = csrs_counters_user_def csrs_supervisor_machine_def
  csrs_counters_machine_def csrs_counters_high_def

lemma high_halves:
  "csrs_counters_high =
     map (\<lambda>(n, a). (n @ ''H'', a + 0x80)) (drop 3 csrs_counters_user @ take 31 csrs_counters_machine)"
  by (simp add: csrs_counters_user_def csrs_counters_machine_def csrs_counters_high_def)

definition csr_values :: "(string \<times> u32) list \<Rightarrow> u32 list" where
  "csr_values t = map snd (filter (\<lambda>e. fst e \<noteq> ''DSCRATCH0'') t)"

lemma csr_values_append: "csr_values (t @ u) = csr_values t @ csr_values u"
  by (simp add: csr_values_def)

lemma csr_values_split: "csr_values t = csr_values (take n t) @ csr_values (drop n t)"
  by (metis append_take_drop_id csr_values_append)

lemma csr_values_tables:
  "sorted_wrt (<) (csr_values csrs_supervisor_machine)"
  "sorted_wrt (<) (csr_values csrs_counters_user)"
  "sorted_wrt (<) (csr_values (take 31 csrs_counters_machine))"
  "sorted_wrt (<) (csr_values (drop 31 csrs_counters_machine))"
  "sorted_wrt (<) (csr_values (take 32 csrs_counters_high))"
  "sorted_wrt (<) (csr_values (drop 32 csrs_counters_high))"
  by (simp_all add: csr_values_def csr_table_defs del: sorted_wrt.simps(2) add: sorted_wrt1 sorted_wrt2)

text \<open>
  The CSR map of encoding.h is consistent: an address has one name (save the alias
  \<^verbatim>\<open>CSR_DSCRATCH0\<close>), and the high half of each counter is 0x80 above the counter.
\<close>

theorem csr_map_consistent:
  "distinct (csr_values csr_addresses)
   \<and> csrs_counters_high =
       map (\<lambda>(n, a). (n @ ''H'', a + 0x80))
         (drop 3 csrs_counters_user @ take 31 csrs_counters_machine)"
proof -
  have parts: "csr_values csr_addresses =
      csr_values csrs_counters_user @ csr_values csrs_supervisor_machine
      @ csr_values (take 31 csrs_counters_machine) @ csr_values (drop 31 csrs_counters_machine)
      @ csr_values (take 32 csrs_counters_high) @ csr_values (drop 32 csrs_counters_high)"
    by (simp add: csr_addresses_def csr_values_append csr_values_split [of csrs_counters_machine 31]
        csr_values_split [of csrs_counters_high 32])
  note d = csr_values_tables [THEN ascending_distinct]
  have "distinct (csr_values csr_addresses)"
    unfolding parts
    by (rule distinct_blocks [where P = "\<lambda>a. a \<le> 3 \<or> 0xc00 \<le> a \<and> a < 0xc80", OF d(2)
        distinct_blocks [where P = "\<lambda>a. a < 0x323 \<or> 0x33f < a \<and> a < 0xb00", OF d(1)
        distinct_blocks [where P = "\<lambda>a. 0xb00 \<le> a \<and> a < 0xb80", OF d(3)
        distinct_blocks [where P = "\<lambda>a. a < 0x340 \<or> 0xf11 \<le> a", OF d(4)
        distinct_blocks [where P = "\<lambda>a. 0xc80 \<le> a", OF d(5,6)]]]]])
      (simp_all add: csr_values_def csr_table_defs)
  with high_halves show ?thesis by simp
qed

end
