(* ===== verification/CB_Boot_ROM.thy ===== *)
theory CB_Boot_ROM
  imports RISCV_Encoding Context_Area
begin

text \<open>
  The boot and debug ROM. src/ip/CB_boot_rom/CB_boot_rom.h is the image the system boots
  from, 128 words; src/ip/CB_boot_rom/CB_boot_rom.S is the program it is assembled from. The
  words are decoded with the tables of src/ip/CB_boot_rom/encoding.h, and the machine of this
  theory executes the image: \<open>rom_run\<close> fetches, decodes and executes from a program counter
  until \<^verbatim>\<open>dret\<close> returns the hart to the address in \<^verbatim>\<open>dpc\<close>, or until the ROM has no instruction at
  the program counter. The lists below repeat the assembly source label by label; the image
  is proved to decode to them.
\<close>

section \<open>The image\<close>

definition reset_vec :: "u32 list" where
  "reset_vec =
     [0x00000013, 0x00000013, 0x00000013, 0x00000013, 0x10500073, 0xff5ff06f, 0x00000013, 0x00000013,
      0x20000537, 0x02452503, 0x7b151073, 0x7b200073, 0x13000000, 0x13000000, 0x13000000, 0x13000000,
      0x13000000, 0x13000000, 0x13000000, 0x13000000, 0x7b351073, 0x7b241073, 0x20000537, 0x01852503,
      0x02050463, 0x00254513, 0x00051463, 0xfb5ff06f, 0x0ff0000f, 0x10000537, 0x10001437, 0x83040413,
      0x00040067, 0x00000013, 0x20000f37, 0x028f2f03, 0x000f2f83, 0x300f9073, 0x004f2f83, 0x304f9073,
      0x008f2f83, 0x305f9073, 0x00cf2f83, 0x341f9073, 0x010f2f83, 0x343f9073, 0x014f2083, 0x018f2103,
      0x01cf2183, 0x020f2203, 0x200002b7, 0x0342a303, 0x0ff0000f, 0x08031a63, 0x024f2283, 0x028f2303,
      0x02cf2383, 0x030f2403, 0x034f2483, 0x038f2503, 0x03cf2583, 0x040f2603, 0x044f2683, 0x048f2703,
      0x04cf2783, 0x050f2803, 0x054f2883, 0x058f2903, 0x05cf2983, 0x060f2a03, 0x064f2a83, 0x068f2b03,
      0x06cf2b83, 0x070f2c03, 0x074f2c83, 0x078f2d03, 0x07cf2d83, 0x080f2e03, 0x084f2e83, 0x090f2f83,
      0x0ff0000f, 0x7b1f9073, 0x08cf2f83, 0x088f2f03, 0x7b200073, 0x00000013, 0x00000013, 0x00000013,
      0x00000013, 0xf25ff06f, 0x0382a303, 0x0ff0000f, 0xf66104e3, 0x094f0393, 0x0003ae83, 0x01d12023,
      0x00610c63, 0x00438393, 0x00410113, 0xfedff06f, 0x00000013, 0x00000013, 0x018f2103, 0xf3dff06f,
      0x00000013, 0x00000013, 0x13000000, 0x13000000, 0x13000000, 0x13000000, 0x13000000, 0x13000000,
      0x13000000, 0x13000000, 0x13000000, 0x13000000, 0x13000000, 0x13000000, 0x13000000, 0x13000000,
      0x13000000, 0x13000000, 0x13000000, 0x13000000, 0x13000000, 0x13000000, 0x13000000, 0x13000000]"

datatype rom_instr =
    Op instr
  | BEQ gpr gpr u32
  | BNE gpr gpr u32
  | JAL gpr u32
  | JALR gpr gpr u32
  | DRET

text \<open>
  The instructions the image uses. \<^verbatim>\<open>csrrw\<close> is decoded where it does not read, as the
  assembler's \<^verbatim>\<open>csrw\<close>.
\<close>

definition decode :: "u32 \<Rightarrow> rom_instr option" where
  "decode w =
     (let rd = reg_field 7 w; rs1 = reg_field 15 w; rs2 = reg_field 20 w in
      case find_insn insns_base w of
        None \<Rightarrow> None
      | Some n \<Rightarrow>
          if w = 0x13 then Some (Op NOP)
          else if n = ''LW'' then Some (Op (LW rd (imm_i w) rs1))
          else if n = ''SW'' then Some (Op (SW rs2 (imm_s w) rs1))
          else if n = ''ADDI'' then Some (Op (ADDI rd rs1 (imm_i w)))
          else if n = ''XORI'' then Some (Op (XORI rd rs1 (imm_i w)))
          else if n = ''LUI'' then Some (Op (LUI rd (bits_of 31 12 w)))
          else if n = ''CSRRW'' \<and> rd = ZERO then map_option (\<lambda>k. Op (CSRW k rs1)) (csr_field w)
          else if n = ''FENCE'' then Some (Op FENCE)
          else if n = ''WFI'' then Some (Op WFI)
          else if n = ''BEQ'' then Some (BEQ rs1 rs2 (imm_b w))
          else if n = ''BNE'' then Some (BNE rs1 rs2 (imm_b w))
          else if n = ''JAL'' then Some (JAL rd (imm_j w))
          else if n = ''JALR'' then Some (JALR rd rs1 (imm_i w))
          else if n = ''DRET'' then Some DRET
          else None)"

section \<open>The program\<close>

text \<open>The labels of CB_boot_rom.S, as offsets from the start of the ROM.\<close>

definition wfi_entry :: u32 where "wfi_entry = 0x8"
definition single_boot :: u32 where "single_boot = 0x20"
definition debug_entry :: u32 where "debug_entry = 0x50"
definition halt_boot :: u32 where "halt_boot = 0x88"
definition load_register :: u32 where "load_register = 0xd8"
definition store_stack :: u32 where "store_stack = 0x168"
definition load_stack :: u32 where "load_stack = 0x178"
definition restore_sp :: u32 where "restore_sp = 0x198"

lemmas labels = wfi_entry_def single_boot_def debug_entry_def halt_boot_def load_register_def
  store_stack_def load_stack_def restore_sp_def

definition entry_code :: "rom_instr list" where
  "entry_code =
     [Op NOP, Op NOP, Op NOP, Op NOP, Op WFI, JAL ZERO (wfi_entry - 0x14), Op NOP, Op NOP]"

definition single_boot_ops :: "instr list" where
  "single_boot_ops = [LUI A0 0x20000, LW A0 (wrapper_offset W_ENTRY_ADDRESS) A0, CSRW DPC A0]"

definition debug_entry_ops :: "instr list" where
  "debug_entry_ops =
     [CSRW DSCRATCH1 A0, CSRW DSCRATCH0 S0, LUI A0 0x20000,
      LW A0 (wrapper_offset W_EXTERNAL_DEBUG_REQ) A0]"

definition debug_request_code :: "rom_instr list" where
  "debug_request_code =
     [BEQ A0 ZERO (halt_boot - 0x60), Op (XORI A0 A0 0x2), BNE A0 ZERO (0x70 - 0x68),
      JAL ZERO (single_boot - 0x6c)]"

definition debug_module_code :: "rom_instr list" where
  "debug_module_code =
     [Op FENCE, Op (LUI A0 0x10000), Op (LUI S0 0x10001), Op (ADDI S0 S0 (- 2000)),
      JALR ZERO S0 0, Op NOP]"

definition halt_boot_ops :: "instr list" where
  "halt_boot_ops =
     [LUI T5 0x20000, LW T5 (wrapper_offset W_SAFE_COPY_ADDRESS) T5, LW T6 0 T5,
      CSRW MSTATUS T6, LW T6 4 T5, CSRW MIE T6, LW T6 8 T5, CSRW MTVEC T6, LW T6 12 T5,
      CSRW MEPC T6, LW T6 16 T5, CSRW MTVAL T6, LW RA 20 T5, LW SP 24 T5, LW GP 28 T5,
      LW TP 32 T5, LUI T0 0x20000, LW T1 (wrapper_offset W_DMR_REC) T0, FENCE]"

definition load_register_ops :: "instr list" where
  "load_register_ops =
     [LW T0 36 T5, LW T1 40 T5, LW T2 44 T5, LW S0 48 T5, LW S1 52 T5, LW A0 56 T5,
      LW A1 60 T5, LW A2 64 T5, LW A3 68 T5, LW A4 72 T5, LW A5 76 T5, LW A6 80 T5,
      LW A7 84 T5, LW S2 88 T5, LW S3 92 T5, LW S4 96 T5, LW S5 100 T5, LW S6 104 T5,
      LW S7 108 T5, LW S8 112 T5, LW S9 116 T5, LW S10 120 T5, LW S11 124 T5, LW T3 128 T5,
      LW T4 132 T5, LW T6 144 T5, FENCE, CSRW DPC T6, LW T6 140 T5, LW T5 136 T5]"

definition halt_loop_code :: "rom_instr list" where
  "halt_loop_code = [Op NOP, Op NOP, Op NOP, Op NOP, JAL ZERO (halt_boot - 0x164)]"

definition store_stack_code :: "rom_instr list" where
  "store_stack_code =
     [Op (LW T1 (wrapper_offset W_INITIAL_STACK_ADDR) T0), Op FENCE,
      BEQ SP T1 (load_register - 0x170), Op (ADDI T2 T5 148)]"

definition load_stack_code :: "rom_instr list" where
  "load_stack_code =
     [Op (LW T4 0 T2), Op (SW T4 0 SP), BEQ SP T1 (restore_sp - 0x180), Op (ADDI T2 T2 4),
      Op (ADDI SP SP 4), JAL ZERO (load_stack - 0x18c), Op NOP, Op NOP]"

definition restore_sp_code :: "rom_instr list" where
  "restore_sp_code =
     [Op (LW SP 24 T5), JAL ZERO (load_register - 0x19c), Op NOP, Op NOP]"

text \<open>
  The program as it lies in the ROM: the boot section, then, at the debug entry, the debug
  section. The linker fills the rest with words that are no instruction.
\<close>

definition rom_listing :: "rom_instr option list" where
  "rom_listing =
     map Some entry_code @ map (Some \<circ> Op) single_boot_ops @ [Some DRET] @ replicate 8 None
     @ map (Some \<circ> Op) debug_entry_ops @ map Some debug_request_code
     @ map Some debug_module_code @ map (Some \<circ> Op) halt_boot_ops
     @ [Some (BNE T1 ZERO (store_stack - 0xd4))]
     @ map (Some \<circ> Op) load_register_ops @ [Some DRET] @ map Some halt_loop_code
     @ map Some store_stack_code @ map Some load_stack_code @ map Some restore_sp_code
     @ replicate 22 None"

lemma decode_insn:
  assumes "e \<in> set insns_base" and "w AND snd (snd e) = fst (snd e)"
  shows "find_insn insns_base w = Some (fst e)"
  by (rule find_insn_unique [OF base_apart assms(1)]) (simp add: insn_matches_def assms(2))

lemmas base_table_defs = insns_base_def insns_integer_def insns_system_def insns_atomic_def

lemma rom_insns:
  "(''LW'', 0x2003, 0x707f) \<in> set insns_base"
  "(''SW'', 0x2023, 0x707f) \<in> set insns_base"
  "(''ADDI'', 0x13, 0x707f) \<in> set insns_base"
  "(''XORI'', 0x4013, 0x707f) \<in> set insns_base"
  "(''LUI'', 0x37, 0x7f) \<in> set insns_base"
  "(''CSRRW'', 0x1073, 0x707f) \<in> set insns_base"
  "(''FENCE'', 0xf, 0x707f) \<in> set insns_base"
  "(''WFI'', 0x10500073, 0xffffffff) \<in> set insns_base"
  "(''BEQ'', 0x63, 0x707f) \<in> set insns_base"
  "(''BNE'', 0x1063, 0x707f) \<in> set insns_base"
  "(''JAL'', 0x6f, 0x7f) \<in> set insns_base"
  "(''JALR'', 0x67, 0x707f) \<in> set insns_base"
  "(''DRET'', 0x7b200073, 0xffffffff) \<in> set insns_base"
  by (simp_all add: base_table_defs)

lemmas find_insn_rom = rom_insns [THEN decode_insn, unfolded fst_conv snd_conv]

lemma decode_fill: "decode 0x13000000 = None"
  by (simp add: decode_def find_insn_def insn_matches_def base_table_defs)

lemmas field_simps = reg_field_def bits_of_def sign_extend_def imm_i_def imm_s_def imm_b_def
  imm_j_def gpr_numbers_def

lemma decode_by_name:
  assumes "find_insn insns_base w = Some n"
  shows "decode w =
     (let rd = reg_field 7 w; rs1 = reg_field 15 w; rs2 = reg_field 20 w in
      if w = 0x13 then Some (Op NOP)
      else if n = ''LW'' then Some (Op (LW rd (imm_i w) rs1))
      else if n = ''SW'' then Some (Op (SW rs2 (imm_s w) rs1))
      else if n = ''ADDI'' then Some (Op (ADDI rd rs1 (imm_i w)))
      else if n = ''XORI'' then Some (Op (XORI rd rs1 (imm_i w)))
      else if n = ''LUI'' then Some (Op (LUI rd (bits_of 31 12 w)))
      else if n = ''CSRRW'' \<and> rd = ZERO then map_option (\<lambda>k. Op (CSRW k rs1)) (csr_field w)
      else if n = ''FENCE'' then Some (Op FENCE)
      else if n = ''WFI'' then Some (Op WFI)
      else if n = ''BEQ'' then Some (BEQ rs1 rs2 (imm_b w))
      else if n = ''BNE'' then Some (BNE rs1 rs2 (imm_b w))
      else if n = ''JAL'' then Some (JAL rd (imm_j w))
      else if n = ''JALR'' then Some (JALR rd rs1 (imm_i w))
      else if n = ''DRET'' then Some DRET
      else None)"
  using assms by (simp add: decode_def)

lemma csr_fields:
  "csr_field 0x7b151073 = Some DPC" "csr_field 0x7b351073 = Some DSCRATCH1"
  "csr_field 0x7b241073 = Some DSCRATCH0" "csr_field 0x300f9073 = Some MSTATUS"
  "csr_field 0x304f9073 = Some MIE" "csr_field 0x305f9073 = Some MTVEC"
  "csr_field 0x341f9073 = Some MEPC" "csr_field 0x343f9073 = Some MTVAL"
  "csr_field 0x7b1f9073 = Some DPC"
  by (simp_all add: csr_field_def csr_addresses_def csrs_counters_user_def
      csrs_supervisor_machine_def bits_of_def csr_list_def take_bit_eq_mask mask_eq_exp_minus_1)


text \<open>
  C9: the ROM image is the assembled source: every word of CB_boot_rom.h decodes to the
  instruction the listing has at its place, with every operand and branch offset, and the
  filling words decode to nothing.
\<close>

theorem rom_image_is_listing: "map decode reset_vec = rom_listing"
  by (simp add: reset_vec_def decode_fill decode_by_name find_insn_rom field_simps csr_fields
      Let_def take_bit_eq_mask mask_eq_exp_minus_1 rom_listing_def entry_code_def
      single_boot_ops_def debug_entry_ops_def debug_request_code_def debug_module_code_def
      halt_boot_ops_def load_register_ops_def halt_loop_code_def store_stack_code_def
      load_stack_code_def restore_sp_code_def labels wrapper_offset.simps replicate_numeral)


section \<open>Execution\<close>

definition rom_fetch :: "u32 \<Rightarrow> rom_instr option" where
  "rom_fetch pc =
     (let off = pc - BOOT_DEBUG_ROM_BASEADDRESS in
      if unat off < 4 * length reset_vec \<and> unat off mod 4 = 0
      then decode (reset_vec ! (unat off div 4)) else None)"

text \<open>\<open>Stopped\<close>: the ROM holds no instruction at the program counter, as after the jump into
  the debug module.\<close>

datatype rom_exit = Resumed u32 | Stopped u32

partial_function (option) rom_run :: "csr_warl \<Rightarrow> u32 \<Rightarrow> machine \<Rightarrow> (rom_exit \<times> machine) option"
where
  "rom_run W pc m =
     (case rom_fetch pc of
        None \<Rightarrow> Some (Stopped pc, m)
      | Some (Op i) \<Rightarrow> rom_run W (pc + 4) (exec W i m)
      | Some (BEQ a b d) \<Rightarrow> rom_run W (if get (fst m) a = get (fst m) b then pc + d else pc + 4) m
      | Some (BNE a b d) \<Rightarrow> rom_run W (if get (fst m) a \<noteq> get (fst m) b then pc + d else pc + 4) m
      | Some (JAL r d) \<Rightarrow> rom_run W (pc + d) (put r (pc + 4) (fst m), snd m)
      | Some (JALR r b d) \<Rightarrow>
          rom_run W ((get (fst m) b + d) AND (- 2)) (put r (pc + 4) (fst m), snd m)
      | Some DRET \<Rightarrow> Some (Resumed (csrs (fst m) DPC), m))"

text \<open>The address of a label or of an offset in the ROM.\<close>

definition rom_addr :: "nat \<Rightarrow> u32" where
  "rom_addr off = BOOT_DEBUG_ROM_BASEADDRESS + of_nat off"

lemma length_listing: "length reset_vec = 128" "length rom_listing = 128"
  by (simp_all add: reset_vec_def arg_cong [OF rom_image_is_listing, of length, symmetric])

lemma rom_fetch_listing:
  assumes "k < 128"
  shows "rom_fetch (rom_addr (4 * k)) = rom_listing ! k"
proof -
  have "unat (of_nat (4 * k) :: u32) = 4 * k"
    using assms by (simp only: unat_of_nat) simp
  then show ?thesis
    using assms rom_image_is_listing length_listing
    by (simp add: rom_fetch_def rom_addr_def Let_def) (metis nth_map)
qed


lemma rom_addr_add: "rom_addr (4 * k) + 4 = rom_addr (4 * (k + 1))"
  by (simp add: rom_addr_def)

text \<open>A stretch without jumps is a run of its instructions.\<close>

lemma rom_block:
  assumes "take (length ops) (drop k rom_listing) = map (Some \<circ> Op) ops"
    and "k + length ops \<le> 128"
  shows "rom_run W (rom_addr (4 * k)) m = rom_run W (rom_addr (4 * (k + length ops))) (run W ops m)"
  using assms
proof (induction ops arbitrary: k m)
  case (Cons i ops)
  from Cons.prems have k: "k < 128" by simp
  then have "drop k rom_listing = rom_listing ! k # drop (k + 1) rom_listing"
    by (simp add: Cons_nth_drop_Suc length_listing)
  with Cons.prems(1) have h: "rom_listing ! k = Some (Op i)"
    and t: "take (length ops) (drop (k + 1) rom_listing) = map (Some \<circ> Op) ops"
    by simp_all
  have "rom_run W (rom_addr (4 * k)) m = rom_run W (rom_addr (4 * k) + 4) (exec W i m)"
    by (subst rom_run.simps) (simp add: rom_fetch_listing [OF k] h)
  also have "\<dots> = rom_run W (rom_addr (4 * (k + 1))) (exec W i m)"
    by (simp only: rom_addr_add)
  also have "\<dots> = rom_run W (rom_addr (4 * (k + length (i # ops)))) (run W (i # ops) m)"
    using Cons.IH [OF t, of "exec W i m"] Cons.prems(2) by simp
  finally show ?case .
qed simp

lemmas listing_simps = rom_listing_def entry_code_def single_boot_ops_def debug_entry_ops_def
  debug_request_code_def debug_module_code_def halt_boot_ops_def load_register_ops_def
  halt_loop_code_def store_stack_code_def load_stack_code_def restore_sp_code_def replicate_numeral

lemma rom_blocks:
  "rom_run W (rom_addr 0x20) m = rom_run W (rom_addr 0x2c) (run W single_boot_ops m)"
  "rom_run W (rom_addr 0x50) m = rom_run W (rom_addr 0x60) (run W debug_entry_ops m)"
  "rom_run W (rom_addr 0x88) m = rom_run W (rom_addr 0xd4) (run W halt_boot_ops m)"
  "rom_run W (rom_addr 0xd8) m = rom_run W (rom_addr 0x150) (run W load_register_ops m)"
  using rom_block [of single_boot_ops 8 W m] rom_block [of debug_entry_ops 20 W m]
    rom_block [of halt_boot_ops 34 W m] rom_block [of load_register_ops 54 W m]
  by (simp_all add: listing_simps)

lemma rom_words:
  "rom_run W (rom_addr 0x64) m = rom_run W (rom_addr 0x68) (run W [XORI A0 A0 2] m)"
  "rom_run W (rom_addr 0x168) m =
     rom_run W (rom_addr 0x170) (run W [LW T1 (wrapper_offset W_INITIAL_STACK_ADDR) T0, FENCE] m)"
  "rom_run W (rom_addr 0x174) m = rom_run W (rom_addr 0x178) (run W [ADDI T2 T5 148] m)"
  "rom_run W (rom_addr 0x178) m = rom_run W (rom_addr 0x180) (run W [LW T4 0 T2, SW T4 0 SP] m)"
  "rom_run W (rom_addr 0x184) m =
     rom_run W (rom_addr 0x18c) (run W [ADDI T2 T2 4, ADDI SP SP 4] m)"
  "rom_run W (rom_addr 0x198) m = rom_run W (rom_addr 0x19c) (run W [LW SP 24 T5] m)"
  "rom_run W (rom_addr 0x70) m = rom_run W (rom_addr 0x80) (run W
     [FENCE, LUI A0 0x10000, LUI S0 0x10001, ADDI S0 S0 (- 2000)] m)"
  using rom_block [of "[XORI A0 A0 2]" 25 W m]
    rom_block [of "[LW T1 (wrapper_offset W_INITIAL_STACK_ADDR) T0, FENCE]" 90 W m]
    rom_block [of "[ADDI T2 T5 148]" 93 W m]
    rom_block [of "[LW T4 0 T2, SW T4 0 SP]" 94 W m]
    rom_block [of "[ADDI T2 T2 4, ADDI SP SP 4]" 97 W m]
    rom_block [of "[LW SP 24 T5]" 102 W m]
    rom_block [of "[FENCE, LUI A0 0x10000, LUI S0 0x10001, ADDI S0 S0 (- 2000)]" 28 W m]
  by (simp_all add: listing_simps)

lemma rom_jump_words:
  "rom_listing ! 11 = Some DRET" "rom_listing ! 24 = Some (BEQ A0 ZERO 0x28)"
  "rom_listing ! 26 = Some (BNE A0 ZERO 8)" "rom_listing ! 27 = Some (JAL ZERO (- 0x4c))"
  "rom_listing ! 53 = Some (BNE T1 ZERO 0x94)" "rom_listing ! 84 = Some DRET"
  "rom_listing ! 92 = Some (BEQ SP T1 (- 0x98))" "rom_listing ! 96 = Some (BEQ SP T1 0x18)"
  "rom_listing ! 99 = Some (JAL ZERO (- 0x14))" "rom_listing ! 103 = Some (JAL ZERO (- 0xc4))"
  "rom_listing ! 32 = Some (JALR ZERO S0 0)"
  by (simp_all add: listing_simps labels)

lemma rom_jump:
  assumes "k < 128"
  shows "rom_listing ! k = Some DRET \<Longrightarrow>
      rom_run W (rom_addr (4 * k)) m = Some (Resumed (csrs (fst m) DPC), m)"
    and "rom_listing ! k = Some (BEQ a b d) \<Longrightarrow> rom_run W (rom_addr (4 * k)) m =
      rom_run W (if get (fst m) a = get (fst m) b then rom_addr (4 * k) + d
                 else rom_addr (4 * k) + 4) m"
    and "rom_listing ! k = Some (BNE a b d) \<Longrightarrow> rom_run W (rom_addr (4 * k)) m =
      rom_run W (if get (fst m) a \<noteq> get (fst m) b then rom_addr (4 * k) + d
                 else rom_addr (4 * k) + 4) m"
    and "rom_listing ! k = Some (JAL ZERO d) \<Longrightarrow>
      rom_run W (rom_addr (4 * k)) m = rom_run W (rom_addr (4 * k) + d) m"
  by (subst rom_run.simps, simp add: rom_fetch_listing [OF assms] put_def)+

text \<open>The other words, one rule each.\<close>

lemma rom_jumps:
  "rom_run W (rom_addr 0x2c) m = Some (Resumed (csrs (fst m) DPC), m)"
  "rom_run W (rom_addr 0x60) m =
     rom_run W (if get (fst m) A0 = 0 then rom_addr 0x88 else rom_addr 0x64) m"
  "rom_run W (rom_addr 0x68) m =
     rom_run W (if get (fst m) A0 \<noteq> 0 then rom_addr 0x70 else rom_addr 0x6c) m"
  "rom_run W (rom_addr 0x6c) m = rom_run W (rom_addr 0x20) m"
  "rom_run W (rom_addr 0xd4) m =
     rom_run W (if get (fst m) T1 \<noteq> 0 then rom_addr 0x168 else rom_addr 0xd8) m"
  "rom_run W (rom_addr 0x150) m = Some (Resumed (csrs (fst m) DPC), m)"
  "rom_run W (rom_addr 0x170) m =
     rom_run W (if get (fst m) SP = get (fst m) T1 then rom_addr 0xd8 else rom_addr 0x174) m"
  "rom_run W (rom_addr 0x180) m =
     rom_run W (if get (fst m) SP = get (fst m) T1 then rom_addr 0x198 else rom_addr 0x184) m"
  "rom_run W (rom_addr 0x18c) m = rom_run W (rom_addr 0x178) m"
  "rom_run W (rom_addr 0x19c) m = rom_run W (rom_addr 0xd8) m"
  using rom_jump(1) [OF _ rom_jump_words(1), of W m] rom_jump(2) [OF _ rom_jump_words(2), of W m]
    rom_jump(3) [OF _ rom_jump_words(3), of W m] rom_jump(4) [OF _ rom_jump_words(4), of W m]
    rom_jump(3) [OF _ rom_jump_words(5), of W m] rom_jump(1) [OF _ rom_jump_words(6), of W m]
    rom_jump(2) [OF _ rom_jump_words(7), of W m] rom_jump(2) [OF _ rom_jump_words(8), of W m]
    rom_jump(4) [OF _ rom_jump_words(9), of W m] rom_jump(4) [OF _ rom_jump_words(10), of W m]
  by (simp_all add: rom_addr_def platform_simps get_ZERO cong: if_cong)

section \<open>Restoring a context\<close>

text \<open>\<^verbatim>\<open>lui\<close> loads the base of the wrapper block as a number.\<close>

lemma wrapper_base: "SAFE_WRAPPER_CTRL_BASEADDRESS = 0x20000000"
  by (simp add: platform_simps)

lemmas exec_LW_wrapper_base = exec_LW_wrapper [unfolded wrapper_base]

lemma rom_fields [exec_simps]:
  "fields_mask (wrapper_fields W_DMR_REC) = 1" "fields_mask (wrapper_fields W_EXTERNAL_DEBUG_REQ) = 3"
  by (simp_all add: fields_mask_def wrapper_fields.simps)

text \<open>
  What the hart holds when the ROM has loaded the context \<open>ctx\<close>: the 31 registers, and the
  CSRs with \<^verbatim>\<open>dpc\<close> as the core legalises them over the values \<open>old\<close> before.
\<close>

definition context_loaded :: "csr_warl \<Rightarrow> (csr \<Rightarrow> u32) \<Rightarrow> u32 list \<Rightarrow> core \<Rightarrow> bool" where
  "context_loaded W old ctx c \<longleftrightarrow>
     map (get c) context_gprs = take 31 (drop 5 ctx)
     \<and> map (csrs c) context_csrs = map (\<lambda>(k, v). W k (old k) v) (zip context_csrs ctx)
     \<and> csrs c DPC = W DPC (old DPC) (ctx ! 36)"

lemma sample_debug: "wrapper sample_soc W_EXTERNAL_DEBUG_REQ = 0"
  by (simp add: sample_soc_def)

text \<open>The jump into the debug module, outside the ROM.\<close>

lemma rom_debug_module:
  "get (fst m) S0 = 0x10000830 \<Longrightarrow>
   rom_run W (rom_addr 0x80) m = Some (Stopped 0x10000830, m)"
proof -
  assume s0: "get (fst m) S0 = 0x10000830"
  have "rom_fetch (rom_addr 0x80) = Some (JALR ZERO S0 0)"
    using rom_fetch_listing [of 32] rom_jump_words(11) by simp
  then have "rom_run W (rom_addr 0x80) m = rom_run W 0x10000830 m"
    by (subst rom_run.simps) (simp add: s0 put_def)
  moreover have "rom_fetch 0x10000830 = None"
    by (simp add: rom_fetch_def length_listing platform_simps)
  ultimately show ?thesis
    by (simp add: rom_run.simps [of W "0x10000830"])
qed

text \<open>Up to the branch on \<^verbatim>\<open>DMR_REC\<close>.\<close>

lemma halt_boot_state:
  assumes "plain_words (copy_address s) 37"
  defines "p \<equiv> copy_address s" and "m \<equiv> ram s"
  shows "let (c1, s1) = run W halt_boot_ops (run W debug_entry_ops (c, s))
         in s1 = s \<and> get c1 T5 = p \<and> get c1 T0 = 0x20000000 \<and> get c1 T1 = wrapper s W_DMR_REC AND 1
          \<and> get c1 RA = load32 m (p + 20) \<and> get c1 SP = load32 m (p + 24)
          \<and> get c1 GP = load32 m (p + 28) \<and> get c1 TP = load32 m (p + 32)
          \<and> csrs c1 = (csrs c)(DSCRATCH1 := W DSCRATCH1 (csrs c DSCRATCH1) (get c A0),
              DSCRATCH0 := W DSCRATCH0 (csrs c DSCRATCH0) (get c S0),
              MSTATUS := W MSTATUS (csrs c MSTATUS) (load32 m p),
              MIE := W MIE (csrs c MIE) (load32 m (p + 4)),
              MTVEC := W MTVEC (csrs c MTVEC) (load32 m (p + 8)),
              MEPC := W MEPC (csrs c MEPC) (load32 m (p + 12)),
              MTVAL := W MTVAL (csrs c MTVAL) (load32 m (p + 16)))"
  using assms(1) unfolding p_def m_def
  by (simp add: debug_entry_ops_def halt_boot_ops_def area_simps copy_address_def exec_simps
      exec_LW_wrapper_base mem_simps upt_rec_numeral)

text \<open>From \<^verbatim>\<open>load_register\<close> to the end.\<close>

lemma load_register_state:
  assumes "get c T5 = p" and "plain_words p 37"
  shows "let (c1, s1) = run W load_register_ops (c, s); ctx = context_of (ram s) p
         in s1 = s \<and> csrs c1 = (csrs c)(DPC := W DPC (csrs c DPC) (ctx ! 36))
          \<and> map (get c1) (take 4 context_gprs) = map (get c) (take 4 context_gprs)
          \<and> map (get c1) (drop 4 context_gprs) = take 27 (drop 9 ctx)"
  using assms
  by (simp add: load_register_ops_def area_simps exec_simps mem_simps upt_rec_numeral)

lemma rom_restore:
  assumes "plain_words (copy_address s) 37"
    and "wrapper s W_EXTERNAL_DEBUG_REQ AND 3 = 0" and "wrapper s W_DMR_REC AND 1 = 0"
  shows "\<exists>c'. rom_run W DEBUG_OFFSET (c, s) = Some (Resumed (csrs c' DPC), (c', s))
     \<and> context_loaded W (csrs c) (context_of (ram s) (copy_address s)) c'"
proof -
  have a: "DEBUG_OFFSET = rom_addr 0x50"
    by (simp add: platform_simps rom_addr_def)
  have d0: "get (fst (run W debug_entry_ops (c, s))) A0 = 0"
    using assms(2) by (simp add: debug_entry_ops_def exec_simps exec_LW_wrapper_base)
  obtain c1 s1 where h: "run W halt_boot_ops (run W debug_entry_ops (c, s)) = (c1, s1)"
    by (cases "run W halt_boot_ops (run W debug_entry_ops (c, s))")
  note H = halt_boot_state [OF assms(1), of W c, unfolded h Let_def prod.case]
  obtain c2 s2 where l: "run W load_register_ops (c1, s) = (c2, s2)"
    by (cases "run W load_register_ops (c1, s)")
  have t5: "get c1 T5 = copy_address s" using H by simp
  note L = load_register_state [OF t5 assms(1), of W s, unfolded l Let_def prod.case]
  have "rom_run W DEBUG_OFFSET (c, s) = Some (Resumed (csrs c2 DPC), (c2, s))"
    using H L assms(3) d0 h l by (simp add: a rom_blocks rom_jumps)
  moreover have "context_loaded W (csrs c) (context_of (ram s) (copy_address s)) c2"
    using H L by (simp add: context_loaded_def context_gprs_def context_csrs_def context_of_offsets)
  ultimately show ?thesis by blast
qed

text \<open>
  C10: a hart that the safety controller halts without a rollback request leaves the ROM with
  the context of the safe copy in its registers, its CSRs as far as they accept it, at the
  saved address. Memory does not change.
\<close>

theorem rom_restores_context:
  assumes "plain_words (copy_address s) 37"
    and "wrapper s W_EXTERNAL_DEBUG_REQ AND 3 = 0" and "wrapper s W_DMR_REC AND 1 = 0"
  shows "\<exists>c'. rom_run W DEBUG_OFFSET (c, s) = Some (Resumed (csrs c' DPC), (c', s))
     \<and> context_loaded W (csrs c) (context_of (ram s) (copy_address s)) c'"
  by (rule rom_restore [OF assms])

theorem rom_restores_context_witness:
  "\<exists>c'. rom_run csr_plain DEBUG_OFFSET (sample_core, sample_soc) =
       Some (Resumed (csrs c' DPC), (c', sample_soc))
     \<and> context_loaded csr_plain (csrs sample_core) (context_of (ram sample_soc) 0x19029000) c'"
  using rom_restores_context [OF sample_area(1), of csr_plain sample_core]
  by (simp add: sample_values sample_debug)

text \<open>
  C22: the debug entry dispatches on the request: a single boot resumes at the entry address
  of the wrapper, a request with the debug bit jumps into the debug module.
\<close>

theorem rom_debug_dispatch:
  assumes "wrapper s W_EXTERNAL_DEBUG_REQ AND 3 \<noteq> 0"
  shows "map_option fst (rom_run W DEBUG_OFFSET (c, s)) =
     Some (if wrapper s W_EXTERNAL_DEBUG_REQ AND 3 = 2
           then Resumed (W DPC (csrs c DPC) (wrapper s W_ENTRY_ADDRESS))
           else Stopped 0x10000830)"
proof -
  have a: "DEBUG_OFFSET = rom_addr 0x50"
    by (simp add: platform_simps rom_addr_def)
  have x: "v XOR 2 = 0 \<longleftrightarrow> v = 2" for v :: u32
    by (metis xor.assoc xor.left_neutral xor_self_eq)
  have f: "fields_mask (wrapper_fields W_ENTRY_ADDRESS) = - 1" by (simp add: exec_simps)
  show ?thesis
    using assms
    by (simp add: a rom_blocks rom_jumps rom_words debug_entry_ops_def single_boot_ops_def
        exec_simps exec_LW_wrapper_base x f rom_debug_module)
qed

theorem rom_debug_dispatch_witness:
  "map_option fst (rom_run csr_plain DEBUG_OFFSET
     (sample_core, sample_soc\<lparr>wrapper := (\<lambda>_. 2)\<rparr>)) = Some (Resumed 2)"
  by (simp add: rom_debug_dispatch csr_plain_def)

end
