(* ===== verification/Checkpoint_Recovery.thy ===== *)
theory Checkpoint_Recovery
  imports CB_Boot_ROM
begin

text \<open>
  Checkpoint and rollback. \<^verbatim>\<open>Store_Checkpoint\<close> of src/sw/CB_device/lib/safety/CB_Safety.c and the
  recovery branch of src/ip/CB_boot_rom/CB_boot_rom.S each copy the stack word by word, one
  into the safe copy and one back; both loops are proved to compute \<open>copy_words\<close>, and the
  two together to restore the hart and the stack of the checkpoint, whatever happened to
  either in between.
\<close>

section \<open>Copying words\<close>

fun copy_words :: "store \<Rightarrow> u32 \<Rightarrow> u32 \<Rightarrow> nat \<Rightarrow> store" where
  "copy_words m a d 0 = m"
| "copy_words m a d (Suc n) = copy_words (store32 m d (load32 m a)) (a + 4) (d + 4) n"

lemma unat_word_offset:
  assumes "i < 2 ^ 30"
  shows "unat (4 * of_nat i :: u32) = 4 * i"
proof -
  have "(4 * of_nat i :: u32) = of_nat (4 * i)" by simp
  also have "unat (of_nat (4 * i) :: u32) = 4 * i"
    using assms by (simp only: unat_of_nat) simp
  finally show ?thesis .
qed

lemma disjoint_blocks_words:
  assumes "disjoint_blocks p (4 * of_nat N) q (4 * of_nat K)" and "N < 2 ^ 30" "K < 2 ^ 30"
    and "i < N" "j < K"
  shows "apart (p + 4 * of_nat i) (q + 4 * of_nat j)"
proof (rule disjoint_blocks_apart [OF assms(1)])
  have le: "4 * of_nat i \<le> (4 * of_nat M - 4 :: u32)" "4 \<le> (4 * of_nat M :: u32)"
    if "i < M" "M < 2 ^ 30" for i M
  proof -
    show m: "4 \<le> (4 * of_nat M :: u32)"
      using that by (simp add: word_le_nat_alt unat_word_offset)
    show "4 * of_nat i \<le> (4 * of_nat M - 4 :: u32)"
      using that m by (simp add: word_le_nat_alt unat_sub unat_word_offset)
  qed
  show "4 \<le> (4 * of_nat N :: u32)" "4 * of_nat i \<le> (4 * of_nat N - 4 :: u32)"
    "4 \<le> (4 * of_nat K :: u32)" "4 * of_nat j \<le> (4 * of_nat K - 4 :: u32)"
    using le assms by blast+
qed

lemma disjoint_blocks_mono:
  assumes "disjoint_blocks p n q k" and "n' \<le> n" "k' \<le> k"
  shows "disjoint_blocks p n' q k'"
  using assms by (auto simp: disjoint_blocks_def)

lemma apart_multiples:
  assumes "i < j" "j < 2 ^ 30"
  shows "apart (d + 4 * of_nat i) (d + 4 * of_nat j)"
proof -
  define k where "k = j - i"
  have k: "(4 * of_nat j :: u32) = 4 * of_nat i + 4 * of_nat k" "0 < k" "k < 2 ^ 30"
    using assms by (auto simp: k_def of_nat_diff algebra_simps)
  have u: "unat (4 * of_nat k :: u32) = 4 * k" using k by (simp add: unat_word_offset)
  then have "(4 * of_nat k :: u32) \<noteq> 0" using k by (auto dest: arg_cong [where f = unat])
  note n = unat_neg [OF this]
  have e: "d + 4 * of_nat j - (d + 4 * of_nat i) = 4 * of_nat k"
    "d + 4 * of_nat i - (d + 4 * of_nat j) = - (4 * of_nat k)"
    by (simp_all add: k(1))
  show ?thesis
    using k(2,3) unfolding apart_def e word_le_nat_alt n u by simp
qed

lemma copy_words_outside:
  assumes "\<And>i. i < n \<Longrightarrow> apart (d + 4 * of_nat i) b"
  shows "load32 (copy_words m a d n) b = load32 m b"
  using assms
proof (induction n arbitrary: m a d)
  case (Suc n)
  have "apart (d + 4 + 4 * of_nat i) b" if "i < n" for i
    using Suc.prems [of "Suc i"] that by (simp add: algebra_simps)
  from Suc.IH [OF this] show ?case
    using Suc.prems [of 0] by (simp add: load32_store32_apart)
qed simp

lemma copy_words_result:
  assumes "\<And>i j. i < n \<Longrightarrow> j < n \<Longrightarrow> apart (d + 4 * of_nat i) (a + 4 * of_nat j)"
    and "n < 2 ^ 30"
  shows "words (copy_words m a d n) d n = words m a n"
  using assms
proof (induction n arbitrary: m a d)
  case (Suc n)
  let ?m = "store32 m d (load32 m a)"
  have ap: "apart (d + 4 + 4 * of_nat i) (a + 4 + 4 * of_nat j)" if "i < n" "j < n" for i j
    using Suc.prems(1) [of "Suc i" "Suc j"] that by (simp add: algebra_simps)
  have "apart (d + 4 + 4 * of_nat i) d" if "i < n" for i
    using apart_multiples [of 0 "Suc i" d] that Suc.prems(2)
    by (simp add: apart_sym algebra_simps)
  then have hd: "load32 (copy_words ?m (a + 4) (d + 4) n) d = load32 m a"
    by (simp add: copy_words_outside load32_store32_same)
  have "words ?m (a + 4) n = words m (a + 4) n"
  proof (rule words_cong)
    fix i assume "i < n"
    then show "load32 ?m (a + 4 + 4 * of_nat i) = load32 m (a + 4 + 4 * of_nat i)"
      using Suc.prems(1) [of 0 "Suc i"] by (simp add: load32_store32_apart algebra_simps)
  qed
  with Suc.IH [OF ap, of ?m] Suc.prems(2) hd show ?case by simp
qed simp

section \<open>The two loops\<close>

text \<open>A pointer that starts \<open>n\<close> words below its limit has not reached it before.\<close>

lemma not_at_limit:
  assumes "Suc n < 2 ^ 30"
  shows "(a :: u32) \<noteq> a + 4 * of_nat (Suc n)"
proof
  assume "a = a + 4 * of_nat (Suc n)"
  then have "(4 * of_nat (Suc n) :: u32) = 0" by (simp add: algebra_simps)
  then have "unat (4 * of_nat (Suc n) :: u32) = 0" by (simp only: unat_0)
  with unat_word_offset [OF assms] show False by simp
qed

lemma checkpoint_loop:
  assumes "get c T2 = a" "get c T3 = d" "get c T4 = a + 4 * of_nat n" and "n < 2 ^ 30"
    and "\<And>i. i \<le> n \<Longrightarrow> plain (a + 4 * of_nat i)" "\<And>i. i \<le> n \<Longrightarrow> plain (d + 4 * of_nat i)"
  shows "\<exists>c'. checkpoint_store_stack W (c, s) =
        Some (c', s\<lparr>ram := copy_words (ram s) a d (Suc n)\<rparr>)
     \<and> (\<forall>r. r \<notin> {T2, T3, T6} \<longrightarrow> get c' r = get c r) \<and> csrs c' = csrs c"
  using assms
proof (induction n arbitrary: c s a d)
  case 0
  then show ?case
    using 0(5) [of 0] 0(6) [of 0]
    by (subst checkpoint_store_stack.simps) (simp add: Let_def exec_simps mem_simps)
next
  case (Suc n)
  let ?c = "put T2 (a + 4) (put T3 (d + 4) (put T6 (load32 (ram s) a) c))"
  let ?s = "s\<lparr>ram := store32 (ram s) d (load32 (ram s) a)\<rparr>"
  have p: "plain a" "plain d" using Suc.prems(5) [of 0] Suc.prems(6) [of 0] by simp_all
  have "checkpoint_store_stack W (c, s) = checkpoint_store_stack W (?c, ?s)"
    using Suc.prems(1-3) not_at_limit [OF Suc.prems(4), of a] p
    by (subst checkpoint_store_stack.simps) (simp add: Let_def exec_simps mem_simps)
  moreover have "\<exists>c'. checkpoint_store_stack W (?c, ?s) =
        Some (c', ?s\<lparr>ram := copy_words (ram ?s) (a + 4) (d + 4) (Suc n)\<rparr>)
     \<and> (\<forall>r. r \<notin> {T2, T3, T6} \<longrightarrow> get c' r = get ?c r) \<and> csrs c' = csrs ?c"
  proof (rule Suc.IH)
    show "plain (a + 4 + 4 * of_nat i)" "plain (d + 4 + 4 * of_nat i)" if "i \<le> n" for i
      using Suc.prems(5) [of "Suc i"] Suc.prems(6) [of "Suc i"] that by (simp_all add: algebra_simps)
  qed (use Suc.prems in \<open>simp_all add: exec_simps algebra_simps\<close>)
  ultimately show ?case by (auto simp: exec_simps)
qed

lemma rollback_loop:
  assumes "get c T2 = a" "get c SP = d" "get c T1 = d + 4 * of_nat n" and "n < 2 ^ 30"
    and "\<And>i. i \<le> n \<Longrightarrow> plain (a + 4 * of_nat i)" "\<And>i. i \<le> n \<Longrightarrow> plain (d + 4 * of_nat i)"
  shows "\<exists>c'. rom_run W (rom_addr 0x178) (c, s) =
        rom_run W (rom_addr 0x198) (c', s\<lparr>ram := copy_words (ram s) a d (Suc n)\<rparr>)
     \<and> (\<forall>r. r \<notin> {T2, SP, T4} \<longrightarrow> get c' r = get c r) \<and> csrs c' = csrs c"
  using assms
proof (induction n arbitrary: c s a d)
  case 0
  then have "rom_run W (rom_addr 0x178) (c, s) = rom_run W (rom_addr 0x198)
      (put T4 (load32 (ram s) a) c, s\<lparr>ram := copy_words (ram s) a d (Suc 0)\<rparr>)"
    using 0(5) [of 0] 0(6) [of 0] by (simp add: rom_words(4) rom_jumps exec_simps mem_simps)
  then show ?case by (auto simp: exec_simps)
next
  case (Suc n)
  let ?c = "put SP (d + 4) (put T2 (a + 4) (put T4 (load32 (ram s) a) c))"
  let ?s = "s\<lparr>ram := store32 (ram s) d (load32 (ram s) a)\<rparr>"
  have p: "plain a" "plain d" using Suc.prems(5) [of 0] Suc.prems(6) [of 0] by simp_all
  have "rom_run W (rom_addr 0x178) (c, s) = rom_run W (rom_addr 0x178) (?c, ?s)"
    using Suc.prems(1-3) not_at_limit [OF Suc.prems(4), of d] p
    by (subst rom_words(4)) (simp add: rom_words(5) rom_jumps exec_simps mem_simps)
  moreover have "\<exists>c'. rom_run W (rom_addr 0x178) (?c, ?s) = rom_run W (rom_addr 0x198)
        (c', ?s\<lparr>ram := copy_words (ram ?s) (a + 4) (d + 4) (Suc n)\<rparr>)
     \<and> (\<forall>r. r \<notin> {T2, SP, T4} \<longrightarrow> get c' r = get ?c r) \<and> csrs c' = csrs ?c"
  proof (rule Suc.IH)
    show "plain (a + 4 + 4 * of_nat i)" "plain (d + 4 + 4 * of_nat i)" if "i \<le> n" for i
      using Suc.prems(5) [of "Suc i"] Suc.prems(6) [of "Suc i"] that by (simp_all add: algebra_simps)
  qed (use Suc.prems in \<open>simp_all add: exec_simps algebra_simps\<close>)
  ultimately show ?case by (auto simp: exec_simps)
qed

section \<open>Taking a checkpoint\<close>

lemma checkpoint_entry_state:
  assumes "stack_frame c 7"
  shows "run W Store_Checkpoint_entry (c, s) =
     (emit Fence (put T2 (get c SP) (put T5 (copy_address s) (put T4 (wrapper s W_INITIAL_STACK_ADDR) c))),
      s\<lparr>ram := store32 (store32 (store32 (store32 (store32 (ram s)
         (get c SP - 4) (get c T2)) (get c SP - 8) (get c T3)) (get c SP - 12) (get c T4))
         (get c SP - 16) (get c T5)) (get c SP - 20) (get c T6)\<rparr>)"
  using assms
  by (auto simp: Store_Checkpoint_entry_def frame_simps copy_address_def exec_simps mem_simps
      intro!: core_eqI)

definition framed :: "core \<Rightarrow> store \<Rightarrow> core" where
  "framed c m =
     put T2 (load32 m (get c SP - 4)) (put T3 (load32 m (get c SP - 8))
       (put T4 (load32 m (get c SP - 12)) (put T5 (load32 m (get c SP - 16))
         (put T6 (load32 m (get c SP - 20)) c))))"

lemma store_reg_state:
  assumes "stack_frame c 7" and "plain_words p 37"
    and "disjoint_blocks p 148 (get c SP - 28) 28" and "get c T5 = p"
  shows "let (c', s') = run W (checkpoint_store_reg pc) (c, s)
         in context_of (ram s') p = context_image (framed c (ram s)) pc
          \<and> (\<forall>r. get c' r = get (framed c (ram s)) r) \<and> csrs c' = csrs c \<and> wrapper s' = wrapper s"
  using assms
  by (simp add: checkpoint_store_reg_def framed_def frame_simps area_simps exec_simps mem_simps)

lemma word_multiple: "k = 4 * of_nat (unat k div 4)" if "k mod 4 = 0" for k :: u32
proof -
  have "unat k mod 4 = 0" using arg_cong [OF that, of unat] by (simp add: unat_mod)
  then have "4 * (unat k div 4) = unat k" by auto
  then have "of_nat (4 * (unat k div 4)) = k" by (simp del: of_nat_mult)
  then show ?thesis by simp
qed

lemma store_reg_outside:
  assumes "stack_frame c 7" and "plain_words p 37"
    and "disjoint_blocks p 148 (get c SP - 28) 28" and "get c T5 = p"
    and "\<And>i. i < 37 \<Longrightarrow> apart (p + 4 * of_nat i) b"
  shows "load32 (ram (snd (run W (checkpoint_store_reg pc) (c, s)))) b = load32 (ram s) b"
proof -
  have ap0: "apart p b" using assms(5) [of 0] by simp
  have ap: "apart (p + k) b" if "k \<le> 144" "k mod 4 = 0" for k
    using word_multiple [OF that(2)] that(1) assms(5) [of "unat k div 4"]
    by (simp add: word_le_nat_alt)
  show ?thesis
    using assms(1-4)
    by (simp add: ap0 ap checkpoint_store_reg_def frame_simps area_simps exec_simps mem_simps)
qed

text \<open>
  The layout a checkpoint needs: \<open>n\<close> words of stack between the stack pointer and the initial
  stack address the wrapper holds, a safe copy with room for the context and the stack, both
  plain storage, and neither inside the other or the frame of the call.
\<close>

definition checkpoint_layout :: "core \<Rightarrow> soc \<Rightarrow> nat \<Rightarrow> bool" where
  "checkpoint_layout c s n \<longleftrightarrow>
     n < 2 ^ 28 \<and> wrapper s W_INITIAL_STACK_ADDR = get c SP + 4 * of_nat n
     \<and> stack_frame c 7 \<and> plain_words (get c SP) (n + 1)
     \<and> plain_words (copy_address s) (n + 38)
     \<and> disjoint_blocks (copy_address s) (4 * of_nat (n + 38)) (get c SP - 28) (4 * of_nat (n + 8))"

lemma plain_words_nth: "plain_words p n \<Longrightarrow> i < n \<Longrightarrow> plain (p + 4 * of_nat i)"
  by (simp add: plain_words_def list_all_iff)

lemma plain_words_mono: "plain_words p n \<Longrightarrow> k \<le> n \<Longrightarrow> plain_words p k"
  by (auto simp: plain_words_def list_all_iff)

lemma layout_facts:
  assumes "checkpoint_layout c s n"
  defines "p \<equiv> copy_address s" and "q \<equiv> get c SP"
  shows "n < 2 ^ 28" "wrapper s W_INITIAL_STACK_ADDR = q + 4 * of_nat n" "stack_frame c 7"
    "\<And>i. i \<le> n \<Longrightarrow> plain (q + 4 * of_nat i)"
    "plain_words p 37" "\<And>i. i \<le> n \<Longrightarrow> plain (p + 148 + 4 * of_nat i)"
    "disjoint_blocks p 148 (q - 28) 28"
    "\<And>i j. i < n + 38 \<Longrightarrow> j \<le> n \<Longrightarrow> apart (p + 4 * of_nat i) (q + 4 * of_nat j)"
    "\<And>i j. i < n + 38 \<Longrightarrow> j < 7 \<Longrightarrow> apart (p + 4 * of_nat i) (q - 28 + 4 * of_nat j)"
proof -
  note L = assms(1) [unfolded checkpoint_layout_def, folded p_def q_def]
  show "n < 2 ^ 28" "wrapper s W_INITIAL_STACK_ADDR = q + 4 * of_nat n" "stack_frame c 7"
    using L by simp_all
  show "plain (q + 4 * of_nat i)" if "i \<le> n" for i
    using L that plain_words_nth [of q "n + 1" i] by simp
  show "plain_words p 37" using L plain_words_mono [of p "n + 38" 37] by simp
  show "plain (p + 148 + 4 * of_nat i)" if "i \<le> n" for i
    using L that plain_words_nth [of p "n + 38" "37 + i"] by (simp add: algebra_simps)
  have d: "disjoint_blocks p (4 * of_nat (n + 38)) (q - 28) (4 * of_nat (n + 8))" and n: "n < 2 ^ 28"
    using L by simp_all
  have "148 \<le> (4 * of_nat (n + 38) :: u32)" "28 \<le> (4 * of_nat (n + 8) :: u32)"
    using n unat_word_offset [of "n + 38"] unat_word_offset [of "n + 8"]
    by (simp_all del: of_nat_add add: word_le_nat_alt)
  with d show "disjoint_blocks p 148 (q - 28) 28"
    by (rule disjoint_blocks_mono)
  have ap: "apart (p + 4 * of_nat i) (q - 28 + 4 * of_nat j)" if "i < n + 38" "j < n + 8" for i j
    using disjoint_blocks_words [OF d _ _ that] n by simp
  then show "apart (p + 4 * of_nat i) (q - 28 + 4 * of_nat j)" if "i < n + 38" "j < 7" for i j
    using that by simp
  show "apart (p + 4 * of_nat i) (q + 4 * of_nat j)" if "i < n + 38" "j \<le> n" for i j
    using ap [of i "7 + j"] that by (simp add: algebra_simps)
qed

lemma offset_words: "p + 4 * of_nat (37 + i) = p + 148 + 4 * of_nat i" for p :: u32
  by (simp add: algebra_simps)


lemma Store_Checkpoint_no_stack:
  assumes "checkpoint_layout c s n" and "n = 0"
  shows "Store_Checkpoint W pc (c, s) =
     Some (run W (checkpoint_store_reg pc) (run W Store_Checkpoint_entry (c, s)))"
  using layout_facts(2,3) [OF assms(1)] assms(2)
  by (simp add: Store_Checkpoint_def Let_def checkpoint_entry_state exec_simps)

lemma Store_Checkpoint_stack:
  assumes L: "checkpoint_layout c s n" and "0 < n"
  shows "\<exists>c2 s2. Store_Checkpoint W pc (c, s) = Some (run W (checkpoint_store_reg pc) (c2, s2))
     \<and> (\<forall>r. r \<notin> {T2, T3, T4, T5, T6} \<longrightarrow> get c2 r = get c r) \<and> get c2 T5 = copy_address s
     \<and> csrs c2 = csrs c \<and> wrapper s2 = wrapper s
     \<and> ram s2 = copy_words (ram (snd (run W Store_Checkpoint_entry (c, s))))
                  (get c SP) (copy_address s + 148) (Suc n)"
proof -
  note F = layout_facts [OF L]
  define d where "d = put T3 (copy_address s + 148) (fst (run W Store_Checkpoint_entry (c, s)))"
  define t where "t = snd (run W Store_Checkpoint_entry (c, s))"
  note E = checkpoint_entry_state [OF F(3), of W s]
  have d: "get d T2 = get c SP" "get d T3 = copy_address s + 148"
    "get d T4 = get c SP + 4 * of_nat n" "get d T5 = copy_address s" "csrs d = csrs c"
    "\<And>r. r \<notin> {T2, T3, T4, T5, T6} \<Longrightarrow> get d r = get c r"
    by (simp_all add: d_def E exec_simps F(2))
  have "get c SP \<noteq> get c SP + 4 * of_nat n"
    using not_at_limit [of "n - 1" "get c SP"] F(1) assms(2) by simp
  then have "Store_Checkpoint W pc (c, s) =
      map_option (run W (checkpoint_store_reg pc)) (checkpoint_store_stack W (d, t))"
    by (simp add: Store_Checkpoint_def Let_def E d_def t_def exec_simps F(2))
  moreover have "n < 2 ^ 30" using F(1) by simp
  from checkpoint_loop [OF d(1-3) this F(4,6), of W t]
  obtain c2 where c2: "checkpoint_store_stack W (d, t) = Some (c2,
        t\<lparr>ram := copy_words (ram t) (get c SP) (copy_address s + 148) (Suc n)\<rparr>)"
    "\<And>r. r \<notin> {T2, T3, T6} \<Longrightarrow> get c2 r = get d r" "csrs c2 = csrs d"
    by blast
  have "get c2 r = get c r" if "r \<notin> {T2, T3, T4, T5, T6}" for r
    using that c2(2) [of r] d(6) [of r] by simp
  moreover have "get c2 T5 = copy_address s" "csrs c2 = csrs c" "wrapper t = wrapper s"
    using c2(2) [of T5] c2(3) d(4,5) by (simp_all add: t_def E)
  ultimately show ?thesis
    unfolding c2(1) t_def [symmetric] option.map
    by (intro exI [of _ c2] exI [of _ "t\<lparr>ram := copy_words (ram t) (get c SP) (copy_address s + 148) (Suc n)\<rparr>"] conjI)
      (simp_all del: copy_words.simps)
qed

text \<open>The state in which \<open>checkpoint_store_reg\<close> starts, on either path.\<close>

lemma entry_slots:
  assumes "stack_frame c 7" and "m = ram (snd (run W Store_Checkpoint_entry (c, s)))"
  shows "load32 m (get c SP - 4) = get c T2" "load32 m (get c SP - 8) = get c T3"
    "load32 m (get c SP - 12) = get c T4" "load32 m (get c SP - 16) = get c T5"
    "load32 m (get c SP - 20) = get c T6"
  by (simp_all add: assms(2) checkpoint_entry_state [OF assms(1)] mem_simps)

lemma entry_outside:
  assumes "stack_frame c 7" and "\<And>j. j < 7 \<Longrightarrow> apart (get c SP - 28 + 4 * of_nat j) b"
  shows "load32 (ram (snd (run W Store_Checkpoint_entry (c, s)))) b = load32 (ram s) b"
  using assms(2) [of 2] assms(2) [of 3] assms(2) [of 4] assms(2) [of 5] assms(2) [of 6]
  by (simp add: checkpoint_entry_state [OF assms(1)] mem_simps)

lemma checkpoint_before_regs:
  assumes L: "checkpoint_layout c s n"
  shows "\<exists>c2 s2. Store_Checkpoint W pc (c, s) = Some (run W (checkpoint_store_reg pc) (c2, s2))
     \<and> (\<forall>r. r \<notin> {T2, T3, T4, T5, T6} \<longrightarrow> get c2 r = get c r) \<and> get c2 T5 = copy_address s
     \<and> csrs c2 = csrs c \<and> wrapper s2 = wrapper s
     \<and> (\<forall>r. get (framed c2 (ram s2)) r = get c r)
     \<and> words (ram s2) (get c SP) (n + 1) = words (ram s) (get c SP) (n + 1)
     \<and> (0 < n \<longrightarrow> words (ram s2) (copy_address s + 148) (n + 1) = words (ram s) (get c SP) (n + 1))"
proof -
  note F = layout_facts [OF L]
  define q where "q = get c SP"
  define p where "p = copy_address s"
  define t where "t = snd (run W Store_Checkpoint_entry (c, s))"
  have below: "apart (q - 28 + 4 * of_nat j) (q + 4 * of_nat i)" if "j < 7" "i \<le> n" for i j
    using apart_multiples [of j "7 + i" "q - 28"] that F(1) by (simp add: algebra_simps)
  have stack: "words (ram t) q (n + 1) = words (ram s) q (n + 1)"
    using entry_outside [OF F(3)] below by (intro words_cong) (simp add: t_def q_def)
  have slots: "load32 (ram t) (q - 4) = get c T2" "load32 (ram t) (q - 8) = get c T3"
    "load32 (ram t) (q - 12) = get c T4" "load32 (ram t) (q - 16) = get c T5"
    "load32 (ram t) (q - 20) = get c T6"
    using entry_slots [OF F(3), of "ram t" W s] by (simp_all add: t_def q_def)
  have framed: "get (framed d m) r = get c r"
    if "\<And>r. r \<notin> {T2, T3, T4, T5, T6} \<Longrightarrow> get d r = get c r"
      and "\<And>k. k \<in> {4, 8, 12, 16, 20} \<Longrightarrow> load32 m (q - k) = load32 (ram t) (q - k)" for d m r
    using that slots by (auto simp: framed_def get_put q_def)
  show ?thesis
  proof (cases "n = 0")
    case True
    then have "Store_Checkpoint W pc (c, s) =
        Some (run W (checkpoint_store_reg pc) (fst (run W Store_Checkpoint_entry (c, s)), t))"
      using Store_Checkpoint_no_stack [OF L] by (simp add: t_def)
    moreover have "get (framed (fst (run W Store_Checkpoint_entry (c, s))) (ram t)) r = get c r" for r
      by (rule framed) (auto simp: checkpoint_entry_state [OF F(3)] exec_simps)
    ultimately show ?thesis
      using stack True
      by (intro exI [of _ "fst (run W Store_Checkpoint_entry (c, s))"] exI [of _ t])
        (auto simp: checkpoint_entry_state [OF F(3)] exec_simps t_def q_def)
  next
    case False
    then obtain c2 s2 where c2: "Store_Checkpoint W pc (c, s) = Some (run W (checkpoint_store_reg pc) (c2, s2))"
      "\<And>r. r \<notin> {T2, T3, T4, T5, T6} \<Longrightarrow> get c2 r = get c r" "get c2 T5 = p"
      "csrs c2 = csrs c" "wrapper s2 = wrapper s"
      "ram s2 = copy_words (ram t) q (p + 148) (Suc n)"
      using Store_Checkpoint_stack [OF L, of W pc] by (auto simp: p_def q_def t_def)
    have apS: "apart (p + 148 + 4 * of_nat i) (q + 4 * of_nat j)" if "i < Suc n" "j < Suc n" for i j
      using F(8) [of "37 + i" j] that by (simp add: p_def q_def algebra_simps)
    have apF: "apart (p + 148 + 4 * of_nat i) (q - 28 + 4 * of_nat j)" if "i < Suc n" "j < 7" for i j
      using F(9) [of "37 + i" j] that by (simp add: p_def q_def algebra_simps)
    have n30: "Suc n < 2 ^ 30" using F(1) by simp
    have saved: "words (ram s2) (p + 148) (n + 1) = words (ram s) q (n + 1)"
      using copy_words_result [OF apS n30, of "ram t"] stack c2(6) by (simp del: words.simps copy_words.simps)
    have kept: "words (ram s2) q (n + 1) = words (ram s) q (n + 1)"
      unfolding stack [symmetric] c2(6) using apS
      by (intro words_cong copy_words_outside) simp_all
    have K: "load32 (ram s2) (q - 28 + 4 * of_nat j) = load32 (ram t) (q - 28 + 4 * of_nat j)"
      if "j < 7" for j
      unfolding c2(6) using apF that by (intro copy_words_outside) simp
    have "load32 (ram s2) (q - k) = load32 (ram t) (q - k)" if "k \<in> {4, 8, 12, 16, 20}" for k
      using that K [of 6] K [of 5] K [of 4] K [of 3] K [of 2] by auto
    with framed [OF c2(2)] have fr: "get (framed c2 (ram s2)) r = get c r" for r
      by blast
    show ?thesis
      using c2 fr saved kept unfolding p_def q_def
      by (intro exI [of _ c2] exI [of _ s2] conjI) simp_all
  qed
qed
lemma checkpoint_saved_state:
  assumes "checkpoint_layout c s n"
  shows "\<exists>c1 s1. Store_Checkpoint W pc (c, s) = Some (c1, s1)
     \<and> (\<forall>r. get c1 r = get c r) \<and> csrs c1 = csrs c \<and> wrapper s1 = wrapper s
     \<and> context_of (ram s1) (copy_address s) = context_image c pc
     \<and> words (ram s1) (get c SP) (n + 1) = words (ram s) (get c SP) (n + 1)
     \<and> (0 < n \<longrightarrow> words (ram s1) (copy_address s + 148) (n + 1) = words (ram s) (get c SP) (n + 1))"
proof -
  note F = layout_facts [OF assms]
  obtain c2 s2 where B: "Store_Checkpoint W pc (c, s) = Some (run W (checkpoint_store_reg pc) (c2, s2))"
      "\<And>r. r \<notin> {T2, T3, T4, T5, T6} \<Longrightarrow> get c2 r = get c r" "get c2 T5 = copy_address s"
      "csrs c2 = csrs c" "wrapper s2 = wrapper s" "\<And>r. get (framed c2 (ram s2)) r = get c r"
      "words (ram s2) (get c SP) (n + 1) = words (ram s) (get c SP) (n + 1)"
      "0 < n \<longrightarrow> words (ram s2) (copy_address s + 148) (n + 1) = words (ram s) (get c SP) (n + 1)"
    using checkpoint_before_regs [OF assms, of W pc] by blast
  have sp: "get c2 SP = get c SP" using B(2) by simp
  then have fr: "stack_frame c2 7" "disjoint_blocks (copy_address s) 148 (get c2 SP - 28) 28"
    using F(3,7) by (simp_all add: stack_frame_def)
  obtain c1 s1 where r: "run W (checkpoint_store_reg pc) (c2, s2) = (c1, s1)"
    by (cases "run W (checkpoint_store_reg pc) (c2, s2)")
  note R = store_reg_state [OF fr(1) F(5) fr(2) B(3), of W pc s2, unfolded r Let_def prod.case]
  note K = store_reg_outside [OF fr(1) F(5) fr(2) B(3), of _ W pc s2, unfolded r snd_conv]
  have area: "words (ram s1) (get c SP) (n + 1) = words (ram s2) (get c SP) (n + 1)"
    using F(8) by (intro words_cong K) simp
  have copy: "words (ram s1) (copy_address s + 148) (n + 1) = words (ram s2) (copy_address s + 148) (n + 1)"
  proof (intro words_cong K)
    fix i j assume "i < n + 1" "j < (37 :: nat)"
    then show "apart (copy_address s + 4 * of_nat j) (copy_address s + 148 + 4 * of_nat i)"
      using apart_multiples [of j "37 + i" "copy_address s"] F(1) by (simp add: algebra_simps)
  qed
  have "context_image (framed c2 (ram s2)) pc = context_image c pc"
    using B(4,6) by (simp add: context_image_def framed_def core_put)
  with B R r area copy show ?thesis
    by (intro exI [of _ c1] exI [of _ s1] conjI) simp_all
qed

text \<open>
  C8: \<^verbatim>\<open>Store_Checkpoint\<close> returns, leaves the hart and its stack as they were, and leaves in the
  safe copy the exact context of the caller with the address of its own end, and behind it
  the words of the stack.
\<close>

theorem Store_Checkpoint_saves:
  assumes "checkpoint_layout c s n"
  shows "\<exists>c1 s1. Store_Checkpoint W pc (c, s) = Some (c1, s1)
     \<and> (\<forall>r. get c1 r = get c r) \<and> csrs c1 = csrs c \<and> wrapper s1 = wrapper s
     \<and> context_of (ram s1) (copy_address s) = context_image c pc
     \<and> words (ram s1) (get c SP) (n + 1) = words (ram s) (get c SP) (n + 1)
     \<and> (0 < n \<longrightarrow> words (ram s1) (copy_address s + 148) (n + 1) = words (ram s) (get c SP) (n + 1))"
  by (rule checkpoint_saved_state [OF assms])

section \<open>Rolling back\<close>

lemma debug_request_none:
  assumes "wrapper t W_EXTERNAL_DEBUG_REQ AND 3 = 0"
  shows "rom_run W DEBUG_OFFSET (d, t) =
     rom_run W (rom_addr 0xd4) (run W halt_boot_ops (run W debug_entry_ops (d, t)))"
proof -
  have "get (fst (run W debug_entry_ops (d, t))) A0 = 0"
    using assms by (simp add: debug_entry_ops_def exec_simps exec_LW_wrapper_base)
  moreover have a: "DEBUG_OFFSET = rom_addr 0x50"
    by (simp add: platform_simps rom_addr_def)
  ultimately show ?thesis
    unfolding a by (simp add: rom_blocks(2,3) rom_jumps(2))
qed

lemma take_words: "k \<le> n \<Longrightarrow> take k (words m p n) = words m p k"
  by (simp add: list_eq_iff_nth_eq nth_words)

text \<open>The recovery branch, up to the load of the remaining registers.\<close>

lemma recover_stack:
  assumes "get c T1 \<noteq> 0" "get c T0 = 0x20000000" "get c T5 = p" "get c SP = q"
    and "wrapper t W_INITIAL_STACK_ADDR = q + 4 * of_nat n" and "n < 2 ^ 28"
    and "\<And>i. i \<le> n \<Longrightarrow> plain (q + 4 * of_nat i)"
    and "\<And>i. i \<le> n \<Longrightarrow> plain (p + 148 + 4 * of_nat i)"
    and "plain_words p 37" and "load32 (ram t) (p + 24) = q"
    and "\<And>i. i \<le> n \<Longrightarrow> apart (q + 4 * of_nat i) (p + 24)"
  shows "\<exists>c2. rom_run W (rom_addr 0xd4) (c, t) = rom_run W (rom_addr 0xd8)
        (c2, if n = 0 then t else t\<lparr>ram := copy_words (ram t) (p + 148) q (Suc n)\<rparr>)
     \<and> (\<forall>r. r \<notin> {T1, T2, T4} \<longrightarrow> get c2 r = get c r) \<and> csrs c2 = csrs c"
proof -
  let ?c = "emit Fence (put T1 (q + 4 * of_nat n) c)"
  have start: "rom_run W (rom_addr 0xd4) (c, t) = rom_run W (rom_addr 0x170) (?c, t)"
    using assms(1,2,5) by (simp add: rom_jumps rom_words exec_simps exec_LW_wrapper_base)
  show ?thesis
  proof (cases "n = 0")
    case True
    then have "rom_run W (rom_addr 0x170) (?c, t) = rom_run W (rom_addr 0xd8) (?c, t)"
      using assms(4) by (simp add: rom_jumps(7) exec_simps)
    with True show ?thesis
      unfolding start by (intro exI [of _ ?c]) (simp add: exec_simps)
  next
    case False
    have "q \<noteq> q + 4 * of_nat n"
      using not_at_limit [of "n - 1" q] assms(6) False by simp
    then have "rom_run W (rom_addr 0x170) (?c, t) = rom_run W (rom_addr 0x178) (put T2 (p + 148) ?c, t)"
      using assms(3,4) by (simp add: rom_jumps rom_words(3) exec_simps)
    moreover have "n < 2 ^ 30" using assms(6) by simp
    from rollback_loop [OF _ _ _ this assms(8,7), of "put T2 (p + 148) ?c" W t]
    obtain c2 where c2: "rom_run W (rom_addr 0x178) (put T2 (p + 148) ?c, t) = rom_run W (rom_addr 0x198)
        (c2, t\<lparr>ram := copy_words (ram t) (p + 148) q (Suc n)\<rparr>)"
      "\<And>r. r \<notin> {T2, SP, T4} \<Longrightarrow> get c2 r = get (put T2 (p + 148) ?c) r" "csrs c2 = csrs c"
      using assms(4) by (auto simp: exec_simps)
    moreover have "load32 (copy_words (ram t) (p + 148) q (Suc n)) (p + 24) = q"
      using copy_words_outside [of "Suc n" q "p + 24"] assms(10,11) by (simp del: copy_words.simps)
    then have "rom_run W (rom_addr 0x198) (c2, t\<lparr>ram := copy_words (ram t) (p + 148) q (Suc n)\<rparr>) =
        rom_run W (rom_addr 0xd8) (put SP q c2, t\<lparr>ram := copy_words (ram t) (p + 148) q (Suc n)\<rparr>)"
      using assms(3,9) c2(2) [of T5]
      by (simp add: rom_words rom_jumps exec_simps plain_words_numeral upt_rec_numeral del: copy_words.simps)
    ultimately show ?thesis
      using False start assms(4)
      by (intro exI [of _ "put SP q c2"]) (auto simp: exec_simps simp del: copy_words.simps)
  qed
qed

text \<open>What the safe copy says after a checkpoint, as long as nobody touches it.\<close>

lemma saved_area_kept:
  assumes "checkpoint_layout c s n" and "Store_Checkpoint W pc (c, s) = Some (c1, s1)"
    and "words m (copy_address s) (n + 38) = words (ram s1) (copy_address s) (n + 38)"
  shows "context_of m (copy_address s) = context_image c pc
     \<and> (0 < n \<longrightarrow> words m (copy_address s + 148) (n + 1) = words (ram s) (get c SP) (n + 1))"
proof -
  define p where "p = copy_address s"
  have S: "context_of (ram s1) p = context_image c pc"
    "0 < n \<Longrightarrow> words (ram s1) (p + 148) (n + 1) = words (ram s) (get c SP) (n + 1)"
    using checkpoint_saved_state [OF assms(1), of W pc] assms(2) by (auto simp: p_def)
  have eq: "load32 m (p + 4 * of_nat i) = load32 (ram s1) (p + 4 * of_nat i)" if "i < n + 38" for i
    using assms(3) that unfolding words_eq_iff p_def by blast
  have "context_of m p = context_of (ram s1) p"
    unfolding context_of_def by (intro words_cong eq) simp
  moreover have "words m (p + 148) (n + 1) = words (ram s1) (p + 148) (n + 1)"
    using eq [of "37 + i" for i] by (intro words_cong) (simp add: algebra_simps)
  ultimately show ?thesis using S by (simp add: p_def)
qed

text \<open>What the rollback loop writes: the stack is back and the saved context still there.\<close>

lemma copied_back:
  assumes "checkpoint_layout c s n"
    and "0 < n \<longrightarrow> words m (copy_address s + 148) (n + 1) = words m' (get c SP) (n + 1)"
  defines "r \<equiv> if n = 0 then m else copy_words m (copy_address s + 148) (get c SP) (Suc n)"
  shows "context_of r (copy_address s) = context_of m (copy_address s)"
    and "words r (get c SP) n = words m' (get c SP) n"
proof -
  note F = layout_facts [OF assms(1)]
  define p where "p = copy_address s"
  define q where "q = get c SP"
  have ap: "apart (q + 4 * of_nat i) (p + 4 * of_nat j)" if "i \<le> n" "j < n + 38" for i j
    using F(8) that by (simp add: apart_sym p_def q_def)
  show "context_of r (copy_address s) = context_of m (copy_address s)"
    unfolding context_of_def r_def using ap
    by (intro words_cong) (simp add: copy_words_outside p_def q_def del: copy_words.simps)
  show "words r (get c SP) n = words m' (get c SP) n"
  proof (cases "n = 0")
    case False
    then have "words r q (n + 1) = words m (p + 148) (n + 1)"
      using copy_words_result [of "Suc n" q "p + 148" m] ap [of _ "37 + j" for j] F(1)
      by (simp add: r_def p_def q_def algebra_simps del: copy_words.simps words.simps)
    with assms(2) False have "words r q (n + 1) = words m' q (n + 1)" by (simp add: p_def q_def)
    from arg_cong [OF this, of "take n"] show ?thesis by (simp add: take_words q_def del: words.simps)
  qed simp
qed

text \<open>The first half of the ROM routine, up to the branch on the recovery request.\<close>

lemma halted_for_recovery:
  assumes "context_of (ram t) p = context_image c pc" and "copy_address t = p" and "plain_words p 37"
    and "wrapper t W_DMR_REC AND 1 = 1" "wrapper t W_EXTERNAL_DEBUG_REQ AND 3 = 0"
    and "\<And>k old. k \<in> set context_csrs \<Longrightarrow> W k old (csrs c k) = csrs c k"
  shows "\<exists>c2. rom_run W DEBUG_OFFSET (d, t) = rom_run W (rom_addr 0xd4) (c2, t)
     \<and> get c2 T5 = p \<and> get c2 T0 = 0x20000000 \<and> get c2 T1 \<noteq> 0 \<and> get c2 SP = get c SP
     \<and> get c2 RA = get c RA \<and> get c2 GP = get c GP \<and> get c2 TP = get c TP
     \<and> (\<forall>k \<in> set context_csrs. csrs c2 k = csrs c k) \<and> load32 (ram t) (p + 24) = get c SP"
proof -
  have V: "load32 (ram t) p = csrs c MSTATUS" "load32 (ram t) (p + 4) = csrs c MIE"
    "load32 (ram t) (p + 8) = csrs c MTVEC" "load32 (ram t) (p + 12) = csrs c MEPC"
    "load32 (ram t) (p + 16) = csrs c MTVAL" "load32 (ram t) (p + 20) = get c RA"
    "load32 (ram t) (p + 24) = get c SP" "load32 (ram t) (p + 28) = get c GP"
    "load32 (ram t) (p + 32) = get c TP"
    using assms(1) by (simp_all add: context_of_offsets context_image_def context_csrs_def context_gprs_def)
  obtain c2 t2 where h: "run W halt_boot_ops (run W debug_entry_ops (d, t)) = (c2, t2)"
    by (cases "run W halt_boot_ops (run W debug_entry_ops (d, t))")
  have H: "t2 = t" "get c2 T5 = p" "get c2 T0 = 0x20000000" "get c2 T1 \<noteq> 0" "get c2 SP = get c SP"
    "get c2 RA = get c RA" "get c2 GP = get c GP" "get c2 TP = get c TP"
    "\<And>k. k \<in> set context_csrs \<Longrightarrow> csrs c2 k = csrs c k"
    using halt_boot_state [of t W d] assms(2,3,4,6) V
    by (auto simp: h context_csrs_def)
  show ?thesis
    using debug_request_none [OF assms(5), of W d] H V(7) by (intro exI [of _ c2]) (simp add: h)
qed

text \<open>
  C3: rollback. If the safety controller halts a hart for recovery after a checkpoint, and
  neither the safe copy nor the two wrapper registers that locate it changed in between, the
  hart resumes behind the checkpoint with every register, the saved CSRs and the whole stack
  as they were at the call, whatever the hart, the stack and the rest of memory hold by then.
\<close>

theorem checkpoint_rollback:
  assumes "checkpoint_layout c s n" and "Store_Checkpoint W pc (c, s) = Some (c1, s1)"
    and "words (ram t) (copy_address s) (n + 38) = words (ram s1) (copy_address s) (n + 38)"
    and "copy_address t = copy_address s" "wrapper t W_INITIAL_STACK_ADDR = wrapper s W_INITIAL_STACK_ADDR"
    and "wrapper t W_DMR_REC AND 1 = 1" "wrapper t W_EXTERNAL_DEBUG_REQ AND 3 = 0"
    and "\<And>k old. k \<in> set context_csrs \<Longrightarrow> W k old (csrs c k) = csrs c k"
    and "\<And>old. W DPC old pc = pc"
  shows "\<exists>e t'. rom_run W DEBUG_OFFSET (d, t) = Some (Resumed pc, (e, t'))
     \<and> (\<forall>r. get e r = get c r) \<and> (\<forall>k \<in> set context_csrs. csrs e k = csrs c k)
     \<and> words (ram t') (get c SP) n = words (ram s) (get c SP) n"
proof -
  note F = layout_facts [OF assms(1)]
  define p where "p = copy_address s"
  define q where "q = get c SP"
  have ctx: "context_of (ram t) p = context_image c pc"
    and stk: "0 < n \<longrightarrow> words (ram t) (p + 148) (n + 1) = words (ram s) q (n + 1)"
    using saved_area_kept [OF assms(1-3)] by (simp_all add: p_def q_def)
  obtain c2 where H: "rom_run W DEBUG_OFFSET (d, t) = rom_run W (rom_addr 0xd4) (c2, t)"
    "get c2 T5 = p" "get c2 T0 = 0x20000000" "get c2 T1 \<noteq> 0" "get c2 SP = q"
    "get c2 RA = get c RA" "get c2 GP = get c GP" "get c2 TP = get c TP"
    "\<And>k. k \<in> set context_csrs \<Longrightarrow> csrs c2 k = csrs c k" "load32 (ram t) (p + 24) = q"
    using halted_for_recovery [OF ctx, of W d] F(5) assms(4,6,7,8) by (auto simp: p_def q_def)
  define t3 where "t3 = (if n = 0 then t else t\<lparr>ram := copy_words (ram t) (p + 148) q (Suc n)\<rparr>)"
  have t3: "ram t3 = (if n = 0 then ram t else copy_words (ram t) (p + 148) q (Suc n))"
    by (simp add: t3_def)
  have ap: "apart (q + 4 * of_nat i) (p + 24)" if "i \<le> n" for i
    using F(8) [of 6 i] that by (simp add: apart_sym p_def q_def)
  obtain c3 where c3: "rom_run W (rom_addr 0xd4) (c2, t) = rom_run W (rom_addr 0xd8) (c3, t3)"
    "\<And>r. r \<notin> {T1, T2, T4} \<Longrightarrow> get c3 r = get c2 r" "csrs c3 = csrs c2"
    using recover_stack [OF H(4,3,2,5), of t n W] F(1,2,4,5,6) assms(5) H(10) ap
    by (auto simp: p_def q_def t3_def)
  have ctx3: "context_of (ram t3) p = context_image c pc" and restored: "words (ram t3) q n = words (ram s) q n"
    using copied_back [OF assms(1) stk [unfolded p_def q_def]] ctx by (simp_all only: t3 p_def q_def)
  obtain e t4 where e: "run W load_register_ops (c3, t3) = (e, t4)"
    by (cases "run W load_register_ops (c3, t3)")
  have L: "t4 = t3" "csrs e = (csrs c3)(DPC := pc)"
    "map (get e) (take 4 context_gprs) = map (get c3) (take 4 context_gprs)"
    "map (get e) (drop 4 context_gprs) = take 27 (drop 9 (context_image c pc))"
    using load_register_state [of c3 p W t3] c3(2) [of T5] H(2) F(5) ctx3 assms(9)
    by (simp_all add: e p_def context_image_def context_csrs_def context_gprs_def)
  have regs: "get e r = get c r" for r
    using L(3,4) c3(2) H(5-8) q_def
    by (cases r) (simp_all add: context_image_def context_csrs_def context_gprs_def get_ZERO)
  have "rom_run W DEBUG_OFFSET (d, t) = Some (Resumed pc, (e, t3))"
    by (simp add: H(1) c3(1) rom_blocks(4) e rom_jumps(6) L(1,2))
  moreover have "csrs e k = csrs c k" if "k \<in> set context_csrs" for k
    using that H(9) by (auto simp: L(2) c3(3) context_csrs_def)
  ultimately show ?thesis
    using regs restored by (auto simp: q_def)
qed

text \<open>A hart with one word on its stack.\<close>

definition deep_core :: core where
  "deep_core = put SP 0x1902FFFC sample_core"

lemma sample_layout: "checkpoint_layout deep_core sample_soc 1"
proof -
  have "plain_words 0x1902FFFC 2"
    by (simp add: plain_words_numeral plain_def is_private_def is_wrapper_def)
  then have "plain_words 0x1902FFFC (Suc (Suc 0))"
    by (simp only: numeral_2_eq_2)
  then show ?thesis
    by (simp add: checkpoint_layout_def deep_core_def sample_soc_def sample_core_def copy_address_def
        frame_simps plain_words_numeral upt_rec_numeral get_def put_def plain_def is_private_def
        is_wrapper_def disjoint_blocks_def)
qed

theorem Store_Checkpoint_saves_witness:
  "\<exists>c1 s1. Store_Checkpoint csr_plain 0x500 (deep_core, sample_soc) = Some (c1, s1)
     \<and> context_of (ram s1) 0x19029000 = context_image deep_core 0x500"
  using Store_Checkpoint_saves [OF sample_layout, of csr_plain "0x500"]
  by (auto simp: sample_values)

theorem checkpoint_rollback_witness:
  "\<exists>c1 s1 e t'. Store_Checkpoint csr_plain 0x500 (deep_core, sample_soc) = Some (c1, s1)
     \<and> rom_run csr_plain DEBUG_OFFSET
         (sample_core, s1\<lparr>wrapper := (wrapper s1)(W_DMR_REC := 1)\<rparr>) = Some (Resumed 0x500, (e, t'))
     \<and> get e SP = 0x1902FFFC \<and> get sample_core SP = 0x19030000"
proof -
  obtain c1 s1 where s1: "Store_Checkpoint csr_plain 0x500 (deep_core, sample_soc) = Some (c1, s1)"
    and w: "wrapper s1 = wrapper sample_soc"
    using checkpoint_saved_state [OF sample_layout, of csr_plain "0x500"] by blast
  define t where "t = s1\<lparr>wrapper := (wrapper s1)(W_DMR_REC := 1)\<rparr>"
  have "\<exists>e t'. rom_run csr_plain DEBUG_OFFSET (sample_core, t) = Some (Resumed 0x500, (e, t'))
     \<and> (\<forall>r. get e r = get deep_core r) \<and> (\<forall>k \<in> set context_csrs. csrs e k = csrs deep_core k)
     \<and> words (ram t') (get deep_core SP) 1 = words (ram sample_soc) (get deep_core SP) 1"
    by (rule checkpoint_rollback [OF sample_layout s1])
      (simp_all add: t_def w copy_address_def csr_plain_def sample_debug)
  moreover have "get deep_core SP = 0x1902FFFC" by (simp add: deep_core_def get_put)
  ultimately show ?thesis
    using s1 by (fastforce simp: t_def sample_values)
qed

section \<open>When a checkpoint returns\<close>

lemma get_exec_LW: "r \<noteq> rd \<Longrightarrow> get (fst (exec W (LW rd i b) m)) r = get (fst m) r"
  by (cases m) (simp add: exec.simps get_put)

lemma get_exec_SW: "get (fst (exec W (SW rs i b) m)) r = get (fst m) r"
  by (cases m) (simp add: exec.simps store_word.simps Let_def case_prod_beta core_emit get_updates)

lemma get_exec_ADDI:
  "get (fst (exec W (ADDI rd rs i) m)) r = (if r = rd \<and> rd \<noteq> ZERO then get (fst m) rs + i else get (fst m) r)"
  by (cases m) (simp add: exec.simps get_put)

definition aligned_distance :: "machine \<Rightarrow> bool" where
  "aligned_distance m \<longleftrightarrow> 4 dvd unat (get (fst m) T4 - get (fst m) T2)"

lemma aligned_step: "4 dvd unat (x - (y + 4)) \<longleftrightarrow> 4 dvd unat (x - y)" for x y :: u32
proof -
  define z where "z = x - y"
  have "4 dvd unat (z - 4) \<longleftrightarrow> 4 dvd unat z"
    by (auto simp: unat_sub_if' dvd_diff_nat) presburger+
  then show ?thesis by (simp only: z_def diff_diff_eq)
qed

lemma checkpoint_loop_aligned:
  assumes "checkpoint_store_stack W m = Some y"
  shows "aligned_distance m"
proof (rule checkpoint_store_stack.raw_induct [OF _ assms, where P = "\<lambda>W m y. aligned_distance m"])
  fix f W m y
  assume IH: "\<And>W m y. f W m = Some y \<Longrightarrow> aligned_distance m"
    and step: "(let m1 = run W [LW T6 0 T2, SW T6 0 T3] m in
      if get (fst m1) T2 = get (fst m1) T4 then Some m1
      else f W (run W [ADDI T3 T3 4, ADDI T2 T2 4] m1)) = Some y"
  show "aligned_distance m"
  proof (cases "get (fst m) T2 = get (fst m) T4")
    case False
    with step have "f W (run W [LW T6 0 T2, SW T6 0 T3, ADDI T3 T3 4, ADDI T2 T2 4] m) = Some y"
      by (simp add: Let_def get_exec_LW get_exec_SW)
    from IH [OF this] show ?thesis
      by (simp add: aligned_distance_def get_exec_LW get_exec_SW get_exec_ADDI aligned_step)
  qed (simp add: aligned_distance_def)
qed

lemma checkpoint_loop_returns:
  assumes "aligned_distance m"
  shows "checkpoint_store_stack W m \<noteq> None"
proof -
  from assms obtain n where "unat (get (fst m) T4 - get (fst m) T2) = 4 * n"
    by (auto simp: aligned_distance_def)
  then show "checkpoint_store_stack W m \<noteq> None"
  proof (induction n arbitrary: m)
    case 0
    then have "get (fst m) T2 = get (fst m) T4" by (simp add: unat_eq_0)
    then show ?case
      by (subst checkpoint_store_stack.simps) (simp add: Let_def get_exec_LW get_exec_SW)
  next
    case (Suc n)
    let ?m = "run W [LW T6 0 T2, SW T6 0 T3, ADDI T3 T3 4, ADDI T2 T2 4] m"
    have "get (fst m) T2 \<noteq> get (fst m) T4" using Suc.prems by auto
    moreover have "unat (get (fst m) T4 - (get (fst m) T2 + 4)) = 4 * n"
    proof -
      have "unat (get (fst m) T4 - get (fst m) T2 - 4) = 4 * n"
        using Suc.prems by (subst unat_sub) (simp_all add: word_le_nat_alt)
      then show ?thesis by (simp add: algebra_simps)
    qed
    then have "checkpoint_store_stack W ?m \<noteq> None"
      by (intro Suc.IH) (simp add: get_exec_LW get_exec_SW get_exec_ADDI)
    ultimately show ?case
      by (subst checkpoint_store_stack.simps) (simp add: Let_def get_exec_LW get_exec_SW)
  qed
qed

text \<open>
  C29: the copy loop of \<^verbatim>\<open>Store_Checkpoint\<close> ends exactly if the stack pointer is a whole number of
  words away from the initial stack address (around the address space, if it is above it).
  With any other distance the hart copies for ever.
\<close>

theorem checkpoint_loop_terminates_iff:
  "checkpoint_store_stack W m \<noteq> None \<longleftrightarrow> aligned_distance m"
  using checkpoint_loop_aligned checkpoint_loop_returns by blast

end
