(* ===== verification/SAP_Applications.thy ===== *)
theory SAP_Applications
  imports Safety_Handlers Checkpoint_Recovery
begin

text \<open>
  The two applications that exercise the safety library, src/sw/applications/template/main.c and
  src/sw/applications/template_hello_world/main.c, as the sequence of their calls and device
  accesses on one hart, and an abstract specification of what the library makes of such a
  sequence: the mode, the master and the mask of the safe wrapper, and the order in which they
  were switched. The registers a compiler would use between the calls are not modelled, but for
  the argument of \<^verbatim>\<open>Safe_Activate\<close>, which the assembly takes from a0.
\<close>

section \<open>The programs\<close>

definition activate :: "csr_warl \<Rightarrow> (machine \<Rightarrow> machine) \<Rightarrow> u32 \<Rightarrow> u32 \<Rightarrow> machine \<Rightarrow> machine" where
  "activate W wake sync_pc mode m = Safe_Activate W wake sync_pc (put A0 mode (fst m), snd m)"

text \<open>\<^verbatim>\<open>for (int i=0; i<n; i++) *P1 = i;\<close>\<close>

definition store_loop :: "u32 \<Rightarrow> nat \<Rightarrow> machine \<Rightarrow> machine" where
  "store_loop P1 n m = fold (\<lambda>i. store_word P1 (of_nat i)) [0..<n] m"

definition main_template ::
    "csr_warl \<Rightarrow> (machine \<Rightarrow> machine) \<Rightarrow> u32 \<Rightarrow> u32 \<Rightarrow> machine \<Rightarrow> (machine \<times> int) option" where
  "main_template W wake sync_pc exit_pc m =
     (let m = activate W wake sync_pc DCLS_MODE m in
      case Store_Checkpoint W exit_pc m of
        None \<Rightarrow> None
      | Some m \<Rightarrow> let m = Safe_Stop W wake MASTER_CORE1 m in Some (m, 0))"

definition main_hello_world ::
    "csr_warl \<Rightarrow> (machine \<Rightarrow> machine) \<Rightarrow> u32 \<Rightarrow> machine \<Rightarrow> machine \<times> int" where
  "main_hello_world W wake sync_pc m =
     (let P = SAFE_WRAPPER_CTRL_BASEADDRESS + heep_offset H_DMR_MASK;
          P1 = GLOBAL_BASE_ADDRESS + 0x0002A000;
          m = activate W wake sync_pc TCLS_MODE m;
          m = Safe_Stop W wake MASTER_CORE2 m;
          m = activate W wake sync_pc LOCKSTEP_MODE m;
          m = store_loop P1 1000000 m;
          m = Safe_Stop W wake MASTER_CORE0 m;
          m = activate W wake sync_pc DCLS_MODE m;
          m = Safe_Stop W wake MASTER_CORE0 m;
          m = store_word P CORE12_MASK m;
          m = activate W wake sync_pc TCLS_MODE m;
          m = Safe_Stop W wake MASTER_CORE1 m;
          m = activate W wake sync_pc LOCKSTEP_MODE m;
          m = Safe_Stop W wake MASTER_CORE2 m;
          m = activate W wake sync_pc DCLS_MODE m;
          m = Safe_Stop W wake MASTER_CORE2 m
      in (m, 0))"

section \<open>The specification of the library\<close>

text \<open>The configuration of the wrapper and the log of its changes, newest last.\<close>

record safe_config =
  mode :: u32
  master :: u32
  dmr_mask :: u32
  switches :: "(wrapper_reg \<times> u32) list"

definition enter_spec :: "u32 \<Rightarrow> safe_config \<Rightarrow> safe_config" where
  "enter_spec v A = (if mode A = 0
     then A\<lparr>mode := v AND 3, switches := switches A @ [(W_SAFE_CONFIGURATION, v)]\<rparr> else A)"

definition leave_spec :: "u32 \<Rightarrow> safe_config \<Rightarrow> safe_config" where
  "leave_spec v A = (if mode A = 0 then A
     else A\<lparr>mode := 0, master := v AND 7,
            switches := switches A @ [(W_MASTER_CORE, v), (W_SAFE_CONFIGURATION, 0)]\<rparr>)"

definition mask_spec :: "u32 \<Rightarrow> safe_config \<Rightarrow> safe_config" where
  "mask_spec v A = A\<lparr>dmr_mask := v AND 7, switches := switches A @ [(W_DMR_MASK, v)]\<rparr>"

fun switch_of :: "event \<Rightarrow> (wrapper_reg \<times> u32) option" where
  "switch_of (Wrapper_write a v) =
     (if a = wrapper_addr W_SAFE_CONFIGURATION then Some (W_SAFE_CONFIGURATION, v)
      else if a = wrapper_addr W_MASTER_CORE then Some (W_MASTER_CORE, v)
      else if a = wrapper_addr W_DMR_MASK then Some (W_DMR_MASK, v) else None)"
| "switch_of _ = None"

definition switch_log :: "event list \<Rightarrow> (wrapper_reg \<times> u32) list" where
  "switch_log es = List.map_filter switch_of es"

definition config :: "machine \<Rightarrow> safe_config" where
  "config m =
     \<lparr>mode = wrapper (snd m) W_SAFE_CONFIGURATION AND 3, master = wrapper (snd m) W_MASTER_CORE AND 7,
      dmr_mask = wrapper (snd m) W_DMR_MASK AND 7, switches = switch_log (trace (fst m))\<rparr>"

text \<open>What a program keeps for the library to work: its stack and the addresses of the safe copy.\<close>

definition home :: "machine \<Rightarrow> u32 \<times> u32 \<times> u32" where
  "home m = (get (fst m) SP, copy_address (snd m), wrapper (snd m) W_INITIAL_STACK_ADDR)"

definition ready :: "machine \<Rightarrow> bool" where
  "ready m \<longleftrightarrow> stack_frame (fst m) 4 \<and> plain_words (copy_address (snd m)) 37
     \<and> disjoint_blocks (copy_address (snd m)) 148 (get (fst m) SP - 16) 16"

text \<open>A sleep that keeps the frame of the sleeper and reconfigures nothing.\<close>

definition wake_keeps_config :: "(machine \<Rightarrow> machine) \<Rightarrow> bool" where
  "wake_keeps_config wake \<longleftrightarrow> wake_keeps_frame wake \<and> (\<forall>m. config (wake m) = config m \<and> home (wake m) = home m)"

section \<open>Every call implements its specification\<close>

lemma wrapper_addr_eq: "wrapper_addr r = wrapper_addr r' \<longleftrightarrow> r = r'"
  by (metis wrapper_hit option.inject)

lemma switch_log_append [simp]: "switch_log (es @ es') = switch_log es @ switch_log es'"
  by (simp add: switch_log_def map_filter_def)

lemma switch_log_simps [simp]:
  "switch_log [] = []"
  "switch_log (e # es) = (case switch_of e of None \<Rightarrow> switch_log es | Some x \<Rightarrow> x # switch_log es)"
  by (simp_all add: switch_log_def map_filter_simps split: option.split)

lemma ready_home: "home m = home m' \<Longrightarrow> ready m \<longleftrightarrow> ready m'"
  by (simp add: ready_def home_def stack_frame_def)

lemma layout_home: "home m = home m' \<Longrightarrow> checkpoint_layout (fst m) (snd m) n \<longleftrightarrow> checkpoint_layout (fst m') (snd m') n"
  by (simp add: checkpoint_layout_def home_def stack_frame_def)

text \<open>The refinement relation, and one rule per operation.\<close>

definition implements :: "u32 \<times> u32 \<times> u32 \<Rightarrow> safe_config \<Rightarrow> machine \<Rightarrow> bool" where
  "implements h A m \<longleftrightarrow> ready m \<and> home m = h \<and> config m = A"

lemma wake_implements: "wake_keeps_config wake \<Longrightarrow> implements h A m \<Longrightarrow> implements h A (wake m)"
  unfolding implements_def wake_keeps_config_def using ready_home by metis

text \<open>Only the stack pointer, two addresses, three registers and the log matter.\<close>

lemma implementsI:
  assumes "implements h A m" and "get (fst m') SP = get (fst m) SP"
    and "wrapper (snd m') W_SAFE_COPY_ADDRESS = wrapper (snd m) W_SAFE_COPY_ADDRESS"
    and "wrapper (snd m') W_INITIAL_STACK_ADDR = wrapper (snd m) W_INITIAL_STACK_ADDR"
    and "config m' = B"
  shows "implements h B m'"
proof -
  have h: "home m' = home m" using assms(2-4) by (simp add: home_def copy_address_def)
  from ready_home [OF h] h assms(1,5) show ?thesis by (simp add: implements_def)
qed

lemma leave_implements:
  assumes "wake_keeps_config wake" and "implements h A m"
  shows "implements h (leave_spec v A) (Safe_Stop W wake v m)"
proof -
  obtain c s where m: "m = (c, s)" by (cases m)
  have A: "A = config (c, s)" using assms(2) by (simp add: m implements_def)
  show ?thesis
  proof (cases "wrapper s W_SAFE_CONFIGURATION AND 3 = 0")
    case True
    then show ?thesis using assms(2) by (simp add: m Safe_Stop_machine leave_spec_def A config_def)
  next
    case False
    show ?thesis
      unfolding m Safe_Stop_machine Let_def if_not_P [OF False]
      by (rule wake_implements [OF assms(1)], rule implementsI [OF assms(2)])
        (simp_all add: m A False leave_spec_def config_def get_def wrapper_addr_eq and.assoc)
  qed
qed

lemma wakes_in_frame:
  assumes "ready (c, s)" and "get d SP = get c SP - 16" and "wrapper t W_SAFE_COPY_ADDRESS = copy_address s"
  shows "config (run W Safe_Activate_exit (run W Safe_Activate_reset (d, t))) = config (d, t)"
    and "get (fst (run W Safe_Activate_exit (run W Safe_Activate_reset (d, t)))) SP = get c SP"
    and "wrapper (snd (run W Safe_Activate_exit (run W Safe_Activate_reset (d, t)))) =
      (wrapper t)(W_INITIAL_SYNC_MASTER := 0)"
  using assms
  by (simp_all add: ready_def Safe_Activate_reset_def Safe_Activate_exit_def frame_simps exec_simps
      config_def wrapper_addr_eq)

lemma pending_config:
  assumes "ready (c, s)" and "wrapper s W_SAFE_CONFIGURATION AND 3 = 0"
  shows "config (activate_pending W pc (c, s)) = enter_spec (get c A0) (config (c, s))"
    and "get (fst (activate_pending W pc (c, s))) SP = get c SP - 16"
    and "wrapper (snd (activate_pending W pc (c, s))) =
      (wrapper s)(W_SAFE_CONFIGURATION := get c A0 AND 3, W_INITIAL_SYNC_MASTER := 1)"
  using activate_pending_device [of c s W pc] assms
  by (simp_all add: ready_def Let_def case_prod_beta enter_spec_def config_def wrapper_addr_eq get_put
      and.assoc)

lemma enter_implements:
  assumes wake: "wake_keeps_config wake" and m: "implements h A m"
  shows "implements h (enter_spec v A) (activate W wake pc v m)"
proof -
  define c where "c = put A0 v (fst m)"
  define s where "s = snd m"
  have act: "activate W wake pc v m = Safe_Activate W wake pc (c, s)"
    by (simp add: activate_def c_def s_def)
  have cs: "implements h A (c, s)"
    by (rule implementsI [OF m]) (use m in \<open>simp_all add: c_def s_def get_put implements_def config_def core_put\<close>)
  then have r: "ready (c, s)" and A: "A = config (c, s)" by (simp_all add: implements_def)
  have v: "get c A0 = v" by (simp add: c_def get_put)
  show ?thesis
  proof (cases "wrapper s W_SAFE_CONFIGURATION AND 3 = 0")
    case True
    define p where "p = activate_pending W pc (c, s)"
    obtain d t where w: "wake p = (d, t)" by (cases "wake p")
    note P = pending_config [OF r True, of W pc, folded p_def]
    have same: "config (d, t) = config p" "home (d, t) = home p"
      using wake w unfolding wake_keeps_config_def by metis+
    have home: "get d SP = get c SP - 16" "wrapper t W_SAFE_COPY_ADDRESS = copy_address s"
      "wrapper t W_INITIAL_STACK_ADDR = wrapper s W_INITIAL_STACK_ADDR"
      using same(2) P(2,3) by (simp_all add: home_def copy_address_def)
    have "Safe_Activate W wake pc (c, s) = run W Safe_Activate_exit (run W Safe_Activate_reset (d, t))"
      using Safe_Activate_resumed [of wake c s W pc] wake r True
      by (simp add: wake_keeps_config_def ready_def p_def [symmetric] w)
    moreover note F = wakes_in_frame [OF r home(1,2), of W]
    ultimately show ?thesis
      unfolding act by (intro implementsI [OF cs]) (simp_all add: F home same(1) P(1) A v copy_address_def)
  next
    case False
    then have "Safe_Activate W wake pc (c, s) =
       (c, s\<lparr>ram := store32 (store32 (ram s) (get c SP - 4) (get c T5)) (get c SP - 8) (get c T6)\<rparr>)"
      using Safe_Activate_returns_at_once [of c s W wake pc] r by (simp add: ready_def)
    with False show ?thesis
      unfolding act by (intro implementsI [OF cs]) (simp_all add: A enter_spec_def config_def)
  qed
qed

lemma mask_implements:
  assumes "implements h A m"
  shows "implements h (mask_spec v A) (store_word (SAFE_WRAPPER_CTRL_BASEADDRESS + heep_offset H_DMR_MASK) v m)"
proof -
  obtain c s where m: "m = (c, s)" by (cases m)
  have a: "SAFE_WRAPPER_CTRL_BASEADDRESS + heep_offset H_DMR_MASK = wrapper_addr W_DMR_MASK"
    by (simp add: wrapper_addr_def platform_simps wrapper_offset.simps)
  have w: "store_word (wrapper_addr W_DMR_MASK) v (c, s) = (emit (Wrapper_write (wrapper_addr W_DMR_MASK) v) c,
      s\<lparr>wrapper := (wrapper s)(W_DMR_MASK := v AND 7)\<rparr>)"
    by (simp add: store_word_wrapper block_masks wrapper_sw_rw_def wrapper_fields.simps fields_mask_def)
  have A: "A = config (c, s)" using assms by (simp add: m implements_def)
  show ?thesis
    unfolding m a w
    by (intro implementsI [OF assms]) (simp_all add: m A mask_spec_def config_def core_emit wrapper_addr_eq and.assoc)
qed

lemma store_implements:
  assumes "plain a" and "implements h A m"
  shows "implements h A (store_word a v m)"
proof -
  obtain c s where m: "m = (c, s)" by (cases m)
  have w: "store_word a v (c, s) = (c, s\<lparr>ram := store32 (ram s) a v\<rparr>)"
    using assms(1) by (simp add: store_word.simps bus_write_def plain_def)
  show ?thesis
    unfolding m w
    by (intro implementsI [OF assms(2)]) (use assms(2) in \<open>simp_all add: m implements_def config_def\<close>)
qed

lemma loop_implements: "plain a \<Longrightarrow> implements h A m \<Longrightarrow> implements h A (store_loop a n m)"
  unfolding store_loop_def by (induction n) (simp_all add: store_implements)

text \<open>One stay in a safe mode, from single mode to single mode.\<close>

lemma stay_spec:
  assumes "mode A = 0" and "v AND 3 \<noteq> 0"
  shows "leave_spec k (enter_spec v A) = A\<lparr>mode := 0, master := k AND 7,
     switches := switches A @ [(W_SAFE_CONFIGURATION, v), (W_MASTER_CORE, k), (W_SAFE_CONFIGURATION, 0)]\<rparr>"
  using assms by (simp add: enter_spec_def leave_spec_def)

section \<open>The applications\<close>

text \<open>
  C7: \<^verbatim>\<open>template_hello_world\<close>, run on any hart in single mode, enters and leaves the three safe
  modes twice, each time with the master it names, and switches the mask once, in exactly the
  order of the source; it ends in single mode with core 2 as master and cores 1 and 2 in the
  mask, with its stack pointer and the addresses of the safe copy as they were. No call is lost:
  each \<^verbatim>\<open>Safe_Activate\<close> finds the hart in single mode and each \<^verbatim>\<open>Safe_Stop\<close> in a safe one.
\<close>

theorem hello_world_switches:
  assumes "wake_keeps_config wake" and "ready m" and "mode (config m) = 0"
  shows "case main_hello_world W wake sync_pc m of (m', r) \<Rightarrow>
     r = 0 \<and> home m' = home m \<and>
     config m' = \<lparr>mode = SINGLE_MODE, master = MASTER_CORE2, dmr_mask = CORE12_MASK,
       switches = switches (config m) @
         [(W_SAFE_CONFIGURATION, TCLS_MODE), (W_MASTER_CORE, MASTER_CORE2), (W_SAFE_CONFIGURATION, 0),
          (W_SAFE_CONFIGURATION, LOCKSTEP_MODE), (W_MASTER_CORE, MASTER_CORE0), (W_SAFE_CONFIGURATION, 0),
          (W_SAFE_CONFIGURATION, DCLS_MODE), (W_MASTER_CORE, MASTER_CORE0), (W_SAFE_CONFIGURATION, 0),
          (W_DMR_MASK, CORE12_MASK),
          (W_SAFE_CONFIGURATION, TCLS_MODE), (W_MASTER_CORE, MASTER_CORE1), (W_SAFE_CONFIGURATION, 0),
          (W_SAFE_CONFIGURATION, LOCKSTEP_MODE), (W_MASTER_CORE, MASTER_CORE2), (W_SAFE_CONFIGURATION, 0),
          (W_SAFE_CONFIGURATION, DCLS_MODE), (W_MASTER_CORE, MASTER_CORE2), (W_SAFE_CONFIGURATION, 0)]\<rparr>"
proof -
  let ?A = "config m"
  note enter = enter_implements [OF assms(1), where W = W and pc = sync_pc]
  note leave = leave_implements [OF assms(1), where W = W]
  have a: "plain (GLOBAL_BASE_ADDRESS + 0x0002A000)"
    by (simp add: platform_simps plain_def is_private_def is_wrapper_def)
  have modes: "TCLS_MODE AND 3 \<noteq> 0" "DCLS_MODE AND 3 \<noteq> 0" "LOCKSTEP_MODE AND 3 \<noteq> 0"
    by (simp_all add: platform_simps)
  have "implements (home m)
     (leave_spec MASTER_CORE2 (enter_spec DCLS_MODE (leave_spec MASTER_CORE2 (enter_spec LOCKSTEP_MODE
       (leave_spec MASTER_CORE1 (enter_spec TCLS_MODE (mask_spec CORE12_MASK
         (leave_spec MASTER_CORE0 (enter_spec DCLS_MODE (leave_spec MASTER_CORE0 (enter_spec LOCKSTEP_MODE
           (leave_spec MASTER_CORE2 (enter_spec TCLS_MODE ?A)))))))))))))
     (fst (main_hello_world W wake sync_pc m))"
    unfolding main_hello_world_def Let_def fst_conv
    using assms(2) by (intro leave enter mask_implements loop_implements a) (simp add: implements_def)
  moreover have "snd (main_hello_world W wake sync_pc m) = 0"
    by (simp add: main_hello_world_def Let_def)
  ultimately show ?thesis
    using assms(3)
    by (cases ?A) (simp add: implements_def case_prod_beta stay_spec modes mask_spec_def,
      simp add: platform_simps)
qed

lemma wake_id: "wake_keeps_config id"
  by (simp add: wake_keeps_config_def wake_keeps_frame_def)

theorem hello_world_switches_witness:
  "mode (config (fst (main_hello_world csr_plain id 0x200 (sample_core, sample_soc)))) = SINGLE_MODE"
proof -
  have "ready (sample_core, sample_soc)" "mode (config (sample_core, sample_soc)) = 0"
    using sample_frame sample_area by (simp_all add: ready_def config_def sample_values)
  from hello_world_switches [OF wake_id this, of csr_plain "0x200"] show ?thesis
    by (auto split: prod.splits)
qed

text \<open>
  C15: \<^verbatim>\<open>template\<close>, run in single mode with a stack that its checkpoint can copy, returns 0: the
  checkpoint it takes in dual lockstep ends, and it leaves the hart in single mode with core 1 as
  master, and with its stack pointer and the addresses of the safe copy as they were.
\<close>

theorem template_returns:
  assumes "wake_keeps_config wake" and "ready m" and "mode (config m) = 0"
    and "checkpoint_layout (fst m) (snd m) n"
  shows "\<exists>m'. main_template W wake sync_pc exit_pc m = Some (m', 0)
     \<and> home m' = home m \<and> mode (config m') = SINGLE_MODE \<and> master (config m') = MASTER_CORE1"
proof -
  define a where "a = activate W wake sync_pc DCLS_MODE m"
  have a: "implements (home m) (enter_spec DCLS_MODE (config m)) a"
    unfolding a_def using assms by (intro enter_implements) (simp_all add: implements_def)
  then have "checkpoint_layout (fst a) (snd a) n"
    using layout_home [of a m] assms(4) by (simp add: implements_def)
  then obtain c s where cs: "Store_Checkpoint W exit_pc a = Some (c, s)"
    "\<And>r. get c r = get (fst a) r" "wrapper s = wrapper (snd a)"
    using checkpoint_saved_state [of "fst a" "snd a" n W exit_pc] by auto
  then have "implements (home m) (config (c, s)) (c, s)"
    by (intro implementsI [OF a]) simp_all
  from leave_implements [OF assms(1) this, of MASTER_CORE1 W]
  have b: "implements (home m) (leave_spec MASTER_CORE1 (config (c, s))) (Safe_Stop W wake MASTER_CORE1 (c, s))" .
  have "mode (config (c, s)) = mode (config a)" using cs(3) by (simp add: config_def)
  also have "\<dots> = DCLS_MODE AND 3" using a assms(3) by (simp add: implements_def enter_spec_def)
  finally have "mode (config (c, s)) \<noteq> 0" by (simp add: platform_simps)
  with b have "home (Safe_Stop W wake MASTER_CORE1 (c, s)) = home m"
    "config (Safe_Stop W wake MASTER_CORE1 (c, s)) = leave_spec MASTER_CORE1 (config (c, s))"
    by (simp_all add: implements_def)
  moreover have "main_template W wake sync_pc exit_pc m = Some (Safe_Stop W wake MASTER_CORE1 (c, s), 0)"
    by (simp add: main_template_def a_def [symmetric] cs(1))
  ultimately show ?thesis
    using \<open>mode (config (c, s)) \<noteq> 0\<close> by (simp add: leave_spec_def SINGLE_MODE_def MASTER_CORE1_def)
qed

theorem template_returns_witness:
  "\<exists>m'. main_template csr_plain id 0x200 0x500 (deep_core, sample_soc) = Some (m', 0)
     \<and> master (config m') = MASTER_CORE1"
proof -
  have "ready (deep_core, sample_soc)"
    using sample_layout layout_facts [OF sample_layout]
    by (simp add: ready_def deep_core_def sample_soc_def sample_core_def copy_address_def
        frame_simps plain_words_numeral upt_rec_numeral get_def put_def plain_def is_private_def
        is_wrapper_def disjoint_blocks_def)
  then show ?thesis
    using template_returns [OF wake_id _ _ , of "(deep_core, sample_soc)" 1 csr_plain "0x200" "0x500"]
      sample_layout by (auto simp: config_def sample_values)
qed

end
