(* ===== verification/Encoding_Declarations.thy ===== *)
theory Encoding_Declarations
  imports RISCV_Encoding
begin

text \<open>
  The second half of src/ip/CB_boot_rom/encoding.h: the \<^verbatim>\<open>DECLARE_INSN\<close>, \<^verbatim>\<open>DECLARE_CSR\<close> and
  \<^verbatim>\<open>DECLARE_CAUSE\<close> lists from which a program that includes the header builds its tables. An
  entry is the assembler name and the macros it refers to, without their \<^verbatim>\<open>MATCH_\<close>, \<^verbatim>\<open>MASK_\<close>,
  \<^verbatim>\<open>CSR_\<close> and \<^verbatim>\<open>CAUSE_\<close> prefixes. The lists are compared with the definitions in the first half,
  the tables of the theory \<open>RISCV_Encoding\<close>.
\<close>

section \<open>The lists\<close>

type_synonym insn_declarations = "(string \<times> string \<times> string) list"
type_synonym csr_declarations = "(string \<times> string) list"

definition declare_insns_integer :: insn_declarations where
  "declare_insns_integer =
     [(''beq'', ''BEQ'', ''BEQ''), (''bne'', ''BNE'', ''BNE''), (''blt'', ''BLT'', ''BLT''),
      (''bge'', ''BGE'', ''BGE''), (''bltu'', ''BLTU'', ''BLTU''), (''bgeu'', ''BGEU'', ''BGEU''),
      (''jalr'', ''JALR'', ''JALR''), (''jal'', ''JAL'', ''JAL''), (''lui'', ''LUI'', ''LUI''),
      (''auipc'', ''AUIPC'', ''AUIPC''), (''addi'', ''ADDI'', ''ADDI''),
      (''slli'', ''SLLI'', ''SLLI''), (''slti'', ''SLTI'', ''SLTI''),
      (''sltiu'', ''SLTIU'', ''SLTIU''), (''xori'', ''XORI'', ''XORI''),
      (''srli'', ''SRLI'', ''SRLI''), (''srai'', ''SRAI'', ''SRAI''), (''ori'', ''ORI'', ''ORI''),
      (''andi'', ''ANDI'', ''ANDI''), (''add'', ''ADD'', ''ADD''), (''sub'', ''SUB'', ''SUB''),
      (''sll'', ''SLL'', ''SLL''), (''slt'', ''SLT'', ''SLT''), (''sltu'', ''SLTU'', ''SLTU''),
      (''xor'', ''XOR'', ''XOR''), (''srl'', ''SRL'', ''SRL''), (''sra'', ''SRA'', ''SRA''),
      (''or'', ''OR'', ''OR''), (''and'', ''AND'', ''AND''), (''addiw'', ''ADDIW'', ''ADDIW''),
      (''slliw'', ''SLLIW'', ''SLLIW''), (''srliw'', ''SRLIW'', ''SRLIW''),
      (''sraiw'', ''SRAIW'', ''SRAIW''), (''addw'', ''ADDW'', ''ADDW''),
      (''subw'', ''SUBW'', ''SUBW''), (''sllw'', ''SLLW'', ''SLLW''),
      (''srlw'', ''SRLW'', ''SRLW''), (''sraw'', ''SRAW'', ''SRAW''), (''lb'', ''LB'', ''LB''),
      (''lh'', ''LH'', ''LH''), (''lw'', ''LW'', ''LW''), (''ld'', ''LD'', ''LD''),
      (''lbu'', ''LBU'', ''LBU''), (''lhu'', ''LHU'', ''LHU''), (''lwu'', ''LWU'', ''LWU''),
      (''sb'', ''SB'', ''SB''), (''sh'', ''SH'', ''SH''), (''sw'', ''SW'', ''SW''),
      (''sd'', ''SD'', ''SD''), (''fence'', ''FENCE'', ''FENCE''),
      (''fence_i'', ''FENCE_I'', ''FENCE_I''), (''mul'', ''MUL'', ''MUL''),
      (''mulh'', ''MULH'', ''MULH''), (''mulhsu'', ''MULHSU'', ''MULHSU''),
      (''mulhu'', ''MULHU'', ''MULHU''), (''div'', ''DIV'', ''DIV''),
      (''divu'', ''DIVU'', ''DIVU''), (''rem'', ''REM'', ''REM''), (''remu'', ''REMU'', ''REMU''),
      (''mulw'', ''MULW'', ''MULW''), (''divw'', ''DIVW'', ''DIVW''),
      (''divuw'', ''DIVUW'', ''DIVUW''), (''remw'', ''REMW'', ''REMW''),
      (''remuw'', ''REMUW'', ''REMUW'')]"

definition declare_insns_atomic :: insn_declarations where
  "declare_insns_atomic =
     [(''amoadd_w'', ''AMOADD_W'', ''AMOADD_W''), (''amoxor_w'', ''AMOXOR_W'', ''AMOXOR_W''),
      (''amoor_w'', ''AMOOR_W'', ''AMOOR_W''), (''amoand_w'', ''AMOAND_W'', ''AMOAND_W''),
      (''amomin_w'', ''AMOMIN_W'', ''AMOMIN_W''), (''amomax_w'', ''AMOMAX_W'', ''AMOMAX_W''),
      (''amominu_w'', ''AMOMINU_W'', ''AMOMINU_W''),
      (''amomaxu_w'', ''AMOMAXU_W'', ''AMOMAXU_W''),
      (''amoswap_w'', ''AMOSWAP_W'', ''AMOSWAP_W''), (''lr_w'', ''LR_W'', ''LR_W''),
      (''sc_w'', ''SC_W'', ''SC_W''), (''amoadd_d'', ''AMOADD_D'', ''AMOADD_D''),
      (''amoxor_d'', ''AMOXOR_D'', ''AMOXOR_D''), (''amoor_d'', ''AMOOR_D'', ''AMOOR_D''),
      (''amoand_d'', ''AMOAND_D'', ''AMOAND_D''), (''amomin_d'', ''AMOMIN_D'', ''AMOMIN_D''),
      (''amomax_d'', ''AMOMAX_D'', ''AMOMAX_D''), (''amominu_d'', ''AMOMINU_D'', ''AMOMINU_D''),
      (''amomaxu_d'', ''AMOMAXU_D'', ''AMOMAXU_D''),
      (''amoswap_d'', ''AMOSWAP_D'', ''AMOSWAP_D''), (''lr_d'', ''LR_D'', ''LR_D''),
      (''sc_d'', ''SC_D'', ''SC_D'')]"

definition declare_insns_system :: insn_declarations where
  "declare_insns_system =
     [(''ecall'', ''ECALL'', ''ECALL''), (''ebreak'', ''EBREAK'', ''EBREAK''),
      (''uret'', ''URET'', ''URET''), (''sret'', ''SRET'', ''SRET''),
      (''mret'', ''MRET'', ''MRET''), (''dret'', ''DRET'', ''DRET''),
      (''sfence_vma'', ''SFENCE_VMA'', ''SFENCE_VMA''), (''wfi'', ''WFI'', ''WFI''),
      (''csrrw'', ''CSRRW'', ''CSRRW''), (''csrrs'', ''CSRRS'', ''CSRRS''),
      (''csrrc'', ''CSRRC'', ''CSRRC''), (''csrrwi'', ''CSRRWI'', ''CSRRWI''),
      (''csrrsi'', ''CSRRSI'', ''CSRRSI''), (''csrrci'', ''CSRRCI'', ''CSRRCI'')]"

definition declare_insns_float_arith :: insn_declarations where
  "declare_insns_float_arith =
     [(''fadd_s'', ''FADD_S'', ''FADD_S''), (''fsub_s'', ''FSUB_S'', ''FSUB_S''),
      (''fmul_s'', ''FMUL_S'', ''FMUL_S''), (''fdiv_s'', ''FDIV_S'', ''FDIV_S''),
      (''fsgnj_s'', ''FSGNJ_S'', ''FSGNJ_S''), (''fsgnjn_s'', ''FSGNJN_S'', ''FSGNJN_S''),
      (''fsgnjx_s'', ''FSGNJX_S'', ''FSGNJX_S''), (''fmin_s'', ''FMIN_S'', ''FMIN_S''),
      (''fmax_s'', ''FMAX_S'', ''FMAX_S''), (''fsqrt_s'', ''FSQRT_S'', ''FSQRT_S''),
      (''fadd_d'', ''FADD_D'', ''FADD_D''), (''fsub_d'', ''FSUB_D'', ''FSUB_D''),
      (''fmul_d'', ''FMUL_D'', ''FMUL_D''), (''fdiv_d'', ''FDIV_D'', ''FDIV_D''),
      (''fsgnj_d'', ''FSGNJ_D'', ''FSGNJ_D''), (''fsgnjn_d'', ''FSGNJN_D'', ''FSGNJN_D''),
      (''fsgnjx_d'', ''FSGNJX_D'', ''FSGNJX_D''), (''fmin_d'', ''FMIN_D'', ''FMIN_D''),
      (''fmax_d'', ''FMAX_D'', ''FMAX_D''), (''fcvt_s_d'', ''FCVT_S_D'', ''FCVT_S_D''),
      (''fcvt_d_s'', ''FCVT_D_S'', ''FCVT_D_S''), (''fsqrt_d'', ''FSQRT_D'', ''FSQRT_D''),
      (''fadd_q'', ''FADD_Q'', ''FADD_Q''), (''fsub_q'', ''FSUB_Q'', ''FSUB_Q''),
      (''fmul_q'', ''FMUL_Q'', ''FMUL_Q''), (''fdiv_q'', ''FDIV_Q'', ''FDIV_Q''),
      (''fsgnj_q'', ''FSGNJ_Q'', ''FSGNJ_Q''), (''fsgnjn_q'', ''FSGNJN_Q'', ''FSGNJN_Q''),
      (''fsgnjx_q'', ''FSGNJX_Q'', ''FSGNJX_Q''), (''fmin_q'', ''FMIN_Q'', ''FMIN_Q''),
      (''fmax_q'', ''FMAX_Q'', ''FMAX_Q''), (''fcvt_s_q'', ''FCVT_S_Q'', ''FCVT_S_Q''),
      (''fcvt_q_s'', ''FCVT_Q_S'', ''FCVT_Q_S''), (''fcvt_d_q'', ''FCVT_D_Q'', ''FCVT_D_Q''),
      (''fcvt_q_d'', ''FCVT_Q_D'', ''FCVT_Q_D''), (''fsqrt_q'', ''FSQRT_Q'', ''FSQRT_Q'')]"

definition declare_insns_float_convert :: insn_declarations where
  "declare_insns_float_convert =
     [(''fle_s'', ''FLE_S'', ''FLE_S''), (''flt_s'', ''FLT_S'', ''FLT_S''),
      (''feq_s'', ''FEQ_S'', ''FEQ_S''), (''fle_d'', ''FLE_D'', ''FLE_D''),
      (''flt_d'', ''FLT_D'', ''FLT_D''), (''feq_d'', ''FEQ_D'', ''FEQ_D''),
      (''fle_q'', ''FLE_Q'', ''FLE_Q''), (''flt_q'', ''FLT_Q'', ''FLT_Q''),
      (''feq_q'', ''FEQ_Q'', ''FEQ_Q''), (''fcvt_w_s'', ''FCVT_W_S'', ''FCVT_W_S''),
      (''fcvt_wu_s'', ''FCVT_WU_S'', ''FCVT_WU_S''), (''fcvt_l_s'', ''FCVT_L_S'', ''FCVT_L_S''),
      (''fcvt_lu_s'', ''FCVT_LU_S'', ''FCVT_LU_S''), (''fmv_x_w'', ''FMV_X_W'', ''FMV_X_W''),
      (''fclass_s'', ''FCLASS_S'', ''FCLASS_S''), (''fcvt_w_d'', ''FCVT_W_D'', ''FCVT_W_D''),
      (''fcvt_wu_d'', ''FCVT_WU_D'', ''FCVT_WU_D''), (''fcvt_l_d'', ''FCVT_L_D'', ''FCVT_L_D''),
      (''fcvt_lu_d'', ''FCVT_LU_D'', ''FCVT_LU_D''), (''fmv_x_d'', ''FMV_X_D'', ''FMV_X_D''),
      (''fclass_d'', ''FCLASS_D'', ''FCLASS_D''), (''fcvt_w_q'', ''FCVT_W_Q'', ''FCVT_W_Q''),
      (''fcvt_wu_q'', ''FCVT_WU_Q'', ''FCVT_WU_Q''), (''fcvt_l_q'', ''FCVT_L_Q'', ''FCVT_L_Q''),
      (''fcvt_lu_q'', ''FCVT_LU_Q'', ''FCVT_LU_Q''), (''fmv_x_q'', ''FMV_X_Q'', ''FMV_X_Q''),
      (''fclass_q'', ''FCLASS_Q'', ''FCLASS_Q''), (''fcvt_s_w'', ''FCVT_S_W'', ''FCVT_S_W''),
      (''fcvt_s_wu'', ''FCVT_S_WU'', ''FCVT_S_WU''), (''fcvt_s_l'', ''FCVT_S_L'', ''FCVT_S_L''),
      (''fcvt_s_lu'', ''FCVT_S_LU'', ''FCVT_S_LU''), (''fmv_w_x'', ''FMV_W_X'', ''FMV_W_X''),
      (''fcvt_d_w'', ''FCVT_D_W'', ''FCVT_D_W''), (''fcvt_d_wu'', ''FCVT_D_WU'', ''FCVT_D_WU''),
      (''fcvt_d_l'', ''FCVT_D_L'', ''FCVT_D_L''), (''fcvt_d_lu'', ''FCVT_D_LU'', ''FCVT_D_LU''),
      (''fmv_d_x'', ''FMV_D_X'', ''FMV_D_X''), (''fcvt_q_w'', ''FCVT_Q_W'', ''FCVT_Q_W''),
      (''fcvt_q_wu'', ''FCVT_Q_WU'', ''FCVT_Q_WU''), (''fcvt_q_l'', ''FCVT_Q_L'', ''FCVT_Q_L''),
      (''fcvt_q_lu'', ''FCVT_Q_LU'', ''FCVT_Q_LU''), (''fmv_q_x'', ''FMV_Q_X'', ''FMV_Q_X'')]"

definition declare_insns_float_memory :: insn_declarations where
  "declare_insns_float_memory =
     [(''flw'', ''FLW'', ''FLW''), (''fld'', ''FLD'', ''FLD''), (''flq'', ''FLQ'', ''FLQ''),
      (''fsw'', ''FSW'', ''FSW''), (''fsd'', ''FSD'', ''FSD''), (''fsq'', ''FSQ'', ''FSQ''),
      (''fmadd_s'', ''FMADD_S'', ''FMADD_S''), (''fmsub_s'', ''FMSUB_S'', ''FMSUB_S''),
      (''fnmsub_s'', ''FNMSUB_S'', ''FNMSUB_S''), (''fnmadd_s'', ''FNMADD_S'', ''FNMADD_S''),
      (''fmadd_d'', ''FMADD_D'', ''FMADD_D''), (''fmsub_d'', ''FMSUB_D'', ''FMSUB_D''),
      (''fnmsub_d'', ''FNMSUB_D'', ''FNMSUB_D''), (''fnmadd_d'', ''FNMADD_D'', ''FNMADD_D''),
      (''fmadd_q'', ''FMADD_Q'', ''FMADD_Q''), (''fmsub_q'', ''FMSUB_Q'', ''FMSUB_Q''),
      (''fnmsub_q'', ''FNMSUB_Q'', ''FNMSUB_Q''), (''fnmadd_q'', ''FNMADD_Q'', ''FNMADD_Q'')]"

definition declare_insns_compressed :: insn_declarations where
  "declare_insns_compressed =
     [(''c_nop'', ''C_NOP'', ''C_NOP''), (''c_addi16sp'', ''C_ADDI16SP'', ''C_ADDI16SP''),
      (''c_jr'', ''C_JR'', ''C_JR''), (''c_jalr'', ''C_JALR'', ''C_JALR''),
      (''c_ebreak'', ''C_EBREAK'', ''C_EBREAK''), (''c_ld'', ''C_LD'', ''C_LD''),
      (''c_sd'', ''C_SD'', ''C_SD''), (''c_addiw'', ''C_ADDIW'', ''C_ADDIW''),
      (''c_ldsp'', ''C_LDSP'', ''C_LDSP''), (''c_sdsp'', ''C_SDSP'', ''C_SDSP''),
      (''c_addi4spn'', ''C_ADDI4SPN'', ''C_ADDI4SPN''), (''c_fld'', ''C_FLD'', ''C_FLD''),
      (''c_lw'', ''C_LW'', ''C_LW''), (''c_flw'', ''C_FLW'', ''C_FLW''),
      (''c_fsd'', ''C_FSD'', ''C_FSD''), (''c_sw'', ''C_SW'', ''C_SW''),
      (''c_fsw'', ''C_FSW'', ''C_FSW''), (''c_addi'', ''C_ADDI'', ''C_ADDI''),
      (''c_jal'', ''C_JAL'', ''C_JAL''), (''c_li'', ''C_LI'', ''C_LI''),
      (''c_lui'', ''C_LUI'', ''C_LUI''), (''c_srli'', ''C_SRLI'', ''C_SRLI''),
      (''c_srai'', ''C_SRAI'', ''C_SRAI''), (''c_andi'', ''C_ANDI'', ''C_ANDI''),
      (''c_sub'', ''C_SUB'', ''C_SUB''), (''c_xor'', ''C_XOR'', ''C_XOR''),
      (''c_or'', ''C_OR'', ''C_OR''), (''c_and'', ''C_AND'', ''C_AND''),
      (''c_subw'', ''C_SUBW'', ''C_SUBW''), (''c_addw'', ''C_ADDW'', ''C_ADDW''),
      (''c_j'', ''C_J'', ''C_J''), (''c_beqz'', ''C_BEQZ'', ''C_BEQZ''),
      (''c_bnez'', ''C_BNEZ'', ''C_BNEZ''), (''c_slli'', ''C_SLLI'', ''C_SLLI''),
      (''c_fldsp'', ''C_FLDSP'', ''C_FLDSP''), (''c_lwsp'', ''C_LWSP'', ''C_LWSP''),
      (''c_flwsp'', ''C_FLWSP'', ''C_FLWSP''), (''c_mv'', ''C_MV'', ''C_MV''),
      (''c_add'', ''C_ADD'', ''C_ADD''), (''c_fsdsp'', ''C_FSDSP'', ''C_FSDSP''),
      (''c_swsp'', ''C_SWSP'', ''C_SWSP''), (''c_fswsp'', ''C_FSWSP'', ''C_FSWSP'')]"

definition declare_insns_custom :: insn_declarations where
  "declare_insns_custom =
     [(''custom0'', ''CUSTOM0'', ''CUSTOM0''),
      (''custom0_rs1'', ''CUSTOM0_RS1'', ''CUSTOM0_RS1''),
      (''custom0_rs1_rs2'', ''CUSTOM0_RS1_RS2'', ''CUSTOM0_RS1_RS2''),
      (''custom0_rd'', ''CUSTOM0_RD'', ''CUSTOM0_RD''),
      (''custom0_rd_rs1'', ''CUSTOM0_RD_RS1'', ''CUSTOM0_RD_RS1''),
      (''custom0_rd_rs1_rs2'', ''CUSTOM0_RD_RS1_RS2'', ''CUSTOM0_RD_RS1_RS2''),
      (''custom1'', ''CUSTOM1'', ''CUSTOM1''),
      (''custom1_rs1'', ''CUSTOM1_RS1'', ''CUSTOM1_RS1''),
      (''custom1_rs1_rs2'', ''CUSTOM1_RS1_RS2'', ''CUSTOM1_RS1_RS2''),
      (''custom1_rd'', ''CUSTOM1_RD'', ''CUSTOM1_RD''),
      (''custom1_rd_rs1'', ''CUSTOM1_RD_RS1'', ''CUSTOM1_RD_RS1''),
      (''custom1_rd_rs1_rs2'', ''CUSTOM1_RD_RS1_RS2'', ''CUSTOM1_RD_RS1_RS2''),
      (''custom2'', ''CUSTOM2'', ''CUSTOM2''),
      (''custom2_rs1'', ''CUSTOM2_RS1'', ''CUSTOM2_RS1''),
      (''custom2_rs1_rs2'', ''CUSTOM2_RS1_RS2'', ''CUSTOM2_RS1_RS2''),
      (''custom2_rd'', ''CUSTOM2_RD'', ''CUSTOM2_RD''),
      (''custom2_rd_rs1'', ''CUSTOM2_RD_RS1'', ''CUSTOM2_RD_RS1''),
      (''custom2_rd_rs1_rs2'', ''CUSTOM2_RD_RS1_RS2'', ''CUSTOM2_RD_RS1_RS2''),
      (''custom3'', ''CUSTOM3'', ''CUSTOM3''),
      (''custom3_rs1'', ''CUSTOM3_RS1'', ''CUSTOM3_RS1''),
      (''custom3_rs1_rs2'', ''CUSTOM3_RS1_RS2'', ''CUSTOM3_RS1_RS2''),
      (''custom3_rd'', ''CUSTOM3_RD'', ''CUSTOM3_RD''),
      (''custom3_rd_rs1'', ''CUSTOM3_RD_RS1'', ''CUSTOM3_RD_RS1''),
      (''custom3_rd_rs1_rs2'', ''CUSTOM3_RD_RS1_RS2'', ''CUSTOM3_RD_RS1_RS2'')]"

definition declare_csrs_counters_user :: csr_declarations where
  "declare_csrs_counters_user =
     [(''fflags'', ''FFLAGS''), (''frm'', ''FRM''), (''fcsr'', ''FCSR''), (''cycle'', ''CYCLE''),
      (''time'', ''TIME''), (''instret'', ''INSTRET''), (''hpmcounter3'', ''HPMCOUNTER3''),
      (''hpmcounter4'', ''HPMCOUNTER4''), (''hpmcounter5'', ''HPMCOUNTER5''),
      (''hpmcounter6'', ''HPMCOUNTER6''), (''hpmcounter7'', ''HPMCOUNTER7''),
      (''hpmcounter8'', ''HPMCOUNTER8''), (''hpmcounter9'', ''HPMCOUNTER9''),
      (''hpmcounter10'', ''HPMCOUNTER10''), (''hpmcounter11'', ''HPMCOUNTER11''),
      (''hpmcounter12'', ''HPMCOUNTER12''), (''hpmcounter13'', ''HPMCOUNTER13''),
      (''hpmcounter14'', ''HPMCOUNTER14''), (''hpmcounter15'', ''HPMCOUNTER15''),
      (''hpmcounter16'', ''HPMCOUNTER16''), (''hpmcounter17'', ''HPMCOUNTER17''),
      (''hpmcounter18'', ''HPMCOUNTER18''), (''hpmcounter19'', ''HPMCOUNTER19''),
      (''hpmcounter20'', ''HPMCOUNTER20''), (''hpmcounter21'', ''HPMCOUNTER21''),
      (''hpmcounter22'', ''HPMCOUNTER22''), (''hpmcounter23'', ''HPMCOUNTER23''),
      (''hpmcounter24'', ''HPMCOUNTER24''), (''hpmcounter25'', ''HPMCOUNTER25''),
      (''hpmcounter26'', ''HPMCOUNTER26''), (''hpmcounter27'', ''HPMCOUNTER27''),
      (''hpmcounter28'', ''HPMCOUNTER28''), (''hpmcounter29'', ''HPMCOUNTER29''),
      (''hpmcounter30'', ''HPMCOUNTER30''), (''hpmcounter31'', ''HPMCOUNTER31'')]"

definition declare_csrs_supervisor_machine :: csr_declarations where
  "declare_csrs_supervisor_machine =
     [(''sstatus'', ''SSTATUS''), (''sie'', ''SIE''), (''stvec'', ''STVEC''),
      (''scounteren'', ''SCOUNTEREN''), (''sscratch'', ''SSCRATCH''), (''sepc'', ''SEPC''),
      (''scause'', ''SCAUSE''), (''stval'', ''STVAL''), (''sip'', ''SIP''), (''satp'', ''SATP''),
      (''mstatus'', ''MSTATUS''), (''misa'', ''MISA''), (''medeleg'', ''MEDELEG''),
      (''mideleg'', ''MIDELEG''), (''mie'', ''MIE''), (''mtvec'', ''MTVEC''),
      (''mcounteren'', ''MCOUNTEREN''), (''mscratch'', ''MSCRATCH''), (''mepc'', ''MEPC''),
      (''mcause'', ''MCAUSE''), (''mtval'', ''MTVAL''), (''mip'', ''MIP''),
      (''pmpcfg0'', ''PMPCFG0''), (''pmpcfg1'', ''PMPCFG1''), (''pmpcfg2'', ''PMPCFG2''),
      (''pmpcfg3'', ''PMPCFG3''), (''pmpaddr0'', ''PMPADDR0''), (''pmpaddr1'', ''PMPADDR1''),
      (''pmpaddr2'', ''PMPADDR2''), (''pmpaddr3'', ''PMPADDR3''), (''pmpaddr4'', ''PMPADDR4''),
      (''pmpaddr5'', ''PMPADDR5''), (''pmpaddr6'', ''PMPADDR6''), (''pmpaddr7'', ''PMPADDR7''),
      (''pmpaddr8'', ''PMPADDR8''), (''pmpaddr9'', ''PMPADDR9''), (''pmpaddr10'', ''PMPADDR10''),
      (''pmpaddr11'', ''PMPADDR11''), (''pmpaddr12'', ''PMPADDR12''),
      (''pmpaddr13'', ''PMPADDR13''), (''pmpaddr14'', ''PMPADDR14''),
      (''pmpaddr15'', ''PMPADDR15''), (''tselect'', ''TSELECT''), (''tdata1'', ''TDATA1''),
      (''tdata2'', ''TDATA2''), (''tdata3'', ''TDATA3''), (''dcsr'', ''DCSR''),
      (''dpc'', ''DPC''), (''dscratch'', ''DSCRATCH''), (''dscratch0'', ''DSCRATCH0''),
      (''dscratch1'', ''DSCRATCH1'')]"

definition declare_csrs_counters_machine :: csr_declarations where
  "declare_csrs_counters_machine =
     [(''mcycle'', ''MCYCLE''), (''minstret'', ''MINSTRET''),
      (''mhpmcounter3'', ''MHPMCOUNTER3''), (''mhpmcounter4'', ''MHPMCOUNTER4''),
      (''mhpmcounter5'', ''MHPMCOUNTER5''), (''mhpmcounter6'', ''MHPMCOUNTER6''),
      (''mhpmcounter7'', ''MHPMCOUNTER7''), (''mhpmcounter8'', ''MHPMCOUNTER8''),
      (''mhpmcounter9'', ''MHPMCOUNTER9''), (''mhpmcounter10'', ''MHPMCOUNTER10''),
      (''mhpmcounter11'', ''MHPMCOUNTER11''), (''mhpmcounter12'', ''MHPMCOUNTER12''),
      (''mhpmcounter13'', ''MHPMCOUNTER13''), (''mhpmcounter14'', ''MHPMCOUNTER14''),
      (''mhpmcounter15'', ''MHPMCOUNTER15''), (''mhpmcounter16'', ''MHPMCOUNTER16''),
      (''mhpmcounter17'', ''MHPMCOUNTER17''), (''mhpmcounter18'', ''MHPMCOUNTER18''),
      (''mhpmcounter19'', ''MHPMCOUNTER19''), (''mhpmcounter20'', ''MHPMCOUNTER20''),
      (''mhpmcounter21'', ''MHPMCOUNTER21''), (''mhpmcounter22'', ''MHPMCOUNTER22''),
      (''mhpmcounter23'', ''MHPMCOUNTER23''), (''mhpmcounter24'', ''MHPMCOUNTER24''),
      (''mhpmcounter25'', ''MHPMCOUNTER25''), (''mhpmcounter26'', ''MHPMCOUNTER26''),
      (''mhpmcounter27'', ''MHPMCOUNTER27''), (''mhpmcounter28'', ''MHPMCOUNTER28''),
      (''mhpmcounter29'', ''MHPMCOUNTER29''), (''mhpmcounter30'', ''MHPMCOUNTER30''),
      (''mhpmcounter31'', ''MHPMCOUNTER31''), (''mhpmevent3'', ''MHPMEVENT3''),
      (''mhpmevent4'', ''MHPMEVENT4''), (''mhpmevent5'', ''MHPMEVENT5''),
      (''mhpmevent6'', ''MHPMEVENT6''), (''mhpmevent7'', ''MHPMEVENT7''),
      (''mhpmevent8'', ''MHPMEVENT8''), (''mhpmevent9'', ''MHPMEVENT9''),
      (''mhpmevent10'', ''MHPMEVENT10''), (''mhpmevent11'', ''MHPMEVENT11''),
      (''mhpmevent12'', ''MHPMEVENT12''), (''mhpmevent13'', ''MHPMEVENT13''),
      (''mhpmevent14'', ''MHPMEVENT14''), (''mhpmevent15'', ''MHPMEVENT15''),
      (''mhpmevent16'', ''MHPMEVENT16''), (''mhpmevent17'', ''MHPMEVENT17''),
      (''mhpmevent18'', ''MHPMEVENT18''), (''mhpmevent19'', ''MHPMEVENT19''),
      (''mhpmevent20'', ''MHPMEVENT20''), (''mhpmevent21'', ''MHPMEVENT21''),
      (''mhpmevent22'', ''MHPMEVENT22''), (''mhpmevent23'', ''MHPMEVENT23''),
      (''mhpmevent24'', ''MHPMEVENT24''), (''mhpmevent25'', ''MHPMEVENT25''),
      (''mhpmevent26'', ''MHPMEVENT26''), (''mhpmevent27'', ''MHPMEVENT27''),
      (''mhpmevent28'', ''MHPMEVENT28''), (''mhpmevent29'', ''MHPMEVENT29''),
      (''mhpmevent30'', ''MHPMEVENT30''), (''mhpmevent31'', ''MHPMEVENT31''),
      (''mvendorid'', ''MVENDORID''), (''marchid'', ''MARCHID''), (''mimpid'', ''MIMPID''),
      (''mhartid'', ''MHARTID'')]"

definition declare_csrs_counters_high :: csr_declarations where
  "declare_csrs_counters_high =
     [(''cycleh'', ''CYCLEH''), (''timeh'', ''TIMEH''), (''instreth'', ''INSTRETH''),
      (''hpmcounter3h'', ''HPMCOUNTER3H''), (''hpmcounter4h'', ''HPMCOUNTER4H''),
      (''hpmcounter5h'', ''HPMCOUNTER5H''), (''hpmcounter6h'', ''HPMCOUNTER6H''),
      (''hpmcounter7h'', ''HPMCOUNTER7H''), (''hpmcounter8h'', ''HPMCOUNTER8H''),
      (''hpmcounter9h'', ''HPMCOUNTER9H''), (''hpmcounter10h'', ''HPMCOUNTER10H''),
      (''hpmcounter11h'', ''HPMCOUNTER11H''), (''hpmcounter12h'', ''HPMCOUNTER12H''),
      (''hpmcounter13h'', ''HPMCOUNTER13H''), (''hpmcounter14h'', ''HPMCOUNTER14H''),
      (''hpmcounter15h'', ''HPMCOUNTER15H''), (''hpmcounter16h'', ''HPMCOUNTER16H''),
      (''hpmcounter17h'', ''HPMCOUNTER17H''), (''hpmcounter18h'', ''HPMCOUNTER18H''),
      (''hpmcounter19h'', ''HPMCOUNTER19H''), (''hpmcounter20h'', ''HPMCOUNTER20H''),
      (''hpmcounter21h'', ''HPMCOUNTER21H''), (''hpmcounter22h'', ''HPMCOUNTER22H''),
      (''hpmcounter23h'', ''HPMCOUNTER23H''), (''hpmcounter24h'', ''HPMCOUNTER24H''),
      (''hpmcounter25h'', ''HPMCOUNTER25H''), (''hpmcounter26h'', ''HPMCOUNTER26H''),
      (''hpmcounter27h'', ''HPMCOUNTER27H''), (''hpmcounter28h'', ''HPMCOUNTER28H''),
      (''hpmcounter29h'', ''HPMCOUNTER29H''), (''hpmcounter30h'', ''HPMCOUNTER30H''),
      (''hpmcounter31h'', ''HPMCOUNTER31H''), (''mcycleh'', ''MCYCLEH''),
      (''minstreth'', ''MINSTRETH''), (''mhpmcounter3h'', ''MHPMCOUNTER3H''),
      (''mhpmcounter4h'', ''MHPMCOUNTER4H''), (''mhpmcounter5h'', ''MHPMCOUNTER5H''),
      (''mhpmcounter6h'', ''MHPMCOUNTER6H''), (''mhpmcounter7h'', ''MHPMCOUNTER7H''),
      (''mhpmcounter8h'', ''MHPMCOUNTER8H''), (''mhpmcounter9h'', ''MHPMCOUNTER9H''),
      (''mhpmcounter10h'', ''MHPMCOUNTER10H''), (''mhpmcounter11h'', ''MHPMCOUNTER11H''),
      (''mhpmcounter12h'', ''MHPMCOUNTER12H''), (''mhpmcounter13h'', ''MHPMCOUNTER13H''),
      (''mhpmcounter14h'', ''MHPMCOUNTER14H''), (''mhpmcounter15h'', ''MHPMCOUNTER15H''),
      (''mhpmcounter16h'', ''MHPMCOUNTER16H''), (''mhpmcounter17h'', ''MHPMCOUNTER17H''),
      (''mhpmcounter18h'', ''MHPMCOUNTER18H''), (''mhpmcounter19h'', ''MHPMCOUNTER19H''),
      (''mhpmcounter20h'', ''MHPMCOUNTER20H''), (''mhpmcounter21h'', ''MHPMCOUNTER21H''),
      (''mhpmcounter22h'', ''MHPMCOUNTER22H''), (''mhpmcounter23h'', ''MHPMCOUNTER23H''),
      (''mhpmcounter24h'', ''MHPMCOUNTER24H''), (''mhpmcounter25h'', ''MHPMCOUNTER25H''),
      (''mhpmcounter26h'', ''MHPMCOUNTER26H''), (''mhpmcounter27h'', ''MHPMCOUNTER27H''),
      (''mhpmcounter28h'', ''MHPMCOUNTER28H''), (''mhpmcounter29h'', ''MHPMCOUNTER29H''),
      (''mhpmcounter30h'', ''MHPMCOUNTER30H''), (''mhpmcounter31h'', ''MHPMCOUNTER31H'')]"

definition declare_causes :: csr_declarations where
  "declare_causes =
     [(''misaligned fetch'', ''MISALIGNED_FETCH''), (''fetch access'', ''FETCH_ACCESS''),
      (''illegal instruction'', ''ILLEGAL_INSTRUCTION''), (''breakpoint'', ''BREAKPOINT''),
      (''misaligned load'', ''MISALIGNED_LOAD''), (''load access'', ''LOAD_ACCESS''),
      (''misaligned store'', ''MISALIGNED_STORE''), (''store access'', ''STORE_ACCESS''),
      (''user_ecall'', ''USER_ECALL''), (''supervisor_ecall'', ''SUPERVISOR_ECALL''),
      (''hypervisor_ecall'', ''HYPERVISOR_ECALL''), (''machine_ecall'', ''MACHINE_ECALL''),
      (''fetch page fault'', ''FETCH_PAGE_FAULT''), (''load page fault'', ''LOAD_PAGE_FAULT''),
      (''store page fault'', ''STORE_PAGE_FAULT'')]"

definition insn_declarations_all :: insn_declarations where
  "insn_declarations_all =
     declare_insns_integer @ declare_insns_atomic @ declare_insns_system @ declare_insns_float_arith
     @ declare_insns_float_convert @ declare_insns_float_memory @ declare_insns_compressed
     @ declare_insns_custom"

definition insns_all :: insn_table where
  "insns_all = insns_integer @ insns_atomic @ insns_system @ insns_float_arith @ insns_float_convert
     @ insns_float_memory @ insns_compressed @ insns_custom"

definition csr_declarations_all :: csr_declarations where
  "csr_declarations_all = declare_csrs_counters_user @ declare_csrs_supervisor_machine
     @ declare_csrs_counters_machine @ declare_csrs_counters_high"

section \<open>Every definition is declared once, in order\<close>

text \<open>\<^verbatim>\<open>tolower\<close> on ASCII: bit 5 is set for the codes 0x41 to 0x5A.\<close>

fun lower_char :: "char \<Rightarrow> char" where
  "lower_char (Char b0 b1 b2 b3 b4 b5 b6 b7) =
     Char b0 b1 b2 b3 b4
       (b5 \<or> b6 \<and> \<not> b7 \<and> (b0 \<or> b1 \<or> b2 \<or> b3 \<or> b4) \<and> \<not> (b4 \<and> b3 \<and> (b2 \<or> b1 \<and> b0))) b6 b7"

lemma lower_char_ascii: "map lower_char ''AMZ_09[@az'' = ''amz_09[@az''"
  by simp

definition lower :: "string \<Rightarrow> string" where
  "lower s = map lower_char s"

definition spaced :: "string \<Rightarrow> string" where
  "spaced s = map (\<lambda>c. if c = CHR ''_'' then CHR '' '' else c) s"

definition insn_declaration :: "string \<times> u32 \<times> u32 \<Rightarrow> string \<times> string \<times> string" where
  "insn_declaration e = (lower (fst e), fst e, fst e)"

definition csr_declaration :: "string \<times> u32 \<Rightarrow> string \<times> string" where
  "csr_declaration e = (lower (fst e), fst e)"

lemma declared_integer: "declare_insns_integer = map insn_declaration insns_integer"
  by (simp add: declare_insns_integer_def insns_integer_def insn_declaration_def lower_def)

lemma declared_atomic: "declare_insns_atomic = map insn_declaration insns_atomic"
  by (simp add: declare_insns_atomic_def insns_atomic_def insn_declaration_def lower_def)

lemma declared_system: "declare_insns_system = map insn_declaration insns_system"
  by (simp add: declare_insns_system_def insns_system_def insn_declaration_def lower_def)

lemma declared_float_arith: "declare_insns_float_arith = map insn_declaration insns_float_arith"
  by (simp add: declare_insns_float_arith_def insns_float_arith_def insn_declaration_def lower_def)

lemma declared_float_convert: "declare_insns_float_convert = map insn_declaration insns_float_convert"
  by (simp add: declare_insns_float_convert_def insns_float_convert_def insn_declaration_def lower_def)

lemma declared_float_memory: "declare_insns_float_memory = map insn_declaration insns_float_memory"
  by (simp add: declare_insns_float_memory_def insns_float_memory_def insn_declaration_def lower_def)

lemma declared_compressed: "declare_insns_compressed = map insn_declaration insns_compressed"
  by (simp add: declare_insns_compressed_def insns_compressed_def insn_declaration_def lower_def)

lemma declared_custom: "declare_insns_custom = map insn_declaration insns_custom"
  by (simp add: declare_insns_custom_def insns_custom_def insn_declaration_def lower_def)

lemma declared_counters_user: "declare_csrs_counters_user = map csr_declaration csrs_counters_user"
  by (simp add: declare_csrs_counters_user_def csrs_counters_user_def csr_declaration_def lower_def)

lemma declared_supervisor_machine: "declare_csrs_supervisor_machine = map csr_declaration csrs_supervisor_machine"
  by (simp add: declare_csrs_supervisor_machine_def csrs_supervisor_machine_def csr_declaration_def lower_def)

lemma declared_counters_machine: "declare_csrs_counters_machine = map csr_declaration csrs_counters_machine"
  by (simp add: declare_csrs_counters_machine_def csrs_counters_machine_def csr_declaration_def lower_def)

lemma declared_counters_high: "declare_csrs_counters_high = map csr_declaration csrs_counters_high"
  by (simp add: declare_csrs_counters_high_def csrs_counters_high_def csr_declaration_def lower_def)

lemmas declared = declared_integer declared_atomic declared_system declared_float_arith
  declared_float_convert declared_float_memory declared_compressed declared_custom
  declared_counters_user declared_supervisor_machine declared_counters_machine declared_counters_high

text \<open>
  The declaration lists of encoding.h are complete and refer to the right macros: in the order
  of the definitions, each instruction, CSR and cause is declared exactly once, under its name in
  lower case (save that the ecall causes keep their underscore and the others become words),
  with its own match and mask.
\<close>

theorem declarations_complete:
  "insn_declarations_all = map insn_declaration insns_all
   \<and> csr_declarations_all = map csr_declaration csr_addresses
   \<and> map snd declare_causes = map fst causes
   \<and> map (spaced \<circ> fst) declare_causes = map (spaced \<circ> lower \<circ> fst) causes"
proof -
  have "map snd declare_causes = map fst causes"
    "map (spaced \<circ> fst) declare_causes = map (spaced \<circ> lower \<circ> fst) causes"
    by (simp_all add: declare_causes_def causes_def lower_def spaced_def)
  then show ?thesis
    by (simp add: insn_declarations_all_def insns_all_def csr_declarations_all_def csr_addresses_def declared)
qed

end
