(* ===== verification/Privileged_Fields.thy ===== *)
theory Privileged_Fields
  imports SAP_Prelude
begin

text \<open>
  The first part of src/ip/CB_boot_rom/encoding.h: the bit fields of the privileged registers, of
  the page-table entries and of the PMP configuration, and the numbers that go into them. Names
  are without the prefix of their group. The masks are of 64 bits; those of C's \<^verbatim>\<open>int\<close> and
  \<^verbatim>\<open>unsigned\<close> expressions are non-negative, so their value is the same at either width.
\<close>

type_synonym u64 = "64 word"

section \<open>Status registers\<close>

definition mstatus_fields :: "(string \<times> u64) list" where
  "mstatus_fields =
     [(''_UIE'', 0x00000001), (''_SIE'', 0x00000002), (''_HIE'', 0x00000004),
      (''_MIE'', 0x00000008), (''_UPIE'', 0x00000010), (''_SPIE'', 0x00000020),
      (''_HPIE'', 0x00000040), (''_MPIE'', 0x00000080), (''_SPP'', 0x00000100),
      (''_HPP'', 0x00000600), (''_MPP'', 0x00001800), (''_FS'', 0x00006000),
      (''_XS'', 0x00018000), (''_MPRV'', 0x00020000), (''_SUM'', 0x00040000),
      (''_MXR'', 0x00080000), (''_TVM'', 0x00100000), (''_TW'', 0x00200000),
      (''_TSR'', 0x00400000), (''32_SD'', 0x80000000), (''_UXL'', 0x0000000300000000),
      (''_SXL'', 0x0000000C00000000), (''64_SD'', 0x8000000000000000)]"

definition sstatus_fields :: "(string \<times> u64) list" where
  "sstatus_fields =
     [(''_UIE'', 0x00000001), (''_SIE'', 0x00000002), (''_UPIE'', 0x00000010),
      (''_SPIE'', 0x00000020), (''_SPP'', 0x00000100), (''_FS'', 0x00006000),
      (''_XS'', 0x00018000), (''_SUM'', 0x00040000), (''_MXR'', 0x00080000),
      (''32_SD'', 0x80000000), (''_UXL'', 0x0000000300000000), (''64_SD'', 0x8000000000000000)]"

section \<open>Debug registers\<close>

definition dcsr_fields :: "(string \<times> u64) list" where
  "dcsr_fields =
     [(''XDEBUGVER'', push_bit 30 3), (''NDRESET'', push_bit 29 1),
      (''FULLRESET'', push_bit 28 1), (''EBREAKM'', push_bit 15 1), (''EBREAKH'', push_bit 14 1),
      (''EBREAKS'', push_bit 13 1), (''EBREAKU'', push_bit 12 1), (''STOPCYCLE'', push_bit 10 1),
      (''STOPTIME'', push_bit 9 1), (''CAUSE'', push_bit 6 7), (''DEBUGINT'', push_bit 5 1),
      (''HALT'', push_bit 3 1), (''STEP'', push_bit 2 1), (''PRV'', push_bit 0 3)]"

definition dcsr_causes :: "(string \<times> u64) list" where
  "dcsr_causes =
     [(''NONE'', 0), (''SWBP'', 1), (''HWBP'', 2), (''DEBUGINT'', 3), (''STEP'', 4), (''HALT'', 5)]"

text \<open>\<^verbatim>\<open>MCONTROL_TYPE(xlen)\<close>, \<^verbatim>\<open>MCONTROL_DMODE(xlen)\<close> and \<^verbatim>\<open>MCONTROL_MASKMAX(xlen)\<close>.\<close>

definition mcontrol_top :: "nat \<Rightarrow> (string \<times> u64) list" where
  "mcontrol_top xlen =
     [(''TYPE'', push_bit (xlen - 4) 0xf), (''DMODE'', push_bit (xlen - 5) 1),
      (''MASKMAX'', push_bit (xlen - 11) 0x3f)]"

definition mcontrol_fields :: "(string \<times> u64) list" where
  "mcontrol_fields =
     [(''SELECT'', push_bit 19 1), (''TIMING'', push_bit 18 1), (''ACTION'', push_bit 12 0x3f),
      (''CHAIN'', push_bit 11 1), (''MATCH'', push_bit 7 0xf), (''M'', push_bit 6 1),
      (''H'', push_bit 5 1), (''S'', push_bit 4 1), (''U'', push_bit 3 1),
      (''EXECUTE'', push_bit 2 1), (''STORE'', push_bit 1 1), (''LOAD'', push_bit 0 1)]"

definition mcontrol_types :: "(string \<times> u64) list" where
  "mcontrol_types =
     [(''NONE'', 0), (''MATCH'', 2)]"

definition mcontrol_actions :: "(string \<times> u64) list" where
  "mcontrol_actions =
     [(''DEBUG_EXCEPTION'', 0), (''DEBUG_MODE'', 1), (''TRACE_START'', 2), (''TRACE_STOP'', 3),
      (''TRACE_EMIT'', 4)]"

definition mcontrol_matches :: "(string \<times> u64) list" where
  "mcontrol_matches =
     [(''EQUAL'', 0), (''NAPOT'', 1), (''GE'', 2), (''LT'', 3), (''MASK_LOW'', 4),
      (''MASK_HIGH'', 5)]"

section \<open>Interrupts and privilege levels\<close>

datatype irq = IRQ_S_SOFT | IRQ_H_SOFT | IRQ_M_SOFT | IRQ_S_TIMER | IRQ_H_TIMER | IRQ_M_TIMER | IRQ_S_EXT | IRQ_H_EXT | IRQ_M_EXT | IRQ_COP | IRQ_HOST

fun irq_number :: "irq \<Rightarrow> nat" where
  "irq_number IRQ_S_SOFT = 1"
| "irq_number IRQ_H_SOFT = 2"
| "irq_number IRQ_M_SOFT = 3"
| "irq_number IRQ_S_TIMER = 5"
| "irq_number IRQ_H_TIMER = 6"
| "irq_number IRQ_M_TIMER = 7"
| "irq_number IRQ_S_EXT = 9"
| "irq_number IRQ_H_EXT = 10"
| "irq_number IRQ_M_EXT = 11"
| "irq_number IRQ_COP = 12"
| "irq_number IRQ_HOST = 13"

definition mip_fields :: "(string \<times> u64) list" where
  "mip_fields =
     [(''SSIP'', push_bit (irq_number IRQ_S_SOFT) 1),
      (''HSIP'', push_bit (irq_number IRQ_H_SOFT) 1),
      (''MSIP'', push_bit (irq_number IRQ_M_SOFT) 1),
      (''STIP'', push_bit (irq_number IRQ_S_TIMER) 1),
      (''HTIP'', push_bit (irq_number IRQ_H_TIMER) 1),
      (''MTIP'', push_bit (irq_number IRQ_M_TIMER) 1),
      (''SEIP'', push_bit (irq_number IRQ_S_EXT) 1),
      (''HEIP'', push_bit (irq_number IRQ_H_EXT) 1), (''MEIP'', push_bit (irq_number IRQ_M_EXT) 1)]"

text \<open>\<^verbatim>\<open>SIP_SSIP\<close> and \<^verbatim>\<open>SIP_STIP\<close> are the machine-level fields.\<close>

definition sip_fields :: "(string \<times> u64) list" where
  "sip_fields = filter (\<lambda>e. fst e \<in> {''SSIP'', ''STIP''}) mip_fields"

definition privilege_levels :: "(string \<times> u64) list" where
  "privilege_levels =
     [(''U'', 0), (''S'', 1), (''H'', 2), (''M'', 3)]"

section \<open>Address translation and memory protection\<close>

definition satp32_fields :: "(string \<times> u64) list" where
  "satp32_fields =
     [(''MODE'', 0x80000000), (''ASID'', 0x7FC00000), (''PPN'', 0x003FFFFF)]"

definition satp64_fields :: "(string \<times> u64) list" where
  "satp64_fields =
     [(''MODE'', 0xF000000000000000), (''ASID'', 0x0FFFF00000000000),
      (''PPN'', 0x00000FFFFFFFFFFF)]"

definition satp_modes :: "(string \<times> u64) list" where
  "satp_modes =
     [(''OFF'', 0), (''SV32'', 1), (''SV39'', 8), (''SV48'', 9), (''SV57'', 10), (''SV64'', 11)]"

definition pmp_fields :: "(string \<times> u64) list" where
  "pmp_fields =
     [(''R'', 0x01), (''W'', 0x02), (''X'', 0x04), (''A'', 0x18), (''L'', 0x80)]"

definition PMP_SHIFT :: nat where "PMP_SHIFT = 2"

definition pmp_modes :: "(string \<times> u64) list" where
  "pmp_modes =
     [(''TOR'', 0x08), (''NA4'', 0x10), (''NAPOT'', 0x18)]"

definition pte_fields :: "(string \<times> u64) list" where
  "pte_fields =
     [(''V'', 0x001), (''R'', 0x002), (''W'', 0x004), (''X'', 0x008), (''U'', 0x010),
      (''G'', 0x020), (''A'', 0x040), (''D'', 0x080), (''SOFT'', 0x300)]"

definition PTE_PPN_SHIFT :: nat where "PTE_PPN_SHIFT = 10"

definition field :: "(string \<times> u64) list \<Rightarrow> string \<Rightarrow> u64" where
  "field fs n = (case map_of fs n of None \<Rightarrow> 0 | Some m \<Rightarrow> m)"

definition PTE_TABLE :: "u64 \<Rightarrow> bool" where
  "PTE_TABLE pte \<longleftrightarrow>
     pte AND (field pte_fields ''V'' OR field pte_fields ''R'' OR field pte_fields ''W''
              OR field pte_fields ''X'') = field pte_fields ''V''"

text \<open>The choices of \<^verbatim>\<open>__riscv_xlen\<close>; \<open>riscv64\<close> stands for the test \<^verbatim>\<open>__riscv_xlen == 64\<close>.\<close>

definition MSTATUS_SD :: "bool \<Rightarrow> u64" where
  "MSTATUS_SD riscv64 = (if riscv64 then field mstatus_fields ''64_SD'' else field mstatus_fields ''32_SD'')"

definition SSTATUS_SD :: "bool \<Rightarrow> u64" where
  "SSTATUS_SD riscv64 = (if riscv64 then field sstatus_fields ''64_SD'' else field sstatus_fields ''32_SD'')"

definition RISCV_PGLEVEL_BITS :: "bool \<Rightarrow> nat" where
  "RISCV_PGLEVEL_BITS riscv64 = (if riscv64 then 9 else 10)"

definition SATP_MODE :: "bool \<Rightarrow> u64" where
  "SATP_MODE riscv64 = (if riscv64 then field satp64_fields ''MODE'' else field satp32_fields ''MODE'')"

definition RISCV_PGSHIFT :: nat where "RISCV_PGSHIFT = 12"

definition RISCV_PGSIZE :: nat where "RISCV_PGSIZE = push_bit RISCV_PGSHIFT 1"

section \<open>The masks are consistent\<close>

definition disjoint_fields :: "(string \<times> u64) list \<Rightarrow> bool" where
  "disjoint_fields fs \<longleftrightarrow> sorted_wrt (\<lambda>e f. snd e AND snd f = 0) fs"

definition all_bits :: "(string \<times> u64) list \<Rightarrow> u64" where
  "all_bits fs = foldr (\<lambda>e m. snd e OR m) fs 0"

lemma status_disjoint: "disjoint_fields mstatus_fields" "disjoint_fields sstatus_fields"
  by (simp_all add: disjoint_fields_def mstatus_fields_def sstatus_fields_def)

lemma debug_disjoint: "disjoint_fields dcsr_fields"
  "disjoint_fields (mcontrol_top 32 @ mcontrol_fields)" "disjoint_fields (mcontrol_top 64 @ mcontrol_fields)"
  by (simp_all add: disjoint_fields_def dcsr_fields_def mcontrol_top_def mcontrol_fields_def)

lemma memory_disjoint: "disjoint_fields satp32_fields" "disjoint_fields satp64_fields"
  "disjoint_fields pmp_fields" "disjoint_fields pte_fields" "disjoint_fields mip_fields"
  by (simp_all add: disjoint_fields_def satp32_fields_def satp64_fields_def pmp_fields_def pte_fields_def
      mip_fields_def)

text \<open>
  No two fields of \<^verbatim>\<open>mstatus\<close>, \<^verbatim>\<open>sstatus\<close>, \<^verbatim>\<open>dcsr\<close>, \<^verbatim>\<open>mcontrol\<close> (for either \<^verbatim>\<open>xlen\<close>), \<^verbatim>\<open>satp\<close>,
  the PMP configuration, a page-table entry or \<^verbatim>\<open>mip\<close> share a bit; the fields of \<^verbatim>\<open>satp\<close> make up the
  whole register and those of a page-table entry the bits below the page number; a page is one
  table of entries; \<^verbatim>\<open>sstatus\<close> is a view of \<^verbatim>\<open>mstatus\<close>, field by field; and the values enumerated for
  a field fit into it.
\<close>

theorem privileged_fields_consistent:
  "list_all disjoint_fields [mstatus_fields, sstatus_fields, dcsr_fields, mcontrol_top 32 @ mcontrol_fields,
     mcontrol_top 64 @ mcontrol_fields, satp32_fields, satp64_fields, pmp_fields, pte_fields, mip_fields]
   \<and> all_bits satp32_fields = 2 ^ 32 - 1 \<and> all_bits satp64_fields = - 1
   \<and> list_all (\<lambda>(n, m). map_of mstatus_fields n = Some m) sstatus_fields
   \<and> list_all (\<lambda>(n, v). push_bit 6 v AND field dcsr_fields ''CAUSE'' = push_bit 6 v) dcsr_causes
   \<and> list_all (\<lambda>(n, v). push_bit 12 v AND field mcontrol_fields ''ACTION'' = push_bit 12 v) mcontrol_actions
   \<and> list_all (\<lambda>(n, v). push_bit 7 v AND field mcontrol_fields ''MATCH'' = push_bit 7 v) mcontrol_matches
   \<and> list_all (\<lambda>(n, v). push_bit 60 v AND SATP_MODE True = push_bit 60 v) satp_modes
   \<and> list_all (\<lambda>(n, v). v AND field pmp_fields ''A'' = v) pmp_modes
   \<and> all_bits pte_fields = mask PTE_PPN_SHIFT
   \<and> RISCV_PGSIZE = 2 ^ RISCV_PGLEVEL_BITS riscv64 * (if riscv64 then 8 else 4)"
proof (intro conjI)
  show "list_all disjoint_fields [mstatus_fields, sstatus_fields, dcsr_fields, mcontrol_top 32 @ mcontrol_fields,
     mcontrol_top 64 @ mcontrol_fields, satp32_fields, satp64_fields, pmp_fields, pte_fields, mip_fields]"
    by (simp only: list.pred_inject status_disjoint debug_disjoint memory_disjoint conj_absorb)
qed (simp_all add: all_bits_def satp32_fields_def satp64_fields_def mstatus_fields_def
  sstatus_fields_def dcsr_fields_def dcsr_causes_def mcontrol_fields_def mcontrol_actions_def
  mcontrol_matches_def SATP_MODE_def satp_modes_def pmp_fields_def pmp_modes_def field_def pte_fields_def
  PTE_PPN_SHIFT_def RISCV_PGSIZE_def RISCV_PGSHIFT_def RISCV_PGLEVEL_BITS_def mask_numeral)

text \<open>
  \<^verbatim>\<open>PTE_TABLE\<close> holds of exactly the entries that point to another page table: valid, and
  neither readable nor writable nor executable, whatever their other bits.
\<close>

theorem PTE_TABLE_pointer:
  "PTE_TABLE pte \<longleftrightarrow> bit pte 0 \<and> \<not> bit pte 1 \<and> \<not> bit pte 2 \<and> \<not> bit pte 3"
proof -
  have "PTE_TABLE pte \<longleftrightarrow> take_bit 4 pte = 1"
    by (simp add: PTE_TABLE_def field_def pte_fields_def take_bit_eq_mask mask_numeral)
  also have "\<dots> \<longleftrightarrow> (\<forall>n<4. bit pte n \<longleftrightarrow> n = 0)"
  proof
    assume "take_bit 4 pte = 1"
    then have "bit (take_bit 4 pte) n \<longleftrightarrow> n = 0" for n by (simp add: bit_1_iff)
    then show "\<forall>n<4. bit pte n \<longleftrightarrow> n = 0" unfolding bit_take_bit_iff by blast
  next
    assume "\<forall>n<4. bit pte n \<longleftrightarrow> n = 0"
    then show "take_bit 4 pte = 1" by (intro bit_word_eqI) (auto simp: bit_take_bit_iff bit_1_iff)
  qed
  finally show ?thesis
    by (simp add: All_less_Suc numeral_eq_Suc) blast
qed

end
