(* ===== verification/TMR_Lockstep.thy ===== *)
theory TMR_Lockstep
  imports Safety_Handlers
begin

text \<open>
  The three harts in triple lockstep, as src/rtl/safe_cpu_wrapper.sv and src/rtl/tmr_voter.sv
  wire them around the handler \<^verbatim>\<open>handler_tmr_recoverysync\<close> of
  src/sw/CB_device/lib/safety/CB_Safety.c: every hart executes the voted instruction stream;
  an access to its private block goes to its own block; every other data request goes through
  a bit-wise majority voter to the one bus, and the bus's response goes back to all harts that
  asked. A request that only a minority makes is never granted, so such a step is \<open>None\<close>.

  The main result is that the handler heals: one hart with an arbitrary register file and
  arbitrary CSRs leaves it with the state of the other two.
\<close>

section \<open>The voter\<close>

record obi_req =
  oreq :: bool
  owe :: bool
  obe :: "4 word"
  oaddr :: u32
  owdata :: u32

definition majority :: "'a::len word \<Rightarrow> 'a word \<Rightarrow> 'a word \<Rightarrow> 'a word" where
  "majority a b c = (a AND b) OR (b AND c) OR (a AND c)"

definition tmr_vote :: "obi_req \<Rightarrow> obi_req \<Rightarrow> obi_req \<Rightarrow> obi_req" where
  "tmr_vote a b c =
     \<lparr>oreq = oreq a \<and> oreq b \<or> oreq b \<and> oreq c \<or> oreq a \<and> oreq c,
      owe = owe a \<and> owe b \<or> owe b \<and> owe c \<or> owe a \<and> owe c,
      obe = majority (obe a) (obe b) (obe c),
      oaddr = majority (oaddr a) (oaddr b) (oaddr c),
      owdata = majority (owdata a) (owdata b) (owdata c)\<rparr>"

text \<open>The checker of one bus: whether a hart's request differs from the voted one.\<close>

definition vote_error :: "obi_req \<Rightarrow> obi_req \<Rightarrow> bool" where
  "vote_error v r \<longleftrightarrow>
     oaddr v \<noteq> oaddr r \<and> oreq r \<or> owdata v \<noteq> owdata r \<and> owe r
     \<or> obe v \<noteq> obe r \<or> owe v \<noteq> owe r \<or> oreq v \<noteq> oreq r"

text \<open>The whole module, over the requests of the three harts on the instruction and data bus.\<close>

record voted =
  voted_instr :: obi_req
  voted_data :: obi_req
  error_o :: bool
  error_id_o :: "nat \<Rightarrow> bool"

definition tmr_voter :: "bool \<Rightarrow> (nat \<Rightarrow> obi_req) \<Rightarrow> (nat \<Rightarrow> obi_req) \<Rightarrow> voted" where
  "tmr_voter enable i d =
     (let vi = tmr_vote (i 0) (i 1) (i 2); vd = tmr_vote (d 0) (d 1) (d 2);
          ei = (\<lambda>h. vote_error vi (i h) \<and> enable); ed = (\<lambda>h. vote_error vd (d h) \<and> enable)
      in \<lparr>voted_instr = vi, voted_data = vd,
          error_o = (ei 0 \<or> ei 1 \<or> ei 2) \<and> oreq vi \<or> (ed 0 \<or> ed 1 \<or> ed 2) \<and> oreq vd,
          error_id_o = (\<lambda>h. ei h \<or> ed h)\<rparr>)"

text \<open>
  What a protected unit may rely on: two replicas that agree determine the output of a voter,
  whichever the third one is.
\<close>

locale voter =
  fixes vote :: "'a \<Rightarrow> 'a \<Rightarrow> 'a \<Rightarrow> 'a"
  assumes vote_first: "vote x x y = x"
    and vote_outer: "vote x y x = x"
    and vote_last: "vote y x x = x"
begin

definition agree_but :: "nat \<Rightarrow> (nat \<Rightarrow> 'a) \<Rightarrow> 'a \<Rightarrow> bool" where
  "agree_but f xs x \<longleftrightarrow> (\<forall>i<3. i \<noteq> f \<longrightarrow> xs i = x)"

lemma masks_one_fault: "agree_but f xs x \<Longrightarrow> vote (xs 0) (xs 1) (xs 2) = x"
  using vote_first vote_outer vote_last
  by (cases "f = 0"; cases "f = 1"; cases "f = 2") (simp_all add: agree_but_def)

lemma masks_no_fault: "vote x x x = x"
  by (rule vote_first)

end

lemma majority_two:
  "majority x x y = x" "majority x y x = x" "majority y x x = x"
  by (rule bit_word_eqI, auto simp: majority_def bit_simps)+

interpretation word_voter: voter "majority :: 'a::len word \<Rightarrow> _"
  by unfold_locales (simp_all add: majority_two)

lemma tmr_vote_two: "tmr_vote x x y = x" "tmr_vote x y x = x" "tmr_vote y x x = x"
  by (cases x, auto simp: tmr_vote_def majority_two)+

interpretation request_voter: voter tmr_vote
  by unfold_locales (simp_all add: tmr_vote_two)

section \<open>Three harts and one bus\<close>

record tri =
  harts :: "nat \<Rightarrow> core"
  bus :: soc

text \<open>The request of a hart at the voter's input; a private access is not one.\<close>

definition shared_req :: "instr \<Rightarrow> core \<Rightarrow> obi_req" where
  "shared_req i c =
     (case access_of i c of
        No_access \<Rightarrow> \<lparr>oreq = False, owe = False, obe = 0, oaddr = 0, owdata = 0\<rparr>
      | Read_at a \<Rightarrow> \<lparr>oreq = \<not> is_private a, owe = False, obe = 15, oaddr = a, owdata = 0\<rparr>
      | Write_at a v \<Rightarrow> \<lparr>oreq = \<not> is_private a, owe = True, obe = 15, oaddr = a, owdata = v\<rparr>)"

text \<open>The response of the bus to the voted request, and the bus after it.\<close>

definition bus_answer :: "obi_req \<Rightarrow> soc \<Rightarrow> u32" where
  "bus_answer v s = (if oreq v \<and> \<not> owe v then bus_read s (oaddr v) else 0)"

definition bus_after :: "obi_req \<Rightarrow> soc \<Rightarrow> soc" where
  "bus_after v s = (if oreq v \<and> owe v then bus_write s (oaddr v) (owdata v) else s)"

text \<open>
  One hart completes the instruction with the answer \<open>d\<close> of the bus; a private access is served
  by its own block.
\<close>

definition hart_step :: "csr_warl \<Rightarrow> instr \<Rightarrow> u32 \<Rightarrow> core \<Rightarrow> core" where
  "hart_step W i d c =
     (case access_of i c of
        No_access \<Rightarrow> retire W i 0 c
      | Read_at a \<Rightarrow>
          retire W i (if is_private a then reg_read private_block (priv c) a else d) c
      | Write_at a v \<Rightarrow> retire W i 0
          (if is_private a
           then emit (Private_write a v) (c\<lparr>priv := reg_write private_block (priv c) a v\<rparr>)
           else if is_wrapper a then emit (Wrapper_write a v) c else c))"

definition tri_exec :: "csr_warl \<Rightarrow> instr \<Rightarrow> tri \<Rightarrow> tri option" where
  "tri_exec W i t =
     (let r = (\<lambda>h. shared_req i (harts t h)); v = tmr_vote (r 0) (r 1) (r 2) in
      if list_all (\<lambda>h. oreq (r h) \<longrightarrow> oreq v) [0, 1, 2]
      then Some \<lparr>harts = (\<lambda>h. hart_step W i (bus_answer v (bus t)) (harts t h)),
                 bus = bus_after v (bus t)\<rparr>
      else None)"

fun tri_run :: "csr_warl \<Rightarrow> instr list \<Rightarrow> tri \<Rightarrow> tri option" where
  "tri_run W [] t = Some t"
| "tri_run W (i # is) t =
     (case tri_exec W i t of None \<Rightarrow> None | Some t' \<Rightarrow> tri_run W is t')"


section \<open>One good hart and one that follows it\<close>

text \<open>A single hart on its own bus is a hart whose request is the voted one.\<close>

lemma exec_as_hart_step:
  "exec W i (c, s) =
     (hart_step W i (bus_answer (shared_req i c) s) c, bus_after (shared_req i c) s)"
  by (cases i) (auto simp: exec.simps hart_step_def shared_req_def bus_answer_def bus_after_def
      load_word.simps store_word.simps bus_write_def Let_def)

text \<open>Equal registers and equal CSRs of the context: the state lockstep has to keep equal.\<close>

definition agree :: "core \<Rightarrow> core \<Rightarrow> bool" where
  "agree c d \<longleftrightarrow> (\<forall>r. get c r = get d r) \<and> (\<forall>k \<in> set context_csrs. csrs c k = csrs d k)"

lemma agree_sym: "agree c d \<Longrightarrow> agree d c" and agree_trans: "agree c d \<Longrightarrow> agree d e \<Longrightarrow> agree c e"
  by (auto simp: agree_def)

lemma agree_requests:
  assumes "agree c d"
  shows "access_of i c = access_of i d" "shared_req i c = shared_req i d"
proof -
  show "access_of i c = access_of i d" using assms by (cases i) (simp_all add: agree_def)
  then show "shared_req i c = shared_req i d" by (simp add: shared_req_def)
qed

text \<open>
  The steps on which lockstep depends on no hart's private data: no load from the private
  block, no read of a CSR outside the context; and on which a hart with other register
  contents does not strand: its loads do not hit the private window, and where the good hart
  writes to its private block it does, too.
\<close>

definition step_ok :: "instr \<Rightarrow> core \<Rightarrow> core \<Rightarrow> bool" where
  "step_ok i c d \<longleftrightarrow>
     (case (access_of i c, access_of i d) of
        (Read_at a, Read_at b) \<Rightarrow> \<not> is_private a \<and> \<not> is_private b
      | (Write_at a _, Write_at b _) \<Rightarrow> is_private a \<longrightarrow> is_private b
      | _ \<Rightarrow> True)
     \<and> (case i of CSRR _ k \<Rightarrow> k \<in> set context_csrs | _ \<Rightarrow> True)"

lemma agree_step:
  assumes "agree c d" and "step_ok i c e"
  shows "agree (hart_step W i a c) (hart_step W i a d)"
  using assms
  by (cases i) (auto simp: agree_def hart_step_def step_ok_def exec_simps)

fun shadow :: "csr_warl \<Rightarrow> instr list \<Rightarrow> machine \<Rightarrow> core \<Rightarrow> (machine \<times> core) option" where
  "shadow W [] m d = Some (m, d)"
| "shadow W (i # is) (c, s) d =
     (if step_ok i c d
      then shadow W is (exec W i (c, s)) (hart_step W i (bus_answer (shared_req i c) s) d)
      else None)"

lemma vote_of_majority:
  assumes "\<And>h. h < 3 \<Longrightarrow> h \<noteq> f \<Longrightarrow> agree c (harts t h)"
  shows "tmr_vote (shared_req i (harts t 0)) (shared_req i (harts t 1)) (shared_req i (harts t 2))
     = shared_req i c"
  using request_voter.masks_one_fault [of f "\<lambda>h. shared_req i (harts t h)"]
    agree_requests(2) [OF assms, symmetric]
  by (simp add: request_voter.agree_but_def)

lemma granted:
  assumes "step_ok i c d"
  shows "oreq (shared_req i d) \<longrightarrow> oreq (shared_req i c)"
  using assms by (cases i) (auto simp: step_ok_def shared_req_def)

text \<open>Voting three harts of which two agree is running one of these, the third one following.\<close>

lemma tri_run_shadow:
  assumes "f < 3" and "\<And>h. h < 3 \<Longrightarrow> h \<noteq> f \<Longrightarrow> agree c (harts t h)"
    and "shadow W is (c, bus t) (harts t f) = Some ((c', s'), d')"
  shows "\<exists>t'. tri_run W is t = Some t' \<and> bus t' = s' \<and> harts t' f = d'
     \<and> (\<forall>h<3. h \<noteq> f \<longrightarrow> agree c' (harts t' h))"
  using assms(2,3)
proof (induction "is" arbitrary: c t)
  case (Cons i "is")
  let ?r = "shared_req i c"
  let ?t = "\<lparr>harts = (\<lambda>h. hart_step W i (bus_answer ?r (bus t)) (harts t h)), bus = bus_after ?r (bus t)\<rparr>"
  from Cons.prems(2) have ok: "step_ok i c (harts t f)"
    and sh: "shadow W is (hart_step W i (bus_answer ?r (bus t)) c, bus ?t) (harts ?t f) = Some ((c', s'), d')"
    by (auto simp: exec_as_hart_step split: if_splits)
  have g: "oreq (shared_req i (harts t h)) \<longrightarrow> oreq ?r" if "h < 3" for h
    using granted [OF ok] agree_requests(2) [OF Cons.prems(1) [OF that]] by (cases "h = f") auto
  have "tri_exec W i t = Some ?t"
    using vote_of_majority [of f c t i] Cons.prems(1) g [of 0] g [of 1] g [of 2]
    by (simp add: tri_exec_def Let_def)
  moreover have "agree (hart_step W i (bus_answer ?r (bus t)) c) (harts ?t h)" if "h < 3" "h \<noteq> f" for h
    using agree_step [OF Cons.prems(1) [OF that] ok] by simp
  ultimately show ?case
    using Cons.IH [OF _ sh] by simp
qed (use assms(1) in auto)


section \<open>Healing\<close>

text \<open>Rules to run a good hart and its shadow symbolically.\<close>

lemma hart_step_SW [simp]:
  "get (hart_step W (SW rs i b) a d) r = get d r" "csrs (hart_step W (SW rs i b) a d) = csrs d"
  by (simp_all add: hart_step_def exec_simps)

lemma shadow_LW:
  "plain (get c b + i) \<Longrightarrow> \<not> is_private (get d b + i) \<Longrightarrow>
   shadow W (LW r i b # is) (c, s) d =
     shadow W is (put r (load32 (ram s) (get c b + i)) c, s) (put r (load32 (ram s) (get c b + i)) d)"
  by (simp add: step_ok_def exec_LW_plain hart_step_def bus_answer_def shared_req_def bus_read_def
      plain_not_device)

lemma shadow_SW:
  "plain (get c b + i) \<Longrightarrow>
   shadow W (SW r i b # is) (c, s) d =
     shadow W is (c, s\<lparr>ram := store32 (ram s) (get c b + i) (get c r)\<rparr>) (hart_step W (SW r i b) 0 d)"
  by (simp add: step_ok_def exec_SW_plain hart_step_def plain_not_device)

lemma shadow_SW_private:
  "get c b = PRIVATE_REG_BASEADDRESS \<Longrightarrow> get d b = PRIVATE_REG_BASEADDRESS \<Longrightarrow> k \<noteq> P_CORE_ID \<Longrightarrow>
   shadow W (SW r (private_offset k) b # is) (c, s) d =
     shadow W is (hart_step W (SW r (private_offset k) b) 0 c, s)
       (hart_step W (SW r (private_offset k) b) 0 d)"
  by (simp add: step_ok_def exec_as_hart_step shared_req_def bus_after_def addr_base_offset
      is_private_addr hart_step_def)

lemma shadow_other:
  "shadow W (ADDI rd rs i # is) (c, s) d = shadow W is (put rd (get c rs + i) c, s) (put rd (get d rs + i) d)"
  "shadow W (LI rd i # is) (c, s) d = shadow W is (put rd i c, s) (put rd i d)"
  "k \<in> set context_csrs \<Longrightarrow>
   shadow W (CSRR rd k # is) (c, s) d = shadow W is (put rd (csrs c k) c, s) (put rd (csrs d k) d)"
  "shadow W (CSRW k rs # is) (c, s) d =
     shadow W is (c\<lparr>csrs := (csrs c)(k := W k (csrs c k) (get c rs))\<rparr>, s)
       (d\<lparr>csrs := (csrs d)(k := W k (csrs d k) (get d rs))\<rparr>)"
  by (simp_all add: step_ok_def exec_no_access hart_step_def)

lemmas shadow_simps = shadow_LW shadow_SW shadow_SW_private shadow_other

lemma context_csrs_mem [simp]:
  "MSTATUS \<in> set context_csrs" "MIE \<in> set context_csrs" "MTVEC \<in> set context_csrs"
  "MEPC \<in> set context_csrs" "MTVAL \<in> set context_csrs"
  by (simp_all add: context_csrs_def)

text \<open>
  The words below the stack pointer of a hart lie outside the private window, so that the
  hart's stack accesses reach the voter.
\<close>

definition stack_shared :: "core \<Rightarrow> nat \<Rightarrow> bool" where
  "stack_shared d n \<longleftrightarrow> list_all (\<lambda>k. \<not> is_private (get d SP - 4 * of_nat k)) [1..<Suc n]"

lemma stack_shared_numeral:
  "stack_shared d (numeral n) \<longleftrightarrow>
     \<not> is_private (get d SP - 4) \<and>
     list_all (\<lambda>k. \<not> is_private (get d SP - 4 * of_nat k)) [2..<numeral (n + num.One)]"
proof -
  have "[1..<Suc (numeral n)] = 1 # [2..<numeral (n + num.One)]"
    by (subst upt_conv_Cons) (simp del: Suc_numeral, simp only: Suc_1 Suc_numeral)
  then show ?thesis
    by (simp add: stack_shared_def)
qed

definition observed :: "core \<Rightarrow> u32 list \<times> u32 list" where
  "observed c = (map (get c) context_gprs, map (csrs c) context_csrs)"

lemma agree_observed: "agree c d \<longleftrightarrow> observed c = observed d"
proof
  assume "observed c = observed d"
  then have "get c r = get d r" for r
    by (cases r) (simp_all add: observed_def context_gprs_def get_ZERO)
  with \<open>observed c = observed d\<close> show "agree c d"
    by (simp add: agree_def observed_def)
qed (simp add: agree_def observed_def)

lemma recoverysync_observed:
  assumes "stack_frame c 40" and "stack_shared d 40"
    and "\<And>k old. k \<in> set context_csrs \<Longrightarrow> W k old (csrs c k) = csrs c k"
  shows "map_option (\<lambda>(m', d'). (observed (fst m'), observed d'))
     (shadow W handler_tmr_recoverysync (c, s) d) = Some (observed c, observed c)"
proof -
  have W: "W MSTATUS old (csrs c MSTATUS) = csrs c MSTATUS"
    "W MIE old (csrs c MIE) = csrs c MIE" "W MTVEC old (csrs c MTVEC) = csrs c MTVEC"
    "W MEPC old (csrs c MEPC) = csrs c MEPC" "W MTVAL old (csrs c MTVAL) = csrs c MTVAL" for old
    using assms(3) by simp_all
  have p: "plain a \<Longrightarrow> \<not> is_private a" for a by (simp add: plain_def)
  show ?thesis
    using assms(1,2)
    by (simp add: frame_simps stack_shared_numeral handler_tmr_recoverysync_def shadow_simps p W
        exec_simps mem_simps observed_def context_csrs_def context_gprs_def del: shadow.simps(2))
qed


text \<open>
  C2: triple lockstep heals. If one hart of three has arbitrary registers and CSRs, its stack
  accesses reaching the voter, then running \<^verbatim>\<open>handler_tmr_recoverysync\<close> in lockstep completes
  without stranding a hart and leaves all three harts with the registers and the context CSRs
  of the two good ones, provided a CSR accepts a value it can hold.
\<close>

theorem tmr_recovery_heals:
  assumes "f < 3" and "\<And>h. h < 3 \<Longrightarrow> h \<noteq> f \<Longrightarrow> agree c (harts t h)"
    and "stack_frame c 40" and "stack_shared (harts t f) 40"
    and "\<And>k old. k \<in> set context_csrs \<Longrightarrow> W k old (csrs c k) = csrs c k"
  shows "\<exists>t'. tri_run W handler_tmr_recoverysync t = Some t' \<and> (\<forall>h<3. agree c (harts t' h))"
proof -
  have "map_option (\<lambda>(m', d'). (observed (fst m'), observed d'))
     (shadow W handler_tmr_recoverysync (c, bus t) (harts t f)) = Some (observed c, observed c)"
    by (rule recoverysync_observed [OF assms(3,4)]) (rule assms(5))
  then obtain c' s' d' where sh: "shadow W handler_tmr_recoverysync (c, bus t) (harts t f) = Some ((c', s'), d')"
    and "observed c' = observed c" "observed d' = observed c"
    by auto
  then have c': "agree c c'" and d': "agree c d'"
    by (simp_all add: agree_observed)
  from tri_run_shadow [OF assms(1,2) sh] obtain t' where
    "tri_run W handler_tmr_recoverysync t = Some t'" "harts t' f = d'"
    "\<And>h. h < 3 \<Longrightarrow> h \<noteq> f \<Longrightarrow> agree c' (harts t' h)"
    by blast
  with c' d' show ?thesis
    by (metis agree_trans)
qed

text \<open>Two good harts, and one whose every register and CSR is wrong.\<close>

definition sample_tri :: tri where
  "sample_tri =
     \<lparr>harts = (\<lambda>h. if h = 2 then \<lparr>gprs = (\<lambda>_. 0x2000A5A4), csrs = (\<lambda>_. 7), priv = (\<lambda>_. 0), trace = []\<rparr>
               else sample_core),
      bus = sample_soc\<rparr>"

theorem tmr_recovery_heals_witness:
  "\<exists>t'. tri_run csr_plain handler_tmr_recoverysync sample_tri = Some t'
     \<and> (\<forall>h<3. agree sample_core (harts t' h)) \<and> \<not> agree sample_core (harts sample_tri 2)"
proof -
  have "stack_shared (harts sample_tri 2) 40"
    by (simp add: stack_shared_numeral upt_rec_numeral sample_tri_def is_private_def get_def)
  moreover have "\<not> agree sample_core (harts sample_tri 2)"
    by (auto simp: agree_def sample_tri_def get_def sample_core_def)
  ultimately show ?thesis
    using tmr_recovery_heals [of 2 sample_core sample_tri csr_plain] sample_frame(5)
    by (simp add: sample_tri_def agree_def csr_plain_def)
qed

text \<open>
  What a hart asks of a bus: whether it requests, whether it writes, and the byte lanes; the
  address only while it requests, and the data only when it writes.
\<close>

definition asked :: "obi_req \<Rightarrow> bool \<times> bool \<times> 4 word \<times> u32 option \<times> u32 option" where
  "asked r = (oreq r, owe r, obe r, if oreq r then Some (oaddr r) else None,
     if owe r then Some (owdata r) else None)"

lemma vote_error_asked: "vote_error v r \<longleftrightarrow> asked v \<noteq> asked r"
  by (auto simp: vote_error_def asked_def)

text \<open>
  C11: whatever one hart puts on its two buses, the voted requests are those of the two others. With
  the voter enabled that hart is reported, and no other, if and only if on the instruction or on the
  data bus it differs from the two in the request line, the write enable, a byte enable, the
  address while it requests, or the data while it writes; the common error line is raised if and
  only if that happens on a bus on which the others make a request. With the voter disabled
  nothing is reported.
\<close>

theorem tmr_voter_masks_and_reports:
  fixes enable :: bool
  assumes "f < 3" and "\<And>h. h < 3 \<Longrightarrow> h \<noteq> f \<Longrightarrow> i h = x" and "\<And>h. h < 3 \<Longrightarrow> h \<noteq> f \<Longrightarrow> d h = y"
  defines "v \<equiv> tmr_voter enable i d"
  shows "voted_instr v = x \<and> voted_data v = y
     \<and> (\<forall>h<3. error_id_o v h \<longleftrightarrow> enable \<and> h = f \<and> (asked (i f) \<noteq> asked x \<or> asked (d f) \<noteq> asked y))
     \<and> (error_o v \<longleftrightarrow> enable \<and> (oreq x \<and> asked (i f) \<noteq> asked x \<or> oreq y \<and> asked (d f) \<noteq> asked y))"
proof -
  have vi: "tmr_vote (i 0) (i 1) (i 2) = x" and vd: "tmr_vote (d 0) (d 1) (d 2) = y"
    using assms(2,3) by (intro request_voter.masks_one_fault [of f]; simp add: request_voter.agree_but_def)+
  have ei: "vote_error x (i h) \<longleftrightarrow> h = f \<and> asked (i f) \<noteq> asked x"
    and ed: "vote_error y (d h) \<longleftrightarrow> h = f \<and> asked (d f) \<noteq> asked y" if "h < 3" for h
    using assms(2,3) [OF that] by (cases "h = f"; auto simp: vote_error_asked)+
  have "f = 0 \<or> f = 1 \<or> f = 2" using assms(1) by linarith
  then show ?thesis
    unfolding v_def tmr_voter_def Let_def vi vd
    by (auto simp: ei ed)
qed

theorem tmr_voter_masks_and_reports_witness:
  "error_id_o (tmr_voter True (\<lambda>_. \<lparr>oreq = True, owe = False, obe = 15, oaddr = 4, owdata = 0\<rparr>)
     (\<lambda>h. \<lparr>oreq = True, owe = False, obe = if h = 1 then 3 else 15, oaddr = 8, owdata = 0\<rparr>)) 1"
  using tmr_voter_masks_and_reports
    [of 1 "\<lambda>_. \<lparr>oreq = True, owe = False, obe = 15, oaddr = 4, owdata = 0\<rparr>"
      "\<lparr>oreq = True, owe = False, obe = 15, oaddr = 4, owdata = 0\<rparr>"
      "\<lambda>h. \<lparr>oreq = True, owe = False, obe = if h = 1 then 3 else 15, oaddr = 8, owdata = 0\<rparr>"
      "\<lparr>oreq = True, owe = False, obe = 15, oaddr = 8, owdata = 0\<rparr>" True]
  by (simp add: asked_def)

end
