(* ===== verification/Safe_Controller.thy ===== *)
theory Safe_Controller
  imports SAP_Prelude
begin

text \<open>
  The safety controller, src/rtl/safe_FSM.sv: the hardware that the safety library talks to through
  the safe wrapper, which decides when harts are halted, interrupted and woken. Eight state
  machines run side by side on one clock: the mode, single mode, and one machine per hart for the
  triple and for the dual configuration. \<open>fsm_step\<close> is one clock edge; the combinational outputs are
  functions of the state and the inputs.
\<close>

section \<open>States and inputs\<close>

datatype hart_id = H0 | H1 | H2

definition all3 :: "(hart_id \<Rightarrow> bool) \<Rightarrow> bool" where "all3 f \<longleftrightarrow> f H0 \<and> f H1 \<and> f H2"
definition any3 :: "(hart_id \<Rightarrow> bool) \<Rightarrow> bool" where "any3 f \<longleftrightarrow> f H0 \<or> f H1 \<or> f H2"

text \<open>The mode machine; its states have the prefix \<open>S_\<close> here.\<close>

datatype safe_state = S_RESET | S_BOOT | S_IDLE | S_SINGLE_MODE | S_TMR_MODE | S_DMR_MODE

datatype single_state =
  SINGLE_RESET | SINGLE_IDLE | SINGLE_START | SINGLE_RUN | SINGLE_TO_TMR | SINGLE_TO_DMR | SINGLE_SYNC_OFF

datatype tmr_state =
    TMR_RESET | TMR_IDLE | TMR_START | TMR_BOOT | TMR_SH_HALT | TMR_WAIT_SH | TMR_MS_INTRSYNC
  | TMR_SYNC | TMR_END_SYNC | TMR_TO_SINGLE | TMR_SYNCINTC | TMR_SWSYNC

datatype dmr_state =
    DMR_RESET | DMR_IDLE | DMR_START | DMR_BOOT | DMR_SH_HALT | DMR_WAIT_SH | DMR_MS_INTRSYNC
  | DMR_SYNC | DMR_END_SYNC | DMR_TO_SINGLE | DMR_STOP | DMR_INTC_RECOVERY | DMR_RECOVERY

text \<open>The inputs of one clock cycle, and the registers of the module.\<close>

record inputs =
  DMR_Mask_i :: "hart_id \<Rightarrow> bool"
  tmr_critical_section_i :: bool
  Safe_configuration_i :: "2 word"
  Initial_Sync_Master_i :: bool
  Halt_ack_i :: "hart_id \<Rightarrow> bool"
  Hart_wfi_i :: "hart_id \<Rightarrow> bool"
  Hart_intc_ack_i :: "hart_id \<Rightarrow> bool"
  Master_Core_i :: "hart_id \<Rightarrow> bool"
  tmr_error_i :: bool
  dmr_error_i :: "hart_id \<Rightarrow> bool"
  Start_i :: bool
  End_sw_routine_i :: bool

record fsm =
  safe_cs :: safe_state
  single_cs :: single_state
  tmr_cs :: "hart_id \<Rightarrow> tmr_state"
  dmr_cs :: "hart_id \<Rightarrow> dmr_state"
  delay_ff :: bool
  tmr_error_ff0 :: bool
  tmr_error_ff1 :: bool

definition fsm_reset :: fsm where
  "fsm_reset =
     \<lparr>safe_cs = S_RESET, single_cs = SINGLE_RESET, tmr_cs = (\<lambda>_. TMR_RESET), dmr_cs = (\<lambda>_. DMR_RESET),
      delay_ff = False, tmr_error_ff0 = False, tmr_error_ff1 = False\<rparr>"

section \<open>Signals between the machines\<close>

definition Switch_SingletoTMR_s :: "fsm \<Rightarrow> hart_id \<Rightarrow> bool" where
  "Switch_SingletoTMR_s s h \<longleftrightarrow> tmr_cs s h = TMR_SH_HALT"

definition Switch_TMRtoSingle_s :: "inputs \<Rightarrow> fsm \<Rightarrow> hart_id \<Rightarrow> bool" where
  "Switch_TMRtoSingle_s x s h \<longleftrightarrow> tmr_cs s h = TMR_END_SYNC \<and> Master_Core_i x h"

definition Switch_SingletoDMR_s :: "fsm \<Rightarrow> hart_id \<Rightarrow> bool" where
  "Switch_SingletoDMR_s s h \<longleftrightarrow> dmr_cs s h = DMR_SH_HALT"

definition Switch_DMRtoSingle_s :: "inputs \<Rightarrow> fsm \<Rightarrow> hart_id \<Rightarrow> bool" where
  "Switch_DMRtoSingle_s x s h \<longleftrightarrow> dmr_cs s h = DMR_END_SYNC \<and> Master_Core_i x h"

definition Enable_Switch_s :: "fsm \<Rightarrow> bool" where
  "Enable_Switch_s s \<longleftrightarrow> single_cs s \<in> {SINGLE_TO_TMR, SINGLE_TO_DMR}"

text \<open>The master's request to halt the shadows, from either configuration.\<close>

definition halt_req_s :: "inputs \<Rightarrow> fsm \<Rightarrow> bool" where
  "halt_req_s x s \<longleftrightarrow>
     any3 (\<lambda>h. tmr_cs s h = TMR_SH_HALT \<and> Master_Core_i x h)
     \<or> any3 (\<lambda>h. dmr_cs s h = DMR_SH_HALT \<and> Master_Core_i x h)"

definition dmr_error_s :: "inputs \<Rightarrow> bool" where
  "dmr_error_s x =
     (if Master_Core_i x H0 \<and> \<not> Master_Core_i x H1 \<and> \<not> Master_Core_i x H2 then dmr_error_i x H0
      else if \<not> Master_Core_i x H0 \<and> Master_Core_i x H1 \<and> \<not> Master_Core_i x H2 then dmr_error_i x H1
      else dmr_error_i x H2)"

definition tmr_error_s :: "inputs \<Rightarrow> fsm \<Rightarrow> bool" where
  "tmr_error_s x s \<longleftrightarrow>
     \<not> tmr_critical_section_i x \<and> (tmr_error_i x \<or> tmr_error_ff1 s)
     \<or> tmr_critical_section_i x \<and> \<not> tmr_error_ff0 s \<and> tmr_error_ff1 s \<and> tmr_error_i x"

definition dmr_delayed_s :: "inputs \<Rightarrow> fsm \<Rightarrow> hart_id \<Rightarrow> bool" where
  "dmr_delayed_s x s h \<longleftrightarrow> Safe_configuration_i x = 3 \<and>
     dmr_cs s h \<in> {DMR_START, DMR_BOOT, DMR_MS_INTRSYNC, DMR_SYNC, DMR_INTC_RECOVERY, DMR_RECOVERY}"

section \<open>Next states\<close>

fun safe_next :: "inputs \<Rightarrow> fsm \<Rightarrow> safe_state \<Rightarrow> safe_state" where
  "safe_next x s S_RESET = S_BOOT"
| "safe_next x s S_BOOT = (if all3 (Hart_wfi_i x) then S_IDLE else S_BOOT)"
| "safe_next x s S_IDLE =
     (if Safe_configuration_i x = 1 \<and> Start_i x then S_TMR_MODE
      else if (Safe_configuration_i x = 2 \<or> Safe_configuration_i x = 3) \<and> Start_i x then S_DMR_MODE
      else if Safe_configuration_i x = 0 \<and> Start_i x then S_SINGLE_MODE
      else S_IDLE)"
| "safe_next x s S_SINGLE_MODE =
     (if \<not> Start_i x \<and> single_cs s = SINGLE_IDLE then S_IDLE
      else if Start_i x \<and> Safe_configuration_i x = 1 then S_TMR_MODE
      else if Start_i x \<and> (Safe_configuration_i x = 2 \<or> Safe_configuration_i x = 3) then S_DMR_MODE
      else S_SINGLE_MODE)"
| "safe_next x s S_TMR_MODE =
     (if all3 (\<lambda>h. tmr_cs s h = TMR_IDLE) \<and> \<not> Start_i x then S_IDLE
      else if any3 (Switch_TMRtoSingle_s x s) then S_SINGLE_MODE
      else S_TMR_MODE)"
| "safe_next x s S_DMR_MODE =
     (if all3 (\<lambda>h. dmr_cs s h = DMR_IDLE) \<and> \<not> Start_i x then S_IDLE
      else if any3 (Switch_DMRtoSingle_s x s) then S_SINGLE_MODE
      else S_DMR_MODE)"

fun single_next :: "inputs \<Rightarrow> fsm \<Rightarrow> single_state \<Rightarrow> single_state" where
  "single_next x s SINGLE_RESET = SINGLE_IDLE"
| "single_next x s SINGLE_IDLE =
     (if safe_cs s = S_SINGLE_MODE \<and> Start_i x \<and> \<not> End_sw_routine_i x
         \<and> \<not> any3 (Switch_TMRtoSingle_s x s) \<and> \<not> any3 (Switch_DMRtoSingle_s x s) then SINGLE_START
      else if safe_cs s = S_SINGLE_MODE \<and> Start_i x \<and> \<not> End_sw_routine_i x
         \<and> any3 (Switch_TMRtoSingle_s x s) then SINGLE_RUN
      else if safe_cs s = S_SINGLE_MODE \<and> Start_i x \<and> \<not> End_sw_routine_i x
         \<and> any3 (Switch_DMRtoSingle_s x s) then SINGLE_RUN
      else SINGLE_IDLE)"
| "single_next x s SINGLE_START =
     (if all3 (\<lambda>h. Halt_ack_i x h = Master_Core_i x h) then SINGLE_RUN else SINGLE_START)"
| "single_next x s SINGLE_RUN =
     (if End_sw_routine_i x \<and> all3 (Hart_wfi_i x) then SINGLE_IDLE
      else if \<not> Start_i x \<and> \<not> any3 (Halt_ack_i x) \<and> \<not> End_sw_routine_i x then SINGLE_SYNC_OFF
      else if \<not> any3 (Halt_ack_i x) \<and> Safe_configuration_i x = 1 then SINGLE_TO_TMR
      else if \<not> any3 (Halt_ack_i x) \<and> (Safe_configuration_i x = 2 \<or> Safe_configuration_i x = 3)
        then SINGLE_TO_DMR
      else SINGLE_RUN)"
| "single_next x s SINGLE_TO_TMR =
     (if all3 (Switch_SingletoTMR_s s) then SINGLE_IDLE else SINGLE_TO_TMR)"
| "single_next x s SINGLE_TO_DMR =
     (if (Switch_SingletoDMR_s s H0 \<and> Switch_SingletoDMR_s s H1 \<and> \<not> Switch_SingletoDMR_s s H2)
         \<or> (Switch_SingletoDMR_s s H0 \<and> \<not> Switch_SingletoDMR_s s H1 \<and> Switch_SingletoDMR_s s H2)
         \<or> (\<not> Switch_SingletoDMR_s s H0 \<and> Switch_SingletoDMR_s s H1 \<and> Switch_SingletoDMR_s s H2)
      then SINGLE_IDLE else SINGLE_TO_DMR)"
| "single_next x s SINGLE_SYNC_OFF =
     (if \<not> any3 (Hart_wfi_i x) then SINGLE_IDLE else SINGLE_SYNC_OFF)"

fun tmr_next :: "inputs \<Rightarrow> fsm \<Rightarrow> hart_id \<Rightarrow> tmr_state \<Rightarrow> tmr_state" where
  "tmr_next x s i TMR_RESET = TMR_IDLE"
| "tmr_next x s i TMR_IDLE =
     (if safe_cs s = S_TMR_MODE \<and> Start_i x \<and> \<not> Enable_Switch_s s then TMR_START
      else if safe_cs s = S_TMR_MODE \<and> Start_i x \<and> Enable_Switch_s s then
        if Master_Core_i x i \<and> Hart_wfi_i x i \<and> Initial_Sync_Master_i x \<and> Start_i x then TMR_SH_HALT
        else if \<not> Master_Core_i x i \<and> halt_req_s x s \<and> Start_i x then TMR_SH_HALT
        else TMR_IDLE
      else TMR_IDLE)"
| "tmr_next x s i TMR_START = (if Halt_ack_i x i then TMR_BOOT else TMR_START)"
| "tmr_next x s i TMR_BOOT = (if \<not> Halt_ack_i x i then TMR_SYNC else TMR_BOOT)"
| "tmr_next x s i TMR_SH_HALT =
     (if Master_Core_i x i \<and> (Halt_ack_i x H0 \<and> Halt_ack_i x H1 \<or> Halt_ack_i x H1 \<and> Halt_ack_i x H2
            \<or> Halt_ack_i x H0 \<and> Halt_ack_i x H2) then TMR_WAIT_SH
      else if \<not> Master_Core_i x i \<and> Halt_ack_i x i then TMR_WAIT_SH
      else TMR_SH_HALT)"
| "tmr_next x s i TMR_WAIT_SH = (if all3 (Hart_wfi_i x) then TMR_MS_INTRSYNC else TMR_WAIT_SH)"
| "tmr_next x s i TMR_MS_INTRSYNC = (if all3 (Hart_intc_ack_i x) then TMR_SYNC else TMR_MS_INTRSYNC)"
| "tmr_next x s i TMR_SYNC =
     (if all3 (Hart_wfi_i x) \<and> End_sw_routine_i x then TMR_IDLE
      else if all3 (Hart_wfi_i x) \<and> Safe_configuration_i x \<noteq> 1 then TMR_END_SYNC
      else if tmr_error_s x s then TMR_SYNCINTC
      else TMR_SYNC)"
| "tmr_next x s i TMR_END_SYNC =
     (if Hart_intc_ack_i x i \<and> Master_Core_i x i then TMR_IDLE
      else if Hart_wfi_i x i \<and> \<not> Master_Core_i x i then TMR_IDLE
      else TMR_END_SYNC)"
| "tmr_next x s i TMR_SYNCINTC = (if all3 (Hart_intc_ack_i x) then TMR_SWSYNC else TMR_SYNCINTC)"
| "tmr_next x s i TMR_SWSYNC = (if \<not> any3 (Hart_intc_ack_i x) then TMR_SYNC else TMR_SWSYNC)"
| "tmr_next x s i TMR_TO_SINGLE = TMR_IDLE"

fun dmr_next :: "inputs \<Rightarrow> fsm \<Rightarrow> hart_id \<Rightarrow> dmr_state \<Rightarrow> dmr_state" where
  "dmr_next x s i DMR_RESET = DMR_IDLE"
| "dmr_next x s i DMR_IDLE =
     (if safe_cs s = S_DMR_MODE \<and> Start_i x \<and> \<not> Enable_Switch_s s \<and> DMR_Mask_i x i then DMR_START
      else if safe_cs s = S_DMR_MODE \<and> Start_i x \<and> Enable_Switch_s s \<and> DMR_Mask_i x i then
        if Master_Core_i x i \<and> Hart_wfi_i x i \<and> Initial_Sync_Master_i x \<and> Start_i x then DMR_SH_HALT
        else if \<not> Master_Core_i x i \<and> halt_req_s x s \<and> Start_i x then DMR_SH_HALT
        else DMR_IDLE
      else DMR_IDLE)"
| "dmr_next x s i DMR_START = (if Halt_ack_i x i then DMR_BOOT else DMR_START)"
| "dmr_next x s i DMR_BOOT = (if \<not> Halt_ack_i x i then DMR_SYNC else DMR_BOOT)"
| "dmr_next x s i DMR_SH_HALT =
     (if Master_Core_i x i \<and> all3 (\<lambda>h. Halt_ack_i x h = (DMR_Mask_i x h \<noteq> Master_Core_i x h))
      then DMR_WAIT_SH
      else if \<not> Master_Core_i x i \<and> Halt_ack_i x i then DMR_WAIT_SH
      else DMR_SH_HALT)"
| "dmr_next x s i DMR_WAIT_SH = (if all3 (Hart_wfi_i x) then DMR_MS_INTRSYNC else DMR_WAIT_SH)"
| "dmr_next x s i DMR_MS_INTRSYNC = (if Hart_intc_ack_i x i then DMR_SYNC else DMR_MS_INTRSYNC)"
| "dmr_next x s i DMR_SYNC =
     (if all3 (Hart_wfi_i x) \<and> End_sw_routine_i x then DMR_IDLE
      else if all3 (Hart_wfi_i x) \<and> (Safe_configuration_i x \<noteq> 2 \<or> Safe_configuration_i x \<noteq> 3)
        then DMR_END_SYNC
      else if dmr_error_s x then DMR_STOP
      else DMR_SYNC)"
| "dmr_next x s i DMR_STOP = (if all3 (Hart_wfi_i x) then DMR_INTC_RECOVERY else DMR_STOP)"
| "dmr_next x s i DMR_INTC_RECOVERY = (if Halt_ack_i x i then DMR_RECOVERY else DMR_INTC_RECOVERY)"
| "dmr_next x s i DMR_RECOVERY = (if \<not> Halt_ack_i x i then DMR_SYNC else DMR_RECOVERY)"
| "dmr_next x s i DMR_END_SYNC =
     (if Hart_intc_ack_i x i \<and> Master_Core_i x i then DMR_IDLE
      else if Hart_wfi_i x i \<and> \<not> Master_Core_i x i then DMR_IDLE
      else DMR_END_SYNC)"
| "dmr_next x s i DMR_TO_SINGLE = DMR_IDLE"

definition delay_next :: "inputs \<Rightarrow> fsm \<Rightarrow> bool" where
  "delay_next x s =
     (if all3 (Hart_wfi_i x) \<and> Safe_configuration_i x = 0 then False
      else if any3 (dmr_delayed_s x s) then True else delay_ff s)"

text \<open>Of two assignments to \<^verbatim>\<open>tmr_error_ff\<close> in one cycle the last one counts.\<close>

definition error_ff_next :: "inputs \<Rightarrow> fsm \<Rightarrow> bool \<times> bool" where
  "error_ff_next x s =
     (if any3 (\<lambda>h. tmr_cs s h = TMR_SYNC) \<and> tmr_error_i x \<and> \<not> tmr_error_ff0 s
      then (tmr_error_i x, \<not> tmr_error_ff1 s)
      else if any3 (\<lambda>h. tmr_cs s h \<noteq> TMR_SYNC) then (False, False)
      else (tmr_error_i x, tmr_error_ff1 s))"

definition fsm_step :: "inputs \<Rightarrow> fsm \<Rightarrow> fsm" where
  "fsm_step x s =
     \<lparr>safe_cs = safe_next x s (safe_cs s), single_cs = single_next x s (single_cs s),
      tmr_cs = (\<lambda>i. tmr_next x s i (tmr_cs s i)), dmr_cs = (\<lambda>i. dmr_next x s i (dmr_cs s i)),
      delay_ff = delay_next x s, tmr_error_ff0 = fst (error_ff_next x s),
      tmr_error_ff1 = snd (error_ff_next x s)\<rparr>"

section \<open>Outputs\<close>

definition General_boot_s :: "fsm \<Rightarrow> bool" where
  "General_boot_s s \<longleftrightarrow> safe_cs s = S_BOOT"

definition Interrupt_Halt_o :: "inputs \<Rightarrow> fsm \<Rightarrow> hart_id \<Rightarrow> bool" where
  "Interrupt_Halt_o x s h \<longleftrightarrow>
     tmr_cs s h = TMR_START \<or> tmr_cs s h = TMR_SH_HALT \<and> \<not> Master_Core_i x h
     \<or> single_cs s = SINGLE_START \<and> Master_Core_i x h
     \<or> dmr_cs s h = DMR_START \<or> dmr_cs s h = DMR_SH_HALT \<and> \<not> Master_Core_i x h
     \<or> dmr_cs s h = DMR_INTC_RECOVERY"

definition Interrupt_Sync_o :: "inputs \<Rightarrow> fsm \<Rightarrow> hart_id \<Rightarrow> bool" where
  "Interrupt_Sync_o x s h \<longleftrightarrow>
     tmr_cs s h = TMR_MS_INTRSYNC \<or> tmr_cs s h = TMR_END_SYNC \<and> Master_Core_i x h
     \<or> dmr_cs s h = DMR_MS_INTRSYNC \<or> dmr_cs s h = DMR_END_SYNC \<and> Master_Core_i x h"

definition Interrupt_swResync_o :: "fsm \<Rightarrow> hart_id \<Rightarrow> bool" where
  "Interrupt_swResync_o s h \<longleftrightarrow> tmr_cs s h \<in> {TMR_SYNCINTC, TMR_SWSYNC}"

definition tmr_joined :: "tmr_state \<Rightarrow> bool" where
  "tmr_joined q \<longleftrightarrow> q \<in> {TMR_START, TMR_BOOT, TMR_SH_HALT, TMR_WAIT_SH, TMR_MS_INTRSYNC, TMR_SYNC,
     TMR_SYNCINTC, TMR_SWSYNC}"

definition dmr_joined :: "dmr_state \<Rightarrow> bool" where
  "dmr_joined q \<longleftrightarrow> q \<in> {DMR_START, DMR_BOOT, DMR_MS_INTRSYNC, DMR_SYNC, DMR_STOP, DMR_INTC_RECOVERY,
     DMR_RECOVERY}"

definition Single_Bus_o :: "fsm \<Rightarrow> bool" where
  "Single_Bus_o s \<longleftrightarrow> any3 (\<lambda>h. tmr_joined (tmr_cs s h)) \<or> any3 (\<lambda>h. dmr_joined (dmr_cs s h)) \<or> General_boot_s s"

definition Tmr_voter_enable_o :: "fsm \<Rightarrow> bool" where
  "Tmr_voter_enable_o s \<longleftrightarrow> any3 (\<lambda>h. tmr_joined (tmr_cs s h)) \<or> General_boot_s s"

definition Dmr_comparator_enable_o :: "fsm \<Rightarrow> bool" where
  "Dmr_comparator_enable_o s \<longleftrightarrow> any3 (\<lambda>h. dmr_joined (dmr_cs s h))"

definition Dmr_config_o :: "fsm \<Rightarrow> hart_id \<Rightarrow> bool" where
  "Dmr_config_o s h \<longleftrightarrow> dmr_cs s h \<noteq> DMR_IDLE"

definition wfi_dmr_o :: "fsm \<Rightarrow> hart_id \<Rightarrow> bool" where
  "wfi_dmr_o s h \<longleftrightarrow> dmr_cs s h = DMR_STOP"

definition DMR_Rec_o :: "fsm \<Rightarrow> bool" where
  "DMR_Rec_o s \<longleftrightarrow> any3 (\<lambda>h. dmr_cs s h \<in> {DMR_INTC_RECOVERY, DMR_RECOVERY})"

definition Delayed_o :: "inputs \<Rightarrow> fsm \<Rightarrow> bool" where
  "Delayed_o x s \<longleftrightarrow> delay_ff s \<or> any3 (dmr_delayed_s x s)"

definition Start_Boot_o :: "fsm \<Rightarrow> bool" where
  "Start_Boot_o s \<longleftrightarrow> safe_cs s = S_SINGLE_MODE \<or> any3 (\<lambda>h. tmr_cs s h \<in> {TMR_START, TMR_BOOT})
     \<or> any3 (\<lambda>h. dmr_cs s h \<in> {DMR_START, DMR_BOOT})"

definition en_ext_debug_req_o :: "fsm \<Rightarrow> bool" where
  "en_ext_debug_req_o s \<longleftrightarrow> safe_cs s = S_IDLE"

section \<open>Runs\<close>

definition fsm_run :: "inputs list \<Rightarrow> fsm \<Rightarrow> fsm" where
  "fsm_run xs s = fold fsm_step xs s"

text \<open>What the controller can reach while the environment gives only inputs in \<open>E\<close>.\<close>

inductive reaches :: "(inputs \<Rightarrow> bool) \<Rightarrow> fsm \<Rightarrow> fsm \<Rightarrow> bool" for E s where
  here: "reaches E s s"
| clock: "reaches E s t \<Longrightarrow> E x \<Longrightarrow> reaches E s (fsm_step x t)"

lemma reaches_run: "list_all E xs \<Longrightarrow> reaches E s t \<Longrightarrow> reaches E s (fsm_run xs t)"
  by (induction xs arbitrary: t) (auto simp: fsm_run_def intro: clock)

lemma run_simps [simp]:
  "fsm_run [] s = s" "fsm_run (x # xs) s = fsm_run xs (fsm_step x s)"
  "fsm_run (xs @ ys) s = fsm_run ys (fsm_run xs s)"
  by (simp_all add: fsm_run_def)

text \<open>An invariant of the inputs of a phase holds at its end.\<close>

lemma run_stays:
  assumes "list_all E xs" and "Q s" and "\<And>x s. E x \<Longrightarrow> Q s \<Longrightarrow> Q (fsm_step x s)"
  shows "Q (fsm_run xs s)"
  using assms(1,2) by (induction xs arbitrary: s) (simp_all add: assms(3))

lemma all_harts: "(\<forall>h. P h) \<longleftrightarrow> P H0 \<and> P H1 \<and> P H2"
  by (metis hart_id.exhaust)

lemma all3_iff: "all3 f \<longleftrightarrow> (\<forall>h. f h)"
  by (simp add: all3_def all_harts)

lemma any3_iff: "any3 f \<longleftrightarrow> (\<exists>h. f h)"
  using all_harts [of "\<lambda>h. \<not> f h"] by (auto simp: any3_def)

lemma step_simps [simp]:
  "safe_cs (fsm_step x s) = safe_next x s (safe_cs s)"
  "single_cs (fsm_step x s) = single_next x s (single_cs s)"
  "tmr_cs (fsm_step x s) = (\<lambda>i. tmr_next x s i (tmr_cs s i))"
  "dmr_cs (fsm_step x s) = (\<lambda>i. dmr_next x s i (dmr_cs s i))"
  "tmr_error_ff0 (fsm_step x s) = fst (error_ff_next x s)"
  "tmr_error_ff1 (fsm_step x s) = snd (error_ff_next x s)"
  by (simp_all add: fsm_step_def)

section \<open>The hart outside the mask\<close>

lemma dmr_idle_outside_mask:
  assumes "reaches (\<lambda>x. DMR_Mask_i x = M) fsm_reset s" and "\<not> M h"
  shows "s = fsm_reset \<or> dmr_cs s h = DMR_IDLE"
  using assms(1)
proof induction
  case (clock t x)
  have "dmr_cs fsm_reset h = DMR_RESET" by (simp add: fsm_reset_def)
  with clock show ?case using assms(2) by auto
qed simp

text \<open>
  C18: a hart outside the mask takes no part in dual lockstep: whatever else happens from reset on,
  while the mask is constant, its dual machine is idle in every state but the reset state itself. So
  the hart is never stopped for dual lockstep and never counts as one of the pair, and it is halted
  and interrupted exactly when the triple machine or single mode asks for it.
\<close>

theorem unmasked_hart_untouched:
  assumes "reaches (\<lambda>x. DMR_Mask_i x = M) fsm_reset s" and "\<not> M h"
  shows "(s = fsm_reset \<or> dmr_cs s h = DMR_IDLE)
     \<and> \<not> dmr_joined (dmr_cs s h) \<and> \<not> wfi_dmr_o s h
     \<and> (Interrupt_Halt_o x s h \<longleftrightarrow> tmr_cs s h = TMR_START \<or> tmr_cs s h = TMR_SH_HALT \<and> \<not> Master_Core_i x h
          \<or> single_cs s = SINGLE_START \<and> Master_Core_i x h)
     \<and> (Interrupt_Sync_o x s h \<longleftrightarrow> tmr_cs s h = TMR_MS_INTRSYNC \<or> tmr_cs s h = TMR_END_SYNC \<and> Master_Core_i x h)"
proof -
  have idle: "s = fsm_reset \<or> dmr_cs s h = DMR_IDLE" using dmr_idle_outside_mask [OF assms] .
  then have "dmr_cs s h \<in> {DMR_RESET, DMR_IDLE}" by (auto simp: fsm_reset_def)
  with idle show ?thesis
    by (auto simp: dmr_joined_def wfi_dmr_o_def Interrupt_Halt_o_def Interrupt_Sync_o_def)
qed

section \<open>Triple lockstep\<close>

text \<open>The inputs of triple mode, in which no one leaves it: not all harts asleep.\<close>

definition tmr_running :: "inputs \<Rightarrow> bool" where
  "tmr_running x \<longleftrightarrow> \<not> all3 (Hart_wfi_i x)"

definition tmr_all :: "tmr_state \<Rightarrow> fsm \<Rightarrow> bool" where
  "tmr_all q s \<longleftrightarrow> (\<forall>h. tmr_cs s h = q)"

lemma tmr_all_step: "tmr_all q s \<Longrightarrow> q \<in> {TMR_SYNC, TMR_SYNCINTC, TMR_SWSYNC, TMR_WAIT_SH, TMR_MS_INTRSYNC}
   \<Longrightarrow> tmr_all (tmr_next x s H0 q) (fsm_step x s)"
  by (auto simp: tmr_all_def)

lemma recovery_in_step:
  assumes "reaches tmr_running s t" and "tmr_all TMR_SYNC s"
  shows "\<exists>q \<in> {TMR_SYNC, TMR_SYNCINTC, TMR_SWSYNC}. tmr_all q t"
  using assms
proof induction
  case (clock t x)
  then obtain q where q: "q \<in> {TMR_SYNC, TMR_SYNCINTC, TMR_SWSYNC}" "tmr_all q t" by blast
  then have "tmr_next x t H0 q \<in> {TMR_SYNC, TMR_SYNCINTC, TMR_SWSYNC}"
    using clock(2) by (auto simp: tmr_running_def split: if_splits)
  moreover have "tmr_all (tmr_next x t H0 q) (fsm_step x t)"
    using q by (intro tmr_all_step) auto
  ultimately show ?case by blast
qed blast

text \<open>
  C6: from the cycle in which the three harts run in step, and until they all sleep, the controller
  keeps them in step: the voter and the single bus stay enabled, and the recovery interrupt is
  raised for all three harts or for none, whatever errors the voter reports and however the harts
  acknowledge.
\<close>

theorem recovery_for_all_or_none:
  assumes "reaches tmr_running s t" and "tmr_all TMR_SYNC s"
  shows "Tmr_voter_enable_o t \<and> Single_Bus_o t
     \<and> (Interrupt_swResync_o t h \<longleftrightarrow> Interrupt_swResync_o t k)
     \<and> (Interrupt_swResync_o t h \<longleftrightarrow> tmr_cs t h \<noteq> TMR_SYNC)"
proof -
  obtain q where "q \<in> {TMR_SYNC, TMR_SYNCINTC, TMR_SWSYNC}" "\<forall>h. tmr_cs t h = q"
    using recovery_in_step [OF assms] by (auto simp: tmr_all_def)
  then show ?thesis
    by (auto simp: Tmr_voter_enable_o_def Single_Bus_o_def Interrupt_swResync_o_def any3_iff tmr_joined_def)
qed

text \<open>
  C16: the recovery handshake ends. A reported error takes the three harts to the recovery
  interrupt; it is held until every hart has set its acknowledge, however long that takes, then
  until every hart has cleared it, and with that the harts run in step again. This is the pulse
  that \<^verbatim>\<open>handler_tmr_recoverysync\<close> writes.
\<close>

theorem recovery_handshake_completes:
  assumes "tmr_all TMR_SYNC s" and "tmr_running e" "tmr_error_s e s"
    and "list_all (\<lambda>x. \<not> all3 (Hart_intc_ack_i x)) wait" and "all3 (Hart_intc_ack_i a)"
    and "list_all (\<lambda>x. any3 (Hart_intc_ack_i x)) busy" and "\<not> any3 (Hart_intc_ack_i r)"
  shows "(\<forall>h. Interrupt_swResync_o (fsm_run (e # wait) s) h)
     \<and> (\<forall>h. Interrupt_swResync_o (fsm_run (e # wait @ a # busy) s) h)
     \<and> tmr_all TMR_SYNC (fsm_run (e # wait @ a # busy @ [r]) s)"
proof -
  have 1: "tmr_all TMR_SYNCINTC (fsm_step e s)"
    using assms(1-3) by (simp add: tmr_all_def tmr_running_def)
  have 2: "tmr_all TMR_SYNCINTC (fsm_run wait (fsm_step e s))"
    by (rule run_stays [OF assms(4), of "tmr_all TMR_SYNCINTC"]) (use 1 in \<open>simp_all add: tmr_all_def\<close>)
  then have 3: "tmr_all TMR_SWSYNC (fsm_step a (fsm_run wait (fsm_step e s)))"
    using assms(5) by (simp add: tmr_all_def)
  have 4: "tmr_all TMR_SWSYNC (fsm_run busy (fsm_step a (fsm_run wait (fsm_step e s))))"
    by (rule run_stays [OF assms(6), of "tmr_all TMR_SWSYNC"]) (use 3 in \<open>simp_all add: tmr_all_def\<close>)
  show ?thesis
    using 2 4 assms(7) by (simp add: tmr_all_def Interrupt_swResync_o_def)
qed

text \<open>An input for examples: started, configured for \<open>v\<close>, hart 0 the master, harts 0 and 1 the pair.\<close>

definition sample_in :: "2 word \<Rightarrow> inputs" where
  "sample_in v =
     \<lparr>DMR_Mask_i = (\<lambda>h. h \<noteq> H2), tmr_critical_section_i = False, Safe_configuration_i = v,
      Initial_Sync_Master_i = False, Halt_ack_i = (\<lambda>_. False), Hart_wfi_i = (\<lambda>_. False),
      Hart_intc_ack_i = (\<lambda>_. False), Master_Core_i = (\<lambda>h. h = H0), tmr_error_i = False,
      dmr_error_i = (\<lambda>_. False), Start_i = True, End_sw_routine_i = False\<rparr>"

definition sample_tmr :: fsm where
  "sample_tmr = fsm_reset\<lparr>safe_cs := S_TMR_MODE, single_cs := SINGLE_IDLE, tmr_cs := (\<lambda>_. TMR_SYNC),
     dmr_cs := (\<lambda>_. DMR_IDLE)\<rparr>"

lemma sample_tmr_all: "tmr_all TMR_SYNC sample_tmr"
  by (simp add: sample_tmr_def tmr_all_def)

lemma sample_running: "tmr_running (sample_in v)"
  by (simp add: tmr_running_def sample_in_def all3_def)

theorem recovery_for_all_or_none_witness:
  "Interrupt_swResync_o (fsm_step ((sample_in 1)\<lparr>tmr_error_i := True\<rparr>) sample_tmr) H1
   \<longleftrightarrow> Interrupt_swResync_o (fsm_step ((sample_in 1)\<lparr>tmr_error_i := True\<rparr>) sample_tmr) H2"
proof -
  have "reaches tmr_running sample_tmr (fsm_step ((sample_in 1)\<lparr>tmr_error_i := True\<rparr>) sample_tmr)"
    by (intro clock here) (simp add: tmr_running_def sample_in_def all3_def)
  from recovery_for_all_or_none [OF this sample_tmr_all] show ?thesis by blast
qed

theorem recovery_handshake_completes_witness:
  "tmr_all TMR_SYNC (fsm_run ((sample_in 1)\<lparr>tmr_error_i := True\<rparr> # [sample_in 1, sample_in 1]
     @ (sample_in 1)\<lparr>Hart_intc_ack_i := (\<lambda>_. True)\<rparr> # [(sample_in 1)\<lparr>Hart_intc_ack_i := (\<lambda>h. h = H1)\<rparr>]
     @ [sample_in 1]) sample_tmr)"
  using recovery_handshake_completes [of sample_tmr "(sample_in 1)\<lparr>tmr_error_i := True\<rparr>"
      "[sample_in 1, sample_in 1]" "(sample_in 1)\<lparr>Hart_intc_ack_i := (\<lambda>_. True)\<rparr>"
      "[(sample_in 1)\<lparr>Hart_intc_ack_i := (\<lambda>h. h = H1)\<rparr>]" "sample_in 1"]
  by (simp add: sample_tmr_all tmr_running_def sample_in_def all3_def any3_def tmr_error_s_def)

theorem unmasked_hart_untouched_witness:
  "dmr_cs (fsm_run [sample_in 2, (sample_in 2)\<lparr>Hart_wfi_i := (\<lambda>_. True)\<rparr>, sample_in 2, sample_in 2] fsm_reset) H2 = DMR_IDLE
   \<and> dmr_joined (dmr_cs (fsm_run [sample_in 2, (sample_in 2)\<lparr>Hart_wfi_i := (\<lambda>_. True)\<rparr>, sample_in 2, sample_in 2] fsm_reset) H1)"
proof -
  have "reaches (\<lambda>x. DMR_Mask_i x = (\<lambda>h. h \<noteq> H2)) fsm_reset
      (fsm_run [sample_in 2, (sample_in 2)\<lparr>Hart_wfi_i := (\<lambda>_. True)\<rparr>, sample_in 2, sample_in 2] fsm_reset)"
    by (rule reaches_run [OF _ here]) (simp add: sample_in_def)
  from unmasked_hart_untouched [OF this, of H2 "sample_in 2"] show ?thesis
    by (simp add: sample_in_def fsm_reset_def dmr_joined_def all3_def Enable_Switch_s_def)
qed

section \<open>Errors in a critical section\<close>

definition tmr_flags :: "bool \<times> bool \<Rightarrow> fsm \<Rightarrow> bool" where
  "tmr_flags f s \<longleftrightarrow> tmr_all TMR_SYNC s \<and> (tmr_error_ff0 s, tmr_error_ff1 s) = f"

definition critical_in :: "bool \<Rightarrow> inputs \<Rightarrow> bool" where
  "critical_in e x \<longleftrightarrow> tmr_running x \<and> tmr_critical_section_i x \<and> tmr_error_i x = e"

lemma critical_step:
  assumes "critical_in e x" and "tmr_flags (f0, f1) s" and "\<not> (e \<and> \<not> f0 \<and> f1)"
  shows "tmr_flags (e, if e \<and> \<not> f0 then \<not> f1 else f1) (fsm_step x s)"
  using assms
  by (auto simp: critical_in_def tmr_flags_def tmr_all_def tmr_running_def tmr_error_s_def error_ff_next_def
      any3_iff)

text \<open>
  C17: the first error in a critical section is tolerated: while it lasts, and after it is gone, the
  harts go on in step without an interrupt, for as long as the section lasts. It is not forgotten:
  the first cycle after the section starts the recovery, even if the voter sees no error any more,
  and so does a second error within the section.
\<close>

theorem critical_section_defers_recovery:
  assumes "tmr_flags (False, False) s" and "list_all (critical_in False) before"
    and "critical_in True e" and "list_all (critical_in True) burst"
    and "critical_in False q" and "list_all (critical_in False) after"
    and "tmr_running x" and "\<not> tmr_critical_section_i x \<or> critical_in True x"
  shows "tmr_all TMR_SYNC (fsm_run (before @ e # burst @ q # after) s)
     \<and> tmr_all TMR_SYNCINTC (fsm_step x (fsm_run (before @ e # burst @ q # after) s))"
proof -
  have 1: "tmr_flags (False, False) (fsm_run before s)"
    by (rule run_stays [OF assms(2), of "tmr_flags (False, False)"], rule assms(1)) (drule critical_step, auto)
  then have 2: "tmr_flags (True, True) (fsm_step e (fsm_run before s))"
    using critical_step [OF assms(3) 1] by simp
  have 3: "tmr_flags (True, True) (fsm_run burst (fsm_step e (fsm_run before s)))"
    by (rule run_stays [OF assms(4), of "tmr_flags (True, True)"], rule 2) (drule critical_step, auto)
  have 4: "tmr_flags (False, True) (fsm_step q (fsm_run burst (fsm_step e (fsm_run before s))))"
    using critical_step [OF assms(5) 3] by simp
  have 5: "tmr_flags (False, True) (fsm_run after (fsm_step q (fsm_run burst (fsm_step e (fsm_run before s)))))"
    by (rule run_stays [OF assms(6), of "tmr_flags (False, True)"], rule 4) (drule critical_step, auto)
  then show ?thesis
    using assms(7,8) by (auto simp: tmr_flags_def tmr_all_def tmr_running_def tmr_error_s_def critical_in_def)
qed

theorem critical_section_defers_recovery_witness:
  "tmr_all TMR_SYNCINTC (fsm_step (sample_in 1)
     (fsm_run [(sample_in 1)\<lparr>tmr_critical_section_i := True, tmr_error_i := True\<rparr>,
               (sample_in 1)\<lparr>tmr_critical_section_i := True\<rparr>] sample_tmr))"
proof -
  have "tmr_flags (False, False) sample_tmr"
    by (simp add: tmr_flags_def sample_tmr_all) (simp add: sample_tmr_def fsm_reset_def)
  from critical_section_defers_recovery [OF this, of "[]" "(sample_in 1)\<lparr>tmr_critical_section_i := True, tmr_error_i := True\<rparr>"
      "[]" "(sample_in 1)\<lparr>tmr_critical_section_i := True\<rparr>" "[]" "sample_in 1"]
  show ?thesis by (simp add: critical_in_def tmr_running_def sample_in_def all3_def)
qed

section \<open>Dual lockstep ends when the harts sleep\<close>

text \<open>
  Triple lockstep is left only for another configuration or at the end of the routine: while neither
  is signalled the harts stay in step, even through cycles in which all three sleep.
\<close>

lemma tmr_kept_while_configured:
  assumes "reaches (\<lambda>x. Safe_configuration_i x = 1 \<and> \<not> End_sw_routine_i x) s t" and "tmr_all TMR_SYNC s"
  shows "\<exists>q \<in> {TMR_SYNC, TMR_SYNCINTC, TMR_SWSYNC}. tmr_all q t"
  using assms
proof induction
  case (clock t x)
  then obtain q where q: "q \<in> {TMR_SYNC, TMR_SYNCINTC, TMR_SWSYNC}" "tmr_all q t" by blast
  then have "tmr_next x t H0 q \<in> {TMR_SYNC, TMR_SYNCINTC, TMR_SWSYNC}"
    using clock(2) by (auto split: if_splits)
  moreover have "tmr_all (tmr_next x t H0 q) (fsm_step x t)"
    using q by (intro tmr_all_step) auto
  ultimately show ?case by blast
qed blast

text \<open>The pair \<open>M\<close> in dual lockstep, and the inputs that configure it with the master \<open>m\<close>.\<close>

definition pair_in :: "(hart_id \<Rightarrow> bool) \<Rightarrow> dmr_state \<Rightarrow> fsm \<Rightarrow> bool" where
  "pair_in M q s \<longleftrightarrow> safe_cs s = S_DMR_MODE \<and> single_cs s = SINGLE_IDLE \<and> (\<forall>h. tmr_cs s h = TMR_IDLE)
     \<and> (\<forall>h. dmr_cs s h = (if M h then q else DMR_IDLE))"

definition dual_in :: "(hart_id \<Rightarrow> bool) \<Rightarrow> hart_id \<Rightarrow> inputs \<Rightarrow> bool" where
  "dual_in M m x \<longleftrightarrow> Safe_configuration_i x \<in> {2, 3} \<and> Start_i x \<and> \<not> End_sw_routine_i x
     \<and> DMR_Mask_i x = M \<and> Master_Core_i x = (\<lambda>h. h = m)"

lemmas pair_simps = pair_in_def dual_in_def all3_iff any3_iff Enable_Switch_s_def
  Switch_TMRtoSingle_s_def Switch_DMRtoSingle_s_def

lemma pair_works:
  assumes "dual_in M m x" and "\<not> all3 (Hart_wfi_i x)" and "\<not> dmr_error_s x" and "M m" and "pair_in M DMR_SYNC s"
  shows "pair_in M DMR_SYNC (fsm_step x s)"
  using assms by (auto simp: pair_simps)

lemma pair_sleeps:
  assumes "dual_in M m x" and "all3 (Hart_wfi_i x)" and "M m" and "pair_in M DMR_SYNC s"
  shows "pair_in M DMR_END_SYNC (fsm_step x s)"
  using assms by (auto simp: pair_simps)

text \<open>
  C19: in dual lockstep the test for another configuration is written so that it holds of every
  configuration. A pair that works without an error stays in the mode for any number of cycles;
  but in the first cycle in which all harts sleep it is taken out of it, although this cycle and
  all others are configured for dual lockstep and no one has signalled the end of the routine: the
  comparator and the single bus are switched off, exactly the master is interrupted, and a cycle
  later the block is in single mode.
\<close>

theorem dmr_left_on_any_sleep:
  assumes "pair_in M DMR_SYNC s" and "M m"
    and "list_all (\<lambda>x. dual_in M m x \<and> \<not> all3 (Hart_wfi_i x) \<and> \<not> dmr_error_s x) work"
    and "dual_in M m x" and "all3 (Hart_wfi_i x)" and "dual_in M m y"
  shows "pair_in M DMR_SYNC (fsm_run work s) \<and> Dmr_comparator_enable_o (fsm_run work s)
     \<and> \<not> Dmr_comparator_enable_o (fsm_run (work @ [x]) s) \<and> \<not> Single_Bus_o (fsm_run (work @ [x]) s)
     \<and> (Interrupt_Sync_o y (fsm_run (work @ [x]) s) h \<longleftrightarrow> h = m)
     \<and> safe_cs (fsm_run (work @ [x, y]) s) = S_SINGLE_MODE"
proof -
  have w: "pair_in M DMR_SYNC (fsm_run work s)"
    by (rule run_stays [OF assms(3), of "pair_in M DMR_SYNC", OF assms(1)]) (use pair_works assms(2) in blast)
  have e: "pair_in M DMR_END_SYNC (fsm_run (work @ [x]) s)"
    using pair_sleeps [OF assms(4,5,2) w] by simp
  then have "\<not> Dmr_comparator_enable_o (fsm_run (work @ [x]) s)" "\<not> Single_Bus_o (fsm_run (work @ [x]) s)"
      "Interrupt_Sync_o y (fsm_run (work @ [x]) s) h \<longleftrightarrow> h = m"
    using assms(2,6) by (auto simp: pair_simps Dmr_comparator_enable_o_def Single_Bus_o_def Interrupt_Sync_o_def
        dmr_joined_def tmr_joined_def General_boot_s_def)
  moreover have "Dmr_comparator_enable_o (fsm_run work s)"
    using w assms(2) by (auto simp: pair_simps Dmr_comparator_enable_o_def dmr_joined_def)
  moreover have "safe_cs (fsm_step y (fsm_run (work @ [x]) s)) = S_SINGLE_MODE"
    using e assms(2,6) by (auto simp: pair_simps)
  ultimately show ?thesis using w by simp
qed

definition sample_pair :: fsm where
  "sample_pair = fsm_reset\<lparr>safe_cs := S_DMR_MODE, single_cs := SINGLE_IDLE, tmr_cs := (\<lambda>_. TMR_IDLE),
     dmr_cs := (\<lambda>h. if h \<noteq> H2 then DMR_SYNC else DMR_IDLE)\<rparr>"

theorem dmr_left_on_any_sleep_witness:
  "safe_cs (fsm_run ([sample_in 2, sample_in 3] @ [(sample_in 2)\<lparr>Hart_wfi_i := (\<lambda>_. True)\<rparr>, sample_in 2]) sample_pair)
   = S_SINGLE_MODE"
proof -
  have "pair_in (\<lambda>h. h \<noteq> H2) DMR_SYNC sample_pair" by (simp add: pair_in_def sample_pair_def)
  from dmr_left_on_any_sleep [OF this, of H0 "[sample_in 2, sample_in 3]" "(sample_in 2)\<lparr>Hart_wfi_i := (\<lambda>_. True)\<rparr>"
      "sample_in 2"]
  show ?thesis by (simp add: dual_in_def sample_in_def all3_def dmr_error_s_def del: run_simps)
qed

section \<open>Entering triple lockstep\<close>

text \<open>
  The inputs while the software of hart \<open>m\<close> asks for triple mode, and a snapshot of the machines
  that take part in the switch.
\<close>

definition entering :: "hart_id \<Rightarrow> inputs \<Rightarrow> bool" where
  "entering m x \<longleftrightarrow> Start_i x \<and> \<not> End_sw_routine_i x \<and> Safe_configuration_i x = 1
     \<and> (\<forall>h. Master_Core_i x h \<longleftrightarrow> h = m)"

definition at_stage :: "safe_state \<Rightarrow> single_state \<Rightarrow> (hart_id \<Rightarrow> tmr_state) \<Rightarrow> fsm \<Rightarrow> bool" where
  "at_stage q r T s \<longleftrightarrow> safe_cs s = q \<and> single_cs s = r \<and> (\<forall>h. tmr_cs s h = T h) \<and> (\<forall>h. dmr_cs s h = DMR_IDLE)"

definition master_asleep :: "hart_id \<Rightarrow> inputs \<Rightarrow> bool" where
  "master_asleep m x \<longleftrightarrow> entering m x \<and> Hart_wfi_i x m \<and> Initial_Sync_Master_i x"

lemmas stage_simps = at_stage_def entering_def master_asleep_def all3_iff any3_iff Enable_Switch_s_def
  halt_req_s_def Switch_TMRtoSingle_s_def Switch_DMRtoSingle_s_def Switch_SingletoTMR_s_def

abbreviation master_only :: "hart_id \<Rightarrow> 'a \<Rightarrow> 'a \<Rightarrow> hart_id \<Rightarrow> 'a" where
  "master_only m q r \<equiv> (\<lambda>h. if h = m then q else r)"

lemma stage_request:
  assumes "at_stage S_SINGLE_MODE SINGLE_RUN (\<lambda>_. TMR_IDLE) s" and "entering m x" and "\<not> any3 (Halt_ack_i x)"
  shows "at_stage S_TMR_MODE SINGLE_TO_TMR (\<lambda>_. TMR_IDLE) (fsm_step x s)"
  using assms by (simp add: stage_simps)

lemma stage_saving:
  assumes "at_stage S_TMR_MODE SINGLE_TO_TMR (\<lambda>_. TMR_IDLE) s" and "entering m x" and "\<not> master_asleep m x"
  shows "at_stage S_TMR_MODE SINGLE_TO_TMR (\<lambda>_. TMR_IDLE) (fsm_step x s)"
  using assms by (auto simp: stage_simps)

lemma stage_asleep:
  assumes "at_stage S_TMR_MODE SINGLE_TO_TMR (\<lambda>_. TMR_IDLE) s" and "master_asleep m x"
  shows "at_stage S_TMR_MODE SINGLE_TO_TMR (master_only m TMR_SH_HALT TMR_IDLE) (fsm_step x s)"
  using assms by (auto simp: stage_simps)

lemma stage_halt:
  assumes "at_stage S_TMR_MODE SINGLE_TO_TMR (master_only m TMR_SH_HALT TMR_IDLE) s" and "entering m x"
    and "\<not> any3 (Halt_ack_i x)"
  shows "at_stage S_TMR_MODE SINGLE_TO_TMR (\<lambda>_. TMR_SH_HALT) (fsm_step x s)"
  using assms by (auto simp: stage_simps)

lemma stage_halting:
  assumes "at_stage S_TMR_MODE r (\<lambda>_. TMR_SH_HALT) s" and "r \<in> {SINGLE_TO_TMR, SINGLE_IDLE}"
    and "entering m x" and "\<not> any3 (Halt_ack_i x)"
  shows "at_stage S_TMR_MODE SINGLE_IDLE (\<lambda>_. TMR_SH_HALT) (fsm_step x s)"
  using assms by (auto simp: stage_simps)

text \<open>
  The shadows acknowledge the halt: \<open>halt_stage m A\<close> is the state in which exactly the shadows in
  \<open>A\<close> have done so, and \<open>acked\<close> the shadows that do so during a phase.
\<close>

definition halt_stage :: "hart_id \<Rightarrow> (hart_id \<Rightarrow> bool) \<Rightarrow> fsm \<Rightarrow> bool" where
  "halt_stage m A s \<longleftrightarrow> (\<exists>r \<in> {SINGLE_TO_TMR, SINGLE_IDLE}.
     at_stage S_TMR_MODE r (\<lambda>h. if h \<noteq> m \<and> A h then TMR_WAIT_SH else TMR_SH_HALT) s
     \<and> (r = SINGLE_TO_TMR \<longrightarrow> \<not> (\<exists>h. h \<noteq> m \<and> A h)))"

definition acked :: "inputs list \<Rightarrow> hart_id \<Rightarrow> bool" where
  "acked xs h \<longleftrightarrow> (\<exists>x \<in> set xs. Halt_ack_i x h)"

definition acking :: "hart_id \<Rightarrow> inputs \<Rightarrow> bool" where
  "acking m x \<longleftrightarrow> entering m x \<and> \<not> Halt_ack_i x m \<and> \<not> (\<forall>h. h \<noteq> m \<longrightarrow> Halt_ack_i x h)
     \<and> \<not> all3 (Hart_wfi_i x)"

lemma stage_acking:
  assumes "halt_stage m A s" and "acking m x"
  shows "halt_stage m (\<lambda>h. A h \<or> Halt_ack_i x h) (fsm_step x s)"
proof -
  obtain r where r: "r \<in> {SINGLE_TO_TMR, SINGLE_IDLE}" "r = SINGLE_TO_TMR \<longrightarrow> \<not> (\<exists>h. h \<noteq> m \<and> A h)"
      "at_stage S_TMR_MODE r (\<lambda>h. if h \<noteq> m \<and> A h then TMR_WAIT_SH else TMR_SH_HALT) s"
    using assms(1) unfolding halt_stage_def by blast
  have two: "\<not> (Halt_ack_i x H0 \<and> Halt_ack_i x H1 \<or> Halt_ack_i x H1 \<and> Halt_ack_i x H2 \<or> Halt_ack_i x H0 \<and> Halt_ack_i x H2)"
    using assms(2) by (cases m) (auto simp: acking_def all_harts)
  have x: "Master_Core_i x h \<longleftrightarrow> h = m" "\<not> Halt_ack_i x m" "\<not> all3 (Hart_wfi_i x)" for h
    using assms(2) by (simp_all add: acking_def entering_def)
  have s: "safe_cs s = S_TMR_MODE" "single_cs s = r" "dmr_cs s h = DMR_IDLE"
      "tmr_cs s h = (if h \<noteq> m \<and> A h then TMR_WAIT_SH else TMR_SH_HALT)" for h
    using r(3) by (simp_all add: at_stage_def)
  have "safe_next x s S_TMR_MODE = S_TMR_MODE"
    by (simp add: s(4) any3_def all3_def Switch_TMRtoSingle_s_def)
  moreover have "single_next x s r = SINGLE_IDLE"
    using r(1,2) by (auto simp: s all3_def Switch_SingletoTMR_s_def)
  moreover have "tmr_next x s h (tmr_cs s h)
      = (if h \<noteq> m \<and> (A h \<or> Halt_ack_i x h) then TMR_WAIT_SH else TMR_SH_HALT)" for h
    by (simp add: s(4) x two)
  moreover have "dmr_next x s h (dmr_cs s h) = DMR_IDLE" for h
    by (simp add: s)
  ultimately show ?thesis
    by (simp add: halt_stage_def at_stage_def s(1,2))
qed

lemma halt_stage_output:
  assumes "halt_stage m A s" and "entering m x"
  shows "Interrupt_Halt_o x s h \<longleftrightarrow> h \<noteq> m \<and> \<not> A h"
proof -
  have "tmr_cs s h = (if h \<noteq> m \<and> A h then TMR_WAIT_SH else TMR_SH_HALT)" "dmr_cs s h = DMR_IDLE"
      "single_cs s \<noteq> SINGLE_START"
    using assms(1) by (auto simp: halt_stage_def at_stage_def)
  then show ?thesis using assms(2) by (simp add: Interrupt_Halt_o_def entering_def)
qed

lemma stage_acked:
  assumes "list_all (acking m) xs" and "halt_stage m A s"
  shows "halt_stage m (\<lambda>h. A h \<or> acked xs h) (fsm_run xs s)"
  using assms
proof (induction xs arbitrary: s A)
  case (Cons x xs)
  then have "halt_stage m (\<lambda>h. (A h \<or> Halt_ack_i x h) \<or> acked xs h) (fsm_run xs (fsm_step x s))"
    by (intro Cons.IH) (auto intro: stage_acking)
  moreover have "(\<lambda>h. (A h \<or> Halt_ack_i x h) \<or> acked xs h) = (\<lambda>h. A h \<or> acked (x # xs) h)"
    by (auto simp: acked_def)
  ultimately show ?case by simp
qed (simp add: acked_def)

lemma stage_halted:
  assumes "halt_stage m A s" and "entering m x" and "\<And>h. Halt_ack_i x h \<longleftrightarrow> h \<noteq> m"
    and "(\<forall>h. \<not> A h) \<or> \<not> all3 (Hart_wfi_i x)"
  shows "at_stage S_TMR_MODE SINGLE_IDLE (\<lambda>_. TMR_WAIT_SH) (fsm_step x s)"
  using assms by (cases m) (auto simp: halt_stage_def stage_simps)

lemma stage_idle_run:
  assumes "at_stage S_TMR_MODE SINGLE_IDLE (\<lambda>_. q) s" and "entering m x" and "q \<in> {TMR_WAIT_SH, TMR_MS_INTRSYNC}"
  shows "at_stage S_TMR_MODE SINGLE_IDLE (\<lambda>_. tmr_next x s H0 q) (fsm_step x s)"
  using assms by (auto simp: stage_simps)

lemma stage_sync:
  assumes "at_stage S_TMR_MODE SINGLE_IDLE (\<lambda>_. TMR_MS_INTRSYNC) s" and "entering m k" and "all3 (Hart_intc_ack_i k)"
  shows "at_stage S_TMR_MODE SINGLE_IDLE (\<lambda>_. TMR_SYNC) (fsm_step k s)"
  using stage_idle_run [OF assms(1,2)] assms(3) by simp

lemma stage_waiting:
  assumes "list_all (\<lambda>x. entering m x \<and> \<not> wait x) xs" and "at_stage S_TMR_MODE SINGLE_IDLE (\<lambda>_. q) s"
    and "q = TMR_WAIT_SH \<and> wait = (\<lambda>x. all3 (Hart_wfi_i x))
       \<or> q = TMR_MS_INTRSYNC \<and> wait = (\<lambda>x. all3 (Hart_intc_ack_i x))"
  shows "at_stage S_TMR_MODE SINGLE_IDLE (\<lambda>_. q) (fsm_run xs s)"
  by (rule run_stays [OF assms(1), of "at_stage S_TMR_MODE SINGLE_IDLE (\<lambda>_. q)", OF assms(2)])
    (use assms(3) stage_idle_run [of q] in fastforce)

text \<open>
  The inputs of an entry, in phases of any length: the request, the master saving its context, its
  sleep with the synchronisation request, the halt of the shadows, their acknowledgements, first of
  at most one of them in any cycle and then of both in the same cycle, their way through the boot ROM, the sleep of all three, and their acknowledgement of the wake-up interrupt.
\<close>

record entry_inputs =
  request_in :: inputs
  saving_in :: "inputs list"
  asleep_in :: inputs
  halt_in :: inputs
  halting_in :: "inputs list"
  acking_in :: "inputs list"
  halted_in :: inputs
  joining_in :: "inputs list"
  joined_in :: inputs
  waking_in :: "inputs list"
  awake_in :: inputs

definition tmr_entry :: "hart_id \<Rightarrow> entry_inputs \<Rightarrow> bool" where
  "tmr_entry m p \<longleftrightarrow>
     entering m (request_in p) \<and> \<not> any3 (Halt_ack_i (request_in p))
     \<and> list_all (\<lambda>x. entering m x \<and> \<not> master_asleep m x) (saving_in p)
     \<and> master_asleep m (asleep_in p)
     \<and> list_all (\<lambda>x. entering m x \<and> \<not> any3 (Halt_ack_i x)) (halt_in p # halting_in p)
     \<and> list_all (acking m) (acking_in p)
     \<and> (acking_in p = [] \<or> \<not> all3 (Hart_wfi_i (halted_in p)))
     \<and> entering m (halted_in p) \<and> (\<forall>h. Halt_ack_i (halted_in p) h \<longleftrightarrow> h \<noteq> m)
     \<and> list_all (\<lambda>x. entering m x \<and> \<not> all3 (Hart_wfi_i x)) (joining_in p)
     \<and> entering m (joined_in p) \<and> all3 (Hart_wfi_i (joined_in p))
     \<and> list_all (\<lambda>x. entering m x \<and> \<not> all3 (Hart_intc_ack_i x)) (waking_in p)
     \<and> entering m (awake_in p) \<and> all3 (Hart_intc_ack_i (awake_in p))"

definition until_halting :: "entry_inputs \<Rightarrow> inputs list" where
  "until_halting p = request_in p # saving_in p @ asleep_in p # halt_in p # halting_in p"

definition until_halted :: "entry_inputs \<Rightarrow> inputs list" where
  "until_halted p = until_halting p @ acking_in p"

definition until_waking :: "entry_inputs \<Rightarrow> inputs list" where
  "until_waking p = until_halted p @ halted_in p # joining_in p @ joined_in p # waking_in p"

lemma entry_halting:
  assumes "at_stage S_SINGLE_MODE SINGLE_RUN (\<lambda>_. TMR_IDLE) s" and "tmr_entry m p"
  shows "\<exists>r \<in> {SINGLE_TO_TMR, SINGLE_IDLE}. at_stage S_TMR_MODE r (\<lambda>_. TMR_SH_HALT) (fsm_run (until_halting p) s)"
proof -
  note p = assms(2) [unfolded tmr_entry_def]
  have "at_stage S_TMR_MODE SINGLE_TO_TMR (\<lambda>_. TMR_IDLE) (fsm_step (request_in p) s)"
    using stage_request [OF assms(1)] p by blast
  then have "at_stage S_TMR_MODE SINGLE_TO_TMR (\<lambda>_. TMR_IDLE) (fsm_run (saving_in p) (fsm_step (request_in p) s))"
    using p by (intro run_stays [of "\<lambda>x. entering m x \<and> \<not> master_asleep m x" "saving_in p"
        "at_stage S_TMR_MODE SINGLE_TO_TMR (\<lambda>_. TMR_IDLE)"]) (auto intro: stage_saving)
  then have h: "at_stage S_TMR_MODE SINGLE_TO_TMR (\<lambda>_. TMR_SH_HALT) (fsm_run (request_in p # saving_in p @ [asleep_in p, halt_in p]) s)"
    using stage_asleep stage_halt p by fastforce
  have "\<exists>r \<in> {SINGLE_TO_TMR, SINGLE_IDLE}. at_stage S_TMR_MODE r (\<lambda>_. TMR_SH_HALT)
      (fsm_run (halting_in p) (fsm_run (request_in p # saving_in p @ [asleep_in p, halt_in p]) s))"
  proof (rule run_stays [of "\<lambda>x. entering m x \<and> \<not> any3 (Halt_ack_i x)" "halting_in p"
        "\<lambda>s. \<exists>r \<in> {SINGLE_TO_TMR, SINGLE_IDLE}. at_stage S_TMR_MODE r (\<lambda>_. TMR_SH_HALT) s"])
    show "list_all (\<lambda>x. entering m x \<and> \<not> any3 (Halt_ack_i x)) (halting_in p)"
      using p by simp
  qed (use h stage_halting in blast)+
  then show ?thesis by (simp add: until_halting_def)
qed

lemma entry_halted:
  assumes "at_stage S_SINGLE_MODE SINGLE_RUN (\<lambda>_. TMR_IDLE) s" and "tmr_entry m p"
  shows "halt_stage m (acked (acking_in p)) (fsm_run (until_halted p) s)"
proof -
  have "halt_stage m (\<lambda>_. False) (fsm_run (until_halting p) s)"
    using entry_halting [OF assms] by (auto simp: halt_stage_def)
  then have "halt_stage m (\<lambda>h. False \<or> acked (acking_in p) h) (fsm_run (acking_in p) (fsm_run (until_halting p) s))"
    by (rule stage_acked [rotated]) (use assms(2) in \<open>simp add: tmr_entry_def\<close>)
  then show ?thesis by (simp add: until_halted_def)
qed

lemma entry_waking:
  assumes "at_stage S_SINGLE_MODE SINGLE_RUN (\<lambda>_. TMR_IDLE) s" and "tmr_entry m p"
  shows "at_stage S_TMR_MODE SINGLE_IDLE (\<lambda>_. TMR_MS_INTRSYNC) (fsm_run (until_waking p) s)"
proof -
  note p = assms(2) [unfolded tmr_entry_def]
  define t where "t = fsm_run (until_halted p) s"
  have "halt_stage m (acked (acking_in p)) t" using entry_halted [OF assms] by (simp add: t_def)
  moreover have h: "entering m (halted_in p)" "\<And>h. Halt_ack_i (halted_in p) h \<longleftrightarrow> h \<noteq> m"
      "acking_in p = [] \<or> \<not> all3 (Hart_wfi_i (halted_in p))"
    using p by blast+
  moreover have "(\<forall>h. \<not> acked (acking_in p) h) \<or> \<not> all3 (Hart_wfi_i (halted_in p))"
    using h(3) by (auto simp: acked_def)
  ultimately have "at_stage S_TMR_MODE SINGLE_IDLE (\<lambda>_. TMR_WAIT_SH) (fsm_step (halted_in p) t)"
    using stage_halted by blast
  then have "at_stage S_TMR_MODE SINGLE_IDLE (\<lambda>_. TMR_WAIT_SH) (fsm_run (joining_in p) (fsm_step (halted_in p) t))"
    using p by (intro stage_waiting [of m "\<lambda>x. all3 (Hart_wfi_i x)"]) auto
  then have "at_stage S_TMR_MODE SINGLE_IDLE (\<lambda>_. TMR_MS_INTRSYNC)
      (fsm_step (joined_in p) (fsm_run (joining_in p) (fsm_step (halted_in p) t)))"
    using stage_idle_run [of TMR_WAIT_SH _ m "joined_in p"] p by simp
  then have "at_stage S_TMR_MODE SINGLE_IDLE (\<lambda>_. TMR_MS_INTRSYNC)
      (fsm_run (waking_in p) (fsm_step (joined_in p) (fsm_run (joining_in p) (fsm_step (halted_in p) t))))"
    using p by (intro stage_waiting [of m "\<lambda>x. all3 (Hart_intc_ack_i x)"]) auto
  then show ?thesis by (simp add: until_waking_def t_def)
qed

text \<open>
  C5: a hart in single mode that writes the triple configuration, saves its context, requests the
  synchronisation and sleeps, as \<^verbatim>\<open>Safe_Activate\<close> does, gets the block into triple lockstep, however
  long each phase lasts. The controller halts exactly the two other harts, and each of them until
  it acknowledges. The master waits for one cycle in which both acknowledge: acknowledgements that
  do not overlap do not count, even if each shadow has given one. Once both acknowledge in the same
  cycle, the controller waits until all three sleep, wakes all three with the same interrupt, and is
  in step with them when all three acknowledge it in the same cycle. (The master itself must not
  acknowledge the halt, and from the first acknowledgement of a single shadow to the common one the
  three harts must not all be asleep.)
\<close>

theorem tmr_entry_completes:
  assumes "at_stage S_SINGLE_MODE SINGLE_RUN (\<lambda>_. TMR_IDLE) s" and "tmr_entry m p"
  shows "(Interrupt_Halt_o (hd (acking_in p @ [halted_in p])) (fsm_run (until_halting p) s) h \<longleftrightarrow> h \<noteq> m)
     \<and> tmr_cs (fsm_run (until_halted p) s) m = TMR_SH_HALT
     \<and> (Interrupt_Halt_o (halted_in p) (fsm_run (until_halted p) s) h
          \<longleftrightarrow> h \<noteq> m \<and> \<not> (\<exists>x \<in> set (acking_in p). Halt_ack_i x h))
     \<and> Interrupt_Sync_o (awake_in p) (fsm_run (until_waking p) s) h
     \<and> at_stage S_TMR_MODE SINGLE_IDLE (\<lambda>_. TMR_SYNC) (fsm_run (until_waking p @ [awake_in p]) s)"
proof -
  note p = assms(2) [unfolded tmr_entry_def]
  have "Interrupt_Halt_o (hd (acking_in p @ [halted_in p])) (fsm_run (until_halting p) s) h \<longleftrightarrow> h \<noteq> m"
  proof -
    have "entering m (hd (acking_in p @ [halted_in p]))"
      using p by (cases "acking_in p") (simp_all add: acking_def)
    then show ?thesis
      using entry_halting [OF assms] by (auto simp: Interrupt_Halt_o_def at_stage_def entering_def)
  qed
  moreover have "tmr_cs (fsm_run (until_halted p) s) m = TMR_SH_HALT"
    using entry_halted [OF assms] by (auto simp: halt_stage_def at_stage_def)
  moreover have "Interrupt_Halt_o (halted_in p) (fsm_run (until_halted p) s) h
      \<longleftrightarrow> h \<noteq> m \<and> \<not> (\<exists>x \<in> set (acking_in p). Halt_ack_i x h)"
    using halt_stage_output [OF entry_halted [OF assms], of "halted_in p"] p by (simp add: acked_def)
  moreover have "Interrupt_Sync_o (awake_in p) (fsm_run (until_waking p) s) h"
    using entry_waking [OF assms] by (simp add: Interrupt_Sync_o_def at_stage_def)
  moreover have "at_stage S_TMR_MODE SINGLE_IDLE (\<lambda>_. TMR_SYNC) (fsm_run (until_waking p @ [awake_in p]) s)"
    using stage_sync [OF entry_waking [OF assms], of m "awake_in p"] p by simp
  ultimately show ?thesis by blast
qed

definition sample_entry :: entry_inputs where
  "sample_entry =
     \<lparr>request_in = sample_in 1, saving_in = [sample_in 1, sample_in 1],
      asleep_in = (sample_in 1)\<lparr>Hart_wfi_i := (\<lambda>h. h = H0), Initial_Sync_Master_i := True\<rparr>,
      halt_in = sample_in 1, halting_in = [sample_in 1],
      acking_in = [(sample_in 1)\<lparr>Halt_ack_i := (\<lambda>h. h = H1)\<rparr>, (sample_in 1)\<lparr>Halt_ack_i := (\<lambda>h. h = H2)\<rparr>],
      halted_in = (sample_in 1)\<lparr>Halt_ack_i := (\<lambda>h. h \<noteq> H0)\<rparr>, joining_in = [sample_in 1],
      joined_in = (sample_in 1)\<lparr>Hart_wfi_i := (\<lambda>_. True)\<rparr>, waking_in = [],
      awake_in = (sample_in 1)\<lparr>Hart_intc_ack_i := (\<lambda>_. True)\<rparr>\<rparr>"

theorem tmr_entry_completes_witness:
  "acked (acking_in sample_entry) H1 \<and> acked (acking_in sample_entry) H2
   \<and> at_stage S_TMR_MODE SINGLE_IDLE (\<lambda>_. TMR_SYNC) (fsm_run (until_waking sample_entry @ [awake_in sample_entry])
     (fsm_reset\<lparr>safe_cs := S_SINGLE_MODE, single_cs := SINGLE_RUN, tmr_cs := (\<lambda>_. TMR_IDLE), dmr_cs := (\<lambda>_. DMR_IDLE)\<rparr>))"
proof -
  have "tmr_entry H0 sample_entry"
    by (simp add: tmr_entry_def sample_entry_def entering_def master_asleep_def sample_in_def all3_def any3_def
        acking_def all_harts)
  moreover have "at_stage S_SINGLE_MODE SINGLE_RUN (\<lambda>_. TMR_IDLE)
     (fsm_reset\<lparr>safe_cs := S_SINGLE_MODE, single_cs := SINGLE_RUN, tmr_cs := (\<lambda>_. TMR_IDLE), dmr_cs := (\<lambda>_. DMR_IDLE)\<rparr>)"
    by (simp add: at_stage_def)
  ultimately show ?thesis
    using tmr_entry_completes [of _ H0 sample_entry] by (simp add: acked_def sample_entry_def)
qed

end
