(* ===== verification/AES_Core.thy ===== *)
theory AES_Core
  imports SAP_Prelude
begin

text \<open>
  The block cipher of src/sw/CB_device/lib/AES/aes.c, built for AES-128 as aes.h selects it.
  The state \<^verbatim>\<open>state_t\<close> is the 16-byte buffer the caller passes, \<^verbatim>\<open>(*state)[i][j]\<close> its byte
  \<open>4 * i + j\<close>; every function is the code's assignments in order, on that list. The round keys
  are the 176-byte array of \<^verbatim>\<open>struct AES_ctx\<close>.
\<close>

section \<open>Tables\<close>

definition Nb :: nat where "Nb = 4"
definition Nk :: nat where "Nk = 4"
definition Nr :: nat where "Nr = 10"

definition sbox :: "u8 list" where
  "sbox =
     [0x63, 0x7c, 0x77, 0x7b, 0xf2, 0x6b, 0x6f, 0xc5, 0x30, 0x01, 0x67, 0x2b, 0xfe, 0xd7, 0xab, 0x76,
      0xca, 0x82, 0xc9, 0x7d, 0xfa, 0x59, 0x47, 0xf0, 0xad, 0xd4, 0xa2, 0xaf, 0x9c, 0xa4, 0x72, 0xc0,
      0xb7, 0xfd, 0x93, 0x26, 0x36, 0x3f, 0xf7, 0xcc, 0x34, 0xa5, 0xe5, 0xf1, 0x71, 0xd8, 0x31, 0x15,
      0x04, 0xc7, 0x23, 0xc3, 0x18, 0x96, 0x05, 0x9a, 0x07, 0x12, 0x80, 0xe2, 0xeb, 0x27, 0xb2, 0x75,
      0x09, 0x83, 0x2c, 0x1a, 0x1b, 0x6e, 0x5a, 0xa0, 0x52, 0x3b, 0xd6, 0xb3, 0x29, 0xe3, 0x2f, 0x84,
      0x53, 0xd1, 0x00, 0xed, 0x20, 0xfc, 0xb1, 0x5b, 0x6a, 0xcb, 0xbe, 0x39, 0x4a, 0x4c, 0x58, 0xcf,
      0xd0, 0xef, 0xaa, 0xfb, 0x43, 0x4d, 0x33, 0x85, 0x45, 0xf9, 0x02, 0x7f, 0x50, 0x3c, 0x9f, 0xa8,
      0x51, 0xa3, 0x40, 0x8f, 0x92, 0x9d, 0x38, 0xf5, 0xbc, 0xb6, 0xda, 0x21, 0x10, 0xff, 0xf3, 0xd2,
      0xcd, 0x0c, 0x13, 0xec, 0x5f, 0x97, 0x44, 0x17, 0xc4, 0xa7, 0x7e, 0x3d, 0x64, 0x5d, 0x19, 0x73,
      0x60, 0x81, 0x4f, 0xdc, 0x22, 0x2a, 0x90, 0x88, 0x46, 0xee, 0xb8, 0x14, 0xde, 0x5e, 0x0b, 0xdb,
      0xe0, 0x32, 0x3a, 0x0a, 0x49, 0x06, 0x24, 0x5c, 0xc2, 0xd3, 0xac, 0x62, 0x91, 0x95, 0xe4, 0x79,
      0xe7, 0xc8, 0x37, 0x6d, 0x8d, 0xd5, 0x4e, 0xa9, 0x6c, 0x56, 0xf4, 0xea, 0x65, 0x7a, 0xae, 0x08,
      0xba, 0x78, 0x25, 0x2e, 0x1c, 0xa6, 0xb4, 0xc6, 0xe8, 0xdd, 0x74, 0x1f, 0x4b, 0xbd, 0x8b, 0x8a,
      0x70, 0x3e, 0xb5, 0x66, 0x48, 0x03, 0xf6, 0x0e, 0x61, 0x35, 0x57, 0xb9, 0x86, 0xc1, 0x1d, 0x9e,
      0xe1, 0xf8, 0x98, 0x11, 0x69, 0xd9, 0x8e, 0x94, 0x9b, 0x1e, 0x87, 0xe9, 0xce, 0x55, 0x28, 0xdf,
      0x8c, 0xa1, 0x89, 0x0d, 0xbf, 0xe6, 0x42, 0x68, 0x41, 0x99, 0x2d, 0x0f, 0xb0, 0x54, 0xbb, 0x16]"

definition rsbox :: "u8 list" where
  "rsbox =
     [0x52, 0x09, 0x6a, 0xd5, 0x30, 0x36, 0xa5, 0x38, 0xbf, 0x40, 0xa3, 0x9e, 0x81, 0xf3, 0xd7, 0xfb,
      0x7c, 0xe3, 0x39, 0x82, 0x9b, 0x2f, 0xff, 0x87, 0x34, 0x8e, 0x43, 0x44, 0xc4, 0xde, 0xe9, 0xcb,
      0x54, 0x7b, 0x94, 0x32, 0xa6, 0xc2, 0x23, 0x3d, 0xee, 0x4c, 0x95, 0x0b, 0x42, 0xfa, 0xc3, 0x4e,
      0x08, 0x2e, 0xa1, 0x66, 0x28, 0xd9, 0x24, 0xb2, 0x76, 0x5b, 0xa2, 0x49, 0x6d, 0x8b, 0xd1, 0x25,
      0x72, 0xf8, 0xf6, 0x64, 0x86, 0x68, 0x98, 0x16, 0xd4, 0xa4, 0x5c, 0xcc, 0x5d, 0x65, 0xb6, 0x92,
      0x6c, 0x70, 0x48, 0x50, 0xfd, 0xed, 0xb9, 0xda, 0x5e, 0x15, 0x46, 0x57, 0xa7, 0x8d, 0x9d, 0x84,
      0x90, 0xd8, 0xab, 0x00, 0x8c, 0xbc, 0xd3, 0x0a, 0xf7, 0xe4, 0x58, 0x05, 0xb8, 0xb3, 0x45, 0x06,
      0xd0, 0x2c, 0x1e, 0x8f, 0xca, 0x3f, 0x0f, 0x02, 0xc1, 0xaf, 0xbd, 0x03, 0x01, 0x13, 0x8a, 0x6b,
      0x3a, 0x91, 0x11, 0x41, 0x4f, 0x67, 0xdc, 0xea, 0x97, 0xf2, 0xcf, 0xce, 0xf0, 0xb4, 0xe6, 0x73,
      0x96, 0xac, 0x74, 0x22, 0xe7, 0xad, 0x35, 0x85, 0xe2, 0xf9, 0x37, 0xe8, 0x1c, 0x75, 0xdf, 0x6e,
      0x47, 0xf1, 0x1a, 0x71, 0x1d, 0x29, 0xc5, 0x89, 0x6f, 0xb7, 0x62, 0x0e, 0xaa, 0x18, 0xbe, 0x1b,
      0xfc, 0x56, 0x3e, 0x4b, 0xc6, 0xd2, 0x79, 0x20, 0x9a, 0xdb, 0xc0, 0xfe, 0x78, 0xcd, 0x5a, 0xf4,
      0x1f, 0xdd, 0xa8, 0x33, 0x88, 0x07, 0xc7, 0x31, 0xb1, 0x12, 0x10, 0x59, 0x27, 0x80, 0xec, 0x5f,
      0x60, 0x51, 0x7f, 0xa9, 0x19, 0xb5, 0x4a, 0x0d, 0x2d, 0xe5, 0x7a, 0x9f, 0x93, 0xc9, 0x9c, 0xef,
      0xa0, 0xe0, 0x3b, 0x4d, 0xae, 0x2a, 0xf5, 0xb0, 0xc8, 0xeb, 0xbb, 0x3c, 0x83, 0x53, 0x99, 0x61,
      0x17, 0x2b, 0x04, 0x7e, 0xba, 0x77, 0xd6, 0x26, 0xe1, 0x69, 0x14, 0x63, 0x55, 0x21, 0x0c, 0x7d]"

definition Rcon :: "u8 list" where
  "Rcon = [0x8d, 0x01, 0x02, 0x04, 0x08, 0x10, 0x20, 0x40, 0x80, 0x1b, 0x36]"

definition getSBoxValue :: "u8 \<Rightarrow> u8" where
  "getSBoxValue num = sbox ! unat num"

definition getSBoxInvert :: "u8 \<Rightarrow> u8" where
  "getSBoxInvert num = rsbox ! unat num"

section \<open>The state\<close>

type_synonym state = "u8 list"

text \<open>\<^verbatim>\<open>(*state)[i][j]\<close>, read and assigned.\<close>

definition cell :: "state \<Rightarrow> nat \<Rightarrow> nat \<Rightarrow> u8" where
  "cell s i j = s ! (4 * i + j)"

definition set_cell :: "nat \<Rightarrow> nat \<Rightarrow> u8 \<Rightarrow> state \<Rightarrow> state" where
  "set_cell i j v s = s[4 * i + j := v]"

text \<open>\<^verbatim>\<open>for (i = 0; i < n; ++i)\<close>.\<close>

definition for_loop :: "nat \<Rightarrow> (nat \<Rightarrow> 'a \<Rightarrow> 'a) \<Rightarrow> 'a \<Rightarrow> 'a" where
  "for_loop n body = fold body [0..<n]"

definition AddRoundKey :: "nat \<Rightarrow> state \<Rightarrow> u8 list \<Rightarrow> state" where
  "AddRoundKey round s RoundKey =
     for_loop 4 (\<lambda>i. for_loop 4 (\<lambda>j s.
       set_cell i j (cell s i j XOR RoundKey ! (round * Nb * 4 + i * Nb + j)) s)) s"

definition SubBytes :: "state \<Rightarrow> state" where
  "SubBytes s =
     for_loop 4 (\<lambda>i. for_loop 4 (\<lambda>j s. set_cell j i (getSBoxValue (cell s j i)) s)) s"

definition InvSubBytes :: "state \<Rightarrow> state" where
  "InvSubBytes s =
     for_loop 4 (\<lambda>i. for_loop 4 (\<lambda>j s. set_cell j i (getSBoxInvert (cell s j i)) s)) s"

definition ShiftRows :: "state \<Rightarrow> state" where
  "ShiftRows s =
     (let temp = cell s 0 1;
          s = set_cell 0 1 (cell s 1 1) s;
          s = set_cell 1 1 (cell s 2 1) s;
          s = set_cell 2 1 (cell s 3 1) s;
          s = set_cell 3 1 temp s;
          temp = cell s 0 2;
          s = set_cell 0 2 (cell s 2 2) s;
          s = set_cell 2 2 temp s;
          temp = cell s 1 2;
          s = set_cell 1 2 (cell s 3 2) s;
          s = set_cell 3 2 temp s;
          temp = cell s 0 3;
          s = set_cell 0 3 (cell s 3 3) s;
          s = set_cell 3 3 (cell s 2 3) s;
          s = set_cell 2 3 (cell s 1 3) s
      in set_cell 1 3 temp s)"

definition InvShiftRows :: "state \<Rightarrow> state" where
  "InvShiftRows s =
     (let temp = cell s 3 1;
          s = set_cell 3 1 (cell s 2 1) s;
          s = set_cell 2 1 (cell s 1 1) s;
          s = set_cell 1 1 (cell s 0 1) s;
          s = set_cell 0 1 temp s;
          temp = cell s 0 2;
          s = set_cell 0 2 (cell s 2 2) s;
          s = set_cell 2 2 temp s;
          temp = cell s 1 2;
          s = set_cell 1 2 (cell s 3 2) s;
          s = set_cell 3 2 temp s;
          temp = cell s 0 3;
          s = set_cell 0 3 (cell s 1 3) s;
          s = set_cell 1 3 (cell s 2 3) s;
          s = set_cell 2 3 (cell s 3 3) s
      in set_cell 3 3 temp s)"

definition xtime :: "u8 \<Rightarrow> u8" where
  "xtime x = push_bit 1 x XOR ((drop_bit 7 x AND 1) * 0x1b)"

definition MixColumns :: "state \<Rightarrow> state" where
  "MixColumns s =
     for_loop 4 (\<lambda>i s.
       let t = cell s i 0;
           Tmp = cell s i 0 XOR cell s i 1 XOR cell s i 2 XOR cell s i 3;
           Tm = xtime (cell s i 0 XOR cell s i 1);
           s = set_cell i 0 (cell s i 0 XOR (Tm XOR Tmp)) s;
           Tm = xtime (cell s i 1 XOR cell s i 2);
           s = set_cell i 1 (cell s i 1 XOR (Tm XOR Tmp)) s;
           Tm = xtime (cell s i 2 XOR cell s i 3);
           s = set_cell i 2 (cell s i 2 XOR (Tm XOR Tmp)) s;
           Tm = xtime (cell s i 3 XOR t)
       in set_cell i 3 (cell s i 3 XOR (Tm XOR Tmp)) s) s"

definition Multiply :: "u8 \<Rightarrow> u8 \<Rightarrow> u8" where
  "Multiply x y =
     (y AND 1) * x XOR (drop_bit 1 y AND 1) * xtime x XOR (drop_bit 2 y AND 1) * xtime (xtime x)
     XOR (drop_bit 3 y AND 1) * xtime (xtime (xtime x))
     XOR (drop_bit 4 y AND 1) * xtime (xtime (xtime (xtime x)))"

definition InvMixColumns :: "state \<Rightarrow> state" where
  "InvMixColumns s =
     for_loop 4 (\<lambda>i s.
       let a = cell s i 0; b = cell s i 1; c = cell s i 2; d = cell s i 3;
           s = set_cell i 0 (Multiply a 0x0e XOR Multiply b 0x0b XOR Multiply c 0x0d XOR Multiply d 0x09) s;
           s = set_cell i 1 (Multiply a 0x09 XOR Multiply b 0x0e XOR Multiply c 0x0b XOR Multiply d 0x0d) s;
           s = set_cell i 2 (Multiply a 0x0d XOR Multiply b 0x09 XOR Multiply c 0x0e XOR Multiply d 0x0b) s
       in set_cell i 3 (Multiply a 0x0b XOR Multiply b 0x0d XOR Multiply c 0x09 XOR Multiply d 0x0e) s) s"

section \<open>Key schedule\<close>

text \<open>One round of the second loop of \<^verbatim>\<open>KeyExpansion\<close>.\<close>

definition expand_word :: "nat \<Rightarrow> u8 list \<Rightarrow> u8 list" where
  "expand_word i RoundKey =
     (let k = (i - 1) * 4;
          t0 = RoundKey ! (k + 0); t1 = RoundKey ! (k + 1);
          t2 = RoundKey ! (k + 2); t3 = RoundKey ! (k + 3);
          (t0, t1, t2, t3) =
            (if i mod Nk = 0
             then (getSBoxValue t1 XOR Rcon ! (i div Nk), getSBoxValue t2, getSBoxValue t3,
                   getSBoxValue t0)
             else (t0, t1, t2, t3));
          j = i * 4; k = (i - Nk) * 4;
          RoundKey = RoundKey[j + 0 := RoundKey ! (k + 0) XOR t0];
          RoundKey = RoundKey[j + 1 := RoundKey ! (k + 1) XOR t1];
          RoundKey = RoundKey[j + 2 := RoundKey ! (k + 2) XOR t2]
      in RoundKey[j + 3 := RoundKey ! (k + 3) XOR t3])"

definition KeyExpansion :: "u8 list \<Rightarrow> u8 list \<Rightarrow> u8 list" where
  "KeyExpansion RoundKey Key =
     fold expand_word [Nk..<Nb * (Nr + 1)]
       (for_loop Nk (\<lambda>i RoundKey.
          let RoundKey = RoundKey[i * 4 + 0 := Key ! (i * 4 + 0)];
              RoundKey = RoundKey[i * 4 + 1 := Key ! (i * 4 + 1)];
              RoundKey = RoundKey[i * 4 + 2 := Key ! (i * 4 + 2)]
          in RoundKey[i * 4 + 3 := Key ! (i * 4 + 3)]) RoundKey)"

section \<open>Rounds\<close>

text \<open>
  The loops count rounds in a \<^verbatim>\<open>uint8_t\<close> and leave in the middle; the counter would wrap around
  before it could miss its end.
\<close>

lemma unat_pred_less: "x \<noteq> 0 \<Longrightarrow> unat (x - 1) < unat x" for x :: "'a::len word"
  by (simp add: unat_minus_one unat_gt_0)

function Cipher_rounds :: "u8 \<Rightarrow> state \<Rightarrow> u8 list \<Rightarrow> state" where
  "Cipher_rounds round s RoundKey =
     (let s = ShiftRows (SubBytes s) in
      if round = of_nat Nr then s
      else Cipher_rounds (round + 1) (AddRoundKey (unat round) (MixColumns s) RoundKey) RoundKey)"
  by pat_completeness auto

termination
proof (relation "measure (\<lambda>(round, _, _). unat (of_nat Nr - round))")
  fix round :: u8 and s t RoundKey
  assume "round \<noteq> of_nat Nr"
  then have "unat (of_nat Nr - round - 1) < unat (of_nat Nr - round)"
    by (intro unat_pred_less) simp
  then show "((round + 1, AddRoundKey (unat round) (MixColumns t) RoundKey, RoundKey), round, s, RoundKey)
      \<in> measure (\<lambda>(round, _, _). unat (of_nat Nr - round))"
    by (simp add: diff_diff_eq)
qed simp

definition Cipher :: "state \<Rightarrow> u8 list \<Rightarrow> state" where
  "Cipher s RoundKey = AddRoundKey Nr (Cipher_rounds 1 (AddRoundKey 0 s RoundKey) RoundKey) RoundKey"

function InvCipher_rounds :: "u8 \<Rightarrow> state \<Rightarrow> u8 list \<Rightarrow> state" where
  "InvCipher_rounds round s RoundKey =
     (let s = AddRoundKey (unat round) (InvSubBytes (InvShiftRows s)) RoundKey in
      if round = 0 then s else InvCipher_rounds (round - 1) (InvMixColumns s) RoundKey)"
  by pat_completeness auto

termination
  by (relation "measure (\<lambda>(round, _, _). unat round)") (auto intro: unat_pred_less)

definition InvCipher :: "state \<Rightarrow> u8 list \<Rightarrow> state" where
  "InvCipher s RoundKey = InvCipher_rounds (of_nat Nr - 1) (AddRoundKey Nr s RoundKey) RoundKey"

declare Cipher_rounds.simps [simp del] InvCipher_rounds.simps [simp del]

end
