(* ===== verification/AES_Field.thy ===== *)
theory AES_Field
  imports AES_Block
begin

text \<open>
  The field GF(2^8) and the S-box of FIPS-197 by their algebraic definition, and the proof
  that the tables \<^verbatim>\<open>sbox\<close> and \<^verbatim>\<open>rsbox\<close> of aes.c tabulate it and its inverse.
\<close>

section \<open>Reference: field, S-box\<close>

text \<open>
  Bytes as polynomials over GF(2): doubling reduces by \<open>x^8 + x^4 + x^3 + x + 1\<close>, the product
  adds the doublings selected by the bits of the second factor, and the inverse of \<open>x\<close> is
  \<open>x^254\<close>. The S-box is the affine map of the inverse.
\<close>

definition gf_double :: "int \<Rightarrow> int" where
  "gf_double x = (if x < 128 then 2 * x else 2 * x XOR 0x11b)"

fun gf_sum :: "nat \<Rightarrow> int \<Rightarrow> int \<Rightarrow> int" where
  "gf_sum 0 x y = 0"
| "gf_sum (Suc n) x y =
     (if odd y then x XOR gf_sum n (gf_double x) (y div 2) else gf_sum n (gf_double x) (y div 2))"

definition gf_prod :: "int \<Rightarrow> int \<Rightarrow> int" where
  "gf_prod = gf_sum 8"

definition gf_mul :: "u8 \<Rightarrow> u8 \<Rightarrow> u8" where
  "gf_mul x y = word_of_int (gf_prod (uint x) (uint y))"

fun gf_squares :: "nat \<Rightarrow> int \<Rightarrow> int \<Rightarrow> int" where
  "gf_squares 0 x p = p"
| "gf_squares (Suc n) x p = gf_squares n (gf_prod x x) (gf_prod p (gf_prod x x))"

definition gf_inverse :: "int \<Rightarrow> int" where
  "gf_inverse x = gf_squares 7 x 1"

definition rotate_left :: "int \<Rightarrow> int \<Rightarrow> int" where
  "rotate_left b m = (b * m) mod 256 + (b * m) div 256"

definition affine :: "int \<Rightarrow> int" where
  "affine b =
     b XOR rotate_left b 2 XOR rotate_left b 4 XOR rotate_left b 8 XOR rotate_left b 16 XOR 0x63"

definition fips_sub :: "int \<Rightarrow> int" where
  "fips_sub x = affine (gf_inverse x)"

definition fips_sbox :: "u8 \<Rightarrow> u8" where
  "fips_sbox x = word_of_int (fips_sub (uint x))"

definition inverses :: "int list" where
  "inverses =
     [0, 1, 141, 246, 203, 82, 123, 209, 232, 79, 41, 192, 176, 225, 229, 199,
      116, 180, 170, 75, 153, 43, 96, 95, 88, 63, 253, 204, 255, 64, 238, 178,
      58, 110, 90, 241, 85, 77, 168, 201, 193, 10, 152, 21, 48, 68, 162, 194,
      44, 69, 146, 108, 243, 57, 102, 66, 242, 53, 32, 111, 119, 187, 89, 25,
      29, 254, 55, 103, 45, 49, 245, 105, 167, 100, 171, 19, 84, 37, 233, 9,
      237, 92, 5, 202, 76, 36, 135, 191, 24, 62, 34, 240, 81, 236, 97, 23,
      22, 94, 175, 211, 73, 166, 54, 67, 244, 71, 145, 223, 51, 147, 33, 59,
      121, 183, 151, 133, 16, 181, 186, 60, 182, 112, 208, 6, 161, 250, 129, 130,
      131, 126, 127, 128, 150, 115, 190, 86, 155, 158, 149, 217, 247, 2, 185, 164,
      222, 106, 50, 109, 216, 138, 132, 114, 42, 20, 159, 136, 249, 220, 137, 154,
      251, 124, 46, 195, 143, 184, 101, 72, 38, 200, 18, 74, 206, 231, 210, 98,
      12, 224, 31, 239, 17, 117, 120, 113, 165, 142, 118, 61, 189, 188, 134, 87,
      11, 40, 47, 163, 218, 212, 228, 15, 169, 39, 83, 4, 27, 252, 172, 230,
      122, 7, 174, 99, 197, 219, 226, 234, 148, 139, 196, 213, 157, 248, 144, 107,
      177, 13, 214, 235, 198, 14, 207, 173, 8, 78, 215, 227, 93, 80, 30, 179,
      91, 35, 56, 52, 104, 70, 3, 140, 221, 156, 125, 160, 205, 26, 65, 28]"

lemma gf_inverse_table: "map gf_inverse [0..255] = inverses"
  by code_simp

lemma gf_inverse_correct: "map2 gf_prod [1..255] (tl inverses) = replicate 255 1"
  by code_simp

lemma sbox_inverses: "map affine inverses = map uint sbox"
  by code_simp

lemma sbox_table: "map fips_sub [0..255] = map uint sbox"
  unfolding sbox_inverses [symmetric] gf_inverse_table [symmetric] list.map_comp
  by (rule map_cong) (simp_all only: fips_sub_def o_apply)

lemma rsbox_table: "map getSBoxInvert sbox = map word_of_int [0..255]"
  by code_simp

lemma table_lookup:
  fixes x :: u8
  assumes "map f [0..255] = (t :: 'a list)"
  shows "t ! unat x = f (uint x)"
proof -
  have "unat x < 256" using unsigned_less [of x] by simp
  then have "map f [0..255] ! unat x = f (int (unat x))"
    by (simp only: nth_map length_upto nth_upto add_0)
  then show ?thesis by (simp only: assms uint_nat)
qed

lemma length_sbox: "length sbox = 256"
  by (simp add: sbox_def)

lemma byte_bound: "unat x < 256" for x :: u8
  using unsigned_less [of x] by simp

lemma getSBoxValue_fips: "getSBoxValue x = fips_sbox x"
  using table_lookup [OF sbox_table, of x] byte_bound [of x]
  by (simp add: getSBoxValue_def fips_sbox_def length_sbox) (metis word_of_int_uint)

lemma getSBoxInvert_getSBoxValue [simp]: "getSBoxInvert (getSBoxValue x) = x"
  using table_lookup [OF rsbox_table [symmetric], of x] byte_bound [of x]
  by (simp add: getSBoxValue_def length_sbox)

end
