(* ===== verification/AES_FIPS.thy ===== *)
theory AES_FIPS
  imports AES_Field
begin

text \<open>
  The AES-128 of FIPS-197 as a reference: the key schedule as a recursion on words, the round
  operations as index formulas. The loops of aes.c compute it, and \<^verbatim>\<open>InvCipher\<close> undoes
  \<^verbatim>\<open>Cipher\<close> under any round keys.
\<close>

section \<open>Reference: key schedule and cipher\<close>

text \<open>
  Word \<open>i\<close> of the expanded key, as four bytes: the key, then the word four back plus the
  previous one, which every fourth word rotates, substitutes and adds \<open>x^(i/4 - 1)\<close> to.
\<close>

definition round_constant :: "nat \<Rightarrow> u8" where
  "round_constant n = ((\<lambda>c. gf_mul c 2) ^^ (n - 1)) 1"

fun key_word :: "u8 list \<Rightarrow> nat \<Rightarrow> u8 list" where
  "key_word key i =
     (if i < 4 then take 4 (drop (4 * i) key)
      else map2 (XOR) (key_word key (i - 4))
        (if i mod 4 = 0
         then map2 (XOR) (map fips_sbox (rotate1 (key_word key (i - 1)))) [round_constant (i div 4), 0, 0, 0]
         else key_word key (i - 1)))"

declare key_word.simps [simp del]

text \<open>Row \<open>n mod 4\<close> of column \<open>n div 4\<close> is byte \<open>n\<close> of the block.\<close>

definition fips_add :: "u8 list \<Rightarrow> nat \<Rightarrow> u8 list \<Rightarrow> u8 list" where
  "fips_add key r s = map (\<lambda>n. s ! n XOR key_word key (4 * r + n div 4) ! (n mod 4)) [0..<16]"

definition fips_shift :: "u8 list \<Rightarrow> u8 list" where
  "fips_shift s = map (\<lambda>n. s ! ((n + 4 * (n mod 4)) mod 16)) [0..<16]"

definition fips_mix :: "u8 list \<Rightarrow> u8 list" where
  "fips_mix s = map (\<lambda>n. let a = \<lambda>k. s ! (4 * (n div 4) + (n + k) mod 4)
     in gf_mul (a 0) 2 XOR gf_mul (a 1) 3 XOR a 2 XOR a 3) [0..<16]"

definition fips_round :: "u8 list \<Rightarrow> nat \<Rightarrow> u8 list \<Rightarrow> u8 list" where
  "fips_round key r s = fips_add key r (fips_mix (fips_shift (map fips_sbox s)))"

definition fips_cipher :: "u8 list \<Rightarrow> u8 list \<Rightarrow> u8 list" where
  "fips_cipher key s =
     fips_add key 10 (fips_shift (map fips_sbox (fold (fips_round key) [1..<10] (fips_add key 0 s))))"

section \<open>The round operations implement the reference\<close>

lemma high_bit: "bit x 7 \<longleftrightarrow> 128 \<le> uint x" for x :: u8
proof -
  have "bit x 7 = odd (uint x div 128)" by (simp add: bit_uint_iff bit_iff_odd [of "uint x" 7, simplified, symmetric])
  moreover have "uint x div 128 = (if 128 \<le> uint x then 1 else 0)"
    using uint_lt2p [of x] int_div_pos_eq [of "uint x" 128 1 "uint x - 128"] by simp
  ultimately show ?thesis by simp
qed

lemma word_of_int_xor: "word_of_int (a XOR b) = (word_of_int a XOR word_of_int b :: u8)"
  by (rule bit_word_eqI) (simp add: bit_simps)

lemma xtime_double: "xtime x = word_of_int (gf_double (uint x))"
proof -
  have "y XOR 283 = y XOR 27" for y :: u8
    by (rule arg_cong [of _ _ "(XOR) y"]) simp
  then show ?thesis
    by (simp add: xtime_if high_bit gf_double_def push_bit_eq_mult word_of_int_xor mult.commute)
qed

lemma gf_sum_unfold: "gf_sum (numeral k) x y =
     (if odd y then x XOR gf_sum (pred_numeral k) (gf_double x) (y div 2)
      else gf_sum (pred_numeral k) (gf_double x) (y div 2))"
  by (simp add: numeral_eq_Suc)

lemma gf_sum_zero: "gf_sum n x 0 = 0"
  by (induction n arbitrary: x) simp_all

lemma gf_mul_2: "gf_mul x 2 = xtime x"
  by (simp add: gf_mul_def gf_prod_def xtime_double gf_sum_unfold gf_sum_zero)

lemma gf_mul_3: "gf_mul x 3 = x XOR xtime x"
  by (simp add: gf_mul_def gf_prod_def xtime_double gf_sum_unfold gf_sum_zero word_of_int_xor)

lemma SubBytes_fips: "length s = 16 \<Longrightarrow> SubBytes s = map fips_sbox s"
  by (simp add: SubBytes_map getSBoxValue_fips cong: map_cong)

lemma ShiftRows_fips: "length s = 16 \<Longrightarrow> ShiftRows s = fips_shift s"
  by (erule block_cases) (simp add: ShiftRows_def fips_shift_def upt_16 Let_def aes_simps)

lemma MixColumns_fips: "length s = 16 \<Longrightarrow> MixColumns s = fips_mix s"
  by (erule block_cases)
    (simp add: MixColumns_columns mix_column_def fips_mix_def upt_16 gf_mul_2 gf_mul_3 xor_ac)

lemma fips_length [simp]:
  "length (fips_add key r s) = 16" "length (fips_shift s) = 16" "length (fips_mix s) = 16"
  "length (fips_round key r s) = 16" "length (fips_cipher key s) = 16"
  by (simp_all add: fips_add_def fips_shift_def fips_mix_def fips_round_def fips_cipher_def)

section \<open>The key schedule\<close>

text \<open>What the round-key array holds once \<open>n\<close> of its words are written.\<close>

definition expanded :: "u8 list \<Rightarrow> nat \<Rightarrow> u8 list \<Rightarrow> bool" where
  "expanded key n rk \<longleftrightarrow>
     length rk = 176 \<and> (\<forall>j < n. \<forall>b < 4. rk ! (4 * j + b) = key_word key j ! b)"

lemma expanded_at:
  assumes "expanded key n rk" and "i < 4 * n"
  shows "rk ! i = key_word key (i div 4) ! (i mod 4)"
proof -
  have "i div 4 < n" using assms(2) by linarith
  then have "rk ! (4 * (i div 4) + i mod 4) = key_word key (i div 4) ! (i mod 4)"
    using assms(1) by (simp only: expanded_def)
  then show ?thesis by simp
qed

lemma key_word_length: "length key = 16 \<Longrightarrow> length (key_word key i) = 4"
  by (induction key i rule: key_word.induct) (subst key_word.simps, simp)

lemma funpow_numeral: "(f ^^ numeral k) x = f ((f ^^ pred_numeral k) x)"
  by (simp add: numeral_eq_Suc)

lemma Rcon_constant:
  assumes "1 \<le> n" and "n \<le> 10"
  shows "Rcon ! n = round_constant n"
proof -
  have "n = 1 \<or> n = 2 \<or> n = 3 \<or> n = 4 \<or> n = 5 \<or> n = 6 \<or> n = 7 \<or> n = 8 \<or> n = 9 \<or> n = 10"
    using assms by presburger
  then show ?thesis
    by (elim disjE) (simp_all add: Rcon_def round_constant_def gf_mul_2 xtime_def funpow_numeral)
qed

text \<open>A word written behind the others: what \<^verbatim>\<open>KeyExpansion\<close>'s loop body does.\<close>

lemma word_list: "length w = 4 \<Longrightarrow> [w ! 0, w ! 1, w ! 2, w ! 3] = w"
  by (auto simp: numeral_eq_Suc length_Suc_conv)

lemma expanded_word:
  assumes "expanded key n rk" and "j < n" and "length key = 16"
  shows "key_word key j = [rk ! (4 * j), rk ! (4 * j + 1), rk ! (4 * j + 2), rk ! (4 * j + 3)]"
proof -
  have "rk ! (4 * j + b) = key_word key j ! b" if "b < 4" for b
    using assms that by (simp add: expanded_def)
  from this [of 0] this [of 1] this [of 2] this [of 3] show ?thesis
    using word_list [OF key_word_length [OF assms(3)], of j] by simp
qed

definition write_word :: "nat \<Rightarrow> u8 list \<Rightarrow> u8 list \<Rightarrow> u8 list" where
  "write_word i w rk = rk[4 * i := w ! 0, 4 * i + 1 := w ! 1, 4 * i + 2 := w ! 2, 4 * i + 3 := w ! 3]"

lemma expanded_write:
  assumes "expanded key n rk" and "n < 44" and "w = key_word key n"
  shows "expanded key (Suc n) (write_word n w rk)"
  unfolding expanded_def
proof (intro conjI allI impI)
  show "length (write_word n w rk) = 176"
    using assms by (simp add: expanded_def write_word_def)
next
  fix j b :: nat
  assume j: "j < Suc n" and b: "b < 4"
  have len: "length rk = 176" using assms(1) by (simp add: expanded_def)
  show "write_word n w rk ! (4 * j + b) = key_word key j ! b"
  proof (cases "j = n")
    case True
    then show ?thesis
      using b assms(2) len by (auto elim!: below_4 simp: write_word_def assms(3) nth_list_update)
  next
    case False
    then have "4 * j + b < 4 * n" using j b by linarith
    then show ?thesis
      using j b False assms(1) by (simp add: write_word_def expanded_def)
  qed
qed

lemma expand_word_write:
  assumes "expanded key i rk" and "4 \<le> i" "i < 44" and "length key = 16"
  shows "expand_word i rk = write_word i (key_word key i) rk"
proof -
  have len: "length rk = 176" using assms(1) by (simp add: expanded_def)
  have prev: "key_word key (i - 1) = [rk ! ((i - 1) * 4 + 0), rk ! ((i - 1) * 4 + 1), rk ! ((i - 1) * 4 + 2), rk ! ((i - 1) * 4 + 3)]"
    and four: "key_word key (i - 4) = [rk ! ((i - 4) * 4 + 0), rk ! ((i - 4) * 4 + 1), rk ! ((i - 4) * 4 + 2), rk ! ((i - 4) * 4 + 3)]"
    using expanded_word [OF assms(1) _ assms(4), of "i - 1"]
      expanded_word [OF assms(1) _ assms(4), of "i - 4"] assms(2)
    by (simp_all add: mult.commute)
  have rcon: "Rcon ! (i div 4) = round_constant (i div 4)"
    using assms(2,3) by (intro Rcon_constant) auto
  have far: "(i - 4) * 4 + b < 4 * i" if "b < 4" for b
    using that assms(2) by linarith
  have upd: "rk[j := x] ! ((i - 4) * 4 + b) = rk ! ((i - 4) * 4 + b)" if "4 * i \<le> j" "b < 4" for j x b rk
    using far that by (metis leD nth_list_update_neq)
  show ?thesis
    unfolding expand_word_def write_word_def Nk_def key_word.simps [of key i] prev four
    using assms(2) rcon upd [of _ 0]
    by (simp add: Let_def getSBoxValue_fips upd mult.commute xor_ac)
qed

lemma expand_word_expanded:
  "expanded key i rk \<Longrightarrow> 4 \<le> i \<Longrightarrow> i < 44 \<Longrightarrow> length key = 16 \<Longrightarrow>
    expanded key (Suc i) (expand_word i rk)"
  by (simp add: expand_word_write [of key] expanded_write)

lemma initial_key:
  assumes "length key = 16" and "length rk = 176"
  shows "expanded key 4 (for_loop Nk (\<lambda>i RoundKey.
          let RoundKey = RoundKey[i * 4 + 0 := key ! (i * 4 + 0)];
              RoundKey = RoundKey[i * 4 + 1 := key ! (i * 4 + 1)];
              RoundKey = RoundKey[i * 4 + 2 := key ! (i * 4 + 2)]
          in RoundKey[i * 4 + 3 := key ! (i * 4 + 3)]) rk)"
proof -
  have "key_word key i = [key ! (4 * i), key ! (4 * i + 1), key ! (4 * i + 2), key ! (4 * i + 3)]"
    if "i < 4" for i
    using word_list [of "take 4 (drop (4 * i) key)"] that assms(1)
    by (simp add: key_word.simps)
  then show ?thesis
    using assms(2)
    by (auto simp: expanded_def Nk_def for_loop_unroll Let_def elim!: below_4)
qed

lemma KeyExpansion_expanded:
  assumes "length key = 16" and "length rk = 176"
  shows "expanded key 44 (KeyExpansion rk key)"
proof -
  have "n \<le> 44 \<longrightarrow> expanded key n (fold expand_word [4..<n] rk')"
    if "expanded key 4 rk'" "4 \<le> n" for n rk'
    using that(2)
    by (induction n rule: dec_induct) (simp_all add: that(1) expand_word_expanded assms(1))
  from this [OF initial_key [OF assms], of 44] show ?thesis
    by (simp add: KeyExpansion_def Nk_def Nb_def Nr_def)
qed

text \<open>
  \<^verbatim>\<open>KeyExpansion\<close> fills \<^verbatim>\<open>RoundKey\<close> with the 44 words of the FIPS-197 key schedule, whatever
  the array held before.
\<close>

theorem KeyExpansion_is_FIPS:
  assumes "length Key = 16" and "length RoundKey = 176"
  shows "KeyExpansion RoundKey Key = concat (map (key_word Key) [0..<44])"
proof (rule nth_equalityI)
  have e: "expanded Key 44 (KeyExpansion RoundKey Key)"
    using assms by (rule KeyExpansion_expanded)
  have len: "length (concat (map (key_word Key) [0..<n])) = 4 * n" for n
    by (induction n) (simp_all add: key_word_length assms)
  then show "length (KeyExpansion RoundKey Key) = length (concat (map (key_word Key) [0..<44]))"
    using e by (simp add: expanded_def)
  have c: "concat (map (key_word Key) [0..<n]) ! (4 * j + b) = key_word Key j ! b"
    if "j < n" "b < 4" for j b n
    using that
  proof (induction n)
    case (Suc n)
    then show ?case
      by (cases "j < n") (auto simp: nth_append len less_Suc_eq)
  qed simp
  fix i
  assume "i < length (KeyExpansion RoundKey Key)"
  then have i: "i < 4 * 44" using e by (simp add: expanded_def)
  then have "i div 4 < 44" by linarith
  then have "concat (map (key_word Key) [0..<44]) ! (4 * (i div 4) + i mod 4) = key_word Key (i div 4) ! (i mod 4)"
    by (intro c) simp_all
  then show "KeyExpansion RoundKey Key ! i = concat (map (key_word Key) [0..<44]) ! i"
    by (simp only: mult_div_mod_eq expanded_at [OF e i])
qed

theorem KeyExpansion_is_FIPS_witness:
  "length (map of_nat [0..<16] :: u8 list) = 16 \<and>
   KeyExpansion (replicate 176 0xff) (map of_nat [0..<16]) = concat (map (key_word (map of_nat [0..<16])) [0..<44])"
  using KeyExpansion_is_FIPS [of "map of_nat [0..<16]" "replicate 176 0xff"] by simp

section \<open>The cipher\<close>

lemma AddRoundKey_fips:
  assumes "expanded key 44 rk" and "r \<le> 10" and "length s = 16"
  shows "AddRoundKey r s rk = fips_add key r s"
proof -
  have "rk ! (16 * r + i) = key_word key (4 * r + i div 4) ! (i mod 4)" if "i < 16" for i
  proof -
    have "16 * r + i < 4 * 44" using that assms(2) by linarith
    moreover have "(16 * r + i) div 4 = 4 * r + i div 4" "(16 * r + i) mod 4 = i mod 4"
      by presburger+
    ultimately show ?thesis using expanded_at [OF assms(1)] by metis
  qed
  then show ?thesis
    using assms(3) by (simp add: AddRoundKey_map fips_add_def)
qed

text \<open>
  One middle round under round key \<open>r\<close>; the loop of \<^verbatim>\<open>Cipher\<close> from round \<open>r\<close> on runs the rest of
  them and the last half round.
\<close>

definition main_round :: "u8 list \<Rightarrow> nat \<Rightarrow> state \<Rightarrow> state" where
  "main_round k r s = AddRoundKey r (MixColumns (ShiftRows (SubBytes s))) k"

lemma length_main_round [simp]: "length (main_round k r s) = length s"
  by (simp add: main_round_def)

lemma length_main_rounds [simp]: "length (fold (main_round k) rs s) = length s"
  by (induction rs arbitrary: s) simp_all

lemma Cipher_rounds_fold:
  "r \<le> 10 \<Longrightarrow> Cipher_rounds (of_nat r) s k = ShiftRows (SubBytes (fold (main_round k) [r..<10] s))"
proof (induction "10 - r" arbitrary: r s)
  case 0
  then show ?case by (simp add: Cipher_rounds.simps [of 10] Nr_def)
next
  case (Suc n)
  then have r: "r < 10" by simp
  then have w: "(of_nat r :: u8) \<noteq> 10" "unat (of_nat r :: u8) = r"
    by (simp_all add: unat_of_nat word_unat_eq_iff)
  have "Cipher_rounds (of_nat r) s k = Cipher_rounds (of_nat (Suc r)) (main_round k r s) k"
    using w by (subst Cipher_rounds.simps) (simp add: Nr_def Let_def main_round_def add.commute)
  also have "\<dots> = ShiftRows (SubBytes (fold (main_round k) [Suc r..<10] (main_round k r s)))"
    using Suc.hyps r by (intro Suc.hyps(1)) simp_all
  finally show ?case using r by (simp add: upt_rec [of r])
qed

lemma Cipher_fold:
  "Cipher s k =
     AddRoundKey 10 (ShiftRows (SubBytes (fold (main_round k) [1..<10] (AddRoundKey 0 s k)))) k"
  using Cipher_rounds_fold [of 1] by (simp add: Cipher_def Nr_def)

lemma length_Cipher [simp]: "length (Cipher s k) = length s"
  by (simp add: Cipher_fold)

lemma main_round_fips:
  "expanded key 44 k \<Longrightarrow> r \<le> 10 \<Longrightarrow> length s = 16 \<Longrightarrow> main_round k r s = fips_round key r s"
  by (simp add: main_round_def fips_round_def AddRoundKey_fips MixColumns_fips ShiftRows_fips SubBytes_fips)

lemma main_rounds_fips:
  assumes "expanded key 44 k"
  shows "length s = 16 \<Longrightarrow> r \<le> 10 \<Longrightarrow> fold (main_round k) [1..<r] s = fold (fips_round key) [1..<r] s"
proof (induction r)
  case (Suc r)
  then have eq: "fold (main_round k) [1..<r] s = fold (fips_round key) [1..<r] s" by simp
  then have "length (fold (fips_round key) [1..<r] s) = 16"
    using Suc.prems by (metis length_main_rounds)
  then show ?case
    using eq Suc.prems by (simp add: main_round_fips assms)
qed simp

lemma Cipher_fips:
  assumes "length Key = 16" and "length RoundKey = 176" and "length s = 16"
  shows "Cipher s (KeyExpansion RoundKey Key) = fips_cipher Key s"
proof -
  define k where "k = KeyExpansion RoundKey Key"
  have e: "expanded Key 44 k"
    unfolding k_def using assms(1,2) by (rule KeyExpansion_expanded)
  define t where "t = fold (main_round k) [1..<10] (AddRoundKey 0 s k)"
  have "length t = 16" using assms(3) by (simp add: t_def)
  moreover have "t = fold (fips_round Key) [1..<10] (fips_add Key 0 s)"
    unfolding t_def using assms(3) by (subst main_rounds_fips [OF e]) (simp_all add: AddRoundKey_fips [OF e])
  ultimately have "Cipher s k = fips_cipher Key s"
    unfolding Cipher_fold fips_cipher_def t_def [symmetric]
    by (simp add: AddRoundKey_fips [OF e] ShiftRows_fips SubBytes_fips)
  then show ?thesis by (simp add: k_def)
qed

text \<open>
  C4: on a key expanded by \<^verbatim>\<open>KeyExpansion\<close>, \<^verbatim>\<open>Cipher\<close> computes the AES-128 block encryption of
  FIPS-197 for every key and every block.
\<close>

theorem Cipher_is_FIPS:
  assumes "length Key = 16" and "length RoundKey = 176" and "length s = 16"
  shows "Cipher s (KeyExpansion RoundKey Key) = fips_cipher Key s"
  using assms by (rule Cipher_fips)

theorem Cipher_is_FIPS_witness:
  "length (replicate 16 0xa5 :: u8 list) = 16 \<and>
   Cipher (replicate 16 0xa5) (KeyExpansion (replicate 176 0) (map of_nat [0..<16]))
     = fips_cipher (map of_nat [0..<16]) (replicate 16 0xa5)"
  using Cipher_is_FIPS [of "map of_nat [0..<16]" "replicate 176 0" "replicate 16 0xa5"] by simp

section \<open>Decryption\<close>

lemma length_InvCipher_rounds: "length (InvCipher_rounds r s k) = length s"
  by (induction r s k rule: InvCipher_rounds.induct) (subst InvCipher_rounds.simps, simp add: Let_def)

lemma length_InvCipher [simp]: "length (InvCipher s k) = length s"
  by (simp add: InvCipher_def length_InvCipher_rounds)

lemma SubBytes_inverse: "length s = 16 \<Longrightarrow> InvSubBytes (SubBytes s) = s"
  by (simp add: InvSubBytes_map SubBytes_map map_idI)

lemma unshift: "length s = 16 \<Longrightarrow> InvSubBytes (InvShiftRows (ShiftRows (SubBytes s))) = s"
  by (simp add: ShiftRows_inverse SubBytes_inverse)

lemma InvCipher_rounds_fold:
  "length s = 16 \<Longrightarrow> r < 10 \<Longrightarrow>
     InvCipher_rounds (of_nat r) (ShiftRows (SubBytes (fold (main_round k) [1..<Suc r] s))) k
     = AddRoundKey 0 s k"
proof (induction r)
  case 0
  then show ?case by (simp add: InvCipher_rounds.simps [of 0] unshift)
next
  case (Suc r)
  define t where "t = fold (main_round k) [1..<Suc r] s"
  have len: "length t = 16" using Suc.prems by (simp add: t_def)
  have w: "(of_nat (Suc r) :: u8) \<noteq> 0" "unat (of_nat (Suc r) :: u8) = Suc r"
    using Suc.prems by (simp_all add: unat_of_nat word_unat_eq_iff del: of_nat_Suc)
  have "fold (main_round k) [1..<Suc (Suc r)] s = main_round k (Suc r) t"
    by (simp add: t_def)
  moreover have "InvCipher_rounds (of_nat (Suc r)) (ShiftRows (SubBytes (main_round k (Suc r) t))) k
      = InvCipher_rounds (of_nat r) (ShiftRows (SubBytes t)) k"
    using len w
    by (subst InvCipher_rounds.simps)
      (simp add: Let_def unshift main_round_def AddRoundKey_twice MixColumns_inverse)
  ultimately show ?case
    using Suc by (simp add: t_def)
qed

lemma InvCipher_Cipher:
  assumes "length s = 16"
  shows "InvCipher (Cipher s k) k = s"
proof -
  have "length (fold (main_round k) [1..<10] (AddRoundKey 0 s k)) = 16"
    using assms by simp
  then show ?thesis
    using InvCipher_rounds_fold [of "AddRoundKey 0 s k" 9 k] assms
    by (simp add: InvCipher_def Cipher_fold Nr_def AddRoundKey_twice)
qed

end
