(* ===== verification/AES_Modes.thy ===== *)
theory AES_Modes
  imports AES_FIPS
begin

text \<open>
  The public interface of src/sw/CB_device/lib/AES/aes.c: context set-up and the ECB, CBC and
  CTR entry points, on the caller's buffer as a list of bytes. A pointer into the buffer is an
  offset; the pointer \<^verbatim>\<open>Iv\<close> of CBC, which moves from the context into the buffer, is a
  datatype. An access outside the buffer is undefined in C and makes the result \<open>None\<close>, as an
  endless loop does. \<^verbatim>\<open>size_t\<close> is 32 bits wide.

  The modes are related to textbook CBC and CTR over an abstract block cipher, whose contract
  is the locale \<open>block_cipher\<close>; the cipher of aes.c is an interpretation.
\<close>

section \<open>Context\<close>

definition AES_BLOCKLEN :: nat where [simp]: "AES_BLOCKLEN = 16"

record AES_ctx =
  RoundKey :: "u8 list"
  Iv :: "u8 list"

definition AES_init_ctx :: "AES_ctx \<Rightarrow> u8 list \<Rightarrow> AES_ctx" where
  "AES_init_ctx ctx key = ctx\<lparr>RoundKey := KeyExpansion (RoundKey ctx) key\<rparr>"

definition AES_ctx_set_iv :: "AES_ctx \<Rightarrow> u8 list \<Rightarrow> AES_ctx" where
  "AES_ctx_set_iv ctx iv = ctx\<lparr>Iv := take AES_BLOCKLEN iv\<rparr>"

definition AES_init_ctx_iv :: "AES_ctx \<Rightarrow> u8 list \<Rightarrow> u8 list \<Rightarrow> AES_ctx" where
  "AES_init_ctx_iv ctx key iv =
     (let ctx = ctx\<lparr>RoundKey := KeyExpansion (RoundKey ctx) key\<rparr>
      in ctx\<lparr>Iv := take AES_BLOCKLEN iv\<rparr>)"

section \<open>ECB\<close>

text \<open>The 16 bytes at an offset of the buffer, as \<^verbatim>\<open>(state_t*)buf\<close> or \<^verbatim>\<open>memcpy\<close> see them.\<close>

definition block_at :: "nat \<Rightarrow> u8 list \<Rightarrow> u8 list" where
  "block_at off buf = take AES_BLOCKLEN (drop off buf)"

definition in_block :: "nat \<Rightarrow> (u8 list \<Rightarrow> u8 list) \<Rightarrow> u8 list \<Rightarrow> u8 list" where
  "in_block off f buf = take off buf @ f (block_at off buf) @ drop (off + AES_BLOCKLEN) buf"

definition AES_ECB_encrypt :: "AES_ctx \<Rightarrow> u8 list \<Rightarrow> u8 list" where
  "AES_ECB_encrypt ctx buf = in_block 0 (\<lambda>b. Cipher b (RoundKey ctx)) buf"

definition AES_ECB_decrypt :: "AES_ctx \<Rightarrow> u8 list \<Rightarrow> u8 list" where
  "AES_ECB_decrypt ctx buf = in_block 0 (\<lambda>b. InvCipher b (RoundKey ctx)) buf"

section \<open>CBC\<close>

definition XorWithIv :: "u8 list \<Rightarrow> u8 list \<Rightarrow> u8 list" where
  "XorWithIv buf iv = for_loop AES_BLOCKLEN (\<lambda>i buf. buf[i := buf ! i XOR iv ! i]) buf"

datatype iv_pointer = Ctx_Iv | Block_at nat

fun iv_deref :: "AES_ctx \<Rightarrow> u8 list \<Rightarrow> iv_pointer \<Rightarrow> u8 list" where
  "iv_deref ctx buf Ctx_Iv = Iv ctx"
| "iv_deref ctx buf (Block_at off) = block_at off buf"

partial_function (option) CBC_encrypt_loop ::
  "AES_ctx \<Rightarrow> u32 \<Rightarrow> u32 \<Rightarrow> iv_pointer \<Rightarrow> nat \<Rightarrow> u8 list \<Rightarrow> (iv_pointer \<times> u8 list) option"
where
  "CBC_encrypt_loop ctx len i iv off buf =
     (if i < len then
        if length buf < off + AES_BLOCKLEN then None
        else
          let buf = in_block off (\<lambda>b. XorWithIv b (iv_deref ctx buf iv)) buf;
              buf = in_block off (\<lambda>b. Cipher b (RoundKey ctx)) buf
          in CBC_encrypt_loop ctx len (i + of_nat AES_BLOCKLEN) (Block_at off) (off + AES_BLOCKLEN) buf
      else Some (iv, buf))"

definition AES_CBC_encrypt_buffer :: "AES_ctx \<Rightarrow> u8 list \<Rightarrow> u32 \<Rightarrow> (AES_ctx \<times> u8 list) option" where
  "AES_CBC_encrypt_buffer ctx buf len =
     map_option (\<lambda>(iv, buf). (ctx\<lparr>Iv := iv_deref ctx buf iv\<rparr>, buf))
       (CBC_encrypt_loop ctx len 0 Ctx_Iv 0 buf)"

partial_function (option) CBC_decrypt_loop ::
  "u32 \<Rightarrow> u32 \<Rightarrow> nat \<Rightarrow> AES_ctx \<Rightarrow> u8 list \<Rightarrow> (AES_ctx \<times> u8 list) option"
where
  "CBC_decrypt_loop len i off ctx buf =
     (if i < len then
        if length buf < off + AES_BLOCKLEN then None
        else
          let storeNextIv = block_at off buf;
              buf = in_block off (\<lambda>b. InvCipher b (RoundKey ctx)) buf;
              buf = in_block off (\<lambda>b. XorWithIv b (Iv ctx)) buf;
              ctx = ctx\<lparr>Iv := storeNextIv\<rparr>
          in CBC_decrypt_loop len (i + of_nat AES_BLOCKLEN) (off + AES_BLOCKLEN) ctx buf
      else Some (ctx, buf))"

definition AES_CBC_decrypt_buffer :: "AES_ctx \<Rightarrow> u8 list \<Rightarrow> u32 \<Rightarrow> (AES_ctx \<times> u8 list) option" where
  "AES_CBC_decrypt_buffer ctx buf len = CBC_decrypt_loop len 0 0 ctx buf"

section \<open>CTR\<close>

text \<open>The carry loop over \<^verbatim>\<open>ctx->Iv\<close>, from index \<open>n - 1\<close> down.\<close>

fun increment_iv :: "nat \<Rightarrow> u8 list \<Rightarrow> u8 list" where
  "increment_iv 0 iv = iv"
| "increment_iv (Suc bi) iv =
     (if iv ! bi = 255 then increment_iv bi (iv[bi := 0]) else iv[bi := iv ! bi + 1])"

partial_function (option) CTR_loop ::
  "u32 \<Rightarrow> u32 \<Rightarrow> nat \<Rightarrow> u8 list \<Rightarrow> AES_ctx \<Rightarrow> u8 list \<Rightarrow> (AES_ctx \<times> u8 list) option"
where
  "CTR_loop len i bi buffer ctx buf =
     (if i < len then
        let (bi, buffer, ctx) =
              (if bi = AES_BLOCKLEN
               then (0, Cipher (Iv ctx) (RoundKey ctx), ctx\<lparr>Iv := increment_iv AES_BLOCKLEN (Iv ctx)\<rparr>)
               else (bi, buffer, ctx))
        in if length buf \<le> unat i then None
           else CTR_loop len (i + 1) (bi + 1) buffer ctx
                  (buf[unat i := buf ! unat i XOR buffer ! bi])
      else Some (ctx, buf))"

text \<open>The uninitialised \<^verbatim>\<open>buffer\<close> is an argument; the first iteration overwrites it.\<close>

definition AES_CTR_xcrypt_buffer :: "u8 list \<Rightarrow> AES_ctx \<Rightarrow> u8 list \<Rightarrow> u32 \<Rightarrow> (AES_ctx \<times> u8 list) option" where
  "AES_CTR_xcrypt_buffer buffer ctx buf len = CTR_loop len 0 AES_BLOCKLEN buffer ctx buf"

section \<open>Textbook modes\<close>

text \<open>Over any block cipher: \<open>e\<close> and \<open>d\<close> are its two directions, a message is a list of blocks.\<close>

fun cbc_encrypt :: "(u8 list \<Rightarrow> u8 list) \<Rightarrow> u8 list \<Rightarrow> u8 list list \<Rightarrow> u8 list list" where
  "cbc_encrypt e iv [] = []"
| "cbc_encrypt e iv (b # bs) = e (map2 (XOR) b iv) # cbc_encrypt e (e (map2 (XOR) b iv)) bs"

fun cbc_decrypt :: "(u8 list \<Rightarrow> u8 list) \<Rightarrow> u8 list \<Rightarrow> u8 list list \<Rightarrow> u8 list list" where
  "cbc_decrypt d iv [] = []"
| "cbc_decrypt d iv (c # cs) = map2 (XOR) (d c) iv # cbc_decrypt d c cs"

definition ctr_byte :: "(u8 list \<Rightarrow> u8 list) \<Rightarrow> (u8 list \<Rightarrow> u8 list) \<Rightarrow> u8 list \<Rightarrow> nat \<Rightarrow> u8" where
  "ctr_byte e inc iv n = e ((inc ^^ (n div 16)) iv) ! (n mod 16)"

abbreviation blocks16 :: "u8 list list \<Rightarrow> bool" where
  "blocks16 bs \<equiv> \<forall>b \<in> set bs. length b = 16"

locale block_cipher =
  fixes e d :: "u8 list \<Rightarrow> u8 list"
  assumes decrypts: "length b = 16 \<Longrightarrow> d (e b) = b"
    and block_length: "length b = 16 \<Longrightarrow> length (e b) = 16"
begin

lemma xor_blocks: "length b = 16 \<Longrightarrow> length iv = 16 \<Longrightarrow> map2 (XOR) (map2 (XOR) b iv) iv = b"
  by (rule nth_equalityI) (simp_all add: xor.assoc)

lemma cbc_blocks:
  "length iv = 16 \<Longrightarrow> blocks16 bs \<Longrightarrow> blocks16 (cbc_encrypt e iv bs)"
proof (induction bs arbitrary: iv)
  case (Cons b bs)
  then have "length (e (map2 (XOR) b iv)) = 16" "blocks16 bs" by (simp_all add: block_length)
  with Cons.IH [OF this] show ?case by simp
qed simp

lemma cbc_round_trip:
  "length iv = 16 \<Longrightarrow> blocks16 bs \<Longrightarrow> cbc_decrypt d iv (cbc_encrypt e iv bs) = bs"
  by (induction bs arbitrary: iv) (simp_all add: block_length decrypts xor_blocks)

lemma cbc_injective:
  "length iv = 16 \<Longrightarrow> blocks16 bs \<Longrightarrow> blocks16 cs \<Longrightarrow>
    cbc_encrypt e iv bs = cbc_encrypt e iv cs \<Longrightarrow> bs = cs"
  by (metis cbc_round_trip)

end

interpretation aes: block_cipher "\<lambda>b. Cipher b k" "\<lambda>b. InvCipher b k" for k
  by unfold_locales (simp_all add: InvCipher_Cipher)

lemma length_cbc_encrypt [simp]: "length (cbc_encrypt e iv bs) = length bs"
  by (induction bs arbitrary: iv) simp_all

section \<open>Buffers\<close>

lemma block_at_append [simp]: "length b = 16 \<Longrightarrow> block_at (length pre) (pre @ b @ post) = b"
  by (simp add: block_at_def)

lemma in_block_append [simp]:
  "length b = 16 \<Longrightarrow> in_block (length pre) f (pre @ b @ post) = pre @ f b @ post"
  by (simp add: in_block_def)

lemma block_at_before: "off + 16 \<le> length pre \<Longrightarrow> block_at off (pre @ rest) = block_at off pre"
  by (simp add: block_at_def)

lemma fold_xor_prefix:
  "n \<le> length b \<Longrightarrow> n \<le> length iv \<Longrightarrow>
     fold (\<lambda>i b. b[i := b ! i XOR iv ! i]) [0..<n] b = map2 (XOR) (take n b) (take n iv) @ drop n b"
  for b :: "u8 list"
  by (induction n) (auto simp: take_Suc_conv_app_nth nth_append list_update_append zip_append Cons_nth_drop_Suc [symmetric])

lemma XorWithIv_map2: "length b = 16 \<Longrightarrow> length iv = 16 \<Longrightarrow> XorWithIv b iv = map2 (XOR) b iv"
  using fold_xor_prefix [of 16 b iv] by (simp add: XorWithIv_def for_loop_def)

text \<open>What remains of a message at offset \<open>i\<close> of a buffer of \<open>len\<close> bytes is these blocks.\<close>

definition remaining :: "u32 \<Rightarrow> u32 \<Rightarrow> u8 list list \<Rightarrow> bool" where
  "remaining len i bs \<longleftrightarrow>
     unat len \<le> unat i + 16 * length bs \<and> unat i + 16 * length bs < unat len + 16
     \<and> unat i + 16 * length bs < 2 ^ 32 \<and> blocks16 bs"

lemma remaining_Nil: "remaining len i [] \<Longrightarrow> \<not> i < len"
  by (simp add: remaining_def word_less_nat_alt)

lemma remaining_Cons:
  assumes "remaining len i (b # bs)"
  shows "i < len" "length b = 16" "remaining len (i + 16) bs"
proof -
  show "i < len" and "length b = 16"
    using assms by (auto simp: remaining_def word_less_nat_alt)
  have "unat (i + 16) = unat i + 16"
    using assms by (subst unat_add_lem [THEN iffD1]) (simp_all add: remaining_def)
  then show "remaining len (i + 16) bs"
    using assms by (auto simp: remaining_def)
qed

section \<open>The CBC loops compute CBC\<close>

lemma CBC_encrypt_loop_blocks:
  assumes "remaining len i bs" and "length (iv_deref ctx pre iv) = 16"
    and "iv = Ctx_Iv \<or> (\<exists>k. iv = Block_at k \<and> k + 16 \<le> length pre)"
  defines "cs \<equiv> cbc_encrypt (\<lambda>b. Cipher b (RoundKey ctx)) (iv_deref ctx pre iv) bs"
  shows "\<exists>iv'. CBC_encrypt_loop ctx len i iv (length pre) (pre @ concat bs @ post)
          = Some (iv', pre @ concat cs @ post)
       \<and> iv_deref ctx (pre @ concat cs @ post) iv' = last (iv_deref ctx pre iv # cs)"
  using assms(1-3) unfolding cs_def
proof (induction bs arbitrary: pre i iv)
  case Nil
  then have "iv_deref ctx (pre @ post) iv = iv_deref ctx pre iv"
    by (auto simp: block_at_before)
  then show ?case
    using remaining_Nil [OF Nil(1)] by (simp add: CBC_encrypt_loop.simps)
next
  case (Cons b bs)
  note r = remaining_Cons [OF Cons.prems(1)]
  define iv0 where "iv0 = iv_deref ctx pre iv"
  define c where "c = Cipher (map2 (XOR) b iv0) (RoundKey ctx)"
  have len: "length iv0 = 16" "length c = 16"
    using Cons.prems(2) r(2) by (simp_all add: iv0_def c_def)
  have deref: "iv_deref ctx (pre @ b @ rest) iv = iv0" for rest
    using Cons.prems(3) by (auto simp: iv0_def block_at_before)
  have "CBC_encrypt_loop ctx len i iv (length pre) (pre @ concat (b # bs) @ post)
      = CBC_encrypt_loop ctx len (i + 16) (Block_at (length pre)) (length (pre @ c)) ((pre @ c) @ concat bs @ post)"
    using r len by (subst CBC_encrypt_loop.simps) (simp add: Let_def deref XorWithIv_map2 c_def)
  moreover have "iv_deref ctx (pre @ c) (Block_at (length pre)) = c"
    using len block_at_append [of c pre "[]"] by simp
  ultimately show ?case
    using Cons.IH [OF r(3), of "pre @ c" "Block_at (length pre)"] len
    by (simp add: c_def iv0_def)
qed

lemma CBC_decrypt_loop_blocks:
  assumes "remaining len i cs" and "length (Iv ctx) = 16"
  shows "CBC_decrypt_loop len i (length pre) ctx (pre @ concat cs @ post) =
     Some (ctx\<lparr>Iv := last (Iv ctx # cs)\<rparr>,
           pre @ concat (cbc_decrypt (\<lambda>b. InvCipher b (RoundKey ctx)) (Iv ctx) cs) @ post)"
  using assms
proof (induction cs arbitrary: pre i ctx)
  case Nil
  then show ?case
    using remaining_Nil [OF Nil(1)] by (simp add: CBC_decrypt_loop.simps)
next
  case (Cons c cs)
  note r = remaining_Cons [OF Cons.prems(1)]
  define b where "b = map2 (XOR) (InvCipher c (RoundKey ctx)) (Iv ctx)"
  have len: "length (InvCipher c (RoundKey ctx)) = 16" "length b = 16"
    using r(2) Cons.prems(2) by (simp_all add: b_def)
  have "CBC_decrypt_loop len i (length pre) ctx (pre @ concat (c # cs) @ post)
      = CBC_decrypt_loop len (i + 16) (length (pre @ b)) (ctx\<lparr>Iv := c\<rparr>) ((pre @ b) @ concat cs @ post)"
    using r len Cons.prems(2) by (subst CBC_decrypt_loop.simps) (simp add: Let_def XorWithIv_map2 b_def)
  then show ?case
    using Cons.IH [OF r(3), of "ctx\<lparr>Iv := c\<rparr>" "pre @ b"] r(2)
    by (simp add: b_def)
qed

lemma CBC_encrypt_buffer_blocks:
  assumes "remaining len 0 bs" and "length (Iv ctx) = 16"
  defines "cs \<equiv> cbc_encrypt (\<lambda>b. Cipher b (RoundKey ctx)) (Iv ctx) bs"
  shows "AES_CBC_encrypt_buffer ctx (concat bs @ post) len =
     Some (ctx\<lparr>Iv := last (Iv ctx # cs)\<rparr>, concat cs @ post)"
  using CBC_encrypt_loop_blocks [of len 0 bs ctx "[]" Ctx_Iv post] assms
  by (auto simp: AES_CBC_encrypt_buffer_def)

lemma CBC_decrypt_buffer_blocks:
  assumes "remaining len 0 cs" and "length (Iv ctx) = 16"
  shows "AES_CBC_decrypt_buffer ctx (concat cs @ post) len =
     Some (ctx\<lparr>Iv := last (Iv ctx # cs)\<rparr>,
           concat (cbc_decrypt (\<lambda>b. InvCipher b (RoundKey ctx)) (Iv ctx) cs) @ post)"
  using CBC_decrypt_loop_blocks [OF assms, of "[]" post]
  by (simp add: AES_CBC_decrypt_buffer_def)

text \<open>
  C20: \<^verbatim>\<open>AES_CBC_encrypt_buffer\<close> returns, for a buffer of whole blocks, and has computed
  textbook CBC under \<^verbatim>\<open>Cipher\<close> over them in place: nothing behind the last block changes, and
  the context holds the last ciphertext block for the next call. A length that is no multiple
  of 16 is rounded up to whole blocks.
\<close>

theorem AES_CBC_encrypt_is_CBC:
  assumes "length (Iv ctx) = 16" and "blocks16 bs"
    and "unat len \<le> 16 * length bs" "16 * length bs < unat len + 16" "16 * length bs < 2 ^ 32"
  shows "AES_CBC_encrypt_buffer ctx (concat bs @ post) len =
     Some (ctx\<lparr>Iv := last (Iv ctx # cbc_encrypt (\<lambda>b. Cipher b (RoundKey ctx)) (Iv ctx) bs)\<rparr>,
           concat (cbc_encrypt (\<lambda>b. Cipher b (RoundKey ctx)) (Iv ctx) bs) @ post)"
  using assms by (intro CBC_encrypt_buffer_blocks) (simp_all add: remaining_def)

theorem AES_CBC_encrypt_is_CBC_witness:
  "AES_CBC_encrypt_buffer \<lparr>RoundKey = replicate 176 1, Iv = replicate 16 2\<rparr> (concat [replicate 16 3, replicate 16 4] @ [5, 6]) 20 \<noteq> None"
  using AES_CBC_encrypt_is_CBC
    [of "\<lparr>RoundKey = replicate 176 1, Iv = replicate 16 2\<rparr>" "[replicate 16 3, replicate 16 4]" 20 "[5, 6]"]
  by simp

text \<open>
  C13: CBC round trip: what \<^verbatim>\<open>AES_CBC_decrypt_buffer\<close> makes of the buffer that
  \<^verbatim>\<open>AES_CBC_encrypt_buffer\<close> leaves, under the same key and IV, is the original buffer, and the
  two contexts are ready for the next part of the message with the same IV.
\<close>

theorem AES_CBC_round_trip:
  assumes "length (Iv ctx) = 16" and "blocks16 bs"
    and "unat len \<le> 16 * length bs" "16 * length bs < unat len + 16" "16 * length bs < 2 ^ 32"
  shows "\<exists>ctx' buf. AES_CBC_encrypt_buffer ctx (concat bs @ post) len = Some (ctx', buf)
     \<and> AES_CBC_decrypt_buffer ctx buf len = Some (ctx', concat bs @ post)"
proof -
  define cs where "cs = cbc_encrypt (\<lambda>b. Cipher b (RoundKey ctx)) (Iv ctx) bs"
  have r: "remaining len 0 bs"
    using assms by (simp add: remaining_def)
  have "remaining len 0 cs"
    using r aes.cbc_blocks [OF assms(1,2), of "RoundKey ctx"] by (simp add: remaining_def cs_def)
  then show ?thesis
    using CBC_encrypt_buffer_blocks [OF r assms(1), of post] CBC_decrypt_buffer_blocks [of len cs ctx post]
      aes.cbc_round_trip [OF assms(1,2), of "RoundKey ctx"] assms(1)
    by (simp add: cs_def)
qed

theorem AES_CBC_round_trip_witness:
  "\<exists>ctx' buf. AES_CBC_encrypt_buffer \<lparr>RoundKey = replicate 176 1, Iv = replicate 16 2\<rparr>
       (concat [replicate 16 3, replicate 16 4] @ [5, 6]) 20 = Some (ctx', buf)
     \<and> AES_CBC_decrypt_buffer \<lparr>RoundKey = replicate 176 1, Iv = replicate 16 2\<rparr> buf 20
       = Some (ctx', concat [replicate 16 3, replicate 16 4] @ [5, 6])"
  by (rule AES_CBC_round_trip) simp_all

section \<open>The counter\<close>

text \<open>The counter block read as a 128-bit big-endian number.\<close>

definition be_value :: "u8 list \<Rightarrow> nat" where
  "be_value = foldl (\<lambda>n b. 256 * n + unat b) 0"

lemma be_value_snoc [simp]: "be_value (bs @ [b]) = 256 * be_value bs + unat b"
  by (simp add: be_value_def)

lemma be_value_bound: "be_value bs < 256 ^ length bs"
proof (induction bs rule: rev_induct)
  case (snoc b bs)
  then show ?case using byte_bound [of b] by simp
qed (simp add: be_value_def)

lemma length_increment_iv [simp]: "length (increment_iv n iv) = length iv"
  by (induction n iv rule: increment_iv.induct) simp_all

lemma increment_iv_prefix:
  "n \<le> length iv \<Longrightarrow>
     be_value (take n (increment_iv n iv)) = (be_value (take n iv) + 1) mod 256 ^ n
     \<and> drop n (increment_iv n iv) = drop n iv"
proof (induction n iv rule: increment_iv.induct)
  case (1 iv)
  then show ?case by (simp add: be_value_def)
next
  case (2 n iv)
  have snoc: "take (Suc n) xs = take n xs @ [xs ! n]" if "length xs = length iv" for xs :: "u8 list"
    using that 2(2) by (simp add: take_Suc_conv_app_nth)
  show ?case
  proof (cases "iv ! n = 255")
    case True
    define iv' where "iv' = increment_iv n (iv[n := 0])"
    have ih: "be_value (take n iv') = (be_value (take n iv) + 1) mod 256 ^ n"
      and rest: "drop n iv' = drop n (iv[n := 0])"
      using 2(1) [OF True] 2(2) by (simp_all add: iv'_def)
    have len: "length iv' = length iv" by (simp add: iv'_def)
    have "iv' ! n = drop n iv' ! 0" using len 2(2) by simp
    also have "\<dots> = 0" unfolding rest using 2(2) by simp
    finally have "be_value (take (Suc n) iv') = 256 * ((be_value (take n iv) + 1) mod 256 ^ n)"
      by (simp add: snoc len ih)
    also have "\<dots> = (256 * be_value (take n iv) + unat (iv ! n) + 1) mod 256 ^ Suc n"
      using True by (simp add: mult_mod_right)
    finally have "be_value (take (Suc n) iv') = (be_value (take (Suc n) iv) + 1) mod 256 ^ Suc n"
      by (simp add: snoc)
    moreover have "drop (Suc n) iv' = drop (Suc n) iv"
      using arg_cong [OF rest, of "drop 1"] by simp
    ultimately show ?thesis using True by (simp add: iv'_def)
  next
    case False
    have u: "unat (iv ! n + 1) = unat (iv ! n) + 1"
    proof -
      have "1 + iv ! n \<noteq> 0"
        using False by (auto simp: add_eq_0_iff)
      then show ?thesis by (simp add: unatSuc add.commute)
    qed
    have "be_value (take n iv) < 256 ^ n"
      using be_value_bound [of "take n iv"] 2(2) by simp
    moreover have "unat (iv ! n + 1) < 256" by (rule byte_bound)
    ultimately have "256 * be_value (take n iv) + unat (iv ! n) + 1 < 256 ^ Suc n"
      using u by simp
    then show ?thesis
      using False 2(2) u by (simp add: snoc)
  qed
qed

text \<open>
  C31: the carry loop of CTR adds one to the counter block, as a big-endian number modulo
  \<open>2^128\<close>.
\<close>

theorem increment_iv_adds_one:
  assumes "length iv = 16"
  shows "length (increment_iv AES_BLOCKLEN iv) = 16
     \<and> be_value (increment_iv AES_BLOCKLEN iv) = (be_value iv + 1) mod 2 ^ 128"
  using increment_iv_prefix [of 16 iv] assms by simp

theorem increment_iv_adds_one_witness:
  "be_value (increment_iv AES_BLOCKLEN (replicate 16 0xff)) = (be_value (replicate 16 0xff) + 1) mod 2 ^ 128"
  using increment_iv_adds_one [of "replicate 16 0xff"] by simp

section \<open>The CTR loop computes CTR\<close>

definition ctr_xor :: "u8 list \<Rightarrow> u8 list \<Rightarrow> nat \<Rightarrow> u8 list \<Rightarrow> u8 list" where
  "ctr_xor k iv n buf =
     map (\<lambda>j. if j < n then buf ! j XOR ctr_byte (\<lambda>b. Cipher b k) (increment_iv 16) iv j else buf ! j)
       [0..<length buf]"

lemma ctr_xor_simps [simp]: "length (ctr_xor k iv n buf) = length buf" "ctr_xor k iv 0 buf = buf"
  by (simp_all add: ctr_xor_def map_nth)

lemma ctr_xor_Suc:
  "n < length buf \<Longrightarrow> ctr_xor k iv (Suc n) buf =
     (ctr_xor k iv n buf)[n := ctr_xor k iv n buf ! n XOR ctr_byte (\<lambda>b. Cipher b k) (increment_iv 16) iv n]"
  by (rule nth_equalityI) (auto simp: ctr_xor_def nth_list_update less_Suc_eq)

lemma ctr_xor_twice: "ctr_xor k iv n (ctr_xor k iv n buf) = buf"
  by (rule nth_equalityI) (simp_all add: ctr_xor_def xor.assoc)

lemma CTR_loop_byte:
  "i < len \<Longrightarrow> unat i < length buf \<Longrightarrow> bi \<noteq> 16 \<Longrightarrow>
     CTR_loop len i bi buffer ctx buf
     = CTR_loop len (i + 1) (bi + 1) buffer ctx (buf[unat i := buf ! unat i XOR buffer ! bi])"
  by (subst CTR_loop.simps) simp

lemma CTR_loop_block:
  "i < len \<Longrightarrow> unat i < length buf \<Longrightarrow>
     CTR_loop len i 16 buffer (ctx\<lparr>Iv := iv\<rparr>) buf
     = CTR_loop len (i + 1) 1 (Cipher iv (RoundKey ctx)) (ctx\<lparr>Iv := increment_iv 16 iv\<rparr>)
         (buf[unat i := buf ! unat i XOR Cipher iv (RoundKey ctx) ! 0])"
  by (subst CTR_loop.simps) simp

text \<open>The key stream position that \<open>bi\<close> and \<open>buffer\<close> stand for before byte \<open>n\<close>.\<close>

definition ctr_position :: "u8 list \<Rightarrow> u8 list \<Rightarrow> nat \<Rightarrow> nat \<Rightarrow> u8 list \<Rightarrow> bool" where
  "ctr_position k iv n bi buffer \<longleftrightarrow>
     (if n mod 16 = 0 then bi = 16
      else bi = n mod 16 \<and> buffer = Cipher ((increment_iv 16 ^^ (n div 16)) iv) k)"

lemma blocks_used:
  "(n + 15) div 16 = (if n mod 16 = 0 then n div 16 else Suc (n div 16))"
  "(Suc n + 15) div 16 = Suc (n div 16)" for n :: nat
proof -
  obtain q r where n: "n = 16 * q + r" "r < 16"
    by (metis mod_less_divisor mult_div_mod_eq zero_less_numeral)
  show "(n + 15) div 16 = (if n mod 16 = 0 then n div 16 else Suc (n div 16))"
    and "(Suc n + 15) div 16 = Suc (n div 16)"
    using n(2) unfolding n(1) by (auto intro!: div_nat_eqI)
qed

lemma CTR_loop_from:
  assumes "unat len \<le> length buf" and "n \<le> unat len" and "ctr_position (RoundKey ctx) iv n bi buffer"
  shows "CTR_loop len (of_nat n) bi buffer (ctx\<lparr>Iv := (increment_iv 16 ^^ ((n + 15) div 16)) iv\<rparr>)
           (ctr_xor (RoundKey ctx) iv n buf)
       = Some (ctx\<lparr>Iv := (increment_iv 16 ^^ ((unat len + 15) div 16)) iv\<rparr>,
               ctr_xor (RoundKey ctx) iv (unat len) buf)"
  using assms(2,3)
proof (induction "unat len - n" arbitrary: n bi buffer)
  case 0
  then have "n = unat len" by simp
  then show ?case by (subst CTR_loop.simps) simp
next
  case (Suc m)
  define inc where "inc = increment_iv 16"
  define out where "out = ctr_xor (RoundKey ctx) iv n buf"
  define stream where "stream = Cipher ((inc ^^ (n div 16)) iv) (RoundKey ctx)"
  have n: "n < unat len" using Suc(2) by simp
  have len32: "unat len < 4294967296" using unsigned_less [of len] by simp
  have w: "unat (of_nat n :: u32) = n" "(of_nat n :: u32) < len"
    using n len32 by (simp_all add: unat_of_nat word_less_nat_alt)
  have out: "ctr_xor (RoundKey ctx) iv (Suc n) buf = out[n := out ! n XOR stream ! (n mod 16)]"
    using n assms(1) by (simp add: out_def stream_def inc_def ctr_xor_Suc ctr_byte_def)
  have len: "n < length out" using n assms(1) by (simp add: out_def)
  have step: "CTR_loop len (of_nat n) bi buffer (ctx\<lparr>Iv := (inc ^^ ((n + 15) div 16)) iv\<rparr>) out
      = CTR_loop len (of_nat n + 1) (n mod 16 + 1) stream (ctx\<lparr>Iv := (inc ^^ ((Suc n + 15) div 16)) iv\<rparr>)
          (out[n := out ! n XOR stream ! (n mod 16)])"
  proof (cases "n mod 16 = 0")
    case True
    then have d: "(n + 15) div 16 = n div 16" "(Suc n + 15) div 16 = Suc (n div 16)"
      by (simp_all add: blocks_used)
    have "bi = 16" using True Suc.prems(2) by (simp only: ctr_position_def if_True)
    then show ?thesis
      unfolding d True using CTR_loop_block [OF w(2), of out buffer "(inc ^^ (n div 16)) iv" ctx] len
      by (simp only: w(1) stream_def inc_def funpow.simps o_apply add_0)
  next
    case False
    then have d: "(Suc n + 15) div 16 = (n + 15) div 16" by (simp add: blocks_used)
    have "bi = n mod 16" "buffer = stream" "n mod 16 \<noteq> 16"
      using False Suc.prems(2) by (simp_all add: ctr_position_def stream_def inc_def)
    then show ?thesis
      unfolding d using CTR_loop_byte [OF w(2), of out bi stream] len by (simp only: w(1)) blast
  qed
  have "ctr_position (RoundKey ctx) iv (Suc n) (n mod 16 + 1) stream"
    by (auto simp: ctr_position_def stream_def inc_def mod_Suc div_Suc)
  then have "CTR_loop len (of_nat (Suc n)) (n mod 16 + 1) stream
        (ctx\<lparr>Iv := (increment_iv 16 ^^ ((Suc n + 15) div 16)) iv\<rparr>) (ctr_xor (RoundKey ctx) iv (Suc n) buf)
      = Some (ctx\<lparr>Iv := (increment_iv 16 ^^ ((unat len + 15) div 16)) iv\<rparr>, ctr_xor (RoundKey ctx) iv (unat len) buf)"
    using Suc(2) n by (intro Suc(1)) simp_all
  then show ?case
    using step by (simp add: out out_def inc_def add.commute)
qed

lemma CTR_xcrypt:
  assumes "unat len \<le> length buf"
  shows "AES_CTR_xcrypt_buffer buffer ctx buf len
     = Some (ctx\<lparr>Iv := (increment_iv 16 ^^ ((unat len + 15) div 16)) (Iv ctx)\<rparr>,
             ctr_xor (RoundKey ctx) (Iv ctx) (unat len) buf)"
  using CTR_loop_from [OF assms, of 0 ctx "Iv ctx" 16 buffer]
  by (simp add: AES_CTR_xcrypt_buffer_def ctr_position_def)

text \<open>
  C12: \<^verbatim>\<open>AES_CTR_xcrypt_buffer\<close> returns for every length up to the size of the buffer, whatever
  its local \<^verbatim>\<open>buffer\<close> held: byte \<open>j\<close> of the message is combined with byte \<open>j mod 16\<close> of the encryption
  of the counter block advanced \<open>j div 16\<close> times, the bytes behind the message stay, and the
  context holds the next unused counter block.
\<close>

theorem AES_CTR_xcrypt_is_CTR:
  assumes "unat len \<le> length buf"
  shows "\<exists>buf'. AES_CTR_xcrypt_buffer buffer ctx buf len
       = Some (ctx\<lparr>Iv := (increment_iv 16 ^^ ((unat len + 15) div 16)) (Iv ctx)\<rparr>, buf')
     \<and> length buf' = length buf
     \<and> (\<forall>j < length buf. buf' ! j =
          (if j < unat len
           then buf ! j XOR Cipher ((increment_iv 16 ^^ (j div 16)) (Iv ctx)) (RoundKey ctx) ! (j mod 16)
           else buf ! j))"
  using CTR_xcrypt [OF assms, of buffer ctx] by (simp add: ctr_xor_def ctr_byte_def)

theorem AES_CTR_xcrypt_is_CTR_witness:
  "AES_CTR_xcrypt_buffer [] \<lparr>RoundKey = replicate 176 1, Iv = replicate 16 0xff\<rparr> (replicate 40 7) 33 \<noteq> None"
  using AES_CTR_xcrypt_is_CTR [of 33 "replicate 40 7" "[]" "\<lparr>RoundKey = replicate 176 1, Iv = replicate 16 0xff\<rparr>"]
  by auto

text \<open>
  CTR is its own inverse: a second pass over the buffer under the same key and counter
  block restores it.
\<close>

theorem AES_CTR_involution:
  assumes "unat len \<le> length buf"
  shows "\<exists>ctx' buf'. AES_CTR_xcrypt_buffer b1 ctx buf len = Some (ctx', buf')
     \<and> AES_CTR_xcrypt_buffer b2 ctx buf' len = Some (ctx', buf)"
  using CTR_xcrypt assms by (simp add: ctr_xor_twice)

theorem AES_CTR_involution_witness:
  "\<exists>ctx' buf'. AES_CTR_xcrypt_buffer [] \<lparr>RoundKey = replicate 176 1, Iv = replicate 16 0xff\<rparr> (replicate 40 7) 33 = Some (ctx', buf')
     \<and> AES_CTR_xcrypt_buffer [1] \<lparr>RoundKey = replicate 176 1, Iv = replicate 16 0xff\<rparr> buf' 33 = Some (ctx', replicate 40 7)"
  by (rule AES_CTR_involution) simp

section \<open>ECB\<close>

text \<open>
  C30: the ECB calls undo each other on the first 16 bytes of any buffer and leave the rest, and
  for a context set up by \<^verbatim>\<open>AES_init_ctx\<close> the encryption is that of FIPS-197.
\<close>

theorem AES_ECB_round_trip:
  assumes "16 \<le> length buf"
  shows "AES_ECB_decrypt ctx (AES_ECB_encrypt ctx buf) = buf
     \<and> drop 16 (AES_ECB_encrypt ctx buf) = drop 16 buf
     \<and> (length key = 16 \<and> length (RoundKey ctx) = 176 \<longrightarrow>
          take 16 (AES_ECB_encrypt (AES_init_ctx ctx key) buf) = fips_cipher key (take 16 buf))"
  using assms
  by (simp add: AES_ECB_encrypt_def AES_ECB_decrypt_def AES_init_ctx_def in_block_def block_at_def
      InvCipher_Cipher Cipher_fips)

theorem AES_ECB_round_trip_witness:
  "take 16 (AES_ECB_encrypt (AES_init_ctx \<lparr>RoundKey = replicate 176 1, Iv = []\<rparr> (replicate 16 3)) (replicate 64 7))
     = fips_cipher (replicate 16 3) (replicate 16 7)"
  using AES_ECB_round_trip [of "replicate 64 7" "\<lparr>RoundKey = replicate 176 1, Iv = []\<rparr>" "replicate 16 3"] by simp

end
