(* ===== verification/AES_App.thy ===== *)
theory AES_App
  imports AES_Modes Checkpoint_Recovery
begin

text \<open>
  src/sw/applications/AES_app/main.c: the ECB test vectors run on the device. The locals of the
  test functions are values; the machine is touched by the two volatile stores and by
  \<^verbatim>\<open>Store_Checkpoint\<close>, and what \<^verbatim>\<open>printf\<close> writes is returned as a string. \<^verbatim>\<open>struct AES_ctx\<close> is
  uninitialised on the stack, so its content is an argument.
\<close>

section \<open>The program\<close>

definition test_key :: "u8 list" where
  "test_key =
     [0x2b, 0x7e, 0x15, 0x16, 0x28, 0xae, 0xd2, 0xa6, 0xab, 0xf7, 0x15, 0x88, 0x09, 0xcf, 0x4f, 0x3c]"

definition test_plain :: "u8 list" where
  "test_plain =
     [0x6b, 0xc1, 0xbe, 0xe2, 0x2e, 0x40, 0x9f, 0x96, 0xe9, 0x3d, 0x7e, 0x11, 0x73, 0x93, 0x17, 0x2a]"

definition test_cipher :: "u8 list" where
  "test_cipher =
     [0x3a, 0xd7, 0x7b, 0xb4, 0x0d, 0x7a, 0x36, 0x60, 0xa8, 0x9e, 0xca, 0xf3, 0x24, 0x66, 0xef, 0x97]"

definition plain_text :: "u8 list" where
  "plain_text = test_plain @
     [0xae, 0x2d, 0x8a, 0x57, 0x1e, 0x03, 0xac, 0x9c, 0x9e, 0xb7, 0x6f, 0xac, 0x45, 0xaf, 0x8e, 0x51,
      0x30, 0xc8, 0x1c, 0x46, 0xa3, 0x5c, 0xe4, 0x11, 0xe5, 0xfb, 0xc1, 0x19, 0x1a, 0x0a, 0x52, 0xef,
      0xf6, 0x9f, 0x24, 0x45, 0xdf, 0x4f, 0x9b, 0x17, 0xad, 0x2b, 0x41, 0x7b, 0xe6, 0x6c, 0x37, 0x10]"

abbreviation newline :: string where "newline \<equiv> [CHR 0x0A]"

text \<open>\<^verbatim>\<open>printf("%.2x", b)\<close>.\<close>

definition hex_byte :: "u8 \<Rightarrow> string" where
  "hex_byte b = [''0123456789abcdef'' ! (unat b div 16), ''0123456789abcdef'' ! (unat b mod 16)]"

definition phex :: "u8 list \<Rightarrow> string" where
  "phex str = concat (map (\<lambda>i. hex_byte (str ! i)) [0..<16]) @ newline"

definition test_encrypt_ecb :: "csr_warl \<Rightarrow> u32 \<Rightarrow> AES_ctx \<Rightarrow> machine \<Rightarrow> (machine \<times> string \<times> int) option" where
  "test_encrypt_ecb W exit_pc ctx m =
     (let P = 0x9000;
          m = store_word P 0x0 m;
          m = store_word (P + 4) 0x0 m
      in case Store_Checkpoint W exit_pc m of
           None \<Rightarrow> None
         | Some m \<Rightarrow>
             let ctx = AES_init_ctx ctx test_key;
                 buf = AES_ECB_encrypt ctx test_plain
             in if take 16 test_cipher = take 16 buf
                then Some (m, ''SUCCESS!'' @ newline, 0)
                else Some (m, ''FAILURE!'' @ newline, 1))"

definition test_decrypt_ecb :: "AES_ctx \<Rightarrow> string \<times> int" where
  "test_decrypt_ecb ctx =
     (let ctx = AES_init_ctx ctx test_key;
          buf = AES_ECB_decrypt ctx test_cipher
      in if take 16 test_plain = take 16 buf
         then (''ECB decrypt: '' @ ''SUCCESS!'' @ newline, 0)
         else (''ECB decrypt: '', 1))"

text \<open>The loop body that encrypts block \<open>i\<close> in place and prints it.\<close>

definition verbose_block :: "AES_ctx \<Rightarrow> nat \<Rightarrow> u8 list \<times> string \<Rightarrow> u8 list \<times> string" where
  "verbose_block ctx i = (\<lambda>(text, out).
     let text = take (i * 16) text @ AES_ECB_encrypt ctx (drop (i * 16) text)
     in (text, out @ phex (drop (i * 16) text)))"

definition test_encrypt_ecb_verbose :: "AES_ctx \<Rightarrow> string" where
  "test_encrypt_ecb_verbose ctx =
     ''ECB encrypt verbose:'' @ newline @ newline @ ''plain text:'' @ newline
     @ concat (map (\<lambda>i. phex (drop (i * 16) plain_text)) [0..<4]) @ newline
     @ ''key:'' @ newline @ phex test_key @ newline @ ''ciphertext:'' @ newline
     @ snd (for_loop 4 (verbose_block (AES_init_ctx ctx test_key)) (plain_text, [])) @ newline"

definition main_aes :: "csr_warl \<Rightarrow> u32 \<Rightarrow> AES_ctx \<Rightarrow> machine \<Rightarrow> (machine \<times> string \<times> int) option" where
  "main_aes W exit_pc ctx m =
     (case test_encrypt_ecb W exit_pc ctx m of
        None \<Rightarrow> None
      | Some (m, out, exit) \<Rightarrow> Some (m, out, 0))"

section \<open>Evaluating the reference cipher\<close>

text \<open>The key schedule from its last four words on, each word computed once.\<close>

definition next_word :: "nat \<Rightarrow> u8 list \<Rightarrow> u8 list \<Rightarrow> u8 list" where
  "next_word i a d = map2 (XOR) a
     (if i mod 4 = 0 then map2 (XOR) (map getSBoxValue (rotate1 d)) [Rcon ! (i div 4), 0, 0, 0] else d)"

fun words_from words_step where
  "words_from 0 i a b c d = []"
| "words_from (Suc n) i a b c d = words_step n i b c d (next_word i a d)"
| "words_step n i b c d e = e # words_from n (i + 1) b c d e"

lemma words_from_numeral:
  "words_from (numeral n) i a b c d = words_step (pred_numeral n) i b c d (next_word i a d)"
  by (simp add: numeral_eq_Suc)

lemma next_word_key:
  assumes "4 \<le> i" and "i < 44"
  shows "next_word i (key_word key (i - 4)) (key_word key (i - 1)) = key_word key i"
proof -
  have "i mod 4 = 0 \<Longrightarrow> 1 \<le> i div 4 \<and> i div 4 \<le> 10" using assms by auto
  then show ?thesis
    using assms(1) unfolding key_word.simps [of key i]
    by (simp add: next_word_def Rcon_constant getSBoxValue_fips cong: map_cong)
qed

lemma words_from_key:
  "4 \<le> i \<Longrightarrow> i + n \<le> 44 \<Longrightarrow>
     words_from n i (key_word key (i - 4)) (key_word key (i - 3)) (key_word key (i - 2)) (key_word key (i - 1))
     = map (key_word key) [i..<i + n]"
proof (induction n arbitrary: i)
  case (Suc n)
  have "words_from n (Suc i) (key_word key (i - 3)) (key_word key (i - 2)) (key_word key (i - 1)) (key_word key i)
      = map (key_word key) [Suc i..<Suc i + n]"
    using Suc.IH [of "Suc i"] Suc.prems
    by (simp add: Suc_diff_le numeral_eq_Suc)
  moreover have "next_word i (key_word key (i - 4)) (key_word key (i - 1)) = key_word key i"
    using Suc.prems by (intro next_word_key) simp_all
  ultimately show ?case
    by (simp add: upt_conv_Cons del: upt_Suc)
qed simp

text \<open>The expanded test key, and the rounds on the test block, by evaluation.\<close>

lemma test_key_first:
  "key_word test_key 0 = [0x2b, 0x7e, 0x15, 0x16]" "key_word test_key (Suc 0) = [0x28, 0xae, 0xd2, 0xa6]"
  "key_word test_key 2 = [0xab, 0xf7, 0x15, 0x88]" "key_word test_key 3 = [0x09, 0xcf, 0x4f, 0x3c]"
  by (simp_all add: key_word.simps test_key_def)

lemma test_schedule:
  "map (key_word test_key) [4..<44] =
     [[0xa0, 0xfa, 0xfe, 0x17], [0x88, 0x54, 0x2c, 0xb1], [0x23, 0xa3, 0x39, 0x39], [0x2a, 0x6c, 0x76, 0x05],
      [0xf2, 0xc2, 0x95, 0xf2], [0x7a, 0x96, 0xb9, 0x43], [0x59, 0x35, 0x80, 0x7a], [0x73, 0x59, 0xf6, 0x7f],
      [0x3d, 0x80, 0x47, 0x7d], [0x47, 0x16, 0xfe, 0x3e], [0x1e, 0x23, 0x7e, 0x44], [0x6d, 0x7a, 0x88, 0x3b],
      [0xef, 0x44, 0xa5, 0x41], [0xa8, 0x52, 0x5b, 0x7f], [0xb6, 0x71, 0x25, 0x3b], [0xdb, 0x0b, 0xad, 0x00],
      [0xd4, 0xd1, 0xc6, 0xf8], [0x7c, 0x83, 0x9d, 0x87], [0xca, 0xf2, 0xb8, 0xbc], [0x11, 0xf9, 0x15, 0xbc],
      [0x6d, 0x88, 0xa3, 0x7a], [0x11, 0x0b, 0x3e, 0xfd], [0xdb, 0xf9, 0x86, 0x41], [0xca, 0x00, 0x93, 0xfd],
      [0x4e, 0x54, 0xf7, 0x0e], [0x5f, 0x5f, 0xc9, 0xf3], [0x84, 0xa6, 0x4f, 0xb2], [0x4e, 0xa6, 0xdc, 0x4f],
      [0xea, 0xd2, 0x73, 0x21], [0xb5, 0x8d, 0xba, 0xd2], [0x31, 0x2b, 0xf5, 0x60], [0x7f, 0x8d, 0x29, 0x2f],
      [0xac, 0x77, 0x66, 0xf3], [0x19, 0xfa, 0xdc, 0x21], [0x28, 0xd1, 0x29, 0x41], [0x57, 0x5c, 0x00, 0x6e],
      [0xd0, 0x14, 0xf9, 0xa8], [0xc9, 0xee, 0x25, 0x89], [0xe1, 0x3f, 0x0c, 0xc8], [0xb6, 0x63, 0x0c, 0xa6]]"
proof -
  have "map (key_word test_key) [4..<44] =
      words_from 40 4 (key_word test_key 0) (key_word test_key (Suc 0)) (key_word test_key 2) (key_word test_key 3)"
    using words_from_key [of 4 40 test_key] by (simp del: upt_rec_numeral)
  then show ?thesis
    by (simp add: test_key_first words_from_numeral next_word_def getSBoxValue_def sbox_def Rcon_def
        del: upt_rec_numeral)
qed

lemma upt_words:
  "[4..<44] = [4, 5, 6, 7, 8, 9, 10, 11, 12, 13, 14, 15, 16, 17, 18, 19, 20, 21, 22, 23, 24, 25,
     26, 27, 28, 29, 30, 31, 32, 33, 34, 35, 36, 37, 38, 39, 40, 41, 42, 43]"
  "[Suc 0..<10] = [Suc 0, 2, 3, 4, 5, 6, 7, 8, 9]"
  by code_simp+

lemmas test_words = test_schedule [unfolded upt_words list.map list.inject]

lemma fips_test_vector: "fips_cipher test_key test_plain = test_cipher"
  by (simp add: fips_cipher_def fips_round_def fips_add_def fips_shift_def fips_mix_def upt_16
      upt_words test_plain_def test_cipher_def test_key_first test_words
      gf_mul_2 gf_mul_3 xtime_def getSBoxValue_fips [symmetric] getSBoxValue_def sbox_def)

section \<open>The test program passes\<close>

lemma lengths_test [simp]:
  "length test_key = 16" "length test_plain = 16" "length test_cipher = 16" "length plain_text = 64"
  by (simp_all add: test_key_def test_plain_def test_cipher_def plain_text_def)

lemma ECB_encrypt_key:
  assumes "length (RoundKey ctx) = 176" and "16 \<le> length buf"
  shows "AES_ECB_encrypt (AES_init_ctx ctx test_key) buf = fips_cipher test_key (take 16 buf) @ drop 16 buf"
  using assms
  by (simp add: AES_ECB_encrypt_def AES_init_ctx_def in_block_def block_at_def Cipher_fips)

lemma test_cipher_block:
  "length (RoundKey ctx) = 176 \<Longrightarrow> AES_ECB_encrypt (AES_init_ctx ctx test_key) test_plain = test_cipher"
  by (simp add: ECB_encrypt_key fips_test_vector)

lemma test_plain_block:
  assumes "length (RoundKey ctx) = 176"
  shows "AES_ECB_decrypt (AES_init_ctx ctx test_key) test_cipher = test_plain"
proof -
  have "Cipher test_plain (RoundKey (AES_init_ctx ctx test_key)) = test_cipher"
    using assms by (simp add: AES_init_ctx_def Cipher_fips fips_test_vector)
  then show ?thesis
    by (metis (no_types, lifting) AES_ECB_decrypt_def AES_BLOCKLEN_def InvCipher_Cipher append_Nil2
        block_at_def drop0 drop_all in_block_def lengths_test(2,3) order_refl plus_nat.add_0
        self_append_conv2 take0 take_all)
qed

text \<open>
  C23: the application's self-test passes on every run: whatever the uninitialised context
  holds, \<^verbatim>\<open>AES_init_ctx\<close>, \<^verbatim>\<open>AES_ECB_encrypt\<close> and \<^verbatim>\<open>AES_ECB_decrypt\<close> map the test block to
  its known cipher text and back, so \<^verbatim>\<open>test_encrypt_ecb\<close> prints SUCCESS and returns 0 whenever
  its checkpoint returns, and so does \<^verbatim>\<open>test_decrypt_ecb\<close>.
\<close>

theorem AES_app_self_test:
  assumes "length (RoundKey ctx) = 176"
    and "Store_Checkpoint W exit_pc (store_word 0x9004 0 (store_word 0x9000 0 m)) = Some m'"
  shows "test_encrypt_ecb W exit_pc ctx m = Some (m', ''SUCCESS!'' @ newline, 0)
     \<and> main_aes W exit_pc ctx m = Some (m', ''SUCCESS!'' @ newline, 0)
     \<and> test_decrypt_ecb ctx = (''ECB decrypt: SUCCESS!'' @ newline, 0)"
  using assms
  by (simp add: test_encrypt_ecb_def test_decrypt_ecb_def main_aes_def test_cipher_block test_plain_block)

theorem AES_app_self_test_witness:
  "\<exists>m'. test_encrypt_ecb csr_plain 0x500 \<lparr>RoundKey = replicate 176 7, Iv = []\<rparr> (deep_core, sample_soc)
     = Some (m', ''SUCCESS!'' @ newline, 0)"
proof -
  obtain s where s: "store_word 0x9004 0 (store_word 0x9000 0 (deep_core, sample_soc)) = (deep_core, sample_soc\<lparr>ram := s\<rparr>)"
    by (simp add: store_word.simps bus_write_def is_private_def is_wrapper_def)
  have "checkpoint_layout deep_core (sample_soc\<lparr>ram := s\<rparr>) 1"
    using sample_layout by (simp add: checkpoint_layout_def copy_address_def)
  then obtain m' where m': "Store_Checkpoint csr_plain 0x500 (deep_core, sample_soc\<lparr>ram := s\<rparr>) = Some m'"
    using checkpoint_saved_state [of deep_core "sample_soc\<lparr>ram := s\<rparr>" 1 csr_plain "0x500"] by blast
  show ?thesis
    using AES_app_self_test [of "\<lparr>RoundKey = replicate 176 7, Iv = []\<rparr>" csr_plain "0x500" "(deep_core, sample_soc)" m']
    by (simp add: s m')
qed

definition text_block :: "nat \<Rightarrow> u8 list" where
  "text_block i = take 16 (drop (i * 16) plain_text)"

lemma phex_take: "phex (take 16 b) = phex b"
  by (simp add: phex_def upt_16)

lemma phex_prefix: "length b = 16 \<Longrightarrow> phex (b @ rest) = phex b"
  using phex_take [of "b @ rest"] by simp

lemma verbose_loop:
  assumes "length (RoundKey ctx) = 176"
  shows "n \<le> 4 \<Longrightarrow> fold (verbose_block (AES_init_ctx ctx test_key)) [0..<n] (plain_text, []) =
     (concat (map (\<lambda>i. fips_cipher test_key (text_block i)) [0..<n]) @ drop (n * 16) plain_text,
      concat (map (\<lambda>i. phex (fips_cipher test_key (text_block i))) [0..<n]))"
proof (induction n)
  case (Suc n)
  define done_part where "done_part = concat (map (\<lambda>i. fips_cipher test_key (text_block i)) [0..<n])"
  have len: "length done_part = n * 16"
    unfolding done_part_def by (induction n) simp_all
  have "16 \<le> length (drop (n * 16) plain_text)" using Suc.prems by simp
  then have "verbose_block (AES_init_ctx ctx test_key) n (done_part @ drop (n * 16) plain_text, out) =
      (done_part @ fips_cipher test_key (text_block n) @ drop (Suc n * 16) plain_text,
       out @ phex (fips_cipher test_key (text_block n)))" for out
    using len by (simp add: verbose_block_def ECB_encrypt_key [OF assms] phex_prefix text_block_def)
  then show ?case
    using Suc by (simp add: done_part_def)
qed simp

text \<open>
  \<^verbatim>\<open>test_encrypt_ecb_verbose\<close> encrypts its four blocks in place, one after the other, and
  prints for each the FIPS-197 encryption of that block of the original text.
\<close>

theorem AES_verbose_output:
  assumes "length (RoundKey ctx) = 176"
  shows "test_encrypt_ecb_verbose ctx =
     ''ECB encrypt verbose:'' @ newline @ newline @ ''plain text:'' @ newline
     @ concat (map (\<lambda>i. phex (text_block i)) [0..<4]) @ newline
     @ ''key:'' @ newline @ phex test_key @ newline @ ''ciphertext:'' @ newline
     @ concat (map (\<lambda>i. phex (fips_cipher test_key (text_block i))) [0..<4]) @ newline"
proof -
  have "phex (drop (i * 16) plain_text) = phex (text_block i)" for i
    by (simp add: text_block_def phex_take)
  then have "concat (map (\<lambda>i. phex (drop (i * 16) plain_text)) [0..<4]) = concat (map (\<lambda>i. phex (text_block i)) [0..<4])"
    by (intro arg_cong [of _ _ concat] map_cong) simp_all
  then show ?thesis
    using verbose_loop [OF assms, of 4]
    by (simp only: test_encrypt_ecb_verbose_def for_loop_def snd_conv)
qed

theorem AES_verbose_output_witness:
  "length (RoundKey \<lparr>RoundKey = replicate 176 (0 :: u8), Iv = []\<rparr>) = 176 \<and>
   test_encrypt_ecb_verbose \<lparr>RoundKey = replicate 176 0, Iv = []\<rparr> \<noteq> []"
  using AES_verbose_output [of "\<lparr>RoundKey = replicate 176 0, Iv = []\<rparr>"] by simp

end
