(* ===== verification/CSR_Access.thy ===== *)
theory CSR_Access
  imports RISCV_Encoding
begin

text \<open>
  The CSR interface of the runtime: the addresses of
  src/sw/CB_device/lib/runtime/csr_registers.h and the access macros of csr.h, as functions on
  the CSRs of a hart. The addresses are checked against those of
  src/ip/CB_boot_rom/encoding.h, which the boot ROM is assembled with.
\<close>

section \<open>Addresses\<close>

text \<open>The \<^verbatim>\<open>CSR_REG_*\<close> macros, in the order of the file.\<close>

definition csr_regs_trap :: "(string \<times> u32) list" where
  "csr_regs_trap =
     [(''MSTATUS'', 0x300), (''MISA'', 0x301), (''MIE'', 0x304), (''MTVEC'', 0x305)]"

definition csr_regs_events :: "(string \<times> u32) list" where
  "csr_regs_events =
     [(''MCOUNTINHIBIT'', 0x320), (''MHPMEVENT3'', 0x323), (''MHPMEVENT4'', 0x324),
      (''MHPMEVENT5'', 0x325), (''MHPMEVENT6'', 0x326), (''MHPMEVENT7'', 0x327),
      (''MHPMEVENT8'', 0x328), (''MHPMEVENT9'', 0x329), (''MHPMEVENT10'', 0x32a),
      (''MHPMEVENT11'', 0x32b), (''MHPMEVENT12'', 0x32c), (''MHPMEVENT13'', 0x32d),
      (''MHPMEVENT14'', 0x32e), (''MHPMEVENT15'', 0x32f), (''MHPMEVENT16'', 0x330),
      (''MHPMEVENT17'', 0x331), (''MHPMEVENT18'', 0x332), (''MHPMEVENT19'', 0x333),
      (''MHPMEVENT20'', 0x334), (''MHPMEVENT21'', 0x335), (''MHPMEVENT22'', 0x336),
      (''MHPMEVENT23'', 0x337), (''MHPMEVENT24'', 0x338), (''MHPMEVENT25'', 0x339),
      (''MHPMEVENT26'', 0x33a), (''MHPMEVENT27'', 0x33b), (''MHPMEVENT28'', 0x33c),
      (''MHPMEVENT29'', 0x33d), (''MHPMEVENT30'', 0x33e), (''MHPMEVENT31'', 0x33f)]"

definition csr_regs_handling :: "(string \<times> u32) list" where
  "csr_regs_handling =
     [(''MSCRATCH'', 0x340), (''MEPC'', 0x341), (''MCAUSE'', 0x342), (''MTVAL'', 0x343),
      (''MIP'', 0x344), (''MSECCFG'', 0x390), (''MSECCFGH'', 0x391), (''PMPCFG0'', 0x3a0),
      (''PMPCFG1'', 0x3a1), (''PMPCFG2'', 0x3a2), (''PMPCFG3'', 0x3a3), (''PMPADDR0'', 0x3b0),
      (''PMPADDR1'', 0x3b1), (''PMPADDR2'', 0x3b2), (''PMPADDR3'', 0x3b3),
      (''PMPADDR4'', 0x3b4), (''PMPADDR5'', 0x3b5), (''PMPADDR6'', 0x3b6),
      (''PMPADDR7'', 0x3b7), (''PMPADDR8'', 0x3b8), (''PMPADDR9'', 0x3b9),
      (''PMPADDR10'', 0x3ba), (''PMPADDR11'', 0x3bb), (''PMPADDR12'', 0x3bc),
      (''PMPADDR13'', 0x3bd), (''PMPADDR14'', 0x3be), (''PMPADDR15'', 0x3bf),
      (''TSELECT'', 0x7a0), (''TDATA1'', 0x7a1), (''TDATA2'', 0x7a2), (''TDATA3'', 0x7a3),
      (''MCONTEXT'', 0x7a8), (''SCONTEXT'', 0x7aa), (''DCSR'', 0x7b0), (''DPC'', 0x7b1),
      (''DSCRATCH0'', 0x7b2), (''DSCRATCH1'', 0x7b3), (''CPUCTRL'', 0x7c0),
      (''SECURESEED'', 0x7c1)]"

definition csr_regs_counters :: "(string \<times> u32) list" where
  "csr_regs_counters =
     [(''MCYCLE'', 0xb00), (''MINSTRET'', 0xb02), (''MHPMCOUNTER3'', 0xb03),
      (''MHPMCOUNTER4'', 0xb04), (''MHPMCOUNTER5'', 0xb05), (''MHPMCOUNTER6'', 0xb06),
      (''MHPMCOUNTER7'', 0xb07), (''MHPMCOUNTER8'', 0xb08), (''MHPMCOUNTER9'', 0xb09),
      (''MHPMCOUNTER10'', 0xb0a), (''MHPMCOUNTER11'', 0xb0b), (''MHPMCOUNTER12'', 0xb0c),
      (''MHPMCOUNTER13'', 0xb0d), (''MHPMCOUNTER14'', 0xb0e), (''MHPMCOUNTER15'', 0xb0f),
      (''MHPMCOUNTER16'', 0xb10), (''MHPMCOUNTER17'', 0xb11), (''MHPMCOUNTER18'', 0xb12),
      (''MHPMCOUNTER19'', 0xb13), (''MHPMCOUNTER20'', 0xb14), (''MHPMCOUNTER21'', 0xb15),
      (''MHPMCOUNTER22'', 0xb16), (''MHPMCOUNTER23'', 0xb17), (''MHPMCOUNTER24'', 0xb18),
      (''MHPMCOUNTER25'', 0xb19), (''MHPMCOUNTER26'', 0xb1a), (''MHPMCOUNTER27'', 0xb1b),
      (''MHPMCOUNTER28'', 0xb1c), (''MHPMCOUNTER29'', 0xb1d), (''MHPMCOUNTER30'', 0xb1e),
      (''MHPMCOUNTER31'', 0xb1f)]"

definition csr_regs_counters_high :: "(string \<times> u32) list" where
  "csr_regs_counters_high =
     [(''MCYCLEH'', 0xb80), (''MINSTRETH'', 0xb82), (''MHPMCOUNTER3H'', 0xb83),
      (''MHPMCOUNTER4H'', 0xb84), (''MHPMCOUNTER5H'', 0xb85), (''MHPMCOUNTER6H'', 0xb86),
      (''MHPMCOUNTER7H'', 0xb87), (''MHPMCOUNTER8H'', 0xb88), (''MHPMCOUNTER9H'', 0xb89),
      (''MHPMCOUNTER10H'', 0xb8a), (''MHPMCOUNTER11H'', 0xb8b), (''MHPMCOUNTER12H'', 0xb8c),
      (''MHPMCOUNTER13H'', 0xb8d), (''MHPMCOUNTER14H'', 0xb8e), (''MHPMCOUNTER15H'', 0xb8f),
      (''MHPMCOUNTER16H'', 0xb90), (''MHPMCOUNTER17H'', 0xb91), (''MHPMCOUNTER18H'', 0xb92),
      (''MHPMCOUNTER19H'', 0xb93), (''MHPMCOUNTER20H'', 0xb94), (''MHPMCOUNTER21H'', 0xb95),
      (''MHPMCOUNTER22H'', 0xb96), (''MHPMCOUNTER23H'', 0xb97), (''MHPMCOUNTER24H'', 0xb98),
      (''MHPMCOUNTER25H'', 0xb99), (''MHPMCOUNTER26H'', 0xb9a), (''MHPMCOUNTER27H'', 0xb9b),
      (''MHPMCOUNTER28H'', 0xb9c), (''MHPMCOUNTER29H'', 0xb9d), (''MHPMCOUNTER30H'', 0xb9e),
      (''MHPMCOUNTER31H'', 0xb9f)]"

definition csr_regs_hart :: "(string \<times> u32) list" where
  "csr_regs_hart =
     [(''MHARTID'', 0xf14)]"

definition csr_registers :: "(string \<times> u32) list" where
  "csr_registers = csr_regs_trap @ csr_regs_events @ csr_regs_handling @ csr_regs_counters
     @ csr_regs_counters_high @ csr_regs_hart"

lemmas csr_regs_defs = csr_regs_trap_def csr_regs_events_def csr_regs_handling_def
  csr_regs_counters_def csr_regs_counters_high_def csr_regs_hart_def

section \<open>Access\<close>

text \<open>
  \<^verbatim>\<open>csrr\<close>, \<^verbatim>\<open>csrw\<close>, \<^verbatim>\<open>csrs\<close> and \<^verbatim>\<open>csrc\<close> on one hart. The mocked variants call functions that a
  test supplies and are not part of the program.
\<close>

definition CSR_READ :: "csr \<Rightarrow> core \<Rightarrow> u32" where
  "CSR_READ k c = csrs c k"

definition CSR_WRITE :: "csr_warl \<Rightarrow> csr \<Rightarrow> u32 \<Rightarrow> core \<Rightarrow> core" where
  "CSR_WRITE W k v c = c\<lparr>csrs := (csrs c)(k := W k (csrs c k) v)\<rparr>"

definition CSR_SET_BITS :: "csr_warl \<Rightarrow> csr \<Rightarrow> u32 \<Rightarrow> core \<Rightarrow> core" where
  "CSR_SET_BITS W k m c = c\<lparr>csrs := (csrs c)(k := W k (csrs c k) (csrs c k OR m))\<rparr>"

definition CSR_CLEAR_BITS :: "csr_warl \<Rightarrow> csr \<Rightarrow> u32 \<Rightarrow> core \<Rightarrow> core" where
  "CSR_CLEAR_BITS W k m c = c\<lparr>csrs := (csrs c)(k := W k (csrs c k) (csrs c k AND NOT m))\<rparr>"

text \<open>
  The macros of src/ip/CB_boot_rom/encoding.h for the same instructions; \<^verbatim>\<open>csrrw\<close>, \<^verbatim>\<open>csrrs\<close>
  and \<^verbatim>\<open>csrrc\<close> also hand out the old value.
\<close>

definition read_csr :: "csr \<Rightarrow> core \<Rightarrow> u32" where
  "read_csr k c = csrs c k"

definition write_csr :: "csr_warl \<Rightarrow> csr \<Rightarrow> u32 \<Rightarrow> core \<Rightarrow> core" where
  "write_csr W k v c = c\<lparr>csrs := (csrs c)(k := W k (csrs c k) v)\<rparr>"

definition swap_csr :: "csr_warl \<Rightarrow> csr \<Rightarrow> u32 \<Rightarrow> core \<Rightarrow> u32 \<times> core" where
  "swap_csr W k v c = (csrs c k, c\<lparr>csrs := (csrs c)(k := W k (csrs c k) v)\<rparr>)"

definition set_csr :: "csr_warl \<Rightarrow> csr \<Rightarrow> u32 \<Rightarrow> core \<Rightarrow> u32 \<times> core" where
  "set_csr W k m c = (csrs c k, c\<lparr>csrs := (csrs c)(k := W k (csrs c k) (csrs c k OR m))\<rparr>)"

definition clear_csr :: "csr_warl \<Rightarrow> csr \<Rightarrow> u32 \<Rightarrow> core \<Rightarrow> u32 \<times> core" where
  "clear_csr W k m c = (csrs c k, c\<lparr>csrs := (csrs c)(k := W k (csrs c k) (csrs c k AND NOT m))\<rparr>)"

lemma csr_macros_agree:
  "read_csr k c = CSR_READ k c" "write_csr W k v c = CSR_WRITE W k v c"
  "swap_csr W k v c = (CSR_READ k c, CSR_WRITE W k v c)"
  "set_csr W k v c = (CSR_READ k c, CSR_SET_BITS W k v c)"
  "clear_csr W k v c = (CSR_READ k c, CSR_CLEAR_BITS W k v c)"
  by (simp_all add: read_csr_def write_csr_def swap_csr_def set_csr_def clear_csr_def CSR_READ_def
      CSR_WRITE_def CSR_SET_BITS_def CSR_CLEAR_BITS_def)

section \<open>The two headers agree\<close>

text \<open>Ibex registers encoding.h has no name for; it calls the first debug scratch register differently.\<close>

definition ibex_csrs :: "string list" where
  "ibex_csrs = [''MCOUNTINHIBIT'', ''MSECCFG'', ''MSECCFGH'', ''MCONTEXT'', ''SCONTEXT'',
     ''DSCRATCH0'', ''CPUCTRL'', ''SECURESEED'']"

definition standard_csrs :: "(string \<times> u32) list \<Rightarrow> (string \<times> u32) list" where
  "standard_csrs t = filter (\<lambda>e. fst e \<notin> set ibex_csrs) t"

lemma standard_csrs_append: "standard_csrs (s @ t) = standard_csrs s @ standard_csrs t"
  by (simp add: standard_csrs_def)

lemma csr_counters_tables:
  "csr_regs_counters = take 31 csrs_counters_machine"
  "csr_regs_counters_high = drop 32 csrs_counters_high"
  "csr_regs_hart = drop 63 csrs_counters_machine"
  "tl csr_regs_events = take 29 (drop 31 csrs_counters_machine)"
  by (simp_all add: csr_regs_defs csrs_counters_machine_def csrs_counters_high_def)

lemma csr_handling_table:
  "set (standard_csrs csr_regs_trap) \<subseteq> set csrs_supervisor_machine"
  "set (standard_csrs csr_regs_handling) \<subseteq> set csrs_supervisor_machine"
  by (simp_all add: standard_csrs_def ibex_csrs_def csr_regs_defs csrs_supervisor_machine_def)

lemma csr_event_head: "standard_csrs csr_regs_events = tl csr_regs_events"
  by (simp add: standard_csrs_def ibex_csrs_def csr_regs_defs)

lemma csr_registers_ascending: "sorted_wrt (<) (map snd csr_registers)"
  by (simp add: csr_registers_def csr_regs_defs del: sorted_wrt.simps(2) add: sorted_wrt1 sorted_wrt2)

text \<open>
  The runtime and the boot ROM mean the same registers: every CSR of csr_registers.h that
  encoding.h names has the same address there, and no address is used twice.
\<close>

theorem csr_headers_agree:
  "set (standard_csrs csr_registers) \<subseteq> set csr_addresses \<and> distinct (map snd csr_registers)"
proof -
  have sub: "set (standard_csrs t) \<subseteq> set t" for t
    by (auto simp: standard_csrs_def)
  have tail: "set (tl csr_regs_events) \<subseteq> set csrs_counters_machine"
    unfolding csr_counters_tables(4) by (meson order_trans set_drop_subset set_take_subset)
  have "set (standard_csrs csr_registers) \<subseteq> set csr_addresses"
    using csr_handling_table tail sub [of csr_regs_counters] sub [of csr_regs_counters_high]
      sub [of csr_regs_hart] set_take_subset [of 31 csrs_counters_machine]
      set_drop_subset [of 32 csrs_counters_high] set_drop_subset [of 63 csrs_counters_machine]
    unfolding csr_registers_def csr_addresses_def standard_csrs_append csr_event_head set_append
      csr_counters_tables(1-3)
    by blast
  then show ?thesis
    using csr_registers_ascending by (simp add: strict_sorted_iff)
qed

end
