(* ===== verification/Error_Codes.thy ===== *)
theory Error_Codes
  imports SAP_Prelude
begin

text \<open>
  The status codes of the runtime: src/sw/CB_device/lib/runtime/absl_status.h and error.h. An
  error code is a word with an error number, a module and a status in it.
\<close>

section \<open>Status codes\<close>

datatype absl_status =
    kOk | kCancelled | kUnknown | kInvalidArgument | kDeadlineExceeded | kNotFound
  | kAlreadyExists | kPermissionDenied | kResourceExhausted | kFailedPrecondition | kAborted
  | kOutOfRange | kUnimplemented | kInternal | kUnavailable | kDataLoss | kUnauthenticated
  | kDoNotUseReserved

fun status_value :: "absl_status \<Rightarrow> u32" where
  "status_value kOk = 0"
| "status_value kCancelled = 1"
| "status_value kUnknown = 2"
| "status_value kInvalidArgument = 3"
| "status_value kDeadlineExceeded = 4"
| "status_value kNotFound = 5"
| "status_value kAlreadyExists = 6"
| "status_value kPermissionDenied = 7"
| "status_value kResourceExhausted = 8"
| "status_value kFailedPrecondition = 9"
| "status_value kAborted = 10"
| "status_value kOutOfRange = 11"
| "status_value kUnimplemented = 12"
| "status_value kInternal = 13"
| "status_value kUnavailable = 14"
| "status_value kDataLoss = 15"
| "status_value kUnauthenticated = 16"
| "status_value kDoNotUseReserved = 20"

section \<open>Error codes\<close>

datatype error_module = kModuleUnknown | kModuleUart | kModuleHmac | kModuleSigverify

fun module_value :: "error_module \<Rightarrow> u32" where
  "module_value kModuleUnknown = 0"
| "module_value kModuleUart = 0x4155"
| "module_value kModuleHmac = 0x4d48"
| "module_value kModuleSigverify = 0x5653"

definition ERROR_CODE :: "u32 \<Rightarrow> u32 \<Rightarrow> u32 \<Rightarrow> u32" where
  "ERROR_CODE error module status = push_bit 24 error OR push_bit 8 module OR status"

datatype system_error =
    kErrorOk | kErrorUartInvalidArgument | kErrorUartBadBaudRate | kErrorHmacInvalidArgument
  | kErrorSigverifyInvalidArgument | kErrorUnknown

fun error_value :: "system_error \<Rightarrow> u32" where
  "error_value kErrorOk = 0x739"
| "error_value kErrorUartInvalidArgument =
     ERROR_CODE 1 (module_value kModuleUart) (status_value kInvalidArgument)"
| "error_value kErrorUartBadBaudRate =
     ERROR_CODE 2 (module_value kModuleUart) (status_value kInvalidArgument)"
| "error_value kErrorHmacInvalidArgument =
     ERROR_CODE 1 (module_value kModuleHmac) (status_value kInvalidArgument)"
| "error_value kErrorSigverifyInvalidArgument =
     ERROR_CODE 1 (module_value kModuleSigverify) (status_value kInvalidArgument)"
| "error_value kErrorUnknown = 0xFFFFFFFF"

text \<open>\<^verbatim>\<open>RETURN_IF_ERROR(e)\<close>, with the rest of the function behind it.\<close>

definition RETURN_IF_ERROR :: "u32 \<Rightarrow> (unit \<Rightarrow> u32) \<Rightarrow> u32" where
  "RETURN_IF_ERROR e rest = (if e \<noteq> error_value kErrorOk then e else rest ())"

section \<open>Reading a code\<close>

definition error_field :: "u32 \<Rightarrow> u32" where "error_field c = drop_bit 24 c"
definition module_field :: "u32 \<Rightarrow> u32" where "module_field c = drop_bit 8 c AND 0xFFFF"
definition status_field :: "u32 \<Rightarrow> u32" where "status_field c = c AND 0xFF"

lemma low_bits:
  fixes x :: u32
  assumes "x < 2 ^ n" and "bit x k"
  shows "k < n"
proof -
  have "x = x AND mask n" using less_mask_eq [OF assms(1)] by simp
  then have "bit (x AND mask n) k" using assms(2) by simp
  then show ?thesis by (simp add: bit_simps)
qed

lemma code_fields:
  assumes "error < 2 ^ 8" "module < 2 ^ 16" "status < 2 ^ 8"
  shows "error_field (ERROR_CODE error module status) = error"
    and "module_field (ERROR_CODE error module status) = module"
    and "status_field (ERROR_CODE error module status) = status"
proof -
  note b = low_bits [OF assms(1)] low_bits [OF assms(2)] low_bits [OF assms(3)]
  have m: "(0xFFFF :: u32) = mask 16" "(0xFF :: u32) = mask 8"
    by (simp_all add: mask_eq_exp_minus_1)
  show "error_field (ERROR_CODE error module status) = error"
    by (rule bit_word_eqI) (auto simp: error_field_def ERROR_CODE_def bit_simps dest: b)
  show "module_field (ERROR_CODE error module status) = module"
    unfolding module_field_def m
    by (rule bit_word_eqI) (auto simp: ERROR_CODE_def bit_simps dest: b)
  show "status_field (ERROR_CODE error module status) = status"
    unfolding status_field_def m
    by (rule bit_word_eqI) (auto simp: ERROR_CODE_def bit_simps dest: b)
qed

text \<open>
  An error code built by \<^verbatim>\<open>ERROR_\<close> can be taken apart again: number, module and status come
  back, for numbers and statuses of eight bits and modules of sixteen, so distinct triples
  have distinct codes.
\<close>

theorem ERROR_CODE_round_trip:
  assumes "error < 2 ^ 8" "module < 2 ^ 16" "status < 2 ^ 8"
  shows "error_field (ERROR_CODE error module status) = error
     \<and> module_field (ERROR_CODE error module status) = module
     \<and> status_field (ERROR_CODE error module status) = status"
  using code_fields [OF assms] by simp

theorem ERROR_CODE_round_trip_witness:
  "module_field (ERROR_CODE 2 (module_value kModuleUart) (status_value kInvalidArgument)) = 0x4155"
  using ERROR_CODE_round_trip [of 2 "module_value kModuleUart" "status_value kInvalidArgument"] by simp

lemma error_value_inject: "error_value e = error_value f \<longleftrightarrow> e = f"
  by (cases e; cases f) (simp_all add: ERROR_CODE_def)

text \<open>
  The codes of \<^verbatim>\<open>system_error\<close> are pairwise distinct, every module error has status
  \<^verbatim>\<open>kInvalidArgument\<close>, and \<^verbatim>\<open>RETURN_IF_ERROR\<close> stops at each of them but \<^verbatim>\<open>kErrorOk\<close>.
\<close>

theorem system_errors_stop:
  "(error_value e = error_value f \<longleftrightarrow> e = f)
   \<and> RETURN_IF_ERROR (error_value e) rest = (if e = kErrorOk then rest () else error_value e)"
  using error_value_inject [of e kErrorOk] by (simp add: RETURN_IF_ERROR_def error_value_inject del: error_value.simps)

end
