(* ===== verification/Runtime_Handlers.thy ===== *)
theory Runtime_Handlers
  imports CSR_Access
begin

text \<open>
  The default exception and interrupt handlers of src/sw/CB_device/lib/runtime/handler.c. All of
  them are weak symbols an application may replace; these are the library's own. Each hands
  messages to \<^verbatim>\<open>_writestr\<close> and stays in an endless loop, so its result is the list of C strings
  handed over before the loop; a handler that returned would be \<open>Returns\<close>.
\<close>

section \<open>C strings\<close>

text \<open>What a callee sees of a \<^verbatim>\<open>char\<close> array: the bytes before the first zero.\<close>

definition c_string :: "u8 list \<Rightarrow> u8 list" where
  "c_string bs = takeWhile (\<lambda>b. b \<noteq> 0) bs"

definition ascii :: "string \<Rightarrow> u8 list" where
  "ascii s = map (\<lambda>c. of_nat (of_char c)) s"

section \<open>Handlers\<close>

datatype outcome = Returns | Spins "u8 list list"

datatype exc_id =
  kInstMisa | kInstAccFault | kInstIllegalFault | kBkpt | kLoadAccFault | kStrAccFault | kECall

fun exc_value :: "exc_id \<Rightarrow> u32" where
  "exc_value kInstMisa = 0"
| "exc_value kInstAccFault = 1"
| "exc_value kInstIllegalFault = 2"
| "exc_value kBkpt = 3"
| "exc_value kLoadAccFault = 5"
| "exc_value kStrAccFault = 7"
| "exc_value kECall = 11"

definition kIdMax :: u32 where "kIdMax = 31"

text \<open>The array \<^verbatim>\<open>p\<close>: the bytes of \<^verbatim>\<open>mtval\<close> from the top, a line feed and the terminator.\<close>

definition mtval_message :: "u32 \<Rightarrow> u8 list" where
  "mtval_message mtval =
     [ucast (drop_bit 24 mtval AND 0xFF), ucast (drop_bit 16 mtval AND 0xFF),
      ucast (drop_bit 8 mtval AND 0xFF), ucast (mtval AND 0xFF), 10, 0]"

definition print_exc_msg :: "string \<Rightarrow> core \<Rightarrow> outcome" where
  "print_exc_msg msg c =
     (let mtval = CSR_READ MTVAL c
      in Spins [c_string (ascii msg), c_string (ascii ''MTVAL value is ''), c_string (mtval_message mtval)])"

definition handler_instr_acc_fault :: "core \<Rightarrow> outcome" where
  "handler_instr_acc_fault =
     print_exc_msg (''Instruction access fault, mtval shows fault address'' @ [CHR 0x0A])"

definition handler_instr_ill_fault :: "core \<Rightarrow> outcome" where
  "handler_instr_ill_fault =
     print_exc_msg (''Illegal Instruction fault, mtval shows instruction content'' @ [CHR 0x0A])"

definition handler_bkpt :: "core \<Rightarrow> outcome" where
  "handler_bkpt =
     print_exc_msg (''Breakpoint triggerd, mtval shows the breakpoint address'' @ [CHR 0x0A])"

definition handler_lsu_fault :: "core \<Rightarrow> outcome" where
  "handler_lsu_fault =
     print_exc_msg (''Load/Store fault, mtval shows the fault address'' @ [CHR 0x0A])"

definition handler_ecall :: "core \<Rightarrow> outcome" where
  "handler_ecall c = Spins [c_string (ascii (''Environment call encountered'' @ [CHR 0x0A]))]"

definition handler_irq_software :: "core \<Rightarrow> outcome" where
  "handler_irq_software c = Spins [c_string (ascii (''Software IRQ triggered!'' @ [CHR 0x0A]))]"

definition handler_irq_timer :: "core \<Rightarrow> outcome" where
  "handler_irq_timer c = Spins [c_string (ascii (''Timer IRQ triggered!'' @ [CHR 0x0A]))]"

definition handler_irq_external :: "core \<Rightarrow> outcome" where
  "handler_irq_external c = Spins [c_string (ascii (''External IRQ triggered!'' @ [CHR 0x0A]))]"

definition handler_exception :: "core \<Rightarrow> outcome" where
  "handler_exception c =
     (let exc_cause = CSR_READ MCAUSE c AND kIdMax in
      if exc_cause = exc_value kInstMisa then handler_instr_acc_fault c
      else if exc_cause = exc_value kInstAccFault then handler_instr_acc_fault c
      else if exc_cause = exc_value kInstIllegalFault then handler_instr_ill_fault c
      else if exc_cause = exc_value kBkpt then handler_bkpt c
      else if exc_cause = exc_value kLoadAccFault then handler_lsu_fault c
      else if exc_cause = exc_value kStrAccFault then handler_lsu_fault c
      else if exc_cause = exc_value kECall then handler_ecall c
      else Spins [])"

lemmas exc_handler_defs = print_exc_msg_def handler_instr_acc_fault_def handler_instr_ill_fault_def
  handler_bkpt_def handler_lsu_fault_def handler_ecall_def CSR_READ_def

section \<open>Dispatch\<close>

text \<open>
  The messages of the handler, by the exception codes of src/ip/CB_boot_rom/encoding.h.
\<close>

definition cause_code :: "string \<Rightarrow> u32" where
  "cause_code n = the (map_of causes n)"

lemma cause_codes:
  "cause_code ''MISALIGNED_FETCH'' = 0" "cause_code ''FETCH_ACCESS'' = 1"
  "cause_code ''ILLEGAL_INSTRUCTION'' = 2" "cause_code ''BREAKPOINT'' = 3"
  "cause_code ''MISALIGNED_LOAD'' = 4" "cause_code ''LOAD_ACCESS'' = 5"
  "cause_code ''MISALIGNED_STORE'' = 6" "cause_code ''STORE_ACCESS'' = 7"
  "cause_code ''USER_ECALL'' = 8" "cause_code ''SUPERVISOR_ECALL'' = 9"
  "cause_code ''HYPERVISOR_ECALL'' = 10" "cause_code ''MACHINE_ECALL'' = 11"
  "cause_code ''FETCH_PAGE_FAULT'' = 12" "cause_code ''LOAD_PAGE_FAULT'' = 13"
  "cause_code ''STORE_PAGE_FAULT'' = 15"
  by (simp_all add: cause_code_def causes_def)

text \<open>
  C32: the exception codes of handler.h are those of encoding.h, and \<^verbatim>\<open>handler_exception\<close> sends
  each to its handler: fetch faults, illegal instructions, breakpoints, load and store access
  faults and machine calls. It never returns, whatever the cause.
\<close>

theorem handler_exception_dispatch:
  "map exc_value [kInstMisa, kInstAccFault, kInstIllegalFault, kBkpt, kLoadAccFault, kStrAccFault, kECall]
     = map cause_code [''MISALIGNED_FETCH'', ''FETCH_ACCESS'', ''ILLEGAL_INSTRUCTION'', ''BREAKPOINT'',
         ''LOAD_ACCESS'', ''STORE_ACCESS'', ''MACHINE_ECALL'']
   \<and> map (\<lambda>n. handler_exception (c\<lparr>csrs := (csrs c)(MCAUSE := cause_code n)\<rparr>))
       [''MISALIGNED_FETCH'', ''FETCH_ACCESS'', ''ILLEGAL_INSTRUCTION'', ''BREAKPOINT'',
        ''LOAD_ACCESS'', ''STORE_ACCESS'', ''MACHINE_ECALL'']
     = map (\<lambda>h. h c) [handler_instr_acc_fault, handler_instr_acc_fault, handler_instr_ill_fault,
         handler_bkpt, handler_lsu_fault, handler_lsu_fault, handler_ecall]
   \<and> handler_exception d \<noteq> Returns"
proof (intro conjI)
  show "handler_exception d \<noteq> Returns"
    by (simp add: handler_exception_def exc_handler_defs Let_def)
qed (simp_all add: cause_codes handler_exception_def kIdMax_def CSR_READ_def exc_handler_defs)

text \<open>
  C33: only the low five bits of \<^verbatim>\<open>mcause\<close> count, so an interrupt that reaches the handler is
  taken for the exception with its number (a machine external interrupt for an environment
  call); misaligned accesses, page faults and calls from other modes, which have no case,
  end in the endless loop without a message.
\<close>

theorem handler_exception_aliases:
  "handler_exception c = handler_exception (c\<lparr>csrs := (csrs c)(MCAUSE := csrs c MCAUSE AND 31)\<rparr>)
   \<and> handler_exception (c\<lparr>csrs := (csrs c)(MCAUSE := 0x8000000B)\<rparr>) = handler_ecall c
   \<and> map (\<lambda>n. handler_exception (c\<lparr>csrs := (csrs c)(MCAUSE := cause_code n)\<rparr>))
       [''MISALIGNED_LOAD'', ''MISALIGNED_STORE'', ''USER_ECALL'', ''SUPERVISOR_ECALL'',
        ''HYPERVISOR_ECALL'', ''FETCH_PAGE_FAULT'', ''LOAD_PAGE_FAULT'', ''STORE_PAGE_FAULT'']
     = replicate 8 (Spins [])"
  by (simp add: cause_codes handler_exception_def kIdMax_def exc_handler_defs and.assoc Let_def
      replicate_numeral)

section \<open>What the messages show\<close>

lemma top_byte_zero: "(ucast (drop_bit 24 v AND 0xFF) :: u8) = 0 \<longleftrightarrow> v < 2 ^ 24" for v :: u32
proof -
  have m: "(0xFF :: u32) = mask 8" by (simp add: mask_eq_exp_minus_1)
  have "(ucast (drop_bit 24 v AND 0xFF) :: u8) = 0 \<longleftrightarrow> drop_bit 24 v = 0"
  proof
    assume "(ucast (drop_bit 24 v AND 0xFF) :: u8) = 0"
    then have "\<not> bit v (24 + n)" if "n < 8" for n
      using that unfolding m by (auto simp: bit_eq_iff bit_simps)
    then have "\<not> bit v (24 + n)" for n
      using bit_imp_le_length [of v "24 + n"] by (cases "n < 8") auto
    then show "drop_bit 24 v = 0"
      by (intro bit_word_eqI) (simp add: bit_simps)
  qed simp
  also have "\<dots> \<longleftrightarrow> unat v div 2 ^ 24 = 0"
    by (simp add: drop_bit_eq_div word_unat_eq_iff unat_div)
  also have "\<dots> \<longleftrightarrow> v < 2 ^ 24"
    by (simp add: word_less_nat_alt div_eq_0_iff)
  finally show ?thesis .
qed

lemma takeWhile_terminated: "takeWhile (\<lambda>b. b \<noteq> 0) (bs @ [0]) = bs \<longleftrightarrow> 0 \<notin> set bs" for bs :: "u8 list"
  by (induction bs) auto

text \<open>
  The line after \<^verbatim>\<open>MTVAL value is\<close> is the raw value as a C string, most significant byte
  first: for an address or instruction below \<open>2^24\<close> it is empty, and it ends at the first
  zero byte of any other.
\<close>

theorem mtval_line:
  "(c_string (mtval_message v) = [] \<longleftrightarrow> v < 2 ^ 24)
   \<and> (c_string (mtval_message v) = butlast (mtval_message v) \<longleftrightarrow> 0 \<notin> set (butlast (mtval_message v)))"
proof
  show "c_string (mtval_message v) = [] \<longleftrightarrow> v < 2 ^ 24"
    using top_byte_zero [of v] by (simp add: c_string_def mtval_message_def)
  have "mtval_message v = butlast (mtval_message v) @ [0]"
    by (simp add: mtval_message_def)
  then show "c_string (mtval_message v) = butlast (mtval_message v) \<longleftrightarrow> 0 \<notin> set (butlast (mtval_message v))"
    using takeWhile_terminated [of "butlast (mtval_message v)"] by (simp only: c_string_def)
qed

end
