(* ===== verification/Syscalls.thy ===== *)
theory Syscalls
  imports Runtime_Handlers Safety_Handlers
begin

text \<open>
  The system calls newlib gets from src/sw/CB_device/lib/runtime/syscalls.c, on a state that
  holds \<^verbatim>\<open>errno\<close> and the program break. Not in the repository, and arguments here, are the
  numbers of newlib's \<^verbatim>\<open>errno.h\<close> and \<^verbatim>\<open>sys/stat.h\<close> and the linker's heap symbols; a C string
  argument is its bytes. \<^verbatim>\<open>ptrdiff_t\<close> and pointers are 32 bits wide and wrap around.
\<close>

section \<open>State\<close>

datatype errno_name = ENOSYS | ENOMEM | EAGAIN | EINVAL | EMLINK | ENOENT | ECHILD

type_synonym errno_values = "errno_name \<Rightarrow> int"

record sys =
  errno :: int
  brk :: u32

type_synonym sys_call = "sys \<Rightarrow> int \<times> sys"

text \<open>\<^verbatim>\<open>errno = e; return -1;\<close>\<close>

definition fail :: "int \<Rightarrow> sys_call" where
  "fail e s = (- 1, s\<lparr>errno := e\<rparr>)"

section \<open>Calls that only report an error\<close>

definition nanosleep :: "errno_values \<Rightarrow> u32 \<Rightarrow> u32 \<Rightarrow> sys_call" where
  "nanosleep E p1 p2 = fail (E ENOSYS)"

definition sys_access :: "errno_values \<Rightarrow> u32 \<Rightarrow> int \<Rightarrow> sys_call" where
  "sys_access E p1 n2 = fail (E ENOSYS)"

definition sys_chdir :: "errno_values \<Rightarrow> u32 \<Rightarrow> sys_call" where
  "sys_chdir E p1 = fail (E ENOSYS)"

definition sys_chmod :: "errno_values \<Rightarrow> u32 \<Rightarrow> int \<Rightarrow> sys_call" where
  "sys_chmod E p1 n2 = fail (E ENOSYS)"

definition sys_chown :: "errno_values \<Rightarrow> u32 \<Rightarrow> int \<Rightarrow> int \<Rightarrow> sys_call" where
  "sys_chown E p1 n2 n3 = fail (E ENOSYS)"

definition sys_execve :: "errno_values \<Rightarrow> u32 \<Rightarrow> u32 \<Rightarrow> u32 \<Rightarrow> sys_call" where
  "sys_execve E p1 p2 p3 = fail (E ENOMEM)"

definition sys_faccessat :: "errno_values \<Rightarrow> int \<Rightarrow> u32 \<Rightarrow> int \<Rightarrow> int \<Rightarrow> sys_call" where
  "sys_faccessat E n1 p2 n3 n4 = fail (E ENOSYS)"

definition sys_fork :: "errno_values \<Rightarrow> sys_call" where
  "sys_fork E = fail (E EAGAIN)"

definition sys_fstatat :: "errno_values \<Rightarrow> int \<Rightarrow> u32 \<Rightarrow> u32 \<Rightarrow> int \<Rightarrow> sys_call" where
  "sys_fstatat E n1 p2 p3 n4 = fail (E ENOSYS)"

definition sys_ftime :: "errno_values \<Rightarrow> u32 \<Rightarrow> sys_call" where
  "sys_ftime E p1 = fail (E ENOSYS)"

definition sys_kill :: "errno_values \<Rightarrow> int \<Rightarrow> int \<Rightarrow> sys_call" where
  "sys_kill E n1 n2 = fail (E EINVAL)"

definition sys_link :: "errno_values \<Rightarrow> u32 \<Rightarrow> u32 \<Rightarrow> sys_call" where
  "sys_link E p1 p2 = fail (E EMLINK)"

definition sys_lstat :: "errno_values \<Rightarrow> u32 \<Rightarrow> u32 \<Rightarrow> sys_call" where
  "sys_lstat E p1 p2 = fail (E ENOSYS)"

definition sys_openat :: "errno_values \<Rightarrow> int \<Rightarrow> u32 \<Rightarrow> int \<Rightarrow> int \<Rightarrow> sys_call" where
  "sys_openat E n1 p2 n3 n4 = fail (E ENOSYS)"

definition sys_unlink :: "errno_values \<Rightarrow> u32 \<Rightarrow> sys_call" where
  "sys_unlink E p1 = fail (E ENOENT)"

definition sys_utime :: "errno_values \<Rightarrow> u32 \<Rightarrow> u32 \<Rightarrow> sys_call" where
  "sys_utime E p1 p2 = fail (E ENOSYS)"

definition sys_wait :: "errno_values \<Rightarrow> u32 \<Rightarrow> sys_call" where
  "sys_wait E p1 = fail (E ECHILD)"

definition sys_gettimeofday :: "errno_values \<Rightarrow> u32 \<Rightarrow> u32 \<Rightarrow> sys_call" where
  "sys_gettimeofday E p1 p2 = fail (- E ENOSYS)"

text \<open>\<^verbatim>\<open>_getcwd\<close> returns a pointer.\<close>

definition sys_getcwd :: "errno_values \<Rightarrow> u32 \<Rightarrow> u32 \<Rightarrow> sys \<Rightarrow> u32 \<times> sys" where
  "sys_getcwd E p1 n2 s = (0, s\<lparr>errno := - E ENOSYS\<rparr>)"

section \<open>Calls with a fixed answer\<close>

definition sys_close :: "int \<Rightarrow> sys_call" where
  "sys_close n1 s = (- 1, s)"

definition sys_open :: "u32 \<Rightarrow> int \<Rightarrow> int \<Rightarrow> sys_call" where
  "sys_open p1 n2 n3 s = (- 1, s)"

definition sys_sysconf :: "int \<Rightarrow> sys_call" where
  "sys_sysconf n1 s = (- 1, s)"

definition sys_times :: "u32 \<Rightarrow> sys_call" where
  "sys_times p1 s = (- 1, s)"

definition sys_getpid :: "sys_call" where
  "sys_getpid s = (1, s)"

definition sys_lseek :: "int \<Rightarrow> int \<Rightarrow> int \<Rightarrow> sys_call" where
  "sys_lseek n1 n2 n3 s = (0, s)"

definition sys_read :: "int \<Rightarrow> u32 \<Rightarrow> int \<Rightarrow> sys_call" where
  "sys_read n1 p2 n3 s = (0, s)"

definition STDOUT_FILENO :: int where "STDOUT_FILENO = 1"

definition sys_isatty :: "int \<Rightarrow> sys_call" where
  "sys_isatty file s = ((if file = STDOUT_FILENO then 1 else 0), s)"

text \<open>The status buffer; only its mode is written.\<close>

record stat =
  st_mode :: u32

definition sys_fstat :: "u32 \<Rightarrow> int \<Rightarrow> stat \<Rightarrow> sys \<Rightarrow> int \<times> stat \<times> sys" where
  "sys_fstat S_IFCHR file st s = (0, st\<lparr>st_mode := S_IFCHR\<rparr>, s)"

definition sys_stat :: "u32 \<Rightarrow> u32 \<Rightarrow> stat \<Rightarrow> sys \<Rightarrow> int \<times> stat \<times> sys" where
  "sys_stat S_IFCHR file st s = (0, st\<lparr>st_mode := S_IFCHR\<rparr>, s)"

section \<open>Output\<close>

text \<open>
  A write to the standard output reaches the end of the function, whose body is commented out,
  without a \<^verbatim>\<open>return\<close>: nothing is written and the value is undefined, \<open>None\<close> here.
\<close>

definition sys_write :: "errno_values \<Rightarrow> int \<Rightarrow> u8 list \<Rightarrow> int \<Rightarrow> sys \<Rightarrow> int option \<times> sys" where
  "sys_write E file ptr len s =
     (if file \<noteq> STDOUT_FILENO then (Some (- 1), s\<lparr>errno := E ENOSYS\<rparr>) else (None, s))"

definition sys_write_r :: "errno_values \<Rightarrow> int \<Rightarrow> u8 list \<Rightarrow> int \<Rightarrow> sys \<Rightarrow> int option \<times> sys" where
  "sys_write_r E fd buf cnt = sys_write E fd buf cnt"

definition writestr :: "errno_values \<Rightarrow> u8 list \<Rightarrow> sys \<Rightarrow> sys" where
  "writestr E ptr s = snd (sys_write E STDOUT_FILENO ptr (int (length (c_string ptr)) + 1) s)"

definition unimplemented_syscall :: "errno_values \<Rightarrow> sys \<Rightarrow> sys" where
  "unimplemented_syscall E = writestr E (ascii (''Unimplemented system call called!'' @ [CHR 0x0A]))"

section \<open>Heap\<close>

text \<open>\<open>lo\<close> and \<open>hi\<close> are \<^verbatim>\<open>__heap_start\<close> and \<^verbatim>\<open>__heap_end\<close>; the break starts at \<open>lo\<close>.\<close>

definition initial_sys :: "u32 \<Rightarrow> sys" where
  "initial_sys lo = \<lparr>errno = 0, brk = lo\<rparr>"

definition sys_brk :: "u32 \<Rightarrow> u32 \<Rightarrow> u32 \<Rightarrow> sys_call" where
  "sys_brk lo hi addr s =
     (if lo \<le> addr \<and> addr \<le> hi then (0, s\<lparr>brk := addr\<rparr>) else (- 1, s))"

definition sys_sbrk :: "u32 \<Rightarrow> u32 \<Rightarrow> u32 \<Rightarrow> sys \<Rightarrow> u32 \<times> sys" where
  "sys_sbrk lo hi incr s =
     (if lo = hi then (0, s)
      else if brk s + incr < hi \<and> lo \<le> brk s + incr then (brk s, s\<lparr>brk := brk s + incr\<rparr>)
      else (- 1, s))"

section \<open>Ending the program\<close>

definition sys_raise :: "errno_values \<Rightarrow> int \<Rightarrow> sys_call" where
  "sys_raise E sig s = (let (pid, s) = sys_getpid s in sys_kill E pid sig s)"

definition abort :: "csr_warl \<Rightarrow> (machine \<Rightarrow> machine) \<Rightarrow> machine \<Rightarrow> machine option" where
  "abort W wake m = exit_fn W wake m"

section \<open>Errors\<close>

lemmas error_call_defs = fail_def nanosleep_def sys_access_def sys_chdir_def sys_chmod_def sys_chown_def
  sys_execve_def sys_faccessat_def sys_fork_def sys_fstatat_def sys_ftime_def sys_kill_def sys_link_def
  sys_lstat_def sys_openat_def sys_unlink_def sys_utime_def sys_wait_def sys_gettimeofday_def
  sys_close_def sys_open_def sys_sysconf_def sys_times_def sys_getpid_def sys_raise_def sys_getcwd_def

text \<open>
  Every call the device does not support answers -1 and changes nothing but \<^verbatim>\<open>errno\<close>, which
  names the reason; \<^verbatim>\<open>raise\<close> is \<^verbatim>\<open>kill\<close> of the only process. \<^verbatim>\<open>_gettimeofday\<close> and \<^verbatim>\<open>_getcwd\<close>
  store the negated number, and \<^verbatim>\<open>_close\<close>, \<^verbatim>\<open>_open\<close>, \<^verbatim>\<open>_sysconf\<close> and \<^verbatim>\<open>_times\<close> report no reason.
\<close>

theorem unsupported_calls:
  "map (\<lambda>f. f s) [nanosleep E p q, sys_access E p n, sys_chdir E p, sys_chmod E p n, sys_chown E p n k,
       sys_faccessat E n p k l, sys_fstatat E n p q k, sys_ftime E p, sys_lstat E p q,
       sys_openat E n p k l, sys_utime E p q] = replicate 11 (- 1, s\<lparr>errno := E ENOSYS\<rparr>)
   \<and> map (\<lambda>f. f s) [sys_execve E p q r, sys_fork E, sys_kill E n k, sys_link E p q, sys_unlink E p,
       sys_wait E p, sys_raise E n, sys_gettimeofday E p q]
     = map (\<lambda>e. (- 1, s\<lparr>errno := e\<rparr>)) [E ENOMEM, E EAGAIN, E EINVAL, E EMLINK, E ENOENT, E ECHILD,
         E EINVAL, - E ENOSYS]
   \<and> sys_getcwd E p q s = (0, s\<lparr>errno := - E ENOSYS\<rparr>)
   \<and> map (\<lambda>f. f s) [sys_close n, sys_open p n k, sys_sysconf n, sys_times p] = replicate 4 (- 1, s)"
  by (simp add: error_call_defs replicate_numeral)

text \<open>
  Nothing the library prints leaves the device: \<^verbatim>\<open>_writestr\<close>, and with it the messages of the
  handlers, changes no state, a write to the standard output has no defined result, and one to
  any other file fails.
\<close>

theorem output_is_lost:
  "writestr E msg s = s \<and> unimplemented_syscall E s = s
   \<and> sys_write_r E STDOUT_FILENO buf n s = (None, s)
   \<and> sys_write_r E (STDOUT_FILENO + 1) buf n s = (Some (- 1), s\<lparr>errno := E ENOSYS\<rparr>)"
  by (simp add: writestr_def unimplemented_syscall_def sys_write_r_def sys_write_def)

section \<open>The heap\<close>

text \<open>Any sequence of the two calls that move the break.\<close>

datatype heap_call = Brk u32 | Sbrk u32

primrec heap_call_effect :: "u32 \<Rightarrow> u32 \<Rightarrow> heap_call \<Rightarrow> sys \<Rightarrow> sys" where
  "heap_call_effect lo hi (Brk addr) s = snd (sys_brk lo hi addr s)"
| "heap_call_effect lo hi (Sbrk incr) s = snd (sys_sbrk lo hi incr s)"

definition heap_ok :: "u32 \<Rightarrow> u32 \<Rightarrow> sys \<Rightarrow> bool" where
  "heap_ok lo hi s \<longleftrightarrow> lo \<le> brk s \<and> brk s \<le> hi"

lemma heap_ok_initial: "lo \<le> hi \<Longrightarrow> heap_ok lo hi (initial_sys lo)"
  by (simp add: heap_ok_def initial_sys_def)

lemma heap_ok_step: "heap_ok lo hi s \<Longrightarrow> heap_ok lo hi (heap_call_effect lo hi c s)"
  by (cases c) (auto simp: heap_ok_def sys_brk_def sys_sbrk_def)

lemma heap_ok_run: "heap_ok lo hi s \<Longrightarrow> heap_ok lo hi (fold (heap_call_effect lo hi) cs s)"
  by (induction cs arbitrary: s) (simp_all add: heap_ok_step)

lemma errno_run: "errno (fold (heap_call_effect lo hi) cs s) = errno s"
proof (induction cs arbitrary: s)
  case (Cons c cs)
  have "errno (heap_call_effect lo hi c s) = errno s"
    by (cases c) (simp_all add: sys_brk_def sys_sbrk_def)
  then show ?case by (simp add: Cons.IH)
qed simp

text \<open>
  C26: whatever sequence of \<^verbatim>\<open>_brk\<close> and \<^verbatim>\<open>_sbrk\<close> calls a program makes, with any addresses and any
  increments, positive or negative, the break stays between the start and the end of the heap;
  and no failing call says why, for \<^verbatim>\<open>errno\<close> is never set.
\<close>

theorem heap_break_in_bounds:
  assumes "lo \<le> hi"
  shows "heap_ok lo hi (fold (heap_call_effect lo hi) cs (initial_sys lo))
    \<and> errno (fold (heap_call_effect lo hi) cs (initial_sys lo)) = 0"
  using assms by (simp add: heap_ok_run heap_ok_initial errno_run) (simp add: initial_sys_def)

theorem heap_break_in_bounds_witness:
  "heap_ok 0x100 0x180 (fold (heap_call_effect 0x100 0x180) [Sbrk 64, Sbrk (- 96), Brk 0x200, Sbrk 32]
     (initial_sys 0x100))"
  using heap_break_in_bounds [of "0x100" "0x180" "[Sbrk 64, Sbrk (- 96), Brk 0x200, Sbrk 32]"]
  by simp

section \<open>Allocation\<close>

text \<open>
  The contract of an allocator that moves a top: a granted request gets the addresses from the
  old top to the new one, a refused one changes nothing. \<open>allocs\<close> is a run of requests with
  its answers.
\<close>

primrec allocs :: "('n \<Rightarrow> 's \<Rightarrow> 'a \<times> 's) \<Rightarrow> 'n list \<Rightarrow> 's \<Rightarrow> ('a \<times> 'n) list \<times> 's" where
  "allocs alloc [] s = ([], s)"
| "allocs alloc (n # ns) s =
     (let (p, s1) = alloc n s; (bs, s2) = allocs alloc ns s1 in ((p, n) # bs, s2))"

definition granted_blocks ::
    "('a \<Rightarrow> nat) \<Rightarrow> ('n \<Rightarrow> nat) \<Rightarrow> ('a \<Rightarrow> bool) \<Rightarrow> ('a \<times> 'n) list \<Rightarrow> (nat \<times> nat) list" where
  "granted_blocks start extent granted bs =
     map (\<lambda>(p, n). (start p, extent n)) (filter (\<lambda>(p, n). granted p) bs)"

locale bump_allocator =
  fixes alloc :: "'n \<Rightarrow> 's \<Rightarrow> 'a \<times> 's"
    and start :: "'a \<Rightarrow> nat"
    and extent :: "'n \<Rightarrow> nat"
    and granted :: "'a \<Rightarrow> bool"
    and top :: "'s \<Rightarrow> nat"
    and valid :: "'s \<Rightarrow> bool"
    and request :: "'n \<Rightarrow> bool"
  assumes grant: "\<lbrakk>valid s; request n; alloc n s = (p, s1); granted p\<rbrakk>
        \<Longrightarrow> start p = top s \<and> top s1 = top s + extent n"
    and refuse: "\<lbrakk>valid s; request n; alloc n s = (p, s1); \<not> granted p\<rbrakk> \<Longrightarrow> s1 = s"
    and alloc_valid: "\<lbrakk>valid s; request n; alloc n s = (p, s1)\<rbrakk> \<Longrightarrow> valid s1"
begin

abbreviation blocks :: "('a \<times> 'n) list \<Rightarrow> (nat \<times> nat) list" where
  "blocks \<equiv> granted_blocks start extent granted"

lemma top_mono: "\<lbrakk>valid s; request n; alloc n s = (p, s1)\<rbrakk> \<Longrightarrow> top s \<le> top s1"
  using grant refuse by (cases "granted p") fastforce+

lemma allocs_in_order:
  assumes "valid s" and "list_all request ns" and "allocs alloc ns s = (bs, t)"
  shows "valid t \<and> top t = top s + sum_list (map snd (blocks bs))
    \<and> (\<forall>(p, n) \<in> set (blocks bs). top s \<le> p \<and> p + n \<le> top t)
    \<and> sorted_wrt (\<lambda>(p, n) (q, m). p + n \<le> q) (blocks bs)"
  using assms
proof (induction ns arbitrary: s bs)
  case Nil
  then show ?case by (simp add: granted_blocks_def)
next
  case (Cons n ns)
  obtain p s1 where a: "alloc n s = (p, s1)" by (cases "alloc n s")
  obtain cs where c: "allocs alloc ns s1 = (cs, t)" and bs: "bs = (p, n) # cs"
    using Cons.prems a by (auto split: prod.splits)
  have s1: "valid s1" "top s \<le> top s1" using Cons.prems a alloc_valid top_mono by auto
  have IH: "valid t" "top t = top s1 + sum_list (map snd (blocks cs))"
    "\<forall>(p, n) \<in> set (blocks cs). top s1 \<le> p \<and> p + n \<le> top t"
    "sorted_wrt (\<lambda>(p, n) (q, m). p + n \<le> q) (blocks cs)"
    using Cons.IH [OF s1(1) _ c] Cons.prems by auto
  show ?case
  proof (cases "granted p")
    case True
    with Cons.prems a have "start p = top s" "top s1 = top s + extent n" using grant by auto
    with IH True show ?thesis by (fastforce simp: bs granted_blocks_def)
  next
    case False
    with Cons.prems a have "s1 = s" using refuse by auto
    with IH False show ?thesis by (fastforce simp: bs granted_blocks_def)
  qed
qed

end

definition sbrk_heap :: "u32 \<Rightarrow> u32 \<Rightarrow> sys \<Rightarrow> bool" where
  "sbrk_heap lo hi s \<longleftrightarrow> heap_ok lo hi s \<and> lo < hi \<and> unat hi - unat lo \<le> 2 ^ 31"

text \<open>
  A request below \<open>2 ^ 31\<close> cannot wrap around past the start of a heap no larger than that.
\<close>

lemma sbrk_no_wrap:
  assumes "sbrk_heap lo hi s" and "unat n < 2 ^ 31" and "brk s + n < hi" and "lo \<le> brk s + n"
  shows "unat (brk s + n) = unat (brk s) + unat n"
proof -
  have "unat (brk s) + unat n < 2 ^ 32"
  proof (rule ccontr)
    assume "\<not> unat (brk s) + unat n < 2 ^ 32"
    then have "unat (brk s + n) + 2 ^ 32 = unat (brk s) + unat n"
      by (simp add: unat_plus_if_size word_size)
    moreover have "unat (brk s) \<le> unat hi" "unat lo < unat hi" "unat hi - unat lo \<le> 2 ^ 31"
        "unat lo \<le> unat (brk s + n)"
      using assms by (simp_all add: sbrk_heap_def heap_ok_def word_le_nat_alt word_less_nat_alt)
    ultimately show False using assms(2) by simp
  qed
  then show ?thesis by (simp add: unat_plus_if_size word_size)
qed

lemma sbrk_cases:
  assumes "sbrk_heap lo hi s" and "unat n < 2 ^ 31" and "sys_sbrk lo hi n s = (p, t)"
  shows "p = - 1 \<and> t = s
    \<or> p \<noteq> - 1 \<and> p = brk s \<and> unat (brk t) = unat (brk s) + unat n \<and> brk t < hi"
proof (cases "brk s + n < hi \<and> lo \<le> brk s + n")
  case True
  have sum: "unat (brk s + n) = unat (brk s) + unat n"
    using assms(1,2) True sbrk_no_wrap by blast
  have "brk s \<le> brk s + n" by (simp add: word_le_nat_alt sum)
  then have "brk s < hi" using True le_less_trans by blast
  moreover have "hi \<le> - 1" by simp
  ultimately have "brk s \<noteq> - 1" by (metis leD)
  then show ?thesis using True assms sum by (auto simp: sys_sbrk_def sbrk_heap_def split: if_splits)
next
  case False
  then show ?thesis using assms by (auto simp: sys_sbrk_def sbrk_heap_def split: if_splits)
qed

text \<open>Whatever is requested, the break does not reach the end of the heap.\<close>

lemma allocs_below_end:
  assumes "lo < hi" and "brk s < hi"
  shows "brk (snd (allocs (sys_sbrk lo hi) ns s)) < hi"
  using assms(2)
proof (induction ns arbitrary: s)
  case (Cons n ns)
  have "brk (snd (sys_sbrk lo hi n s)) < hi" using assms(1) Cons.prems by (simp add: sys_sbrk_def)
  then show ?case using Cons.IH by (simp add: split_def Let_def)
qed simp

interpretation sbrk: bump_allocator "sys_sbrk lo hi" unat unat "\<lambda>p. p \<noteq> - 1" "\<lambda>s. unat (brk s)"
    "sbrk_heap lo hi" "\<lambda>n. unat n < 2 ^ 31"
  for lo hi
proof
  show "sbrk_heap lo hi t"
    if "sbrk_heap lo hi s" "unat n < 2 ^ 31" "sys_sbrk lo hi n s = (p, t)" for s n p t
    using that heap_ok_step [of lo hi s "Sbrk n"] by (simp add: sbrk_heap_def)
qed (use sbrk_cases in fastforce)+

text \<open>
  C14: on a non-empty heap of at most 2 GiB, the blocks that any sequence of \<^verbatim>\<open>_sbrk\<close> requests of
  less than 2 GiB each is granted lie between the start of the heap and the final break, in the order
  of the requests, and no two overlap. The break ends below the end of the heap, and has moved by
  exactly the sizes of the granted blocks: no byte is lost between them, and a refused request takes
  nothing.
\<close>

theorem sbrk_blocks_disjoint:
  assumes "lo < hi" and "unat hi - unat lo \<le> 2 ^ 31" and "list_all (\<lambda>n. unat n < 2 ^ 31) ns"
    and "allocs (sys_sbrk lo hi) ns (initial_sys lo) = (bs, t)"
  shows "(\<forall>(p, n) \<in> set (granted_blocks unat unat (\<lambda>p. p \<noteq> - 1) bs). unat lo \<le> p \<and> p + n \<le> unat (brk t))
    \<and> sorted_wrt (\<lambda>(p, n) (q, k). p + n \<le> q) (granted_blocks unat unat (\<lambda>p. p \<noteq> - 1) bs)
    \<and> unat (brk t) = unat lo + sum_list (map snd (granted_blocks unat unat (\<lambda>p. p \<noteq> - 1) bs))
    \<and> brk t < hi"
proof -
  have h: "sbrk_heap lo hi (initial_sys lo)"
    using assms by (simp add: sbrk_heap_def heap_ok_def initial_sys_def)
  have lo: "brk (initial_sys lo) = lo" by (simp add: initial_sys_def)
  note r = sbrk.allocs_in_order [OF h assms(3,4), unfolded lo]
  have "brk t < hi"
    using allocs_below_end [OF assms(1), of "initial_sys lo" ns] assms by (simp add: initial_sys_def)
  with r show ?thesis by blast
qed

theorem sbrk_blocks_disjoint_witness:
  "granted_blocks unat unat (\<lambda>p. p \<noteq> - 1)
     (fst (allocs (sys_sbrk 0x100 0x180) [64, 100, 32] (initial_sys 0x100))) = [(0x100, 64), (0x140, 32)]
   \<and> sorted_wrt (\<lambda>(p, n) (q, k). p + n \<le> q) [(0x100, 64), (0x140::nat, 32::nat)]
   \<and> brk (snd (allocs (sys_sbrk 0x100 0x180) [64, 100, 32] (initial_sys 0x100))) < 0x180"
proof -
  have a: "allocs (sys_sbrk 0x100 0x180) [64, 100, 32] (initial_sys 0x100)
      = ([(0x100, 64), (- 1, 100), (0x140, 32)], \<lparr>errno = 0, brk = 0x160\<rparr>)"
    by (simp add: sys_sbrk_def initial_sys_def)
  then show ?thesis
    using sbrk_blocks_disjoint [OF _ _ _ a] by (simp add: granted_blocks_def)
qed

text \<open>
  Without the bound on the request one can wrap around the address space: here a request of 512 MiB
  at a break near its top is granted, and moves the break down into the heap.
\<close>

lemma sbrk_wraps:
  "sys_sbrk 0x100 0xFFFFFFF0 0x20000000 \<lparr>errno = 0, brk = 0xF0000000\<rparr>
   = (0xF0000000, \<lparr>errno = 0, brk = 0x10000000\<rparr>)"
  by (simp add: sys_sbrk_def)

text \<open>
  C34: at the end of the heap the two calls disagree, from every break and with every increment.
  \<^verbatim>\<open>_brk\<close> accepts the end of the heap as the break. \<^verbatim>\<open>_sbrk\<close> refuses a request that would move the
  break there, and when the break is there after a call that call has failed, the query
  \<^verbatim>\<open>sbrk(0)\<close> included; so in any run of \<^verbatim>\<open>_sbrk\<close> calls from the initial break, with increments of
  either sign, the break stays strictly below the end and the last byte of the heap above it. On
  an empty heap \<^verbatim>\<open>_sbrk\<close> answers NULL, not its failure value, to every request.
\<close>

theorem sbrk_at_the_ends:
  assumes "lo < hi"
  shows "sys_brk lo hi hi s = (0, s\<lparr>brk := hi\<rparr>)
    \<and> (brk s + n = hi \<longrightarrow> sys_sbrk lo hi n s = (- 1, s))
    \<and> (brk (snd (sys_sbrk lo hi n s)) = hi \<longrightarrow> sys_sbrk lo hi n s = (- 1, s))
    \<and> brk (snd (allocs (sys_sbrk lo hi) ns (initial_sys lo))) < hi
    \<and> sys_sbrk lo lo n s = (0, s)"
  using assms allocs_below_end [OF assms, of "initial_sys lo" ns]
  by (auto simp: sys_brk_def sys_sbrk_def initial_sys_def)

theorem sbrk_at_the_ends_witness:
  "sys_sbrk 0x100 0x180 0x80 \<lparr>errno = 0, brk = 0x100\<rparr> = (- 1, \<lparr>errno = 0, brk = 0x100\<rparr>)
   \<and> brk (snd (allocs (sys_sbrk 0x100 0x180) [0x7F, 1, - 8, 9] (initial_sys 0x100))) < 0x180"
  using sbrk_at_the_ends [of "0x100" "0x180" "\<lparr>errno = 0, brk = 0x100\<rparr>" "0x80" "[0x7F, 1, - 8, 9]"] by simp

section \<open>Ending the program\<close>

lemma abort_None: "abort W wake m = None"
  by (simp add: abort_def exit_fn_def exit_spin_None)

end
