(* ===== verification/Spec2Isabelle.thy ===== *)
theory Spec2Isabelle
  imports SAP_Applications CB_Boot_ROM Encoding_Declarations Privileged_Fields TMR_Lockstep Safe_Controller AES_App
    CSR_Access Error_Codes Syscalls
begin

text \<open>
  Verification library of the software of SAP, a RISC-V computing block of three harts that can
  run apart (single mode) or together: in dual lockstep with rollback to a checkpoint
  (\<^verbatim>\<open>DCLS_MODE\<close>), in triple lockstep with voting (\<^verbatim>\<open>TCLS_MODE\<close>), or in plain lockstep. The
  harts share memory and the registers of the safe wrapper; software switches modes, the safety
  controller wakes, halts and interrupts the harts.

  \<^bold>\<open>The parts and their theories.\<close> A theory imports the parts it calls.

  \<^item> \<open>SAP_Prelude\<close>: words of 8 and 32 bits, byte-addressed memory with its 32-bit accesses, and
    the lemmas on them that every other theory uses.
  \<^item> \<open>SAP_Registers\<close>: base_address/base_address.h, cb_register/*.h, CB_Safety_Config.h. A register
    block is a record of its layout, \<open>reg_read\<close> and \<open>reg_write\<close> its two paths; the locale
    \<open>register_file\<close> is what software relies on, interpreted on both blocks.
  \<^item> \<open>RV_Hart\<close>: a hart (registers, CSRs, private block, trace of device writes), the bus, and the
    execution of the instructions that the inline assembly and the boot ROM use.
  \<^item> \<open>CB_Safety\<close>: every function of lib/safety/CB_Safety.c as instruction lists in source order.
    \<open>Context_Area\<close> reads the safe copy as a list of words. \<open>Safety_Handlers\<close> proves what entry,
    exit, the interrupt handlers, the register dump and \<^verbatim>\<open>_exit\<close> do to the complete hart.
  \<^item> \<open>RISCV_Encoding\<close>, \<open>Encoding_Declarations\<close>, \<open>Privileged_Fields\<close>: the tables, declaration lists
    and field masks of ip/CB_boot_rom/encoding.h, and the decoder of the boot ROM's words.
  \<^item> \<open>CB_Boot_ROM\<close>: the image of CB_boot_rom.h, decoded with those tables and compared with the
    listing of CB_boot_rom.S, and \<open>rom_run\<close>, its execution from an address.
  \<^item> \<open>Checkpoint_Recovery\<close>: \<^verbatim>\<open>Store_Checkpoint\<close> and the ROM together: what is saved is restored.
  \<^item> \<open>TMR_Lockstep\<close>: rtl/tmr_voter.sv, three harts behind the voter executing one instruction list,
    and the healing of a faulty hart by \<^verbatim>\<open>handler_tmr_recoverysync\<close>. The locale \<open>voter\<close> is
    interpreted on the voter of words and on that of whole bus requests.
  \<^item> \<open>Safe_Controller\<close>: rtl/safe_FSM.sv, the state machines that halt, interrupt and wake the harts,
    as a next-state function and an inductive reachability relation over arbitrary inputs.
  \<^item> \<open>AES_Core\<close>, \<open>AES_Block\<close>, \<open>AES_Field\<close>, \<open>AES_FIPS\<close>, \<open>AES_Modes\<close>: lib/AES/aes.c. The core holds
    the code, the block theory the inverse cipher and its laws, the field theory the arithmetic of
    GF(2^8) that the S-boxes and column mixing compute, \<open>AES_FIPS\<close> the cipher of FIPS-197 as the
    specification, and the modes theory ECB, CBC and CTR over a buffer. The modes are proved once,
    in the locale \<open>block_cipher\<close>, interpreted on \<open>Cipher\<close> and \<open>InvCipher\<close>.
  \<^item> \<open>Error_Codes\<close>, \<open>CSR_Access\<close>, \<open>Runtime_Handlers\<close>, \<open>Syscalls\<close>: lib/runtime. The heap of
    syscalls.c is a model of the locale \<open>bump_allocator\<close>.
  \<^item> \<open>SAP_Applications\<close>, \<open>AES_App\<close>: the three programs of sw/applications. The first states the
    specification of the safety library as operations on a mode, a master and a mask
    (\<open>enter_spec\<close>, \<open>leave_spec\<close>, \<open>mask_spec\<close>) and one refinement rule per operation.

  This theory holds the property that spans the safety library and the boot ROM: how all harts
  come to share one context when safe mode is entered.

  \<^bold>\<open>What is a parameter.\<close> \<open>W\<close> is the legalisation of CSR writes by the vendored core; \<open>wake\<close> is
  what the rest of the system does while a hart sleeps in \<^verbatim>\<open>wfi\<close>; addresses of labels and of
  linker symbols, the numbers of newlib's headers, and the contents of uninitialised locals are
  arguments. Hypotheses on \<open>wake\<close> say that it keeps the sleeper's registers and frame
  (\<open>wake_keeps_frame\<close>) or that it reconfigures nothing (\<open>wake_keeps_config\<close>); on \<open>W\<close>, that a CSR
  accepts a value it has held.

  \<^bold>\<open>What the lemmas show.\<close> For each operation: its effect on every register, CSR, device register and
  saved word, in the right order of device writes; for pairs of operations: that what one saves
  the other restores. The cipher refines FIPS-197; the modes refine their textbook definitions and
  undo each other; the ROM image is its listing; the encoding tables are unambiguous and complete;
  the controller completes a recovery whatever the delays, and an entry into triple lockstep as soon
  as the halt acknowledgements of the shadows overlap in one cycle; it never lets one hart recover
  alone, leaves a hart outside the mask out of dual lockstep, and drops a pair that sleeps; the heap
  calls keep the break inside the heap and hand out disjoint blocks; the programs switch modes in the
  order of their source.

  \<^bold>\<open>Loops and bounds.\<close> Every loop without a fixed count is a \<open>partial_function (option)\<close>: the copy
  loop of a checkpoint, the ROM, the buffer loops of CBC and CTR, the endless loops. No fuel is
  used; that a loop ends is part of the theorem about it, and \<open>checkpoint_loop_terminates_iff\<close> gives
  the exact condition. Stacks of a checkpoint have fewer than 2^28 words, CBC buffers fewer than
  2^32 bytes after rounding up, heaps and requests at most 2^31 bytes: beyond these the 32-bit
  addresses or counters of the code wrap around.

  \<^bold>\<open>Not modelled.\<close> The compiler's prologues and epilogues and its use of registers between
  statements; interrupts taken between two instructions (they are part of \<open>wake\<close> at the sleeps);
  the hardware description apart from the controller, the voter and the register access rules; the empty \<^verbatim>\<open>init\<close>
  and the vendored cores, buses and drivers; the mocked CSR accesses; the 192 and 256 bit keys,
  which the configuration excludes.
\<close>

section \<open>Safe mode is entered by all harts together\<close>

text \<open>
  C1: entry into safe mode, across \<^verbatim>\<open>Safe_Activate\<close> and the boot ROM. The master publishes its
  context and sleeps; a shadow hart that the safety controller then halts, in whatever state
  it is, restores that context in the ROM, resumes inside \<^verbatim>\<open>Safe_Activate\<close>, and goes to sleep
  with every register and every saved CSR equal to the master's.
\<close>

theorem shadow_hart_joins_master:
  assumes "stack_frame c 4" and "wrapper s W_SAFE_CONFIGURATION AND 3 = 0"
    and "plain_words (copy_address s) 37"
    and "disjoint_blocks (copy_address s) 148 (get c SP - 16) 16"
    and "activate_pending W sync_pc (c, s) = (c', s')"
    and "ram t = ram s'" "copy_address t = copy_address s"
    and "wrapper t W_EXTERNAL_DEBUG_REQ AND 3 = 0" "wrapper t W_DMR_REC AND 1 = 0"
    and "\<And>k old. k \<in> set context_csrs \<Longrightarrow> W k old (csrs c k) = csrs c k"
    and "\<And>old. W DPC old sync_pc = sync_pc"
  shows "\<exists>e. rom_run W DEBUG_OFFSET (d, t) = Some (Resumed sync_pc, (e, t))
     \<and> (\<forall>r. get (fst (run W (Safe_Activate_sync sync_pc) (e, t))) r = get c' r)
     \<and> (\<forall>k \<in> set context_csrs. csrs (fst (run W (Safe_Activate_sync sync_pc) (e, t))) k = csrs c k)"
proof -
  define p where "p = copy_address s"
  define ctx where "ctx = context_image (put T5 p (put SP (get c SP - 16) c)) sync_pc"
  have ctx: "context_of (ram t) p = ctx"
    using activate_pending_area [OF assms(1-4), of W sync_pc] assms(5,6)
    by (simp add: p_def ctx_def)
  have master: "get c' r = get (put T5 p (put T6 sync_pc (put SP (get c SP - 16) c))) r" for r
    using activate_pending_device [OF assms(1-4), of W sync_pc] assms(5)
    by (simp add: p_def)
  obtain e where e: "rom_run W DEBUG_OFFSET (d, t) = Some (Resumed (csrs e DPC), (e, t))"
    and l: "context_loaded W (csrs d) ctx e"
    using rom_restore [of t W d] assms(3,7-9) ctx by (auto simp: p_def)
  have pc: "csrs e DPC = sync_pc"
    and csr: "\<And>k. k \<in> set context_csrs \<Longrightarrow> csrs e k = csrs c k"
    and regs: "map (get e) context_gprs = map (get (put T5 p (put SP (get c SP - 16) c))) context_gprs"
    using l assms(10,11)
    by (auto simp: context_loaded_def ctx_def context_image_def context_csrs_def context_gprs_def core_put)
  have er: "get e r = get (put T5 p (put SP (get c SP - 16) c)) r" for r
    using regs by (cases r) (simp_all add: context_gprs_def get_ZERO get_put)
  have pl: "plain (p + 144)"
    using assms(3) by (simp add: p_def plain_words_numeral upt_rec_numeral)
  have "get (fst (run W (Safe_Activate_sync sync_pc) (e, t))) r = get c' r" for r
    unfolding master using pl by (simp add: Safe_Activate_sync_def exec_simps er)
  moreover have "csrs (fst (run W (Safe_Activate_sync sync_pc) (e, t))) k = csrs c k"
    if "k \<in> set context_csrs" for k
    using pl csr [OF that] by (simp add: Safe_Activate_sync_def exec_simps er)
  ultimately show ?thesis
    using e pc by auto
qed

theorem shadow_hart_joins_master_witness:
  "\<exists>e. rom_run csr_plain DEBUG_OFFSET
        (deep_core, snd (activate_pending csr_plain 0x200 (sample_core, sample_soc))) =
      Some (Resumed 0x200, (e, snd (activate_pending csr_plain 0x200 (sample_core, sample_soc))))
     \<and> get deep_core SP \<noteq> get sample_core SP"
proof -
  obtain c' s' where p: "activate_pending csr_plain 0x200 (sample_core, sample_soc) = (c', s')"
    by (cases "activate_pending csr_plain 0x200 (sample_core, sample_soc)")
  have "wrapper s' = (wrapper sample_soc)(W_SAFE_CONFIGURATION := get sample_core A0 AND 3,
      W_INITIAL_SYNC_MASTER := 1)"
    using activate_pending_device [OF sample_frame(2) _ sample_area(1,2), of csr_plain "0x200"] p
    by (simp add: sample_values)
  then show ?thesis
    using shadow_hart_joins_master
      [OF sample_frame(2) _ sample_area(1,2) p, of s' deep_core]
    by (auto simp: p sample_values sample_debug csr_plain_def deep_core_def get_put copy_address_def)
qed

end
